(* ===== verification/Prelude.thy ===== *)
theory Prelude
  imports "HOL-Library.Word" "HOL-Library.List_Lexorder" "HOL-Library.Sublist"
begin

text \<open>
  The vocabulary shared by every component: the collections of rewrite rules the component
  proofs use, and the part of the C++ language and standard library the sources rely on
  (\<^verbatim>\<open>std::string\<close> with \<open>npos\<close> as \<^const>\<open>None\<close>, ASCII classification and case mapping in the C
  locale, \<^verbatim>\<open>std::to_string\<close>), with the generic lemmas about them.
\<close>

named_theorems str_defs \<open>definitions of the string operations\<close>
named_theorems host_defs \<open>definitions of the host operations\<close>
named_theorems sample_defs \<open>definitions of the sample plugins\<close>

type_synonym header = "string \<times> string"

section \<open>ASCII characters\<close>

definition char_code :: "char \<Rightarrow> nat" where
  "char_code c = of_char c"

definition tolower :: "char \<Rightarrow> char" where
  "tolower c = (if 65 \<le> char_code c \<and> char_code c \<le> 90 then char_of (char_code c + 32) else c)"

definition toupper :: "char \<Rightarrow> char" where
  "toupper c = (if 97 \<le> char_code c \<and> char_code c \<le> 122 then char_of (char_code c - 32) else c)"

definition isdigit :: "char \<Rightarrow> bool" where
  "isdigit c \<longleftrightarrow> 48 \<le> char_code c \<and> char_code c \<le> 57"

definition isalpha :: "char \<Rightarrow> bool" where
  "isalpha c \<longleftrightarrow> 65 \<le> char_code c \<and> char_code c \<le> 90 \<or> 97 \<le> char_code c \<and> char_code c \<le> 122"

definition isalnum :: "char \<Rightarrow> bool" where
  "isalnum c \<longleftrightarrow> isalpha c \<or> isdigit c"

text \<open>Space, and the control characters tab, line feed, vertical tab, form feed, return.\<close>

definition isspace :: "char \<Rightarrow> bool" where
  "isspace c \<longleftrightarrow> char_code c = 32 \<or> 9 \<le> char_code c \<and> char_code c \<le> 13"

text \<open>A plain \<^verbatim>\<open>char\<close> is signed on the tester's platform, so it compares as a signed value.\<close>

definition signed_char :: "char \<Rightarrow> int" where
  "signed_char c = (if char_code c < 128 then int (char_code c) else int (char_code c) - 256)"

lemmas ascii_defs [str_defs] = isdigit_def isalpha_def isalnum_def isspace_def

lemma code_less [simp]: "char_code c < 256"
  by (simp add: char_code_def)

lemma code_inject [simp]: "char_code a = char_code b \<longleftrightarrow> a = b"
  by (simp add: char_code_def)

lemma code_char_of [simp]: "n < 256 \<Longrightarrow> char_code (char_of n) = n"
  by (simp add: char_code_def)

lemma code_tolower: "char_code (tolower c) = (if 65 \<le> char_code c \<and> char_code c \<le> 90 then char_code c + 32 else char_code c)"
  by (simp add: tolower_def)

lemma code_toupper: "char_code (toupper c) = (if 97 \<le> char_code c \<and> char_code c \<le> 122 then char_code c - 32 else char_code c)"
  using code_less [of c] by (auto simp: toupper_def intro!: code_char_of)

lemma signed_char_inject [simp]: "signed_char a = signed_char b \<longleftrightarrow> a = b"
  unfolding signed_char_def code_inject [symmetric]
  using code_less [of a] code_less [of b] by (auto simp del: code_inject code_less split: if_splits)

lemma tolower_idem [simp]: "tolower (tolower c) = tolower c"
  by (simp flip: code_inject add: code_tolower)

lemma toupper_eq_iff_tolower: "toupper a = toupper b \<longleftrightarrow> tolower a = tolower b"
  unfolding code_inject [symmetric] code_tolower code_toupper
  by (auto simp del: code_inject code_less split: if_splits)

lemma map_toupper_eq_iff: "map toupper a = map toupper b \<longleftrightarrow> map tolower a = map tolower b"
proof (induction a arbitrary: b)
  case (Cons x a)
  then show ?case by (cases b) (auto simp: toupper_eq_iff_tolower)
qed simp

lemma tolower_isspace [simp]: "isspace (tolower c) = isspace c"
  by (auto simp: isspace_def code_tolower)

text \<open>Case mapping of literals by rewriting.\<close>

lemma tolower_upper:
  "tolower (CHR ''A'') = CHR ''a''"
  "tolower (CHR ''B'') = CHR ''b''"
  "tolower (CHR ''C'') = CHR ''c''"
  "tolower (CHR ''D'') = CHR ''d''"
  "tolower (CHR ''E'') = CHR ''e''"
  "tolower (CHR ''F'') = CHR ''f''"
  "tolower (CHR ''G'') = CHR ''g''"
  "tolower (CHR ''H'') = CHR ''h''"
  "tolower (CHR ''I'') = CHR ''i''"
  "tolower (CHR ''J'') = CHR ''j''"
  "tolower (CHR ''K'') = CHR ''k''"
  "tolower (CHR ''L'') = CHR ''l''"
  "tolower (CHR ''M'') = CHR ''m''"
  "tolower (CHR ''N'') = CHR ''n''"
  "tolower (CHR ''O'') = CHR ''o''"
  "tolower (CHR ''P'') = CHR ''p''"
  "tolower (CHR ''Q'') = CHR ''q''"
  "tolower (CHR ''R'') = CHR ''r''"
  "tolower (CHR ''S'') = CHR ''s''"
  "tolower (CHR ''T'') = CHR ''t''"
  "tolower (CHR ''U'') = CHR ''u''"
  "tolower (CHR ''V'') = CHR ''v''"
  "tolower (CHR ''W'') = CHR ''w''"
  "tolower (CHR ''X'') = CHR ''x''"
  "tolower (CHR ''Y'') = CHR ''y''"
  "tolower (CHR ''Z'') = CHR ''z''"
  by (simp_all add: tolower_def char_code_def char_of_def bit_0)

lemma tolower_other: "\<not> (65 \<le> (of_char c :: nat) \<and> (of_char c :: nat) \<le> 90) \<Longrightarrow> tolower c = c"
  by (auto simp: tolower_def char_code_def)

lemmas ascii_eval = tolower_upper tolower_other

text \<open>Comparison of two strings up to ASCII case.\<close>

definition same_key :: "string \<Rightarrow> string \<Rightarrow> bool" where
  "same_key a b \<longleftrightarrow> map tolower a = map tolower b"

lemma same_key_refl [simp]: "same_key a a"
  by (simp add: same_key_def)

lemma same_key_sym: "same_key a b \<longleftrightarrow> same_key b a"
  by (auto simp: same_key_def)

lemma same_key_trans: "same_key a b \<Longrightarrow> same_key b c \<Longrightarrow> same_key a c"
  by (simp add: same_key_def)

section \<open>Strings\<close>

text \<open>
  \<^verbatim>\<open>s.find(p)\<close>: the index of the first occurrence, \<^const>\<open>None\<close> for \<open>npos\<close>.
\<close>

fun find_str :: "string \<Rightarrow> string \<Rightarrow> nat option" where
  "find_str p [] = (if p = [] then Some 0 else None)"
| "find_str p (c # s) = (if prefix p (c # s) then Some 0 else map_option Suc (find_str p s))"

fun find_char :: "char \<Rightarrow> string \<Rightarrow> nat option" where
  "find_char d [] = None"
| "find_char d (c # s) = (if c = d then Some 0 else map_option Suc (find_char d s))"

text \<open>\<^verbatim>\<open>s.replace(pos, len, r)\<close> and \<^verbatim>\<open>s.insert(pos, r)\<close> for \<open>pos \<le> size\<close>.\<close>

definition replace_at :: "nat \<Rightarrow> nat \<Rightarrow> string \<Rightarrow> string \<Rightarrow> string" where
  "replace_at pos len r s = take pos s @ r @ drop (pos + len) s"

definition insert_at :: "nat \<Rightarrow> string \<Rightarrow> string \<Rightarrow> string" where
  "insert_at pos r s = take pos s @ r @ drop pos s"

definition contains :: "string \<Rightarrow> string \<Rightarrow> bool" where
  "contains s p \<longleftrightarrow> find_str p s \<noteq> None"

lemma find_str_Some:
  "find_str p s = Some i \<Longrightarrow> i + length p \<le> length s \<and> take (length p) (drop i s) = p"
proof (induction s arbitrary: i)
  case Nil
  then show ?case by (auto split: if_splits)
next
  case (Cons c s)
  show ?case
  proof (cases "prefix p (c # s)")
    case True
    with Cons.prems have "i = 0" by simp
    with True show ?thesis using prefix_length_le [OF True] by (auto simp: prefix_def)
  next
    case False
    with Cons show ?thesis by fastforce
  qed
qed

lemma find_str_Some_split:
  assumes "find_str p s = Some i"
  shows "s = take i s @ p @ drop (i + length p) s"
proof -
  have "drop i s = take (length p) (drop i s) @ drop (length p) (drop i s)"
    by (rule append_take_drop_id [symmetric])
  then show ?thesis
    using find_str_Some [OF assms] by (metis append_take_drop_id drop_drop add.commute)
qed

lemma contains_iff_sublist: "contains s p \<longleftrightarrow> sublist p s"
proof (induction s)
  case Nil
  then show ?case by (auto simp: contains_def)
next
  case (Cons c s)
  have "contains (c # s) p \<longleftrightarrow> prefix p (c # s) \<or> contains s p"
    by (auto simp: contains_def)
  with Cons show ?case by (simp add: sublist_Cons_right)
qed

lemma find_char_Some:
  "find_char d s = Some i \<Longrightarrow> i < length s \<and> s ! i = d \<and> d \<notin> set (take i s)"
proof (induction s arbitrary: i)
  case (Cons c s)
  then show ?case by (cases "c = d") auto
qed simp

lemma find_char_None: "find_char d s = None \<longleftrightarrow> d \<notin> set s"
  by (induction s) auto

lemma find_char_append: "d \<notin> set a \<Longrightarrow> find_char d (a @ d # b) = Some (length a)"
  by (induction a) auto

text \<open>The index of the first character with a property, from a start index on.\<close>

fun find_if :: "(char \<Rightarrow> bool) \<Rightarrow> string \<Rightarrow> nat option" where
  "find_if P [] = None"
| "find_if P (c # s) = (if P c then Some 0 else map_option Suc (find_if P s))"

lemma find_if_None: "find_if P s = None \<longleftrightarrow> (\<forall>c \<in> set s. \<not> P c)"
  by (induction s) auto

lemma find_if_Some:
  "find_if P s = Some i \<Longrightarrow> i < length s \<and> P (s ! i) \<and> take i s = takeWhile (\<lambda>c. \<not> P c) s \<and>
     drop i s = dropWhile (\<lambda>c. \<not> P c) s"
proof (induction s arbitrary: i)
  case (Cons c s)
  then show ?case by (cases "P c") auto
qed simp

lemma length_insert_at [simp]: "length (insert_at pos r s) = length s + length r"
  by (simp add: insert_at_def)

lemma length_replace_at: "pos + len \<le> length s \<Longrightarrow>
    length (replace_at pos len r s) = length s - len + length r"
  by (simp add: replace_at_def)

section \<open>Decimal output\<close>

definition digit :: "nat \<Rightarrow> char" where
  "digit n = char_of (48 + n)"

fun dec_nat :: "nat \<Rightarrow> string" where
  "dec_nat n = (if n < 10 then [digit n] else dec_nat (n div 10) @ [digit (n mod 10)])"

declare dec_nat.simps [simp del]

definition dec_int :: "int \<Rightarrow> string" where
  "dec_int i = (if i < 0 then CHR ''-'' # dec_nat (nat (- i)) else dec_nat (nat i))"

fun dec_value :: "nat \<Rightarrow> string \<Rightarrow> nat" where
  "dec_value acc [] = acc"
| "dec_value acc (c # s) = dec_value (10 * acc + (char_code c - 48)) s"

lemma code_digit [simp]: "n < 10 \<Longrightarrow> char_code (digit n) = 48 + n"
  by (simp add: digit_def)

lemma digit_eval:
  "digit 0 = CHR ''0''"
  "digit 1 = CHR ''1''"
  "digit (Suc 0) = CHR ''1''"
  "digit 2 = CHR ''2''"
  "digit 3 = CHR ''3''"
  "digit 4 = CHR ''4''"
  "digit 5 = CHR ''5''"
  "digit 6 = CHR ''6''"
  "digit 7 = CHR ''7''"
  "digit 8 = CHR ''8''"
  "digit 9 = CHR ''9''"
  by (simp_all add: digit_def char_of_def bit_0)

lemmas dec_eval = dec_int_def dec_nat.simps digit_eval

lemma isdigit_digit [simp]: "n < 10 \<Longrightarrow> isdigit (digit n)"
  by (simp add: isdigit_def)

lemma dec_value_append: "dec_value acc (s @ t) = dec_value (dec_value acc s) t"
  by (induction s arbitrary: acc) auto

lemma dec_nat_digits: "list_all isdigit (dec_nat n) \<and> dec_nat n \<noteq> []"
proof (induction n rule: dec_nat.induct)
  case (1 n)
  then show ?case
    by (cases "n < 10") (simp_all add: dec_nat.simps [of n])
qed

lemma dec_value_dec_nat [simp]: "dec_value 0 (dec_nat n) = n"
proof (induction n rule: dec_nat.induct)
  case (1 n)
  then show ?case
    by (cases "n < 10") (simp_all add: dec_nat.simps [of n] dec_value_append)
qed

section \<open>Integer division\<close>

text \<open>The division of C++ rounds towards zero.\<close>

definition cpp_div :: "int \<Rightarrow> int \<Rightarrow> int" where
  "cpp_div n d = (if (n < 0) = (d < 0) then \<bar>n\<bar> div \<bar>d\<bar> else - (\<bar>n\<bar> div \<bar>d\<bar>))"

lemma cpp_div_100_eq_5: "cpp_div n 100 = 5 \<longleftrightarrow> 500 \<le> n \<and> n \<le> 599"
proof (cases "n < 0")
  case True
  then have "0 \<le> (- n) div 100" by simp
  with True have "cpp_div n 100 \<le> 0" by (simp add: cpp_div_def)
  with True show ?thesis by linarith
qed (auto simp: cpp_div_def)

section \<open>Cutting a string at a separator\<close>

text \<open>
  The pieces of a string between the occurrences of one character, the empty ones included:
  there is one piece more than there are separators.
\<close>

fun split_char :: "char \<Rightarrow> string \<Rightarrow> string list" where
  "split_char d [] = [[]]"
| "split_char d (c # s) =
     (if c = d then [] # split_char d s
      else case split_char d s of [] \<Rightarrow> [[c]] | w # ws \<Rightarrow> (c # w) # ws)"

text \<open>At most one cut: one piece without a separator, two with one.\<close>

definition split_once :: "char \<Rightarrow> string \<Rightarrow> string list" where
  "split_once d s = (case find_char d s of
      None \<Rightarrow> [s] | Some i \<Rightarrow> [take i s, drop (Suc i) s])"

text \<open>The pieces between the occurrences of a separator string, taken from left to right.\<close>

function split_str :: "string \<Rightarrow> string \<Rightarrow> string list" where
  "split_str d s = (case find_str d s of
      None \<Rightarrow> [s]
    | Some i \<Rightarrow> if d = [] then [s] else take i s # split_str d (drop (i + length d) s))"
  by pat_completeness auto
termination
proof (relation "measure (\<lambda>(d, s). length s)")
  fix d s :: string and i :: nat
  assume "find_str d s = Some i" and "d \<noteq> []"
  then have "i + length d \<le> length s" and "0 < length d"
    using find_str_Some by auto
  then have "length s - (i + length d) < length s" by linarith
  then show "((d, drop (i + length d) s), (d, s)) \<in> measure (\<lambda>(d, s). length s)"
    by simp
qed simp

declare split_str.simps [simp del]

fun join :: "string \<Rightarrow> string list \<Rightarrow> string" where
  "join d [] = []"
| "join d [w] = w"
| "join d (w # v # ws) = w @ d @ join d (v # ws)"

lemma split_char_not_Nil [simp]: "split_char d s \<noteq> []"
  by (induction s) (auto split: list.splits)

lemma join_Cons: "ws \<noteq> [] \<Longrightarrow> join d (w # ws) = w @ d @ join d ws"
  by (cases ws) auto

lemma join_split_char [simp]: "join [d] (split_char d s) = s"
proof (induction s)
  case (Cons c s)
  obtain w ws where "split_char d s = w # ws"
    using split_char_not_Nil [of d s] by (cases "split_char d s") auto
  with Cons show ?case by (cases ws) (auto simp: join_Cons)
qed simp

lemma split_char_no_sep: "w \<in> set (split_char d s) \<Longrightarrow> d \<notin> set w"
proof (induction s arbitrary: w)
  case (Cons c s)
  obtain v vs where "split_char d s = v # vs"
    using split_char_not_Nil [of d s] by (cases "split_char d s") auto
  with Cons show ?case by (auto split: if_splits)
qed simp

lemma split_char_piece: "d \<notin> set w \<Longrightarrow> split_char d w = [w]"
  by (induction w) auto

lemma split_char_append: "d \<notin> set w \<Longrightarrow> split_char d (w @ d # s) = w # split_char d s"
  by (induction w) auto

lemma split_char_join:
  "ws \<noteq> [] \<Longrightarrow> \<forall>w \<in> set ws. d \<notin> set w \<Longrightarrow> split_char d (join [d] ws) = ws"
proof (induction ws)
  case (Cons w ws)
  then show ?case
    by (cases "ws = []") (simp_all add: split_char_piece join_Cons split_char_append)
qed simp

lemma split_once_absent: "d \<notin> set s \<Longrightarrow> split_once d s = [s]"
  using find_char_None [of d s] by (simp add: split_once_def)

lemma split_once_append: "d \<notin> set a \<Longrightarrow> split_once d (a @ d # b) = [a, b]"
  by (simp add: split_once_def find_char_append)

lemma split_once_two:
  assumes "split_once d s = [a, b]"
  shows "s = a @ d # b \<and> d \<notin> set a"
proof -
  obtain i where i: "find_char d s = Some i" and ab: "a = take i s" "b = drop (Suc i) s"
    using assms by (auto simp: split_once_def split: option.splits)
  from find_char_Some [OF i] have "i < length s" "s ! i = d" "d \<notin> set (take i s)" by auto
  then show ?thesis using id_take_nth_drop [of i s] ab by simp
qed

lemma length_split_once: "length (split_once d s) = (if d \<in> set s then 2 else 1)"
  using find_char_None [of d s] by (cases "find_char d s") (auto simp: split_once_def)

section \<open>Trimming\<close>

definition strip_left :: "string \<Rightarrow> string" where
  "strip_left s = dropWhile isspace s"

definition strip :: "string \<Rightarrow> string" where
  "strip s = rev (dropWhile isspace (rev (dropWhile isspace s)))"

lemma strip_left_id: "s = [] \<or> \<not> isspace (hd s) \<Longrightarrow> strip_left s = s"
  by (cases s) (auto simp: strip_left_def)

lemma strip_no_outer_space:
  "strip s = [] \<or> \<not> isspace (hd (strip s)) \<and> \<not> isspace (last (strip s))"
proof -
  let ?l = "dropWhile isspace s"
  have hd_l: "?l = [] \<or> \<not> isspace (hd ?l)"
    using hd_dropWhile [of isspace s] by auto
  obtain t where t: "?l = strip s @ t"
    by (metis strip_def rev_append rev_rev_ident takeWhile_dropWhile_id)
  show ?thesis
  proof (cases "strip s = []")
    case False
    then have "hd ?l = hd (strip s)" using t by (metis hd_append2)
    moreover have "\<not> isspace (last (strip s))"
      using False hd_dropWhile [of isspace "rev ?l"] by (auto simp: strip_def last_rev)
    ultimately show ?thesis using hd_l t False by auto
  qed simp
qed

lemma strip_idem [simp]: "strip (strip s) = strip s"
proof (cases "strip s = []")
  case False
  with strip_no_outer_space [of s] have "\<not> isspace (hd (strip s))" "\<not> isspace (last (strip s))"
    by auto
  with False have "dropWhile isspace (strip s) = strip s"
    and "dropWhile isspace (rev (strip s)) = rev (strip s)"
    by (metis dropWhile.simps(2) list.exhaust_sel, metis dropWhile.simps(2) hd_rev list.exhaust_sel rev_is_Nil_conv)
  then show ?thesis by (simp add: strip_def)
next
  case True
  then show ?thesis by (simp only: True) (simp add: strip_def)
qed

end
