(* ===== verification/Header_Map.thy ===== *)
theory Header_Map
  imports Prelude
begin

text \<open>
  \<^verbatim>\<open>TestHttpContext::Headers\<close> of \<^verbatim>\<open>plugins/test/framework.h\<close>: a \<^verbatim>\<open>std::map\<close> from header names to
  values, ordered by a case-insensitive comparison of the names, with \<^verbatim>\<open>InsertOrAppend\<close>. The map
  is the list of its pairs in iteration order; the invariant says that the names strictly
  increase, the abstraction is a partial function on lower-cased names, and the locale
  \<open>caseless_map\<close> is the interface the host context relies on.
\<close>

section \<open>The map\<close>

type_synonym headers = "header list"

definition ckey :: "string \<Rightarrow> int list" where
  "ckey s = map (\<lambda>c. signed_char (toupper c)) s"

definition caseless_compare :: "string \<Rightarrow> string \<Rightarrow> bool" where
  "caseless_compare a b \<longleftrightarrow> ckey a < ckey b"

fun hdr_find :: "string \<Rightarrow> headers \<Rightarrow> string option" where
  "hdr_find key [] = None"
| "hdr_find key ((k, v) # hs) =
     (if \<not> caseless_compare k key \<and> \<not> caseless_compare key k then Some v
      else hdr_find key hs)"

text \<open>
  \<^verbatim>\<open>operator[]\<close> yields a reference, to a new empty value when the name is absent; the assignment
  through it is the function argument. A name that is present keeps its spelling.
\<close>

fun hdr_at :: "string \<Rightarrow> (string \<Rightarrow> string) \<Rightarrow> headers \<Rightarrow> headers" where
  "hdr_at key f [] = [(key, f [])]"
| "hdr_at key f ((k, v) # hs) =
     (if caseless_compare key k then (key, f []) # (k, v) # hs
      else if caseless_compare k key then (k, v) # hdr_at key f hs
      else (k, f v) # hs)"

fun hdr_erase :: "string \<Rightarrow> headers \<Rightarrow> headers" where
  "hdr_erase key [] = []"
| "hdr_erase key ((k, v) # hs) =
     (if \<not> caseless_compare k key \<and> \<not> caseless_compare key k then hs
      else (k, v) # hdr_erase key hs)"

definition hdr_set :: "string \<Rightarrow> string \<Rightarrow> headers \<Rightarrow> headers" where
  "hdr_set key value hs = hdr_at key (\<lambda>_. value) hs"

definition InsertOrAppend :: "string \<Rightarrow> string \<Rightarrow> headers \<Rightarrow> headers" where
  "InsertOrAppend key value hs =
     hdr_at key (\<lambda>val. if val = [] then value else val @ '', '' @ value) hs"

definition hdr_sorted :: "headers \<Rightarrow> bool" where
  "hdr_sorted hs \<longleftrightarrow> sorted_wrt (\<lambda>a b. caseless_compare (fst a) (fst b)) hs"

section \<open>The order of the names\<close>

lemma ckey_eq_iff: "ckey a = ckey b \<longleftrightarrow> same_key a b"
proof -
  have "ckey a = ckey b \<longleftrightarrow> map toupper a = map toupper b"
  proof (induction a arbitrary: b)
    case Nil
    then show ?case by (auto simp: ckey_def)
  next
    case (Cons x a)
    then show ?case by (cases b) (auto simp: ckey_def)
  qed
  then show ?thesis by (simp add: map_toupper_eq_iff same_key_def)
qed

lemma caseless_equiv:
  "\<not> caseless_compare a b \<and> \<not> caseless_compare b a \<longleftrightarrow> same_key a b"
  unfolding caseless_compare_def ckey_eq_iff [symmetric]
  by (simp add: linorder_not_less order_eq_iff conj_commute)

lemma caseless_trans: "caseless_compare a b \<Longrightarrow> caseless_compare b c \<Longrightarrow> caseless_compare a c"
  by (simp add: caseless_compare_def)

lemma caseless_irrefl: "same_key a b \<Longrightarrow> \<not> caseless_compare a b"
  using caseless_equiv by blast

lemma caseless_same_left: "same_key a b \<Longrightarrow> caseless_compare a c = caseless_compare b c"
  by (simp add: caseless_compare_def flip: ckey_eq_iff)

lemma caseless_same_right: "same_key a b \<Longrightarrow> caseless_compare c a = caseless_compare c b"
  by (simp add: caseless_compare_def flip: ckey_eq_iff)

lemma caseless_linear: "\<not> caseless_compare a b \<Longrightarrow> \<not> same_key a b \<Longrightarrow> caseless_compare b a"
  using caseless_equiv by blast

lemma hdr_sorted_Nil [simp]: "hdr_sorted []"
  by (simp add: hdr_sorted_def)

lemma hdr_sorted_Cons:
  "hdr_sorted ((k, v) # hs) \<longleftrightarrow> (\<forall>h \<in> set hs. caseless_compare k (fst h)) \<and> hdr_sorted hs"
  by (simp add: hdr_sorted_def)

text \<open>With the two comparisons folded into one equality, the operations read as usual.\<close>

lemma hdr_find_Cons: "hdr_find key ((k, v) # hs) = (if same_key k key then Some v else hdr_find key hs)"
  using caseless_equiv [of k key] by simp

lemma hdr_erase_Cons: "hdr_erase key ((k, v) # hs) = (if same_key k key then hs else (k, v) # hdr_erase key hs)"
  using caseless_equiv [of k key] by simp

declare hdr_find.simps(2) [simp del] hdr_erase.simps(2) [simp del]
declare hdr_find_Cons [simp] hdr_erase_Cons [simp]

lemma hdr_find_same: "same_key a b \<Longrightarrow> hdr_find a hs = hdr_find b hs"
proof (induction hs)
  case (Cons h hs)
  then show ?case
    by (cases h) (auto simp: same_key_def)
qed simp

lemma hdr_find_None_less:
  "\<forall>h \<in> set hs. caseless_compare key (fst h) \<Longrightarrow> hdr_find key hs = None"
proof (induction hs)
  case (Cons h hs)
  then have "\<not> same_key (fst h) key"
    using caseless_irrefl same_key_sym by (metis list.set_intros(1))
  with Cons show ?case by (cases h) auto
qed simp

section \<open>Invariant\<close>

lemma set_hdr_at: "h \<in> set (hdr_at key f hs) \<Longrightarrow> (\<exists>h' \<in> set hs. fst h = fst h') \<or> fst h = key"
  by (induction key f hs rule: hdr_at.induct) (auto split: if_splits)

lemma set_hdr_erase: "h \<in> set (hdr_erase key hs) \<Longrightarrow> h \<in> set hs"
  by (induction hs) (auto split: if_splits)

lemma hdr_sorted_at: "hdr_sorted hs \<Longrightarrow> hdr_sorted (hdr_at key f hs)"
proof (induction key f hs rule: hdr_at.induct)
  case (1 key f)
  then show ?case by (simp add: hdr_sorted_Cons)
next
  case (2 key f k v hs)
  from "2.prems" have k: "\<forall>h \<in> set hs. caseless_compare k (fst h)" and hs: "hdr_sorted hs"
    by (auto simp: hdr_sorted_Cons)
  show ?case
  proof (cases "caseless_compare key k \<or> \<not> caseless_compare k key")
    case True
    with k hs show ?thesis by (auto simp: hdr_sorted_Cons intro: caseless_trans)
  next
    case False
    then have "\<forall>h \<in> set (hdr_at key f hs). caseless_compare k (fst h)"
      using k set_hdr_at by fastforce
    with False hs "2.IH" show ?thesis by (simp add: hdr_sorted_Cons)
  qed
qed

lemma hdr_sorted_erase: "hdr_sorted hs \<Longrightarrow> hdr_sorted (hdr_erase key hs)"
proof (induction hs)
  case (Cons h hs)
  then show ?case
    by (cases h) (auto simp: hdr_sorted_Cons dest: set_hdr_erase)
qed simp

section \<open>What a lookup returns\<close>

lemma hdr_find_at:
  "hdr_sorted hs \<Longrightarrow> hdr_find key' (hdr_at key f hs) =
     (if same_key key key' then Some (f (case hdr_find key hs of None \<Rightarrow> [] | Some v \<Rightarrow> v))
      else hdr_find key' hs)"
proof (induction key f hs rule: hdr_at.induct)
  case (1 key f)
  then show ?case by simp
next
  case (2 key f k v hs)
  from "2.prems" have k: "\<forall>h \<in> set hs. caseless_compare k (fst h)" and hs: "hdr_sorted hs"
    by (auto simp: hdr_sorted_Cons)
  consider (less) "caseless_compare key k" | (greater) "\<not> caseless_compare key k" "caseless_compare k key"
    | (same) "same_key k key" "\<not> caseless_compare key k" "\<not> caseless_compare k key"
    using caseless_equiv [of k key] by blast
  then show ?case
  proof cases
    case less
    then have "\<not> same_key k key" by (metis caseless_irrefl same_key_sym)
    moreover have "hdr_find key hs = None"
      using k less by (auto intro!: hdr_find_None_less intro: caseless_trans)
    ultimately show ?thesis using less by (auto simp: same_key_sym)
  next
    case greater
    then have "\<not> same_key k key" by (metis caseless_irrefl)
    with greater hs "2.IH" show ?thesis by (auto simp: same_key_def)
  next
    case same
    then show ?thesis by (auto simp: same_key_def)
  qed
qed

lemma hdr_find_erase:
  "hdr_sorted hs \<Longrightarrow> hdr_find key' (hdr_erase key hs) =
     (if same_key key key' then None else hdr_find key' hs)"
proof (induction hs)
  case (Cons h hs)
  obtain k v where h: "h = (k, v)" by (cases h)
  from Cons.prems have k: "\<forall>h \<in> set hs. caseless_compare k (fst h)" and hs: "hdr_sorted hs"
    by (auto simp: hdr_sorted_Cons h)
  show ?case
  proof (cases "same_key k key")
    case True
    then have "hdr_find key hs = None"
      using k hdr_find_None_less hdr_find_same by metis
    with True show ?thesis
      by (auto simp: h same_key_def dest: hdr_find_same [unfolded same_key_def])
         (metis hdr_find_same same_key_def)
  next
    case False
    with Cons.IH [OF hs] show ?thesis by (auto simp: h same_key_def)
  qed
qed simp

section \<open>The interface of a case-insensitive header map\<close>

locale caseless_map =
  fixes lookup :: "string \<Rightarrow> 'm \<Rightarrow> string option"
    and update :: "string \<Rightarrow> (string \<Rightarrow> string) \<Rightarrow> 'm \<Rightarrow> 'm"
    and erase :: "string \<Rightarrow> 'm \<Rightarrow> 'm"
    and empty :: 'm
    and invar :: "'m \<Rightarrow> bool"
  assumes lookup_empty [simp]: "lookup k empty = None"
    and lookup_update [simp]: "invar m \<Longrightarrow> lookup k' (update k f m) =
      (if same_key k k' then Some (f (case lookup k m of None \<Rightarrow> [] | Some v \<Rightarrow> v)) else lookup k' m)"
    and lookup_erase [simp]: "invar m \<Longrightarrow>
      lookup k' (erase k m) = (if same_key k k' then None else lookup k' m)"
    and invar_empty [simp]: "invar empty"
    and invar_update [simp]: "invar m \<Longrightarrow> invar (update k f m)"
    and invar_erase [simp]: "invar m \<Longrightarrow> invar (erase k m)"
begin

lemma invar_fold_update: "invar m \<Longrightarrow> invar (foldl (\<lambda>m (k, v). update k (g v) m) m kvs)"
  by (induction kvs arbitrary: m) auto

lemma update_erase: "invar m \<Longrightarrow> lookup k' (update k (\<lambda>_. v) (erase k m)) = lookup k' (update k (\<lambda>_. v) m)"
  by simp

lemma lookup_fold_other:
  "invar m \<Longrightarrow> \<forall>(k, v) \<in> set kvs. \<not> same_key k k' \<Longrightarrow>
     lookup k' (foldl (\<lambda>m (k, v). update k (g v) m) m kvs) = lookup k' m"
  by (induction kvs arbitrary: m) auto

end

interpretation hdr: caseless_map hdr_find hdr_at hdr_erase "[]" hdr_sorted
  by unfold_locales (simp_all add: hdr_find_at hdr_find_erase hdr_sorted_at hdr_sorted_erase)

lemma hdr_find_set [simp]: "hdr_sorted hs \<Longrightarrow>
    hdr_find key' (hdr_set key v hs) = (if same_key key key' then Some v else hdr_find key' hs)"
  by (simp add: hdr_set_def)

lemma hdr_sorted_set [simp]: "hdr_sorted hs \<Longrightarrow> hdr_sorted (hdr_set key v hs)"
  by (simp add: hdr_set_def)

definition appended :: "string option \<Rightarrow> string \<Rightarrow> string" where
  "appended old value = (case old of None \<Rightarrow> value
      | Some val \<Rightarrow> if val = [] then value else val @ '', '' @ value)"

lemma hdr_find_InsertOrAppend [simp]: "hdr_sorted hs \<Longrightarrow>
    hdr_find key' (InsertOrAppend key v hs) =
      (if same_key key key' then Some (appended (hdr_find key hs) v) else hdr_find key' hs)"
  by (simp add: InsertOrAppend_def appended_def split: option.split)

lemma hdr_sorted_InsertOrAppend [simp]: "hdr_sorted hs \<Longrightarrow> hdr_sorted (InsertOrAppend key v hs)"
  by (simp add: InsertOrAppend_def)

section \<open>Refinement of a partial function on lower-cased names\<close>

definition habs :: "headers \<Rightarrow> string \<Rightarrow> string option" where
  "habs hs = map_of (map (\<lambda>(k, v). (map tolower k, v)) hs)"

lemma hdr_find_habs: "hdr_find key hs = habs hs (map tolower key)"
  by (induction hs) (auto simp: habs_def same_key_def)

lemma hdr_find_mem: "hdr_sorted hs \<Longrightarrow> (k, v) \<in> set hs \<Longrightarrow> hdr_find k hs = Some v"
proof (induction hs)
  case (Cons h hs)
  obtain k' v' where h: "h = (k', v')" by (cases h)
  from Cons.prems have k': "\<forall>h \<in> set hs. caseless_compare k' (fst h)" and hs: "hdr_sorted hs"
    by (auto simp: hdr_sorted_Cons h)
  show ?case
  proof (cases "(k, v) \<in> set hs")
    case True
    then have "\<not> same_key k' k" using k' caseless_irrefl by fastforce
    with Cons.IH [OF hs True] show ?thesis by (simp add: h)
  next
    case False
    with Cons.prems show ?thesis by (simp add: h)
  qed
qed simp

lemma hdr_at_append:
  "hdr_sorted (hs @ [(k, v)]) \<Longrightarrow> hdr_at k f hs = hs @ [(k, f [])]"
proof (induction hs)
  case (Cons h hs)
  obtain k' v' where h: "h = (k', v')" by (cases h)
  from Cons.prems have less: "caseless_compare k' k" by (simp add: h hdr_sorted_Cons)
  then have "\<not> caseless_compare k k'"
    by (auto simp: caseless_compare_def)
  with Cons less show ?case by (simp add: h hdr_sorted_Cons)
qed simp

text \<open>Inserting the pairs of a map one by one, in iteration order, rebuilds the map.\<close>

lemma foldl_InsertOrAppend_sorted:
  "hdr_sorted (ms @ hs) \<Longrightarrow> foldl (\<lambda>m (k, v). InsertOrAppend k v m) ms hs = ms @ hs"
proof (induction hs arbitrary: ms)
  case (Cons h hs)
  obtain k v where h: "h = (k, v)" by (cases h)
  have "hdr_sorted (ms @ [(k, v)])"
    using Cons.prems by (auto simp: hdr_sorted_def h sorted_wrt_append)
  then have "InsertOrAppend k v ms = ms @ [(k, v)]"
    by (simp add: InsertOrAppend_def hdr_at_append)
  moreover have "hdr_sorted ((ms @ [(k, v)]) @ hs)" using Cons.prems by (simp add: h)
  ultimately show ?case using Cons.IH [of "ms @ [(k, v)]"] by (simp add: h)
qed simp

end
