(* ===== verification/Wasm_Host.thy ===== *)
theory Wasm_Host
  imports Header_Map
begin

text \<open>
  The Proxy-Wasm boundary between a plugin and its host. The SDK the plugins include
  (\<^verbatim>\<open>proxy_wasm_intrinsics.h\<close>) is not part of the repository: its calls are the fields of the
  record \<open>sdk\<close>, over an unspecified host state, and every plugin definition takes such a record.
  What the plugins rely on is the locale \<open>wasm_host\<close>: a view of the host state
  (\<open>host_view\<close>) and, for every call, the effect on that view. The repository's own host, the
  test context of \<^verbatim>\<open>plugins/test/framework.cc\<close>, is shown to satisfy it in \<open>Test_Context\<close>.
\<close>

section \<open>Enumerations of the ABI\<close>

datatype WasmResult = Ok | NotFound | BadArgument | SerializationFailure | ParseFailure
  | BadExpression | InvalidMemoryAccess | EmptyResult | CasMismatch | ResultMismatch
  | InternalFailure | BrokenConnection | Unimplemented

datatype WasmHeaderMapType = RequestHeaders | RequestTrailers | ResponseHeaders | ResponseTrailers

datatype WasmBufferType = HttpRequestBody | HttpResponseBody | PluginConfiguration

datatype FilterHeadersStatus = Continue | StopIteration | ContinueAndEndStream
  | StopAllIterationAndBuffer | StopAllIterationAndWatermark

datatype FilterDataStatus = DataContinue | StopIterationAndBuffer | StopIterationAndWatermark
  | StopIterationNoBuffer

datatype FilterTrailersStatus = TrailersContinue | TrailersStopIteration

datatype LogLevel = Trace | Debug | Info | Warn | Error | Critical

primrec level :: "LogLevel \<Rightarrow> nat" where
  "level Trace = 0"
| "level Debug = 1"
| "level Info = 2"
| "level Warn = 3"
| "level Error = 4"
| "level Critical = 5"

type_synonym u32 = "32 word"
type_synonym u64 = "64 word"

text \<open>
  A \<^verbatim>\<open>WasmDataPtr\<close> is an owning pointer to a piece of host data; the pointer may be null, and so
  may the data it owns. Using a null pointer is undefined behaviour, so a plugin that does it
  returns \<^const>\<open>None\<close> in the model.
\<close>

datatype WasmDataPtr = NullPtr | WasmData "string option"

primrec is_set :: "WasmDataPtr \<Rightarrow> bool" where
  "is_set NullPtr = False"
| "is_set (WasmData d) = True"

fun wview :: "WasmDataPtr \<Rightarrow> string" where
  "wview (WasmData (Some s)) = s"
| "wview _ = []"

fun has_data :: "WasmDataPtr \<Rightarrow> bool" where
  "has_data (WasmData (Some s)) = True"
| "has_data _ = False"

section \<open>The calls of the SDK\<close>

record 'h sdk =
  getHeaderMapValue :: "WasmHeaderMapType \<Rightarrow> string \<Rightarrow> 'h \<Rightarrow> WasmDataPtr"
  getHeaderMapPairs :: "WasmHeaderMapType \<Rightarrow> 'h \<Rightarrow> header list"
  addHeaderMapValue :: "WasmHeaderMapType \<Rightarrow> string \<Rightarrow> string \<Rightarrow> 'h \<Rightarrow> WasmResult \<times> 'h"
  replaceHeaderMapValue :: "WasmHeaderMapType \<Rightarrow> string \<Rightarrow> string \<Rightarrow> 'h \<Rightarrow> WasmResult \<times> 'h"
  removeHeaderMapValue :: "WasmHeaderMapType \<Rightarrow> string \<Rightarrow> 'h \<Rightarrow> WasmResult \<times> 'h"
  setHeaderMapPairs :: "WasmHeaderMapType \<Rightarrow> header list \<Rightarrow> 'h \<Rightarrow> WasmResult \<times> 'h"
  getBufferBytes :: "WasmBufferType \<Rightarrow> nat \<Rightarrow> nat \<Rightarrow> 'h \<Rightarrow> WasmDataPtr"
  setBuffer :: "WasmBufferType \<Rightarrow> nat \<Rightarrow> nat \<Rightarrow> string \<Rightarrow> 'h \<Rightarrow> WasmResult \<times> 'h"
  getProperty :: "string list \<Rightarrow> 'h \<Rightarrow> WasmDataPtr option"
  sendLocalResponse :: "u32 \<Rightarrow> string \<Rightarrow> string \<Rightarrow> header list \<Rightarrow> 'h \<Rightarrow> WasmResult \<times> 'h"
  log_msg :: "LogLevel \<Rightarrow> string \<Rightarrow> 'h \<Rightarrow> 'h"
  result_code :: "WasmResult \<Rightarrow> int"

abbreviation "getRequestHeader S \<equiv> getHeaderMapValue S RequestHeaders"
abbreviation "getResponseHeader S \<equiv> getHeaderMapValue S ResponseHeaders"
abbreviation "addRequestHeader S \<equiv> addHeaderMapValue S RequestHeaders"
abbreviation "addResponseHeader S \<equiv> addHeaderMapValue S ResponseHeaders"
abbreviation "replaceRequestHeader S \<equiv> replaceHeaderMapValue S RequestHeaders"
abbreviation "replaceResponseHeader S \<equiv> replaceHeaderMapValue S ResponseHeaders"
abbreviation "removeRequestHeader S \<equiv> removeHeaderMapValue S RequestHeaders"
abbreviation "removeResponseHeader S \<equiv> removeHeaderMapValue S ResponseHeaders"
abbreviation "LOG_TRACE S \<equiv> log_msg S Trace"
abbreviation "LOG_DEBUG S \<equiv> log_msg S Debug"
abbreviation "LOG_INFO S \<equiv> log_msg S Info"
abbreviation "LOG_WARN S \<equiv> log_msg S Warn"
abbreviation "LOG_ERROR S \<equiv> log_msg S Error"

text \<open>A call whose result is looked at only to log a failure.\<close>

definition or_log :: "'h sdk \<Rightarrow> string \<Rightarrow> WasmResult \<times> 'h \<Rightarrow> 'h" where
  "or_log S msg r = (if fst r \<noteq> Ok then LOG_ERROR S msg (snd r) else snd r)"

section \<open>What a plugin can observe of its host\<close>

record host_view =
  v_phase :: "WasmHeaderMapType option"
  v_hdrs :: "string \<Rightarrow> string option"
  v_can_reply :: bool
  v_reply :: "(u32 \<times> string \<times> string) option"
  v_min_level :: LogLevel
  v_logs :: "string list"
  v_body :: "WasmBufferType \<Rightarrow> string option"
  v_props :: "string list \<Rightarrow> string option"

text \<open>A lookup function changed at one header name, up to case.\<close>

definition hupd :: "string \<Rightarrow> string option \<Rightarrow> (string \<Rightarrow> string option) \<Rightarrow> string \<Rightarrow> string option" where
  "hupd k x m = (\<lambda>k'. if same_key k k' then x else m k')"

definition hupds :: "header list \<Rightarrow> string \<Rightarrow> string option" where
  "hupds hs = foldl (\<lambda>m (k, v). hupd k (Some v) m) (\<lambda>_. None) hs"

definition happend :: "header list \<Rightarrow> string \<Rightarrow> string option" where
  "happend hs = foldl (\<lambda>m (k, v). hupd k (Some (appended (m k) v)) m) (\<lambda>_. None) hs"

definition v_log :: "LogLevel \<Rightarrow> string \<Rightarrow> host_view \<Rightarrow> host_view" where
  "v_log l msg v = (if level (v_min_level v) \<le> level l then v\<lparr>v_logs := v_logs v @ [msg]\<rparr> else v)"

text \<open>A segment of a property path: not empty, and free of the separator of the ABI.\<close>

definition path_segment :: "string \<Rightarrow> bool" where
  "path_segment s \<longleftrightarrow> s \<noteq> [] \<and> CHR 0x00 \<notin> set s"

lemma hupd_same [simp]: "hupd k x m k = x"
  by (simp add: hupd_def)

lemma hupd_other [simp]: "\<not> same_key k k' \<Longrightarrow> hupd k x m k' = m k'"
  by (simp add: hupd_def)

lemma hupd_hupd [simp]: "hupd k x (hupd k y m) = hupd k x m"
  by (simp add: hupd_def fun_eq_iff)

lemma hupds_Nil [simp]: "hupds [] k = None"
  by (simp add: hupds_def)

lemma hupds_single [simp]: "hupds [(k, v)] k = Some v"
  by (simp add: hupds_def)

lemma v_log_simps [simp]:
  "v_phase (v_log l m v) = v_phase v" "v_hdrs (v_log l m v) = v_hdrs v"
  "v_can_reply (v_log l m v) = v_can_reply v" "v_reply (v_log l m v) = v_reply v"
  "v_min_level (v_log l m v) = v_min_level v"
  "v_body (v_log l m v) = v_body v" "v_props (v_log l m v) = v_props v"
  by (simp_all add: v_log_def)

text \<open>Two views that differ in what has been logged only.\<close>

definition logs_only :: "host_view \<Rightarrow> host_view \<Rightarrow> bool" where
  "logs_only v v' \<longleftrightarrow> (\<exists>ls. v' = v\<lparr>v_logs := ls\<rparr>)"

lemma logs_only_refl [simp]: "logs_only v v"
  by (auto simp: logs_only_def intro: exI [of _ "v_logs v"])

lemma logs_only_trans [trans]: "logs_only u v \<Longrightarrow> logs_only v w \<Longrightarrow> logs_only u w"
  by (auto simp: logs_only_def)

lemma logs_only_v_log [simp]: "logs_only u v \<Longrightarrow> logs_only u (v_log l m v)"
  by (auto simp: logs_only_def v_log_def intro: exI [of _ "v_logs v"])

lemma logs_only_v_log_left [simp]: "logs_only (v_log l m v) w \<longleftrightarrow> logs_only v w"
  by (auto simp: logs_only_def v_log_def)

lemma v_log_update:
  "(v_log l m v)\<lparr>v_hdrs := x\<rparr> = v_log l m (v\<lparr>v_hdrs := x\<rparr>)"
  "(v_log l m v)\<lparr>v_reply := r\<rparr> = v_log l m (v\<lparr>v_reply := r\<rparr>)"
  "(v_log l m v)\<lparr>v_body := b\<rparr> = v_log l m (v\<lparr>v_body := b\<rparr>)"
  by (simp_all add: v_log_def)

lemma logs_only_update:
  "logs_only v w \<Longrightarrow> logs_only (v\<lparr>v_hdrs := x\<rparr>) (w\<lparr>v_hdrs := x\<rparr>)"
  "logs_only v w \<Longrightarrow> logs_only (v\<lparr>v_reply := r, v_hdrs := x\<rparr>) (w\<lparr>v_reply := r, v_hdrs := x\<rparr>)"
  "logs_only v w \<Longrightarrow> logs_only (v\<lparr>v_body := b\<rparr>) (w\<lparr>v_body := b\<rparr>)"
  by (cases v; auto simp: logs_only_def)+

lemma logs_onlyD:
  assumes "logs_only v v'"
  shows "v_phase v' = v_phase v" "v_hdrs v' = v_hdrs v" "v_can_reply v' = v_can_reply v"
    "v_reply v' = v_reply v" "v_body v' = v_body v" "v_props v' = v_props v"
    "v_min_level v' = v_min_level v"
  using assms by (auto simp: logs_only_def)

lemma v_logs_v_log: "v_logs (v_log l m v) =
    (if level (v_min_level v) \<le> level l then v_logs v @ [m] else v_logs v)"
  by (simp add: v_log_def)

lemma same_key_length: "same_key a b \<Longrightarrow> length a = length b"
  by (auto simp: same_key_def dest: arg_cong [where f = length])

lemma same_key_Cons [simp]: "same_key (a # s) (b # t) \<longleftrightarrow> tolower a = tolower b \<and> same_key s t"
  by (simp add: same_key_def)

lemma same_key_Nil [simp]: "same_key [] t \<longleftrightarrow> t = []" "same_key t [] \<longleftrightarrow> t = []"
  by (simp_all add: same_key_def)

section \<open>The contract of a host\<close>

locale wasm_host =
  fixes S :: "'h sdk" and view :: "'h \<Rightarrow> host_view" and good :: "'h \<Rightarrow> bool"
  assumes get_Some: "good h \<Longrightarrow> v_phase (view h) = Some t \<Longrightarrow> v_hdrs (view h) k = Some v \<Longrightarrow>
      getHeaderMapValue S t k h = WasmData (Some v)"
    and get_None: "good h \<Longrightarrow> v_phase (view h) = Some t \<Longrightarrow> v_hdrs (view h) k = None \<Longrightarrow>
      getHeaderMapValue S t k h = NullPtr \<or> getHeaderMapValue S t k h = WasmData None"
    and get_pairs: "good h \<Longrightarrow> v_phase (view h) = Some t \<Longrightarrow>
      happend (getHeaderMapPairs S t h) = v_hdrs (view h) \<and>
      hupds (getHeaderMapPairs S t h) = v_hdrs (view h)"
    and add: "good h \<Longrightarrow> v_phase (view h) = Some t \<Longrightarrow>
      fst (addHeaderMapValue S t k v h) = Ok \<and> good (snd (addHeaderMapValue S t k v h)) \<and>
      view (snd (addHeaderMapValue S t k v h)) =
        (view h)\<lparr>v_hdrs := hupd k (Some (appended (v_hdrs (view h) k) v)) (v_hdrs (view h))\<rparr>"
    and replace: "good h \<Longrightarrow> v_phase (view h) = Some t \<Longrightarrow>
      fst (replaceHeaderMapValue S t k v h) = Ok \<and> good (snd (replaceHeaderMapValue S t k v h)) \<and>
      view (snd (replaceHeaderMapValue S t k v h)) =
        (view h)\<lparr>v_hdrs := hupd k (Some v) (v_hdrs (view h))\<rparr>"
    and remove: "good h \<Longrightarrow> v_phase (view h) = Some t \<Longrightarrow>
      fst (removeHeaderMapValue S t k h) = Ok \<and> good (snd (removeHeaderMapValue S t k h)) \<and>
      view (snd (removeHeaderMapValue S t k h)) =
        (view h)\<lparr>v_hdrs := hupd k None (v_hdrs (view h))\<rparr>"
    and set_pairs: "good h \<Longrightarrow> v_phase (view h) = Some t \<Longrightarrow>
      fst (setHeaderMapPairs S t ps h) = Ok \<and> good (snd (setHeaderMapPairs S t ps h)) \<and>
      view (snd (setHeaderMapPairs S t ps h)) = (view h)\<lparr>v_hdrs := happend ps\<rparr>"
    and get_buffer: "good h \<Longrightarrow> v_body (view h) b = Some s \<Longrightarrow> length s < 2 ^ 32 \<Longrightarrow>
      i + n \<le> length s \<Longrightarrow>
      is_set (getBufferBytes S b i n h) \<and> wview (getBufferBytes S b i n h) = take n (drop i s)"
    and set_buffer: "good h \<Longrightarrow> v_body (view h) b = Some s \<Longrightarrow> b \<noteq> PluginConfiguration \<Longrightarrow>
      length s < 2 ^ 32 \<Longrightarrow> i \<le> length s \<Longrightarrow> n < 2 ^ 32 \<Longrightarrow>
      fst (setBuffer S b i n r h) = Ok \<and> good (snd (setBuffer S b i n r h)) \<and>
      view (snd (setBuffer S b i n r h)) =
        (view h)\<lparr>v_body := (v_body (view h))(b := Some (replace_at i n r s))\<rparr>"
    and get_property: "good h \<Longrightarrow> list_all path_segment p \<Longrightarrow> getProperty S p h =
      map_option (\<lambda>x. WasmData (Some x)) (v_props (view h) p)"
    and send: "good h \<Longrightarrow> v_can_reply (view h) \<Longrightarrow>
      fst (sendLocalResponse S c d txt hs h) = Ok \<and> good (snd (sendLocalResponse S c d txt hs h)) \<and>
      view (snd (sendLocalResponse S c d txt hs h)) =
        (view h)\<lparr>v_reply := Some (c, d, txt), v_hdrs := hupds hs\<rparr>"
    and log: "good h \<Longrightarrow> good (log_msg S l m h) \<and> view (log_msg S l m h) = v_log l m (view h)"
begin

lemma host_simps [simp]:
  assumes "good h"
  shows "good (log_msg S l m h)" "view (log_msg S l m h) = v_log l m (view h)"
    "v_can_reply (view h) \<Longrightarrow> good (snd (sendLocalResponse S c d txt hs h))"
    "v_can_reply (view h) \<Longrightarrow> fst (sendLocalResponse S c d txt hs h) = Ok"
    "v_can_reply (view h) \<Longrightarrow> view (snd (sendLocalResponse S c d txt hs h)) =
        (view h)\<lparr>v_reply := Some (c, d, txt), v_hdrs := hupds hs\<rparr>"
  using assms log send by auto

lemma header_simps [simp]:
  assumes "good h" and "v_phase (view h) = Some t"
  shows "fst (addHeaderMapValue S t k v h) = Ok" "good (snd (addHeaderMapValue S t k v h))"
    "view (snd (addHeaderMapValue S t k v h)) =
        (view h)\<lparr>v_hdrs := hupd k (Some (appended (v_hdrs (view h) k) v)) (v_hdrs (view h))\<rparr>"
    "fst (replaceHeaderMapValue S t k v h) = Ok" "good (snd (replaceHeaderMapValue S t k v h))"
    "view (snd (replaceHeaderMapValue S t k v h)) =
        (view h)\<lparr>v_hdrs := hupd k (Some v) (v_hdrs (view h))\<rparr>"
    "fst (removeHeaderMapValue S t k h) = Ok" "good (snd (removeHeaderMapValue S t k h))"
    "view (snd (removeHeaderMapValue S t k h)) =
        (view h)\<lparr>v_hdrs := hupd k None (v_hdrs (view h))\<rparr>"
  using assms add replace remove by auto

lemma get_wview:
  assumes "good h" and "v_phase (view h) = Some t"
  shows "wview (getHeaderMapValue S t k h) = (case v_hdrs (view h) k of None \<Rightarrow> [] | Some v \<Rightarrow> v)"
  using get_Some [OF assms, of k] get_None [OF assms, of k]
  by (cases "v_hdrs (view h) k") auto

lemma get_has_data:
  assumes "good h" and "v_phase (view h) = Some t"
  shows "has_data (getHeaderMapValue S t k h) \<longleftrightarrow> v_hdrs (view h) k \<noteq> None"
  using get_Some [OF assms, of k] get_None [OF assms, of k]
  by (cases "v_hdrs (view h) k") auto

lemma or_log_simps [simp]:
  assumes "fst r = Ok"
  shows "or_log S msg r = snd r"
  using assms by (simp add: or_log_def)

end

end
