(* ===== verification/Absl.thy ===== *)
theory Absl
  imports Prelude
begin

text \<open>
  The Abseil string functions the plugins call. Abseil is not part of the repository, so its
  functions are the fields of a record that every definition using them takes as an argument;
  the locale \<open>absl_strings\<close> states what the Abseil documentation promises of them, and
  \<open>absl_ref\<close> is one record that keeps the promise. \<^verbatim>\<open>absl::StrCat\<close> and \<^verbatim>\<open>absl::StrAppend\<close> on
  strings are written as list append throughout, on integers with \<^const>\<open>dec_int\<close>.
\<close>

record absl =
  StrSplit :: "string \<Rightarrow> char \<Rightarrow> string list"
  StrSplitBy :: "string \<Rightarrow> string \<Rightarrow> string list"
  StrSplitMax1 :: "string \<Rightarrow> char \<Rightarrow> string list"
  StrSplitSkipEmpty :: "string \<Rightarrow> char \<Rightarrow> string list"
  to_pair :: "string list \<Rightarrow> string \<times> string"
  StripAsciiWhitespace :: "string \<Rightarrow> string"
  StripLeadingAsciiWhitespace :: "string \<Rightarrow> string"
  AsciiStrToLower :: "string \<Rightarrow> string"
  StartsWith :: "string \<Rightarrow> string \<Rightarrow> bool"
  StartsWithIgnoreCase :: "string \<Rightarrow> string \<Rightarrow> bool"
  StrContains :: "string \<Rightarrow> string \<Rightarrow> bool"
  StrContainsIgnoreCase :: "string \<Rightarrow> string \<Rightarrow> bool"
  EqualsIgnoreCase :: "string \<Rightarrow> string \<Rightarrow> bool"
  SimpleAtoi32 :: "string \<Rightarrow> int option"
  SimpleAtoi64 :: "string \<Rightarrow> int option"
  StrJoin :: "string list \<Rightarrow> string \<Rightarrow> string"
  StrReplaceAll :: "string \<Rightarrow> (string \<times> string) list \<Rightarrow> string"

section \<open>Status values\<close>

text \<open>An \<^verbatim>\<open>absl::Status\<close> that is not OK: its code and its message.\<close>

datatype StatusCode = kInvalidArgument | kFailedPrecondition | kOutOfRange | kUnauthenticated
  | kPermissionDenied | kNotFound | kAlreadyExists | kResourceExhausted | kUnimplemented
  | kUnavailable | kDeadlineExceeded | kInternal | kUnknown | kDataLoss | kAborted | kCancelled

type_synonym Status = "StatusCode \<times> string"

section \<open>Documented behaviour\<close>

text \<open>
  \<^verbatim>\<open>SimpleAtoi\<close>: an optional sign and decimal digits, with ASCII white space around them, whose
  value fits the target type; anything else fails.
\<close>

definition atoi_digits :: "string \<Rightarrow> nat option" where
  "atoi_digits s = (if s \<noteq> [] \<and> list_all isdigit s then Some (dec_value 0 s) else None)"

definition atoi_signed :: "string \<Rightarrow> int option" where
  "atoi_signed s = (case s of
      [] \<Rightarrow> None
    | c # t \<Rightarrow> if c = CHR ''-'' then map_option (\<lambda>n. - int n) (atoi_digits t)
              else if c = CHR ''+'' then map_option int (atoi_digits t)
              else map_option int (atoi_digits s))"

definition simple_atoi :: "int \<Rightarrow> int \<Rightarrow> string \<Rightarrow> int option" where
  "simple_atoi lo hi s = (case atoi_signed (strip s) of
      None \<Rightarrow> None | Some i \<Rightarrow> if lo \<le> i \<and> i \<le> hi then Some i else None)"

text \<open>The conversion of split results to a pair: missing pieces are empty, later ones dropped.\<close>

fun pair_of :: "string list \<Rightarrow> string \<times> string" where
  "pair_of [] = ([], [])"
| "pair_of [a] = (a, [])"
| "pair_of (a # b # _) = (a, b)"

text \<open>
  \<^verbatim>\<open>StrReplaceAll\<close>: the string is scanned once from left to right; where a key starts, the longest
  such key is replaced and the scan goes on behind it, so replaced text is not looked at again.
\<close>

fun longest_key :: "string \<Rightarrow> (string \<times> string) list \<Rightarrow> (string \<times> string) option" where
  "longest_key s [] = None"
| "longest_key s ((k, v) # kvs) =
     (case longest_key s kvs of
        None \<Rightarrow> if k \<noteq> [] \<and> prefix k s then Some (k, v) else None
      | Some (k', v') \<Rightarrow> if k \<noteq> [] \<and> prefix k s \<and> length k' \<le> length k then Some (k, v) else Some (k', v'))"

function replace_all :: "(string \<times> string) list \<Rightarrow> string \<Rightarrow> string" where
  "replace_all kvs [] = []"
| "replace_all kvs (c # s) = (case longest_key (c # s) kvs of
      None \<Rightarrow> c # replace_all kvs s
    | Some (k, v) \<Rightarrow> v @ replace_all kvs (drop (length k - 1) s))"
  by pat_completeness auto
termination
  by (relation "measure (\<lambda>(kvs, s). length s)") auto

locale absl_strings =
  fixes A :: absl
  assumes StrSplit [simp]: "StrSplit A s d = split_char d s"
    and StrSplitBy [simp]: "sep \<noteq> [] \<Longrightarrow> StrSplitBy A s sep = split_str sep s"
    and StrSplitMax1 [simp]: "StrSplitMax1 A s d = split_once d s"
    and StrSplitSkipEmpty [simp]:
      "StrSplitSkipEmpty A s d = filter (\<lambda>w. w \<noteq> []) (split_char d s)"
    and to_pair [simp]: "to_pair A ws = pair_of ws"
    and StripAsciiWhitespace [simp]: "StripAsciiWhitespace A s = strip s"
    and StripLeadingAsciiWhitespace [simp]: "StripLeadingAsciiWhitespace A s = strip_left s"
    and AsciiStrToLower [simp]: "AsciiStrToLower A s = map tolower s"
    and StartsWith [simp]: "StartsWith A s p = prefix p s"
    and StartsWithIgnoreCase [simp]:
      "StartsWithIgnoreCase A s p = prefix (map tolower p) (map tolower s)"
    and StrContains [simp]: "StrContains A s p = contains s p"
    and StrContainsIgnoreCase [simp]:
      "StrContainsIgnoreCase A s p = contains (map tolower s) (map tolower p)"
    and EqualsIgnoreCase [simp]: "EqualsIgnoreCase A s t = same_key s t"
    and SimpleAtoi32 [simp]: "SimpleAtoi32 A s = simple_atoi (- (2 ^ 31)) (2 ^ 31 - 1) s"
    and SimpleAtoi64 [simp]: "SimpleAtoi64 A s = simple_atoi (- (2 ^ 63)) (2 ^ 63 - 1) s"
    and StrJoin [simp]: "StrJoin A ws sep = join sep ws"
    and StrReplaceAll [simp]: "StrReplaceAll A s kvs = replace_all kvs s"

definition absl_ref :: absl where
  "absl_ref = \<lparr>
     StrSplit = (\<lambda>s d. split_char d s),
     StrSplitBy = (\<lambda>s d. split_str d s),
     StrSplitMax1 = (\<lambda>s d. split_once d s),
     StrSplitSkipEmpty = (\<lambda>s d. filter (\<lambda>w. w \<noteq> []) (split_char d s)),
     to_pair = pair_of,
     StripAsciiWhitespace = strip,
     StripLeadingAsciiWhitespace = strip_left,
     AsciiStrToLower = map tolower,
     StartsWith = (\<lambda>s p. prefix p s),
     StartsWithIgnoreCase = (\<lambda>s p. prefix (map tolower p) (map tolower s)),
     StrContains = contains,
     StrContainsIgnoreCase = (\<lambda>s p. contains (map tolower s) (map tolower p)),
     EqualsIgnoreCase = same_key,
     SimpleAtoi32 = simple_atoi (- (2 ^ 31)) (2 ^ 31 - 1),
     SimpleAtoi64 = simple_atoi (- (2 ^ 63)) (2 ^ 63 - 1),
     StrJoin = (\<lambda>ws d. join d ws),
     StrReplaceAll = (\<lambda>s kvs. replace_all kvs s) \<rparr>"

interpretation absl_ref: absl_strings absl_ref
  by unfold_locales (simp_all add: absl_ref_def)

lemmas absl_ref_spec = absl_ref.absl_strings_axioms

section \<open>Facts about the documented functions\<close>

lemma simple_atoi_bounds: "simple_atoi lo hi s = Some i \<Longrightarrow> lo \<le> i \<and> i \<le> hi"
  by (auto simp: simple_atoi_def split: option.splits if_splits)

lemma isdigit_not_space: "isdigit c \<Longrightarrow> \<not> isspace c"
  by (auto simp: isdigit_def isspace_def)

lemma strip_digits: "list_all isdigit s \<Longrightarrow> strip s = s"
proof -
  have id: "dropWhile isspace t = t" if "list_all isdigit t" for t
    using that by (cases t) (auto simp: isdigit_not_space)
  assume "list_all isdigit s"
  then show ?thesis by (simp add: strip_def id)
qed

lemma simple_atoi_dec_nat:
  assumes "lo \<le> int n" and "int n \<le> hi"
  shows "simple_atoi lo hi (dec_nat n) = Some (int n)"
proof -
  obtain c t where ct: "dec_nat n = c # t" and digits: "list_all isdigit (c # t)"
    using dec_nat_digits [of n] by (cases "dec_nat n") auto
  have "c \<noteq> CHR ''-''" and "c \<noteq> CHR ''+''"
    using digits by (auto simp: isdigit_def char_code_def)
  then have "atoi_signed (dec_nat n) = Some (int (dec_value 0 (dec_nat n)))"
    using digits by (simp add: atoi_signed_def atoi_digits_def ct)
  moreover have "strip (dec_nat n) = dec_nat n"
    using digits ct by (simp add: strip_digits)
  ultimately show ?thesis using assms by (simp add: simple_atoi_def)
qed

lemma pair_of_split_once:
  "pair_of (split_once d s) = (if d \<in> set s then (takeWhile (\<lambda>c. c \<noteq> d) s,
     tl (dropWhile (\<lambda>c. c \<noteq> d) s)) else (s, []))"
proof (cases "d \<in> set s")
  case True
  then obtain a b where s: "s = a @ d # b" and a: "d \<notin> set a"
    by (auto dest: split_list_first)
  have "takeWhile (\<lambda>c. c \<noteq> d) s = a" and "dropWhile (\<lambda>c. c \<noteq> d) s = d # b"
    using a unfolding s by (induction a) auto
  with a show ?thesis by (simp add: s split_once_append)
next
  case False
  then show ?thesis by (simp add: split_once_absent)
qed

end
