(* ===== verification/Test_Context.thy ===== *)
theory Test_Context
  imports Wasm_Host Absl
begin

text \<open>
  The test host of \<^verbatim>\<open>plugins/test/framework.h\<close> and \<^verbatim>\<open>plugins/test/framework.cc\<close>: the body
  \<^verbatim>\<open>Buffer\<close>, the calls a plugin can make on \<^verbatim>\<open>TestContext\<close> and \<^verbatim>\<open>TestHttpContext\<close>, and the four
  \<^verbatim>\<open>Send*\<close> operations that drive one HTTP stream through a plugin. The plugin's callbacks are
  arguments of the \<^verbatim>\<open>Send*\<close> operations and run on the plugin's own state together with the
  context. \<open>test_sdk\<close> connects the calls of the SDK to the context, and the interpretation of
  \<open>wasm_host\<close> shows that the context honours the contract the plugins rely on.
\<close>

section \<open>Body buffer\<close>

datatype copy_result = CopyError WasmResult | CopyOk string | CopyOutOfBounds

text \<open>
  \<^verbatim>\<open>size_t\<close> is 64 bits wide: the sum in the bounds check wraps, and a view that starts past the
  end of the buffer is an out-of-bounds read.
\<close>

definition Buffer_copyTo :: "u64 \<Rightarrow> u64 \<Rightarrow> string \<Rightarrow> copy_result" where
  "Buffer_copyTo start len buf =
     (if length buf < unat (start + len) then CopyError InvalidMemoryAccess
      else if length buf < unat start + unat len then CopyOutOfBounds
      else CopyOk (take (unat len) (drop (unat start) buf)))"

definition Buffer_copyFrom :: "u64 \<Rightarrow> u64 \<Rightarrow> string \<Rightarrow> string \<Rightarrow> WasmResult \<times> string" where
  "Buffer_copyFrom start len data buf =
     (let start' = (if length buf < unat start then length buf else unat start)
      in (Ok, replace_at start' (unat len) data buf))"

section \<open>Context state\<close>

datatype CallbackType = CbNone | CbRequestHeaders | CbRequestBody | CbResponseHeaders | CbResponseBody

record Result =
  header_status :: FilterHeadersStatus
  headers :: headers
  body_status :: FilterDataStatus
  body :: string
  http_code :: u32
  grpc_code :: u32
  details :: string

definition empty_Result :: Result where
  "empty_Result = \<lparr>header_status = Continue, headers = [], body_status = DataContinue,
     body = [], http_code = 0, grpc_code = 0, details = []\<rparr>"

record TestHttpContext =
  min_log_level :: LogLevel
  log_file :: "string list option"
  clock_time :: u64
  plugin_config :: string
  properties :: "(string \<times> string) list"
  phase_logs :: "string list"
  logging_bytes :: u64
  logging_entries :: u64
  vm_failed :: bool
  torn_down :: bool
  phase :: "WasmHeaderMapType option"
  result :: Result
  sent_local_response :: bool
  body_buffer :: string
  current_callback :: CallbackType

text \<open>
  A fresh stream context. \<^verbatim>\<open>phase_\<close> and \<^verbatim>\<open>current_callback_\<close> have no initialiser in the source and
  are meaningful only once a \<^verbatim>\<open>Send*\<close> operation has set them.
\<close>

definition new_stream :: "LogLevel \<Rightarrow> string list option \<Rightarrow> u64 \<Rightarrow> string \<Rightarrow> (string \<times> string) list
    \<Rightarrow> TestHttpContext" where
  "new_stream lvl lf t cfg props = \<lparr>min_log_level = lvl, log_file = lf, clock_time = t,
     plugin_config = cfg, properties = props, phase_logs = [], logging_bytes = 0,
     logging_entries = 0, vm_failed = False, torn_down = False, phase = None,
     result = empty_Result, sent_local_response = False, body_buffer = [],
     current_callback = CbNone\<rparr>"

section \<open>Calls from the plugin\<close>

definition TestContext_log :: "LogLevel \<Rightarrow> string \<Rightarrow> TestHttpContext \<Rightarrow> TestHttpContext" where
  "TestContext_log l msg c =
     (let c1 = c\<lparr>logging_entries := logging_entries c + 1,
                 logging_bytes := logging_bytes c + of_nat (length msg)\<rparr>
      in if level (min_log_level c) \<le> level l
         then c1\<lparr>phase_logs := phase_logs c1 @ [msg],
                 log_file := map_option (\<lambda>f. f @ [msg]) (log_file c1)\<rparr>
         else c1)"

definition TestContext_getCurrentTimeNanoseconds :: "TestHttpContext \<Rightarrow> u64" where
  "TestContext_getCurrentTimeNanoseconds c = clock_time c"

text \<open>The buffer a call may use, by its kind and the callback in progress.\<close>

definition TestHttpContext_getBuffer :: "WasmBufferType \<Rightarrow> TestHttpContext \<Rightarrow> string option" where
  "TestHttpContext_getBuffer b c = (case b of
      PluginConfiguration \<Rightarrow> Some (plugin_config c)
    | HttpRequestBody \<Rightarrow> if current_callback c = CbRequestBody then Some (body_buffer c) else None
    | HttpResponseBody \<Rightarrow> if current_callback c = CbResponseBody then Some (body_buffer c) else None)"

definition TestHttpContext_getHeaderMapSize :: "WasmHeaderMapType \<Rightarrow> TestHttpContext \<Rightarrow> WasmResult + u32" where
  "TestHttpContext_getHeaderMapSize t c =
     (if phase c \<noteq> Some t then Inl BadArgument else Inr (of_nat (length (headers (result c)))))"

definition TestHttpContext_getHeaderMapValue ::
    "WasmHeaderMapType \<Rightarrow> string \<Rightarrow> TestHttpContext \<Rightarrow> WasmResult + string" where
  "TestHttpContext_getHeaderMapValue t key c =
     (if phase c \<noteq> Some t then Inl BadArgument
      else case hdr_find key (headers (result c)) of None \<Rightarrow> Inl NotFound | Some v \<Rightarrow> Inr v)"

definition set_headers :: "(headers \<Rightarrow> headers) \<Rightarrow> TestHttpContext \<Rightarrow> TestHttpContext" where
  "set_headers f c = c\<lparr>result := (result c)\<lparr>headers := f (headers (result c))\<rparr>\<rparr>"

definition TestHttpContext_addHeaderMapValue ::
    "WasmHeaderMapType \<Rightarrow> string \<Rightarrow> string \<Rightarrow> TestHttpContext \<Rightarrow> WasmResult \<times> TestHttpContext" where
  "TestHttpContext_addHeaderMapValue t key value c =
     (if phase c \<noteq> Some t then (BadArgument, c)
      else (Ok, set_headers (InsertOrAppend key value) c))"

definition TestHttpContext_replaceHeaderMapValue ::
    "WasmHeaderMapType \<Rightarrow> string \<Rightarrow> string \<Rightarrow> TestHttpContext \<Rightarrow> WasmResult \<times> TestHttpContext" where
  "TestHttpContext_replaceHeaderMapValue t key value c =
     (if phase c \<noteq> Some t then (BadArgument, c) else (Ok, set_headers (hdr_set key value) c))"

definition TestHttpContext_removeHeaderMapValue ::
    "WasmHeaderMapType \<Rightarrow> string \<Rightarrow> TestHttpContext \<Rightarrow> WasmResult \<times> TestHttpContext" where
  "TestHttpContext_removeHeaderMapValue t key c =
     (if phase c \<noteq> Some t then (BadArgument, c) else (Ok, set_headers (hdr_erase key) c))"

definition TestHttpContext_getHeaderMapPairs ::
    "WasmHeaderMapType \<Rightarrow> TestHttpContext \<Rightarrow> WasmResult + header list" where
  "TestHttpContext_getHeaderMapPairs t c =
     (if phase c \<noteq> Some t then Inl BadArgument else Inr (headers (result c)))"

definition TestHttpContext_setHeaderMapPairs ::
    "WasmHeaderMapType \<Rightarrow> header list \<Rightarrow> TestHttpContext \<Rightarrow> WasmResult \<times> TestHttpContext" where
  "TestHttpContext_setHeaderMapPairs t pairs c =
     (if phase c \<noteq> Some t then (BadArgument, c)
      else (Ok, foldl (\<lambda>c (k, v). snd (TestHttpContext_addHeaderMapValue t k v c))
                  (set_headers (\<lambda>_. []) c) pairs))"

fun find_property :: "string \<Rightarrow> (string \<times> string) list \<Rightarrow> string option" where
  "find_property path [] = None"
| "find_property path ((p, v) # ps) = (if p = path then Some v else find_property path ps)"

definition TestHttpContext_getProperty ::
    "absl \<Rightarrow> string \<Rightarrow> TestHttpContext \<Rightarrow> WasmResult + string" where
  "TestHttpContext_getProperty A path c =
     (let translated_path = StrJoin A (StrSplitSkipEmpty A path (CHR 0x00)) ''.''
      in case find_property translated_path (properties c) of
           None \<Rightarrow> Inl NotFound | Some v \<Rightarrow> Inr v)"

definition TestHttpContext_sendLocalResponse :: "u32 \<Rightarrow> string \<Rightarrow> header list \<Rightarrow> u32 \<Rightarrow> string
    \<Rightarrow> TestHttpContext \<Rightarrow> WasmResult \<times> TestHttpContext" where
  "TestHttpContext_sendLocalResponse response_code body_text additional_headers grpc_status det c =
     (if current_callback c \<noteq> CbRequestHeaders \<and> current_callback c \<noteq> CbResponseHeaders \<and>
         current_callback c \<noteq> CbRequestBody
      then (BadArgument, c)
      else (Ok, c\<lparr>sent_local_response := True,
                  result := (result c)\<lparr>http_code := response_code, body := body_text,
                    grpc_code := grpc_status, details := det,
                    headers := foldl (\<lambda>m (k, v). hdr_set k v m) [] additional_headers\<rparr>\<rparr>))"

section \<open>Driving a stream\<close>

type_synonym 'p stream = "'p \<times> TestHttpContext"

definition SendRequestHeaders ::
    "(nat \<Rightarrow> bool \<Rightarrow> 'p stream \<Rightarrow> FilterHeadersStatus \<times> 'p stream)
     \<Rightarrow> headers \<Rightarrow> 'p stream \<Rightarrow> Result \<times> 'p stream" where
  "SendRequestHeaders onRequestHeaders hs = (\<lambda>(p, c).
     let c1 = c\<lparr>phase_logs := [], result := empty_Result\<lparr>headers := hs\<rparr>,
                phase := Some RequestHeaders, current_callback := CbRequestHeaders\<rparr>;
         (st, p2, c2) = onRequestHeaders (length hs) False (p, c1);
         c3 = c2\<lparr>result := (result c2)\<lparr>header_status := st\<rparr>, phase := None\<rparr>
     in (result c3, (p2, c3)))"

definition SendRequestBody ::
    "(nat \<Rightarrow> bool \<Rightarrow> 'p stream \<Rightarrow> FilterDataStatus \<times> 'p stream)
     \<Rightarrow> string \<Rightarrow> bool \<Rightarrow> 'p stream \<Rightarrow> Result \<times> 'p stream" where
  "SendRequestBody onRequestBody b end_of_stream = (\<lambda>(p, c).
     let c1 = c\<lparr>phase_logs := [], result := empty_Result\<rparr>
     in if sent_local_response c1 then (empty_Result, (p, c1))
        else
          let c2 = c1\<lparr>body_buffer := b, current_callback := CbRequestBody\<rparr>;
              (st, p3, c3) = onRequestBody (length b) end_of_stream (p, c2);
              c4 = c3\<lparr>result := (result c3)\<lparr>body_status := st, body := body_buffer c3\<rparr>,
                      body_buffer := []\<rparr>
          in (result c4, (p3, c4)))"

definition SendResponseHeaders ::
    "(nat \<Rightarrow> bool \<Rightarrow> 'p stream \<Rightarrow> FilterHeadersStatus \<times> 'p stream)
     \<Rightarrow> headers \<Rightarrow> 'p stream \<Rightarrow> Result \<times> 'p stream" where
  "SendResponseHeaders onResponseHeaders hs = (\<lambda>(p, c).
     let c1 = c\<lparr>phase_logs := [], result := empty_Result\<rparr>
     in if sent_local_response c1 then (empty_Result, (p, c1))
        else
          let c2 = c1\<lparr>result := empty_Result\<lparr>headers := hs\<rparr>, phase := Some ResponseHeaders,
                      current_callback := CbResponseHeaders\<rparr>;
              (st, p3, c3) = onResponseHeaders (length hs) False (p, c2);
              c4 = c3\<lparr>result := (result c3)\<lparr>header_status := st\<rparr>, phase := None\<rparr>
          in (result c4, (p3, c4)))"

definition SendResponseBody ::
    "(nat \<Rightarrow> bool \<Rightarrow> 'p stream \<Rightarrow> FilterDataStatus \<times> 'p stream)
     \<Rightarrow> string \<Rightarrow> bool \<Rightarrow> 'p stream \<Rightarrow> Result \<times> 'p stream" where
  "SendResponseBody onResponseBody b end_of_stream = (\<lambda>(p, c).
     let c1 = c\<lparr>phase_logs := [], result := empty_Result\<rparr>
     in if sent_local_response c1 then (empty_Result, (p, c1))
        else
          let c2 = c1\<lparr>body_buffer := b, current_callback := CbResponseBody\<rparr>;
              (st, p3, c3) = onResponseBody (length b) end_of_stream (p, c2);
              c4 = c3\<lparr>result := (result c3)\<lparr>body_status := st, body := body_buffer c3\<rparr>,
                      body_buffer := []\<rparr>
          in (result c4, (p3, c4)))"

definition TearDown :: "('p stream \<Rightarrow> 'p stream) \<Rightarrow> ('p stream \<Rightarrow> 'p stream) \<Rightarrow> 'p stream \<Rightarrow> 'p stream" where
  "TearDown onDone onDelete = (\<lambda>(p, c).
     if torn_down c then (p, c)
     else let (p1, c1) = onDelete (onDone (p, c\<lparr>phase_logs := []\<rparr>))
          in (p1, c1\<lparr>torn_down := True\<rparr>))"

lemmas context_defs [host_defs] =
  TestContext_log_def TestHttpContext_getBuffer_def TestHttpContext_getHeaderMapSize_def
  TestHttpContext_getHeaderMapValue_def TestHttpContext_addHeaderMapValue_def
  TestHttpContext_replaceHeaderMapValue_def TestHttpContext_removeHeaderMapValue_def
  TestHttpContext_getHeaderMapPairs_def TestHttpContext_setHeaderMapPairs_def
  TestHttpContext_getProperty_def TestHttpContext_sendLocalResponse_def set_headers_def

lemmas send_defs [host_defs] =
  SendRequestHeaders_def SendRequestBody_def SendResponseHeaders_def SendResponseBody_def

end
