(* ===== verification/Test_Host.thy ===== *)
theory Test_Host
  imports Test_Context
begin

text \<open>
  The test context as a host of plugins: \<open>test_sdk\<close> instantiates the calls of the SDK with the
  operations of \<open>Test_Context\<close> in the way the Proxy-Wasm ABI documents them (a failed read is a
  pointer to no data, a property path is sent as its segments, each ended by a NUL byte), and the
  interpretation \<open>tc\<close> discharges the laws of \<open>wasm_host\<close> for it. The properties of the context
  itself follow.
\<close>

definition data_of :: "WasmResult + string \<Rightarrow> WasmDataPtr" where
  "data_of r = (case r of Inl _ \<Rightarrow> WasmData None | Inr s \<Rightarrow> WasmData (Some s))"

definition test_getBufferBytes :: "WasmBufferType \<Rightarrow> nat \<Rightarrow> nat \<Rightarrow> TestHttpContext \<Rightarrow> WasmDataPtr" where
  "test_getBufferBytes b i n c = (case TestHttpContext_getBuffer b c of
      None \<Rightarrow> WasmData None
    | Some s \<Rightarrow> (case Buffer_copyTo (of_nat i) (of_nat n) s of
        CopyOk t \<Rightarrow> WasmData (Some t) | _ \<Rightarrow> WasmData None))"

definition test_setBuffer :: "WasmBufferType \<Rightarrow> nat \<Rightarrow> nat \<Rightarrow> string \<Rightarrow> TestHttpContext
    \<Rightarrow> WasmResult \<times> TestHttpContext" where
  "test_setBuffer b i n r c = (case TestHttpContext_getBuffer b c of
      None \<Rightarrow> (NotFound, c)
    | Some s \<Rightarrow> if b = PluginConfiguration then (BadArgument, c)
        else let (res, s') = Buffer_copyFrom (of_nat i) (of_nat n) r s in (res, c\<lparr>body_buffer := s'\<rparr>))"

definition test_getProperty :: "absl \<Rightarrow> string list \<Rightarrow> TestHttpContext \<Rightarrow> WasmDataPtr option" where
  "test_getProperty A p c =
     (case TestHttpContext_getProperty A (concat (map (\<lambda>s. s @ [CHR 0x00]) p)) c of
        Inl _ \<Rightarrow> None | Inr v \<Rightarrow> Some (WasmData (Some v)))"

primrec result_number :: "WasmResult \<Rightarrow> int" where
  "result_number Ok = 0"
| "result_number NotFound = 1"
| "result_number BadArgument = 2"
| "result_number SerializationFailure = 3"
| "result_number ParseFailure = 4"
| "result_number BadExpression = 5"
| "result_number InvalidMemoryAccess = 6"
| "result_number EmptyResult = 7"
| "result_number CasMismatch = 8"
| "result_number ResultMismatch = 9"
| "result_number InternalFailure = 10"
| "result_number BrokenConnection = 11"
| "result_number Unimplemented = 12"

definition test_sdk :: "absl \<Rightarrow> TestHttpContext sdk" where
  "test_sdk A = \<lparr>
     getHeaderMapValue = (\<lambda>t k c. data_of (TestHttpContext_getHeaderMapValue t k c)),
     getHeaderMapPairs = (\<lambda>t c. case TestHttpContext_getHeaderMapPairs t c of
        Inl _ \<Rightarrow> [] | Inr ps \<Rightarrow> ps),
     addHeaderMapValue = TestHttpContext_addHeaderMapValue,
     replaceHeaderMapValue = TestHttpContext_replaceHeaderMapValue,
     removeHeaderMapValue = TestHttpContext_removeHeaderMapValue,
     setHeaderMapPairs = TestHttpContext_setHeaderMapPairs,
     getBufferBytes = test_getBufferBytes,
     setBuffer = test_setBuffer,
     getProperty = test_getProperty A,
     sendLocalResponse = (\<lambda>code det txt hs c.
        TestHttpContext_sendLocalResponse code txt hs (- 1) det c),
     log_msg = TestContext_log,
     result_code = result_number \<rparr>"

definition test_view :: "TestHttpContext \<Rightarrow> host_view" where
  "test_view c = \<lparr>
     v_phase = phase c,
     v_hdrs = (\<lambda>k. hdr_find k (headers (result c))),
     v_can_reply = (current_callback c \<in> {CbRequestHeaders, CbResponseHeaders, CbRequestBody}),
     v_reply = (if sent_local_response c
        then Some (http_code (result c), details (result c), body (result c)) else None),
     v_min_level = min_log_level c,
     v_logs = phase_logs c,
     v_body = (\<lambda>b. TestHttpContext_getBuffer b c),
     v_props = (\<lambda>p. find_property (join ''.'' p) (properties c)) \<rparr>"

definition test_good :: "TestHttpContext \<Rightarrow> bool" where
  "test_good c \<longleftrightarrow> hdr_sorted (headers (result c))"

section \<open>Lemmas for the interpretation\<close>

lemma test_view_sel [simp]:
  "v_phase (test_view c) = phase c"
  "v_hdrs (test_view c) k = hdr_find k (headers (result c))"
  "v_can_reply (test_view c) \<longleftrightarrow>
     current_callback c \<in> {CbRequestHeaders, CbResponseHeaders, CbRequestBody}"
  "v_min_level (test_view c) = min_log_level c"
  "v_logs (test_view c) = phase_logs c"
  "v_body (test_view c) b = TestHttpContext_getBuffer b c"
  "v_props (test_view c) p = find_property (join ''.'' p) (properties c)"
  by (simp_all add: test_view_def)

lemma test_good_body [simp]: "test_good (c\<lparr>body_buffer := s\<rparr>) = test_good c"
  by (simp add: test_good_def)

lemma getBuffer_set_headers [simp]:
  "TestHttpContext_getBuffer b (c\<lparr>result := r\<rparr>) = TestHttpContext_getBuffer b c"
  by (simp add: TestHttpContext_getBuffer_def split: WasmBufferType.split)

lemma test_view_set_headers:
  assumes "\<And>k. hdr_find k (f (headers (result c))) = m k"
  shows "test_view (set_headers f c) = (test_view c)\<lparr>v_hdrs := m\<rparr>"
  using assms by (simp add: test_view_def set_headers_def fun_eq_iff)

lemma foldl_hdr_set:
  "hdr_sorted m \<Longrightarrow> hdr_sorted (foldl (\<lambda>m (k, v). hdr_set k v m) m hs) \<and>
     (\<lambda>k. hdr_find k (foldl (\<lambda>m (k, v). hdr_set k v m) m hs)) =
       foldl (\<lambda>m (k, v). hupd k (Some v) m) (\<lambda>k. hdr_find k m) hs"
proof (induction hs arbitrary: m)
  case (Cons h hs)
  obtain k v where h: "h = (k, v)" by (cases h)
  have "(\<lambda>k'. hdr_find k' (hdr_set k v m)) = hupd k (Some v) (\<lambda>k. hdr_find k m)"
    using Cons.prems by (simp add: fun_eq_iff hupd_def)
  with Cons show ?case by (simp add: h)
qed simp

lemma foldl_InsertOrAppend:
  "hdr_sorted m \<Longrightarrow> hdr_sorted (foldl (\<lambda>m (k, v). InsertOrAppend k v m) m hs) \<and>
     (\<lambda>k. hdr_find k (foldl (\<lambda>m (k, v). InsertOrAppend k v m) m hs)) =
       foldl (\<lambda>m (k, v). hupd k (Some (appended (m k) v)) m) (\<lambda>k. hdr_find k m) hs"
proof (induction hs arbitrary: m)
  case (Cons h hs)
  obtain k v where h: "h = (k, v)" by (cases h)
  have "(\<lambda>k'. hdr_find k' (InsertOrAppend k v m)) =
      hupd k (Some (appended (hdr_find k m) v)) (\<lambda>k. hdr_find k m)"
    using Cons.prems by (simp add: fun_eq_iff hupd_def)
  with Cons show ?case by (simp add: h)
qed simp

lemma foldl_addHeaderMapValue:
  "phase c = Some t \<Longrightarrow>
     foldl (\<lambda>c (k, v). snd (TestHttpContext_addHeaderMapValue t k v c)) c ps =
       set_headers (\<lambda>m. foldl (\<lambda>m (k, v). InsertOrAppend k v m) m ps) c"
proof (induction ps arbitrary: c)
  case (Cons p ps)
  obtain k v where p: "p = (k, v)" by (cases p)
  have "phase (set_headers (InsertOrAppend k v) c) = Some t"
    using Cons.prems by (simp add: set_headers_def)
  with Cons show ?case
    by (simp add: p TestHttpContext_addHeaderMapValue_def) (simp add: set_headers_def)
qed (simp add: set_headers_def)

lemma hupds_sorted: "hdr_sorted hs \<Longrightarrow> hupds hs = (\<lambda>k. hdr_find k hs)"
  and happend_sorted: "hdr_sorted hs \<Longrightarrow> happend hs = (\<lambda>k. hdr_find k hs)"
proof -
  assume sorted: "hdr_sorted hs"
  have build: "foldl (\<lambda>m (k, v). hdr_set k v m) ms hs = ms @ hs" if "hdr_sorted (ms @ hs)" for ms hs
    using that
  proof (induction hs arbitrary: ms)
    case (Cons h hs)
    obtain k v where h: "h = (k, v)" by (cases h)
    have "hdr_sorted (ms @ [(k, v)])"
      using Cons.prems by (auto simp: hdr_sorted_def h sorted_wrt_append)
    then have "hdr_set k v ms = ms @ [(k, v)]"
      by (simp add: hdr_set_def hdr_at_append)
    moreover have "hdr_sorted ((ms @ [(k, v)]) @ hs)" using Cons.prems by (simp add: h)
    ultimately show ?case using Cons.IH [of "ms @ [(k, v)]"] by (simp add: h)
  qed simp
  show "hupds hs = (\<lambda>k. hdr_find k hs)"
    using foldl_hdr_set [of "[]" hs] build [of "[]" hs] sorted by (simp add: hupds_def)
  show "happend hs = (\<lambda>k. hdr_find k hs)"
    using foldl_InsertOrAppend [of "[]" hs] foldl_InsertOrAppend_sorted [of "[]" hs] sorted
    by (simp add: happend_def)
qed

lemma split_segments:
  "list_all path_segment p \<Longrightarrow>
     filter (\<lambda>w. w \<noteq> []) (split_char (CHR 0x00) (concat (map (\<lambda>s. s @ [CHR 0x00]) p))) = p"
  by (induction p) (simp_all add: path_segment_def split_char_append)

lemma unat_of_nat_64: "n < 2 ^ 64 \<Longrightarrow> unat (of_nat n :: u64) = n"
  by (simp add: unat_of_nat)

lemma copyTo_in_bounds:
  assumes "i + n \<le> length s" and "length s < 2 ^ 64"
  shows "Buffer_copyTo (of_nat i) (of_nat n) s = CopyOk (take n (drop i s))"
proof -
  have "unat (of_nat i + of_nat n :: u64) = i + n"
    using unat_of_nat_64 [of "i + n"] assms by (simp flip: of_nat_add)
  then show ?thesis
    using assms by (simp add: Buffer_copyTo_def unat_of_nat_64 [of n] unat_of_nat_64 [of i])
qed

lemma copyFrom_in_bounds:
  assumes "i \<le> length s" and "length s < 2 ^ 64" and "n < 2 ^ 64"
  shows "Buffer_copyFrom (of_nat i) (of_nat n) r s = (Ok, replace_at i n r s)"
  using assms by (simp add: Buffer_copyFrom_def unat_of_nat_64 [of n] unat_of_nat_64 [of i])

section \<open>The context honours the contract\<close>

locale plugin_env = absl_strings A + wasm_host S view good
  for A :: absl and S :: "'h sdk" and view :: "'h \<Rightarrow> host_view" and good :: "'h \<Rightarrow> bool"

lemma test_headers_laws:
  assumes "test_good c" and "phase c = Some t"
  shows "fst (TestHttpContext_addHeaderMapValue t k v c) = Ok"
    "test_good (snd (TestHttpContext_addHeaderMapValue t k v c))"
    "test_view (snd (TestHttpContext_addHeaderMapValue t k v c)) =
      (test_view c)\<lparr>v_hdrs := hupd k (Some (appended (v_hdrs (test_view c) k) v)) (v_hdrs (test_view c))\<rparr>"
    "fst (TestHttpContext_replaceHeaderMapValue t k v c) = Ok"
    "test_good (snd (TestHttpContext_replaceHeaderMapValue t k v c))"
    "test_view (snd (TestHttpContext_replaceHeaderMapValue t k v c)) =
      (test_view c)\<lparr>v_hdrs := hupd k (Some v) (v_hdrs (test_view c))\<rparr>"
    "fst (TestHttpContext_removeHeaderMapValue t k c) = Ok"
    "test_good (snd (TestHttpContext_removeHeaderMapValue t k c))"
    "test_view (snd (TestHttpContext_removeHeaderMapValue t k c)) =
      (test_view c)\<lparr>v_hdrs := hupd k None (v_hdrs (test_view c))\<rparr>"
    "fst (TestHttpContext_setHeaderMapPairs t ps c) = Ok"
    "test_good (snd (TestHttpContext_setHeaderMapPairs t ps c))"
    "test_view (snd (TestHttpContext_setHeaderMapPairs t ps c)) = (test_view c)\<lparr>v_hdrs := happend ps\<rparr>"
proof -
  let ?hs = "headers (result c)"
  have sorted: "hdr_sorted ?hs" using assms(1) by (simp add: test_good_def)
  have hdrs: "v_hdrs (test_view c) = (\<lambda>k. hdr_find k ?hs)" by (simp add: test_view_def)
  note defs = TestHttpContext_addHeaderMapValue_def TestHttpContext_replaceHeaderMapValue_def
    TestHttpContext_removeHeaderMapValue_def TestHttpContext_setHeaderMapPairs_def
  show "fst (TestHttpContext_addHeaderMapValue t k v c) = Ok"
    "fst (TestHttpContext_replaceHeaderMapValue t k v c) = Ok"
    "fst (TestHttpContext_removeHeaderMapValue t k c) = Ok"
    "fst (TestHttpContext_setHeaderMapPairs t ps c) = Ok"
    using assms(2) by (simp_all add: defs)
  show "test_good (snd (TestHttpContext_addHeaderMapValue t k v c))"
    "test_good (snd (TestHttpContext_replaceHeaderMapValue t k v c))"
    "test_good (snd (TestHttpContext_removeHeaderMapValue t k c))"
    using assms(2) sorted by (simp_all add: defs test_good_def set_headers_def hdr_sorted_erase)
  show "test_view (snd (TestHttpContext_addHeaderMapValue t k v c)) =
      (test_view c)\<lparr>v_hdrs := hupd k (Some (appended (v_hdrs (test_view c) k) v)) (v_hdrs (test_view c))\<rparr>"
    "test_view (snd (TestHttpContext_replaceHeaderMapValue t k v c)) =
      (test_view c)\<lparr>v_hdrs := hupd k (Some v) (v_hdrs (test_view c))\<rparr>"
    "test_view (snd (TestHttpContext_removeHeaderMapValue t k c)) =
      (test_view c)\<lparr>v_hdrs := hupd k None (v_hdrs (test_view c))\<rparr>"
    using assms(2) sorted
    by (simp_all add: defs hdrs test_view_set_headers hupd_def)
  have set_nil: "set_headers f (set_headers (\<lambda>_. []) c) = set_headers (\<lambda>_. f []) c" for f
    by (simp add: set_headers_def)
  have eq: "snd (TestHttpContext_setHeaderMapPairs t ps c) =
      set_headers (\<lambda>_. foldl (\<lambda>m (k, v). InsertOrAppend k v m) [] ps) c"
    using assms(2) foldl_addHeaderMapValue [of "set_headers (\<lambda>_. []) c" t ps]
    by (simp add: TestHttpContext_setHeaderMapPairs_def set_nil) (simp add: set_headers_def)
  show "test_good (snd (TestHttpContext_setHeaderMapPairs t ps c))"
    using foldl_InsertOrAppend [of "[]" ps] by (simp add: eq test_good_def set_headers_def)
  show "test_view (snd (TestHttpContext_setHeaderMapPairs t ps c)) = (test_view c)\<lparr>v_hdrs := happend ps\<rparr>"
    using foldl_InsertOrAppend [of "[]" ps]
    by (simp add: eq test_view_set_headers happend_def fun_eq_iff)
qed

lemma test_buffer_laws:
  assumes "TestHttpContext_getBuffer b c = Some s" and "length s < 2 ^ 32"
  shows "i + n \<le> length s \<Longrightarrow> test_getBufferBytes b i n c = WasmData (Some (take n (drop i s)))"
    and "b \<noteq> PluginConfiguration \<Longrightarrow> i \<le> length s \<Longrightarrow> n < 2 ^ 32 \<Longrightarrow>
      test_setBuffer b i n r c = (Ok, c\<lparr>body_buffer := replace_at i n r s\<rparr>)"
proof -
  have big: "length s < 2 ^ 64" using assms(2) by simp
  show "test_getBufferBytes b i n c = WasmData (Some (take n (drop i s)))" if "i + n \<le> length s"
    using that big assms(1) by (simp add: test_getBufferBytes_def copyTo_in_bounds)
  show "test_setBuffer b i n r c = (Ok, c\<lparr>body_buffer := replace_at i n r s\<rparr>)"
    if "b \<noteq> PluginConfiguration" "i \<le> length s" "n < 2 ^ 32"
    using that big assms(1) by (simp add: test_setBuffer_def copyFrom_in_bounds)
qed

lemma test_view_set_body:
  assumes "TestHttpContext_getBuffer b c = Some s" and "b \<noteq> PluginConfiguration"
  shows "test_view (c\<lparr>body_buffer := s'\<rparr>) = (test_view c)\<lparr>v_body := (v_body (test_view c))(b := Some s')\<rparr>"
  using assms
  by (auto simp: test_view_def TestHttpContext_getBuffer_def fun_eq_iff
      split: WasmBufferType.splits if_splits)

lemma test_send_laws:
  assumes "current_callback c \<in> {CbRequestHeaders, CbResponseHeaders, CbRequestBody}"
  shows "fst (TestHttpContext_sendLocalResponse code txt hs g det c) = Ok"
    "test_good (snd (TestHttpContext_sendLocalResponse code txt hs g det c))"
    "test_view (snd (TestHttpContext_sendLocalResponse code txt hs g det c)) =
       (test_view c)\<lparr>v_reply := Some (code, det, txt), v_hdrs := hupds hs\<rparr>"
  using assms foldl_hdr_set [of "[]" hs]
  by (auto simp: TestHttpContext_sendLocalResponse_def test_good_def test_view_def hupds_def fun_eq_iff
      TestHttpContext_getBuffer_def split: WasmBufferType.splits)

lemma test_log_laws:
  "test_good c \<Longrightarrow> test_good (TestContext_log l m c)"
  "test_view (TestContext_log l m c) = v_log l m (test_view c)"
  by (simp_all add: TestContext_log_def test_good_def test_view_def v_log_def fun_eq_iff
      TestHttpContext_getBuffer_def Let_def split: WasmBufferType.split)

lemma test_property_law:
  assumes "absl_strings A" and "list_all path_segment p"
  shows "test_getProperty A p c = map_option (\<lambda>x. WasmData (Some x)) (v_props (test_view c) p)"
  using assms
  by (simp add: test_getProperty_def TestHttpContext_getProperty_def absl_strings.StrJoin
      absl_strings.StrSplitSkipEmpty split_segments split: option.split)

lemma test_env: "absl_strings A \<Longrightarrow> plugin_env A (test_sdk A) test_view test_good"
proof (intro plugin_env.intro wasm_host.intro)
  assume A: "absl_strings A"
  then show "absl_strings A" .
  show "getHeaderMapValue (test_sdk A) t k h = WasmData (Some v)"
    if "test_good h" "v_phase (test_view h) = Some t" "v_hdrs (test_view h) k = Some v" for h t k v
    using that by (simp add: test_sdk_def data_of_def TestHttpContext_getHeaderMapValue_def)
  show "getHeaderMapValue (test_sdk A) t k h = NullPtr \<or> getHeaderMapValue (test_sdk A) t k h = WasmData None"
    if "test_good h" "v_phase (test_view h) = Some t" "v_hdrs (test_view h) k = None" for h t k
    using that by (simp add: test_sdk_def data_of_def TestHttpContext_getHeaderMapValue_def)
  show "happend (getHeaderMapPairs (test_sdk A) t h) = v_hdrs (test_view h) \<and>
      hupds (getHeaderMapPairs (test_sdk A) t h) = v_hdrs (test_view h)"
    if "test_good h" "v_phase (test_view h) = Some t" for h t
    using that
    by (simp add: test_sdk_def TestHttpContext_getHeaderMapPairs_def test_good_def
        happend_sorted hupds_sorted) (simp add: test_view_def)
qed (simp_all add: test_sdk_def test_headers_laws test_buffer_laws test_view_set_body test_send_laws
      test_log_laws test_property_law)

interpretation tc: plugin_env absl_ref "test_sdk absl_ref" test_view test_good
  by (rule test_env) (rule absl_ref_spec)

section \<open>Running a callback in a phase\<close>

text \<open>The context a headers callback starts in, and callbacks that keep no state of their own.\<close>

definition request_phase :: "headers \<Rightarrow> TestHttpContext \<Rightarrow> TestHttpContext" where
  "request_phase hs c = c\<lparr>phase_logs := [], result := empty_Result\<lparr>headers := hs\<rparr>,
     phase := Some RequestHeaders, current_callback := CbRequestHeaders\<rparr>"

definition response_phase :: "headers \<Rightarrow> TestHttpContext \<Rightarrow> TestHttpContext" where
  "response_phase hs c = c\<lparr>phase_logs := [], result := empty_Result\<lparr>headers := hs\<rparr>,
     phase := Some ResponseHeaders, current_callback := CbResponseHeaders\<rparr>"

definition response_body_phase :: "string \<Rightarrow> TestHttpContext \<Rightarrow> TestHttpContext" where
  "response_body_phase b c = c\<lparr>phase_logs := [], result := empty_Result, body_buffer := b,
     current_callback := CbResponseBody\<rparr>"

definition request_body_phase :: "string \<Rightarrow> TestHttpContext \<Rightarrow> TestHttpContext" where
  "request_body_phase b c = c\<lparr>phase_logs := [], result := empty_Result, body_buffer := b,
     current_callback := CbRequestBody\<rparr>"

definition stateless :: "('h \<Rightarrow> 's \<times> 'h) \<Rightarrow> nat \<Rightarrow> bool \<Rightarrow> 'p \<times> 'h \<Rightarrow> 's \<times> 'p \<times> 'h" where
  "stateless f n eos = (\<lambda>(p, h). let (st, h') = f h in (st, p, h'))"

lemma empty_Result_sel [simp]:
  "header_status empty_Result = Continue" "headers empty_Result = []"
  "body_status empty_Result = DataContinue" "body empty_Result = []"
  "http_code empty_Result = 0" "grpc_code empty_Result = 0" "details empty_Result = []"
  by (simp_all add: empty_Result_def)

lemma phase_good [simp]:
  "test_good (request_phase hs c) = hdr_sorted hs" "test_good (response_phase hs c) = hdr_sorted hs"
  "test_good (response_body_phase b c)" "test_good (request_body_phase b c)"
  by (simp_all add: test_good_def request_phase_def response_phase_def response_body_phase_def
      request_body_phase_def)

lemma request_phase_view [simp]:
  "phase (request_phase hs c) = Some RequestHeaders"
  "current_callback (request_phase hs c) = CbRequestHeaders"
  "headers (result (request_phase hs c)) = hs"
  "phase_logs (request_phase hs c) = []"
  "min_log_level (request_phase hs c) = min_log_level c"
  "properties (request_phase hs c) = properties c"
  "sent_local_response (request_phase hs c) = sent_local_response c"
  by (simp_all add: request_phase_def)

lemma response_phase_view [simp]:
  "phase (response_phase hs c) = Some ResponseHeaders"
  "current_callback (response_phase hs c) = CbResponseHeaders"
  "headers (result (response_phase hs c)) = hs"
  "phase_logs (response_phase hs c) = []"
  "min_log_level (response_phase hs c) = min_log_level c"
  "properties (response_phase hs c) = properties c"
  "sent_local_response (response_phase hs c) = sent_local_response c"
  by (simp_all add: response_phase_def)

lemma body_phase_view [simp]:
  "TestHttpContext_getBuffer HttpResponseBody (response_body_phase b c) = Some b"
  "TestHttpContext_getBuffer HttpRequestBody (request_body_phase b c) = Some b"
  by (simp_all add: response_body_phase_def request_body_phase_def TestHttpContext_getBuffer_def)

lemma getBuffer_config [simp]: "TestHttpContext_getBuffer PluginConfiguration c = Some (plugin_config c)"
  by (simp add: TestHttpContext_getBuffer_def)

lemma test_view_replyD:
  "v_reply (test_view c) = Some (code, det, rtext) \<Longrightarrow>
     sent_local_response c \<and> http_code (result c) = code \<and> details (result c) = det \<and>
     body (result c) = rtext"
  by (auto simp: test_view_def split: if_splits)

lemma test_view_noreply:
  "v_reply (test_view c) = None \<longleftrightarrow> \<not> sent_local_response c"
  by (auto simp: test_view_def)

text \<open>The end of a headers phase stores the status of the callback.\<close>

definition leave_phase :: "FilterHeadersStatus \<Rightarrow> TestHttpContext \<Rightarrow> TestHttpContext" where
  "leave_phase st c = c\<lparr>result := (result c)\<lparr>header_status := st\<rparr>, phase := None\<rparr>"

lemma leave_phase_sel [simp]:
  "header_status (result (leave_phase st c)) = st"
  "headers (result (leave_phase st c)) = headers (result c)"
  "http_code (result (leave_phase st c)) = http_code (result c)"
  "body (result (leave_phase st c)) = body (result c)"
  "details (result (leave_phase st c)) = details (result c)"
  "sent_local_response (leave_phase st c) = sent_local_response c"
  "phase_logs (leave_phase st c) = phase_logs c"
  by (simp_all add: leave_phase_def)

lemma SendRequestHeaders_run:
  "f (length hs) False (p, request_phase hs c) = (st, p', c') \<Longrightarrow>
     SendRequestHeaders f hs (p, c) = (result (leave_phase st c'), p', leave_phase st c')"
  by (simp add: SendRequestHeaders_def request_phase_def leave_phase_def)

lemma SendResponseHeaders_run:
  "\<not> sent_local_response c \<Longrightarrow> f (length hs) False (p, response_phase hs c) = (st, p', c') \<Longrightarrow>
     SendResponseHeaders f hs (p, c) = (result (leave_phase st c'), p', leave_phase st c')"
  by (simp add: SendResponseHeaders_def response_phase_def leave_phase_def)

lemma SendRequestHeaders_stateless:
  "f (request_phase hs c) = (st, c') \<Longrightarrow>
     SendRequestHeaders (stateless f) hs (p, c) = (result (leave_phase st c'), p, leave_phase st c')"
  by (simp add: SendRequestHeaders_def stateless_def request_phase_def leave_phase_def)

lemma SendResponseHeaders_stateless:
  "\<not> sent_local_response c \<Longrightarrow> f (response_phase hs c) = (st, c') \<Longrightarrow>
     SendResponseHeaders (stateless f) hs (p, c) = (result (leave_phase st c'), p, leave_phase st c')"
  by (simp add: SendResponseHeaders_def stateless_def response_phase_def leave_phase_def)

text \<open>Callbacks on the body without state of their own get the length of the chunk.\<close>

definition stateless_body :: "(nat \<Rightarrow> bool \<Rightarrow> 'h \<Rightarrow> 's \<times> 'h) \<Rightarrow> nat \<Rightarrow> bool \<Rightarrow> 'p \<times> 'h \<Rightarrow> 's \<times> 'p \<times> 'h" where
  "stateless_body f n eos = (\<lambda>(p, h). let (st, h') = f n eos h in (st, p, h'))"

lemma SendRequestBody_stateless:
  "\<not> sent_local_response c \<Longrightarrow> f (length b) eos (request_body_phase b c) = (st, c') \<Longrightarrow>
     fst (SendRequestBody (stateless_body f) b eos (p, c)) =
       (result c')\<lparr>body_status := st, body := body_buffer c'\<rparr>"
  by (simp add: SendRequestBody_def stateless_body_def request_body_phase_def)

lemma SendResponseBody_stateless:
  "\<not> sent_local_response c \<Longrightarrow> f (length b) eos (response_body_phase b c) = (st, c') \<Longrightarrow>
     fst (SendResponseBody (stateless_body f) b eos (p, c)) =
       (result c')\<lparr>body_status := st, body := body_buffer c'\<rparr>"
  by (simp add: SendResponseBody_def stateless_body_def response_body_phase_def)

lemma getBuffer_body:
  "TestHttpContext_getBuffer HttpRequestBody c = Some s \<Longrightarrow> body_buffer c = s"
  "TestHttpContext_getBuffer HttpResponseBody c = Some s \<Longrightarrow> body_buffer c = s"
  by (auto simp: TestHttpContext_getBuffer_def split: if_splits)

lemma test_viewD:
  assumes "test_view c = v"
  shows "hdr_find k (headers (result c)) = v_hdrs v k" "phase_logs c = v_logs v"
    "sent_local_response c \<longleftrightarrow> v_reply v \<noteq> None"
    "v_reply v = Some (code, det, rtext) \<Longrightarrow>
       http_code (result c) = code \<and> details (result c) = det \<and> body (result c) = rtext"
    "TestHttpContext_getBuffer b c = v_body v b"
  unfolding assms [symmetric] using test_view_replyD [of c code det rtext]
  by (auto simp: test_view_noreply)

lemma test_logs_onlyD:
  assumes "logs_only v (test_view c)"
  shows "hdr_find k (headers (result c)) = v_hdrs v k"
    "sent_local_response c \<longleftrightarrow> v_reply v \<noteq> None"
    "v_reply v = Some (code, det, rtext) \<Longrightarrow>
       http_code (result c) = code \<and> details (result c) = det \<and> body (result c) = rtext"
    "TestHttpContext_getBuffer b c = v_body v b"
  using logs_onlyD [OF assms] test_viewD [where c = c, OF refl]
  by (simp_all flip: test_view_sel)

lemma reply_None_in_phase [simp]:
  "v_reply (test_view (response_phase hs c)) = None \<longleftrightarrow> \<not> sent_local_response c"
  "v_reply (test_view (request_phase hs c)) = None \<longleftrightarrow> \<not> sent_local_response c"
  by (simp_all add: test_view_noreply)

section \<open>Lemmas for the properties of the context\<close>

lemma habs_lower: "habs hs (map tolower k) = hdr_find k hs"
  by (simp add: hdr_find_habs)

lemma habs_not_lower: "map tolower x \<noteq> x \<Longrightarrow> habs hs x = None"
  by (induction hs) (auto simp: habs_def o_def)

lemma habs_eqI:
  assumes "\<And>x. hdr_find x hs = f (map tolower x)" and "\<And>x. map tolower x \<noteq> x \<Longrightarrow> f x = None"
  shows "habs hs = f"
proof
  fix x
  show "habs hs x = f x"
    using assms(1) [of x] assms(2) [of x] habs_not_lower [of x hs] habs_lower [of hs x]
    by (cases "map tolower x = x") auto
qed

lemma map_tolower_idem [simp]: "map tolower (map tolower k) = map tolower k"
  by (simp add: o_def)

lemma map_tolower_fixed: "map tolower x \<noteq> x \<Longrightarrow> x \<noteq> map tolower k"
  by (metis map_tolower_idem)

section \<open>Properties of the context\<close>

text \<open>C1: The header map of the test context refines a partial function on lower-cased header
  names: insertion with appending, assignment and removal change the function at that one name
  only, and all of them keep the names strictly increasing in the case-insensitive order.\<close>

theorem headers_refine_caseless_map:
  assumes "hdr_sorted hs"
  shows "habs (InsertOrAppend k v hs) =
           (habs hs)(map tolower k \<mapsto> appended (habs hs (map tolower k)) v) \<and>
         habs (hdr_set k v hs) = (habs hs)(map tolower k \<mapsto> v) \<and>
         habs (hdr_erase k hs) = (habs hs)(map tolower k := None) \<and>
         hdr_sorted (InsertOrAppend k v hs) \<and> hdr_sorted (hdr_set k v hs) \<and>
         hdr_sorted (hdr_erase k hs)"
proof (intro conjI)
  show "habs (InsertOrAppend k v hs) =
      (habs hs)(map tolower k \<mapsto> appended (habs hs (map tolower k)) v)"
    by (rule habs_eqI) (use assms in \<open>auto simp: habs_lower habs_not_lower map_tolower_fixed
        same_key_def\<close>)
  show "habs (hdr_set k v hs) = (habs hs)(map tolower k \<mapsto> v)"
    by (rule habs_eqI) (use assms in \<open>auto simp: habs_lower habs_not_lower map_tolower_fixed
        same_key_def\<close>)
  show "habs (hdr_erase k hs) = (habs hs)(map tolower k := None)"
    by (rule habs_eqI) (use assms in \<open>auto simp: habs_lower habs_not_lower map_tolower_fixed
        same_key_def\<close>)
qed (use assms in \<open>simp_all add: hdr_sorted_erase\<close>)

theorem headers_refine_caseless_map_witness:
  "habs (InsertOrAppend ''Cookie'' ''b'' [(''cookie'', ''a'')]) ''cookie'' = Some ''a, b''"
proof -
  have sorted: "hdr_sorted [(''cookie'', ''a'')]" by (simp add: hdr_sorted_def)
  have lower: "map tolower ''Cookie'' = ''cookie''" by (simp add: ascii_eval)
  have "habs [(''cookie'', ''a'')] ''cookie'' = Some ''a''" by (simp add: habs_def ascii_eval)
  then show ?thesis
    unfolding conjunct1 [OF headers_refine_caseless_map [OF sorted, of "''Cookie''" "''b''"]] lower
    by (simp add: appended_def)
qed



text \<open>C7: A header call for a map that is not the one of the current phase is rejected with
  \<open>BadArgument\<close> and leaves the whole context unchanged; reads are rejected in the same way.\<close>

theorem wrong_phase_rejected:
  assumes "phase c \<noteq> Some t"
  shows "TestHttpContext_addHeaderMapValue t k v c = (BadArgument, c) \<and>
         TestHttpContext_replaceHeaderMapValue t k v c = (BadArgument, c) \<and>
         TestHttpContext_removeHeaderMapValue t k c = (BadArgument, c) \<and>
         TestHttpContext_setHeaderMapPairs t ps c = (BadArgument, c) \<and>
         TestHttpContext_getHeaderMapValue t k c = Inl BadArgument \<and>
         TestHttpContext_getHeaderMapPairs t c = Inl BadArgument \<and>
         TestHttpContext_getHeaderMapSize t c = Inl BadArgument"
  using assms by (simp add: context_defs)

theorem wrong_phase_rejected_witness:
  "TestHttpContext_addHeaderMapValue ResponseHeaders ''a'' ''b''
     (request_phase [] (new_stream Info None 0 [] [])) =
   (BadArgument, request_phase [] (new_stream Info None 0 [] []))"
  using wrong_phase_rejected [of "request_phase [] (new_stream Info None 0 [] [])" ResponseHeaders
      "''a''" "''b''" "[]"]
  by simp

text \<open>C8: Once a local response has been sent, no later phase of the stream reaches the plugin: the
  three remaining operations return the empty result for every callback, leave the plugin state
  alone, and keep the stream in that condition.\<close>

theorem local_response_ends_stream:
  assumes "sent_local_response c"
  shows "\<exists>c'. sent_local_response c' \<and>
           SendRequestBody onRequestBody b eos (p, c) = (empty_Result, p, c') \<and>
           SendResponseHeaders onResponseHeaders hs (p, c) = (empty_Result, p, c') \<and>
           SendResponseBody onResponseBody b' eos' (p, c) = (empty_Result, p, c')"
  using assms by (simp add: send_defs)

definition replied :: TestHttpContext where
  "replied = snd (TestHttpContext_sendLocalResponse 403 ''no'' [] 0 []
     (request_phase [] (new_stream Info None 0 [] [])))"

theorem local_response_ends_stream_witness:
  "\<exists>c'. sent_local_response c' \<and>
     SendRequestBody (\<lambda>n e s. (StopIterationAndBuffer, s)) ''x'' True ((), replied) = (empty_Result, (), c') \<and>
     SendResponseHeaders (\<lambda>n e s. (StopIteration, s)) [] ((), replied) = (empty_Result, (), c') \<and>
     SendResponseBody (\<lambda>n e s. (StopIterationAndBuffer, s)) ''y'' True ((), replied) = (empty_Result, (), c')"
  by (rule local_response_ends_stream)
     (simp add: replied_def TestHttpContext_sendLocalResponse_def)



text \<open>The bounds check alone does not protect the buffer for arbitrary \<^verbatim>\<open>size_t\<close> arguments: with
  the largest offset the sum wraps around, the check passes for every non-empty buffer, and the
  read starts out of bounds.\<close>

theorem copyTo_wraps:
  assumes "buf \<noteq> []" and "length buf < 2 ^ 63"
  shows "Buffer_copyTo 0xFFFFFFFFFFFFFFFF 2 buf = CopyOutOfBounds"
proof -
  have m1: "unat (0xFFFFFFFFFFFFFFFF :: u64) = 2 ^ 64 - 1" by simp
  have sum: "unat (0xFFFFFFFFFFFFFFFF + 2 :: u64) = 1" by simp
  have "\<not> length buf < 1" using assms(1) by (simp add: Suc_le_eq)
  with assms(2) show ?thesis unfolding Buffer_copyTo_def m1 sum by simp
qed

theorem copyTo_wraps_witness: "Buffer_copyTo 0xFFFFFFFFFFFFFFFF 2 ''a'' = CopyOutOfBounds"
  by (rule copyTo_wraps) simp_all

text \<open>C10: A local response sent while the request body is processed loses its body text: the result
  of the operation carries the response code, but its body is whatever is left in the body
  buffer.\<close>

theorem request_body_reply_loses_text:
  assumes "\<not> sent_local_response c"
    and "onRequestBody = (\<lambda>n eos (p, c).
           (StopIterationNoBuffer, p, snd (TestHttpContext_sendLocalResponse code txt hs g det c)))"
  shows "http_code (fst (SendRequestBody onRequestBody b eos (p, c))) = code \<and>
         body (fst (SendRequestBody onRequestBody b eos (p, c))) = b"
  using assms by (simp add: SendRequestBody_def TestHttpContext_sendLocalResponse_def)

theorem request_body_reply_loses_text_witness:
  "body (fst (SendRequestBody (\<lambda>n eos (p, c).
      (StopIterationNoBuffer, p, snd (TestHttpContext_sendLocalResponse 403 ''denied'' [] 0 [] c)))
      ''payload'' True ((), new_stream Info None 0 [] []))) = ''payload''"
  using request_body_reply_loses_text [of "new_stream Info None 0 [] []" _ 403 "''denied''" "[]" 0 "[]"
      "''payload''" True "()"]
  by (simp add: new_stream_def)

end
