(* ===== verification/Header_Samples.thy ===== *)
theory Header_Samples
  imports Test_Host
begin

text \<open>
  The sample plugins that look at and change header values only (\<^verbatim>\<open>plugins/samples/<name>/plugin.cc\<close>,
  one group of definitions per plugin): add\_request\_header, add\_response\_header, remove\_cookie,
  docs\_first\_plugin, overwrite\_header, normalize\_header, add\_device\_type, geo\_directional\_origin,
  docs\_plugin\_config, log\_calls, testing, local\_reply and body\_chunking. A callback takes the SDK and
  the host state and returns the filter status and the new host state; a callback that uses a
  header pointer without testing it returns \<^const>\<open>None\<close> for the null pointer.
\<close>

text \<open>The view of a data pointer that the code uses without a test.\<close>

fun deref :: "WasmDataPtr \<Rightarrow> string option" where
  "deref NullPtr = None"
| "deref (WasmData None) = Some []"
| "deref (WasmData (Some s)) = Some s"

section \<open>Plugins without state\<close>

definition add_request_header_onRequestHeaders :: "'h sdk \<Rightarrow> 'h \<Rightarrow> FilterHeadersStatus \<times> 'h" where
  "add_request_header_onRequestHeaders S h =
     (let h1 = snd (addRequestHeader S ''Message'' ''hello'' h);
          h2 = snd (replaceRequestHeader S ''Welcome'' ''warm'' h1)
      in (Continue, h2))"

definition add_response_header_onResponseHeaders :: "'h sdk \<Rightarrow> 'h \<Rightarrow> FilterHeadersStatus \<times> 'h" where
  "add_response_header_onResponseHeaders S h =
     (let msg = getResponseHeader S ''Message'' h;
          h1 = (if is_set msg \<and> wview msg = ''foo''
                then snd (addResponseHeader S ''Message'' ''bar'' h) else h);
          h2 = snd (removeResponseHeader S ''Welcome'' h1)
      in (Continue, h2))"

definition remove_cookie_onResponseHeaders :: "'h sdk \<Rightarrow> 'h \<Rightarrow> FilterHeadersStatus \<times> 'h" where
  "remove_cookie_onResponseHeaders S h =
     (Continue, or_log S ''Failed to remove Set-Cookie header''
        (removeResponseHeader S ''Set-Cookie'' h))"

definition docs_first_plugin_onRequestHeaders :: "'h sdk \<Rightarrow> 'h \<Rightarrow> FilterHeadersStatus \<times> 'h" where
  "docs_first_plugin_onRequestHeaders S h =
     (let h1 = LOG_INFO S ''onRequestHeaders: hello from wasm'' h;
          h2 = or_log S ''Failed to replace :authority header''
                 (replaceRequestHeader S '':authority'' ''service-extensions.com'' h1);
          h3 = or_log S ''Failed to replace :path header''
                 (replaceRequestHeader S '':path'' ''/'' h2)
      in (Continue, h3))"

definition docs_first_plugin_onResponseHeaders :: "'h sdk \<Rightarrow> 'h \<Rightarrow> FilterHeadersStatus \<times> 'h" where
  "docs_first_plugin_onResponseHeaders S h =
     (let h1 = LOG_INFO S ''onResponseHeaders: hello from wasm'' h;
          h2 = or_log S ''Failed to add response header''
                 (addResponseHeader S ''hello'' ''service-extensions'' h1)
      in (Continue, h2))"

definition overwrite_header_onRequestHeaders ::
    "'h sdk \<Rightarrow> 'h \<Rightarrow> (FilterHeadersStatus \<times> 'h) option" where
  "overwrite_header_onRequestHeaders S h =
     (case deref (getRequestHeader S ''RequestHeader'' h) of
        None \<Rightarrow> None
      | Some v \<Rightarrow> Some (Continue,
          if 0 < length v
          then or_log S ''Failed to replace RequestHeader''
                 (replaceRequestHeader S ''RequestHeader'' ''changed'' h)
          else h))"

definition overwrite_header_onResponseHeaders :: "'h sdk \<Rightarrow> 'h \<Rightarrow> FilterHeadersStatus \<times> 'h" where
  "overwrite_header_onResponseHeaders S h =
     (Continue, or_log S ''Failed to replace ResponseHeader''
        (replaceResponseHeader S ''ResponseHeader'' ''changed'' h))"

definition normalize_header_onRequestHeaders :: "absl \<Rightarrow> 'h sdk \<Rightarrow> 'h \<Rightarrow> FilterHeadersStatus \<times> 'h" where
  "normalize_header_onRequestHeaders A S h =
     (let mobile_header = getRequestHeader S ''Sec-CH-UA-Mobile'' h
      in if is_set mobile_header \<and> wview mobile_header = ''?1''
         then (Continue, snd (addRequestHeader S ''client-device-type'' ''mobile'' h))
         else
           let user_agent = getRequestHeader S ''User-Agent'' h
           in if is_set user_agent \<and> StrContainsIgnoreCase A (wview user_agent) ''mobile''
              then (Continue, snd (addRequestHeader S ''client-device-type'' ''mobile'' h))
              else (Continue, snd (addRequestHeader S ''client-device-type'' ''unknown'' h)))"

definition geo_directional_origin_onRequestHeaders ::
    "'h sdk \<Rightarrow> 'h \<Rightarrow> (FilterHeadersStatus \<times> 'h) option" where
  "geo_directional_origin_onRequestHeaders S h =
     (case getProperty S [''source'', ''client_region''] h of
        None \<Rightarrow> Some (Continue, snd (removeRequestHeader S ''x-country-code'' h))
      | Some country_property \<Rightarrow>
          (case deref country_property of
             None \<Rightarrow> None
           | Some country_view \<Rightarrow>
               if country_view \<noteq> []
               then Some (Continue, snd (replaceRequestHeader S ''x-country-code'' country_view h))
               else Some (Continue, snd (removeRequestHeader S ''x-country-code'' h))))"

definition local_reply_onRequestHeaders :: "'h sdk \<Rightarrow> 'h \<Rightarrow> FilterHeadersStatus \<times> 'h" where
  "local_reply_onRequestHeaders S h =
     (StopIteration, snd (sendLocalResponse S 200 [] ''Hello World''
        [(''Content-Type'', ''text/plain''), ('':status'', ''200'')] h))"

definition local_reply_onRequestBody :: "'h \<Rightarrow> FilterDataStatus \<times> 'h" where
  "local_reply_onRequestBody h = (DataContinue, h)"

definition local_reply_onResponseHeaders :: "'h \<Rightarrow> FilterHeadersStatus \<times> 'h" where
  "local_reply_onResponseHeaders h = (Continue, h)"

definition body_chunking_onRequestBody :: "'h sdk \<Rightarrow> nat \<Rightarrow> 'h \<Rightarrow> FilterDataStatus \<times> 'h" where
  "body_chunking_onRequestBody S chunk_len h =
     (if chunk_len = 0
      then (DataContinue, LOG_ERROR S ''Received empty chunk in onRequestBody'' h)
      else (DataContinue, or_log S ''Failed to set request body buffer''
              (setBuffer S HttpRequestBody chunk_len 0 ''foo'' h)))"

definition body_chunking_onResponseBody :: "'h sdk \<Rightarrow> nat \<Rightarrow> 'h \<Rightarrow> FilterDataStatus \<times> 'h" where
  "body_chunking_onResponseBody S chunk_len h =
     (if chunk_len = 0
      then (DataContinue, LOG_ERROR S ''Received empty chunk in onResponseBody'' h)
      else (DataContinue, or_log S ''Failed to set response body buffer''
              (setBuffer S HttpResponseBody chunk_len 0 ''bar'' h)))"

section \<open>add\_device\_type\<close>

definition BotKeywords :: "string list" where
  "BotKeywords = [''bot'', ''crawler'', ''spider'', ''googlebot'', ''bingbot'', ''slurp'',
     ''duckduckbot'', ''yandexbot'', ''baiduspider'']"

definition TabletKeywords :: "string list" where
  "TabletKeywords = [''ipad'', ''tablet'', ''kindle'', ''tab'', ''playbook'', ''nexus 7'',
     ''sm-t'', ''pad'', ''gt-p'']"

definition AndroidIndicators :: "string list" where
  "AndroidIndicators = [''tablet'', ''tab'', ''pad'']"

definition MobileKeywords :: "string list" where
  "MobileKeywords = [''mobile'', ''android'', ''iphone'', ''ipod'', ''blackberry'',
     ''windows phone'', ''webos'', ''iemobile'', ''opera mini'']"

definition DesktopKeywords :: "string list" where
  "DesktopKeywords = [''mozilla'', ''chrome'', ''safari'', ''firefox'',
     ''msie'', ''opera'', ''edge'', ''chromium'', ''vivaldi'']"

fun ContainsAny :: "absl \<Rightarrow> string \<Rightarrow> string list \<Rightarrow> bool" where
  "ContainsAny A ua [] = False"
| "ContainsAny A ua (sub # subs) = (if StrContains A ua sub then True else ContainsAny A ua subs)"

definition IsBot :: "absl \<Rightarrow> string \<Rightarrow> bool" where
  "IsBot A ua = ContainsAny A ua BotKeywords"

definition IsTablet :: "absl \<Rightarrow> string \<Rightarrow> bool" where
  "IsTablet A ua =
     (if ContainsAny A ua TabletKeywords then True
      else if StrContains A ua ''android'' then ContainsAny A ua AndroidIndicators
      else False)"

definition IsMobile :: "absl \<Rightarrow> string \<Rightarrow> bool" where
  "IsMobile A ua = ContainsAny A ua MobileKeywords"

definition IsDesktop :: "absl \<Rightarrow> string \<Rightarrow> bool" where
  "IsDesktop A ua = ContainsAny A ua DesktopKeywords"

definition DetectDeviceType :: "absl \<Rightarrow> string \<Rightarrow> string" where
  "DetectDeviceType A ua =
     (if IsBot A ua then ''bot''
      else if IsTablet A ua then ''tablet''
      else if IsMobile A ua then ''phone''
      else if IsDesktop A ua then ''desktop''
      else ''other'')"

definition add_device_type_onRequestHeaders :: "absl \<Rightarrow> 'h sdk \<Rightarrow> 'h \<Rightarrow> FilterHeadersStatus \<times> 'h" where
  "add_device_type_onRequestHeaders A S h =
     (let user_agent_ptr = getRequestHeader S ''user-agent'' h;
          user_agent = (if is_set user_agent_ptr then AsciiStrToLower A (wview user_agent_ptr) else []);
          device_type = DetectDeviceType A user_agent
      in (Continue, snd (replaceRequestHeader S ''x-device-type'' device_type h)))"

section \<open>Plugins that log\<close>

text \<open>docs\_plugin\_config: the root context keeps the secret, the stream context refers to it.\<close>

definition docs_plugin_config_onConfigure :: "'h sdk \<Rightarrow> nat \<Rightarrow> string \<times> 'h \<Rightarrow> bool \<times> string \<times> 'h" where
  "docs_plugin_config_onConfigure S config_len = (\<lambda>(secret, h).
     let buffer = getBufferBytes S PluginConfiguration 0 config_len h
     in if \<not> is_set buffer
        then (False, secret, LOG_ERROR S ''Failed to retrieve plugin configuration'' h)
        else (True, wview buffer, h))"

definition docs_plugin_config_onRequestHeaders :: "'h sdk \<Rightarrow> string \<Rightarrow> 'h \<Rightarrow> FilterHeadersStatus \<times> 'h" where
  "docs_plugin_config_onRequestHeaders S secret h = (Continue, LOG_INFO S (''secret: '' @ secret) h)"

text \<open>log\_calls: one line per callback of the root and of the stream context.\<close>

datatype lifecycle = RootOnStart | RootOnConfigure | RootOnCreate | RootOnDelete | RootOnDone
  | HttpOnCreate | HttpOnDelete | HttpOnDone | HttpOnRequestHeaders | HttpOnResponseHeaders

primrec log_calls_message :: "lifecycle \<Rightarrow> string" where
  "log_calls_message RootOnStart = ''root onStart called''"
| "log_calls_message RootOnConfigure = ''root onConfigure called''"
| "log_calls_message RootOnCreate = ''root onCreate called''"
| "log_calls_message RootOnDelete = ''root onDelete called''"
| "log_calls_message RootOnDone = ''root onDone called''"
| "log_calls_message HttpOnCreate = ''http onCreate called''"
| "log_calls_message HttpOnDelete = ''http onDelete called''"
| "log_calls_message HttpOnDone = ''http onDone called''"
| "log_calls_message HttpOnRequestHeaders = ''http onRequestHeaders called''"
| "log_calls_message HttpOnResponseHeaders = ''http onResponseHeaders called''"

definition log_calls_callback :: "'h sdk \<Rightarrow> lifecycle \<Rightarrow> 'h \<Rightarrow> 'h" where
  "log_calls_callback S e h = LOG_INFO S (log_calls_message e) h"

definition log_calls_onRequestHeaders :: "'h sdk \<Rightarrow> 'h \<Rightarrow> FilterHeadersStatus \<times> 'h" where
  "log_calls_onRequestHeaders S h = (Continue, log_calls_callback S HttpOnRequestHeaders h)"

definition log_calls_onResponseHeaders :: "'h sdk \<Rightarrow> 'h \<Rightarrow> FilterHeadersStatus \<times> 'h" where
  "log_calls_onResponseHeaders S h = (Continue, log_calls_callback S HttpOnResponseHeaders h)"

text \<open>testing: \<open>id\<close> is the stream context's number, \<open>now i\<close> the clock at its \<open>i\<close>-th reading.\<close>

definition testing_onRequestHeaders :: "'h sdk \<Rightarrow> nat \<Rightarrow> 'h \<Rightarrow> FilterHeadersStatus \<times> 'h" where
  "testing_onRequestHeaders S ctx_id h =
     (Continue, LOG_DEBUG S (''request headers '' @ dec_nat ctx_id) h)"

fun testing_log_times :: "'h sdk \<Rightarrow> (nat \<Rightarrow> int) \<Rightarrow> nat list \<Rightarrow> 'h \<Rightarrow> 'h" where
  "testing_log_times S now [] h = h"
| "testing_log_times S now (i # is) h =
     testing_log_times S now is
       (LOG_INFO S (''time '' @ dec_nat i @ '': '' @ dec_int (now i)) h)"

definition testing_onResponseHeaders ::
    "'h sdk \<Rightarrow> nat \<Rightarrow> (nat \<Rightarrow> int) \<Rightarrow> 'h \<Rightarrow> (FilterHeadersStatus \<times> 'h) option" where
  "testing_onResponseHeaders S ctx_id now h =
     (let h1 = LOG_DEBUG S (''response headers '' @ dec_nat ctx_id) h;
          h2 = testing_log_times S now [1, 2, 3] h1;
          reply_header = getResponseHeader S ''reply-with-error'' h2
      in if \<not> is_set reply_header then None
         else if has_data reply_header
         then Some (StopAllIterationAndWatermark,
                    snd (sendLocalResponse S 500 ''extra'' ''fake error'' [(''error'', ''goaway'')] h2))
         else Some (Continue, h2))"

section \<open>Behaviour on any host that honours the contract\<close>

lemma deref_cases: "deref d = (if is_set d then Some (wview d) else None)"
  by (cases d rule: deref.cases) auto

context plugin_env
begin

lemma get_deref:
  assumes "good h" and "v_phase (view h) = Some t" and "v_hdrs (view h) k = Some v"
  shows "deref (getHeaderMapValue S t k h) = Some v"
  using get_Some [OF assms] by simp

lemma ContainsAny_iff: "ContainsAny A ua subs \<longleftrightarrow> (\<exists>sub \<in> set subs. sublist sub ua)"
  by (induction subs) (auto simp: contains_iff_sublist)

lemma IsTablet_eq: "IsTablet A ua \<longleftrightarrow> ContainsAny A ua TabletKeywords"
  by (auto simp: IsTablet_def ContainsAny_iff AndroidIndicators_def TabletKeywords_def)

lemma DetectDeviceType_eq:
  "DetectDeviceType A ua =
     (if \<exists>w \<in> set BotKeywords. sublist w ua then ''bot''
      else if \<exists>w \<in> set TabletKeywords. sublist w ua then ''tablet''
      else if \<exists>w \<in> set MobileKeywords. sublist w ua then ''phone''
      else if \<exists>w \<in> set DesktopKeywords. sublist w ua then ''desktop'' else ''other'')"
  by (simp only: DetectDeviceType_def IsBot_def IsTablet_eq IsMobile_def IsDesktop_def ContainsAny_iff)

lemma add_request_header_view:
  assumes "good h" and "v_phase (view h) = Some RequestHeaders"
  shows "fst (add_request_header_onRequestHeaders S h) = Continue"
    and "view (snd (add_request_header_onRequestHeaders S h)) =
      (view h)\<lparr>v_hdrs := hupd ''Welcome'' (Some ''warm'')
        (hupd ''Message'' (Some (appended (v_hdrs (view h) ''Message'') ''hello'')) (v_hdrs (view h)))\<rparr>"
  using assms by (simp_all add: add_request_header_onRequestHeaders_def)

lemma add_response_header_view:
  assumes "good h" and "v_phase (view h) = Some ResponseHeaders"
  shows "fst (add_response_header_onResponseHeaders S h) = Continue"
    and "view (snd (add_response_header_onResponseHeaders S h)) =
      (view h)\<lparr>v_hdrs := hupd ''Welcome'' None
        (if v_hdrs (view h) ''Message'' = Some ''foo''
         then hupd ''Message'' (Some ''foo, bar'') (v_hdrs (view h)) else v_hdrs (view h))\<rparr>"
proof -
  have msg: "is_set (getResponseHeader S ''Message'' h) \<and> wview (getResponseHeader S ''Message'' h) = ''foo''
      \<longleftrightarrow> v_hdrs (view h) ''Message'' = Some ''foo''"
    using get_Some [OF assms, of "''Message''"] get_None [OF assms, of "''Message''"]
    by (cases "v_hdrs (view h) ''Message''") auto
  show "fst (add_response_header_onResponseHeaders S h) = Continue"
    by (simp add: add_response_header_onResponseHeaders_def Let_def)
  show "view (snd (add_response_header_onResponseHeaders S h)) =
      (view h)\<lparr>v_hdrs := hupd ''Welcome'' None
        (if v_hdrs (view h) ''Message'' = Some ''foo''
         then hupd ''Message'' (Some ''foo, bar'') (v_hdrs (view h)) else v_hdrs (view h))\<rparr>"
    using assms by (auto simp: add_response_header_onResponseHeaders_def Let_def msg appended_def)
qed

lemma overwrite_header_view:
  assumes "good h" and "v_phase (view h) = Some RequestHeaders"
    and "v_hdrs (view h) ''RequestHeader'' = Some v"
  shows "\<exists>h'. overwrite_header_onRequestHeaders S h = Some (Continue, h') \<and>
     view h' = (if v = [] then view h
       else (view h)\<lparr>v_hdrs := hupd ''RequestHeader'' (Some ''changed'') (v_hdrs (view h))\<rparr>)"
  using assms by (simp add: overwrite_header_onRequestHeaders_def get_deref)

lemma normalize_header_view:
  assumes "good h" and "v_phase (view h) = Some RequestHeaders"
  shows "fst (normalize_header_onRequestHeaders A S h) = Continue \<and>
     view (snd (normalize_header_onRequestHeaders A S h)) =
      (view h)\<lparr>v_hdrs := hupd ''client-device-type'' (Some (appended (v_hdrs (view h) ''client-device-type'')
        (if v_hdrs (view h) ''Sec-CH-UA-Mobile'' = Some ''?1'' \<or>
            (\<exists>ua. v_hdrs (view h) ''User-Agent'' = Some ua \<and> sublist ''mobile'' (map tolower ua))
         then ''mobile'' else ''unknown''))) (v_hdrs (view h))\<rparr>"
proof -
  have mobile: "map tolower ''mobile'' = ''mobile''" by (simp add: ascii_eval)
  have m1: "is_set (getRequestHeader S ''Sec-CH-UA-Mobile'' h) \<and>
      wview (getRequestHeader S ''Sec-CH-UA-Mobile'' h) = ''?1''
      \<longleftrightarrow> v_hdrs (view h) ''Sec-CH-UA-Mobile'' = Some ''?1''"
    using get_Some [OF assms, of "''Sec-CH-UA-Mobile''"] get_None [OF assms, of "''Sec-CH-UA-Mobile''"]
    by (cases "v_hdrs (view h) ''Sec-CH-UA-Mobile''") auto
  have m2: "is_set (getRequestHeader S ''User-Agent'' h) \<and>
      sublist ''mobile'' (map tolower (wview (getRequestHeader S ''User-Agent'' h)))
      \<longleftrightarrow> (\<exists>ua. v_hdrs (view h) ''User-Agent'' = Some ua \<and> sublist ''mobile'' (map tolower ua))"
    using get_Some [OF assms, of "''User-Agent''"] get_None [OF assms, of "''User-Agent''"]
    by (cases "v_hdrs (view h) ''User-Agent''") auto
  show ?thesis
    using assms
    by (auto simp: normalize_header_onRequestHeaders_def Let_def m1 mobile contains_iff_sublist
        m2 simp del: list.map)
qed

lemma geo_directional_origin_view:
  assumes "good h" and "v_phase (view h) = Some RequestHeaders"
  shows "\<exists>h'. geo_directional_origin_onRequestHeaders S h = Some (Continue, h') \<and>
     view h' = (view h)\<lparr>v_hdrs := hupd ''x-country-code''
       (case v_props (view h) [''source'', ''client_region''] of
          None \<Rightarrow> None | Some r \<Rightarrow> if r = [] then None else Some r) (v_hdrs (view h))\<rparr>"
proof -
  have "list_all path_segment [''source'', ''client_region'']" by (simp add: path_segment_def)
  from get_property [OF assms(1) this] show ?thesis
    using assms by (simp add: geo_directional_origin_onRequestHeaders_def split: option.split)
qed

lemma add_device_type_view:
  assumes "good h" and "v_phase (view h) = Some RequestHeaders"
  shows "fst (add_device_type_onRequestHeaders A S h) = Continue \<and>
    view (snd (add_device_type_onRequestHeaders A S h)) =
     (view h)\<lparr>v_hdrs := hupd ''x-device-type'' (Some (DetectDeviceType A
        (case v_hdrs (view h) ''user-agent'' of None \<Rightarrow> [] | Some ua \<Rightarrow> map tolower ua))) (v_hdrs (view h))\<rparr>"
  using assms get_Some [OF assms, of "''user-agent''"] get_None [OF assms, of "''user-agent''"]
  by (cases "v_hdrs (view h) ''user-agent''") (auto simp: add_device_type_onRequestHeaders_def Let_def)

lemma body_chunking_request_view:
  assumes "good h" and "v_body (view h) HttpRequestBody = Some s" and "length s < 2 ^ 32"
  shows "fst (body_chunking_onRequestBody S (length s) h) = DataContinue \<and>
    v_body (view (snd (body_chunking_onRequestBody S (length s) h))) HttpRequestBody =
      Some (if s = [] then [] else s @ ''foo'')"
  using assms set_buffer [OF assms(1,2) _ assms(3), of "length s" 0 "''foo''"]
  by (auto simp: body_chunking_onRequestBody_def or_log_def replace_at_def)

lemma body_chunking_response_view:
  assumes "good h" and "v_body (view h) HttpResponseBody = Some s" and "length s < 2 ^ 32"
  shows "fst (body_chunking_onResponseBody S (length s) h) = DataContinue \<and>
    v_body (view (snd (body_chunking_onResponseBody S (length s) h))) HttpResponseBody =
      Some (if s = [] then [] else s @ ''bar'')"
  using assms set_buffer [OF assms(1,2) _ assms(3), of "length s" 0 "''bar''"]
  by (auto simp: body_chunking_onResponseBody_def or_log_def replace_at_def)

lemma testing_log_times_view:
  "good h \<Longrightarrow> good (testing_log_times S now is h) \<and>
     view (testing_log_times S now is h) =
       foldl (\<lambda>v i. v_log Info (''time '' @ dec_nat i @ '': '' @ dec_int (now i)) v) (view h) is"
  by (induction "is" arbitrary: h) simp_all

end

section \<open>Properties\<close>

text \<open>C11: add\_device\_type sets \<open>x-device-type\<close>, overwriting whatever the client sent, to the first
  class whose keyword list has an entry occurring in the lower-cased user agent, in the order bot,
  tablet, phone, desktop, and to \<open>other\<close> when there is none; no other header changes.\<close>

theorem device_type_classification:
  assumes "absl_strings A" and "hdr_sorted hs"
  shows "\<exists>c'. SendRequestHeaders (stateless (add_device_type_onRequestHeaders A (test_sdk A))) hs (p, c) =
      (result c', p, c') \<and> header_status (result c') = Continue \<and>
    (let ua = (case hdr_find ''user-agent'' hs of None \<Rightarrow> [] | Some ua \<Rightarrow> map tolower ua);
         has = (\<lambda>keywords. \<exists>w \<in> set keywords. sublist w ua)
     in \<forall>k. hdr_find k (headers (result c')) =
          (if same_key ''x-device-type'' k then
             Some (if has BotKeywords then ''bot'' else if has TabletKeywords then ''tablet''
                   else if has MobileKeywords then ''phone'' else if has DesktopKeywords then ''desktop''
                   else ''other'')
           else hdr_find k hs))"
proof -
  note env = test_env [OF assms(1)]
  let ?f = "add_device_type_onRequestHeaders A (test_sdk A)"
  obtain c1 where f: "?f (request_phase hs c) = (Continue, c1)"
    and v: "test_view c1 = (test_view (request_phase hs c))\<lparr>v_hdrs := hupd ''x-device-type''
       (Some (DetectDeviceType A (case hdr_find ''user-agent'' hs of None \<Rightarrow> [] | Some ua \<Rightarrow> map tolower ua)))
       (v_hdrs (test_view (request_phase hs c)))\<rparr>"
    using plugin_env.add_device_type_view [OF env, of "request_phase hs c"] assms(2)
    by (cases "?f (request_phase hs c)") auto
  show ?thesis
    by (rule exI [of _ "leave_phase Continue c1"])
       (simp add: SendRequestHeaders_stateless [of ?f, OF f] test_viewD(1) [OF v] hupd_def
         plugin_env.DetectDeviceType_eq [OF env] Let_def split del: if_split cong: if_cong)
qed

theorem device_type_classification_witness:
  "\<exists>c'. SendRequestHeaders (stateless (add_device_type_onRequestHeaders absl_ref (test_sdk absl_ref)))
      [(''user-agent'', ''iPad'')] ((), new_stream Info None 0 [] []) = (result c', (), c') \<and>
    hdr_find ''x-device-type'' (headers (result c')) = Some ''tablet''"
proof -
  have sorted: "hdr_sorted [(''user-agent'', ''iPad'')]" by (simp add: hdr_sorted_def)
  have ua: "map tolower ''iPad'' = ''ipad''" by (simp add: ascii_eval)
  have bot: "\<not> (\<exists>w \<in> set BotKeywords. sublist w ''ipad'')"
    by (simp add: BotKeywords_def sublist_code)
  have tablet: "\<exists>w \<in> set TabletKeywords. sublist w ''ipad''"
    by (simp add: TabletKeywords_def sublist_code)
  show ?thesis
    using device_type_classification [OF absl_ref_spec sorted, of "()" "new_stream Info None 0 [] []"]
    by (auto simp: Let_def ua bot tablet simp del: list.map)
qed

text \<open>The special treatment of Android devices in the tablet test of add\_device\_type adds nothing:
  every indicator it looks for is already a tablet keyword, so the test is equivalent to the
  keyword list alone.\<close>

theorem tablet_android_branch_redundant:
  assumes "absl_strings A"
  shows "IsTablet A ua \<longleftrightarrow> (\<exists>w \<in> set TabletKeywords. sublist w ua)"
  using plugin_env.IsTablet_eq [OF test_env [OF assms]] plugin_env.ContainsAny_iff [OF test_env [OF assms]]
  by blast

theorem tablet_android_branch_redundant_witness:
  "\<not> IsTablet absl_ref ''android 4.4 nexus 5'' \<and> IsTablet absl_ref ''nexus 7''"
  using tablet_android_branch_redundant [OF absl_ref_spec]
  by (simp add: TabletKeywords_def sublist_code)

text \<open>geo\_directional\_origin makes the country header of the request exactly the non-empty client
  region the host reports, and removes it otherwise, so that no value the client sent survives.\<close>

theorem geo_header_not_spoofable:
  assumes "absl_strings A" and "hdr_sorted hs"
  shows "\<exists>c1. geo_directional_origin_onRequestHeaders (test_sdk A) (request_phase hs c) = Some (Continue, c1) \<and>
    (\<forall>k. hdr_find k (headers (result c1)) =
      (if same_key ''x-country-code'' k then
         (case find_property ''source.client_region'' (properties c) of
            None \<Rightarrow> None | Some r \<Rightarrow> if r = [] then None else Some r)
       else hdr_find k hs))"
proof -
  have path: "join ''.'' [''source'', ''client_region''] = ''source.client_region''" by simp
  from plugin_env.geo_directional_origin_view [OF test_env [OF assms(1)], of "request_phase hs c"] assms(2)
  obtain c1 where f: "geo_directional_origin_onRequestHeaders (test_sdk A) (request_phase hs c) = Some (Continue, c1)"
    and v: "test_view c1 = (test_view (request_phase hs c))\<lparr>v_hdrs := hupd ''x-country-code''
       (case find_property ''source.client_region'' (properties c) of
          None \<Rightarrow> None | Some r \<Rightarrow> if r = [] then None else Some r)
       (v_hdrs (test_view (request_phase hs c)))\<rparr>"
    by auto
  show ?thesis
    by (rule exI [of _ c1]) (simp add: f test_viewD(1) [OF v] hupd_def)
qed

theorem geo_header_not_spoofable_witness:
  "\<exists>c1. geo_directional_origin_onRequestHeaders (test_sdk absl_ref)
       (request_phase [(''X-Country-Code'', ''US'')] (new_stream Info None 0 [] [])) = Some (Continue, c1) \<and>
     hdr_find ''x-country-code'' (headers (result c1)) = None"
proof -
  have sorted: "hdr_sorted [(''X-Country-Code'', ''US'')]" by (simp add: hdr_sorted_def)
  show ?thesis
    using geo_header_not_spoofable [OF absl_ref_spec sorted, of "new_stream Info None 0 [] []"]
    by (auto simp: new_stream_def)
qed

text \<open>body\_chunking appends \<open>foo\<close> to a non-empty request body chunk and \<open>bar\<close> to a non-empty
  response body chunk, and leaves an empty chunk empty.\<close>

theorem body_chunking_appends:
  assumes "absl_strings A" and "\<not> sent_local_response c" and "length b < 2 ^ 32"
  shows "body (fst (SendRequestBody (stateless_body (\<lambda>n eos. body_chunking_onRequestBody (test_sdk A) n))
           b eos (p, c))) = (if b = [] then [] else b @ ''foo'') \<and>
         body (fst (SendResponseBody (stateless_body (\<lambda>n eos. body_chunking_onResponseBody (test_sdk A) n))
           b eos (p, c))) = (if b = [] then [] else b @ ''bar'')"
proof -
  note env = test_env [OF assms(1)]
  let ?f = "\<lambda>n (eos :: bool). body_chunking_onRequestBody (test_sdk A) n"
  let ?g = "\<lambda>n (eos :: bool). body_chunking_onResponseBody (test_sdk A) n"
  obtain st c1 where f: "?f (length b) eos (request_body_phase b c) = (st, c1)" by force
  obtain st' c2 where g: "?g (length b) eos (response_body_phase b c) = (st', c2)" by force
  from plugin_env.body_chunking_request_view [OF env, of "request_body_phase b c" b] assms(3) f
  have "TestHttpContext_getBuffer HttpRequestBody c1 = Some (if b = [] then [] else b @ ''foo'')"
    by simp
  moreover from plugin_env.body_chunking_response_view [OF env, of "response_body_phase b c" b] assms(3) g
  have "TestHttpContext_getBuffer HttpResponseBody c2 = Some (if b = [] then [] else b @ ''bar'')"
    by simp
  ultimately show ?thesis
    by (simp add: getBuffer_body SendRequestBody_stateless [of c ?f, OF assms(2) f]
        SendResponseBody_stateless [of c ?g, OF assms(2) g])
qed

theorem body_chunking_appends_witness:
  "body (fst (SendRequestBody (stateless_body (\<lambda>n eos. body_chunking_onRequestBody (test_sdk absl_ref) n))
     ''ab'' True ((), new_stream Info None 0 [] []))) = ''abfoo''"
  using body_chunking_appends [OF absl_ref_spec, of "new_stream Info None 0 [] []" "''ab''" True "()"]
  by (simp add: new_stream_def)

end
