(* ===== verification/Cookie_Samples.thy ===== *)
theory Cookie_Samples
  imports Header_Samples
begin

text \<open>
  The two plugins that manage cookies: set\_cookie, which recognises a session cookie in the request
  and creates one in the response otherwise, and set\_reset\_cookie, which deletes request cookies
  and sets, overwrites or expires response cookies by configuration. The configuration of the
  latter is a text protocol buffer whose parser is generated code; it is an argument here.
\<close>

section \<open>set\_cookie\<close>

definition kCookieName :: string where
  "kCookieName = ''my_cookie''"

definition kMaxCookieLength :: nat where
  "kMaxCookieLength = 4096"

definition kMaxSessionIdLength :: nat where
  "kMaxSessionIdLength = 128"

fun checkSessionIdChars :: "'h sdk \<Rightarrow> string \<Rightarrow> 'h \<Rightarrow> bool \<times> 'h" where
  "checkSessionIdChars S [] h = (True, h)"
| "checkSessionIdChars S (c # s) h =
     (if \<not> isalnum c
      then (False, LOG_DEBUG S (''Session ID contains invalid character: '' @ [c]) h)
      else checkSessionIdChars S s h)"

definition isValidSessionId :: "'h sdk \<Rightarrow> string \<Rightarrow> 'h \<Rightarrow> bool \<times> 'h" where
  "isValidSessionId S session_id h =
     (if session_id = [] then (False, LOG_DEBUG S ''Empty session ID rejected'' h)
      else if length session_id > kMaxSessionIdLength
      then (False, LOG_DEBUG S (''Session ID too long: '' @ dec_nat (length session_id) @
              '' characters (max '' @ dec_nat kMaxSessionIdLength @ '')'') h)
      else checkSessionIdChars S session_id h)"

fun findSessionCookie :: "absl \<Rightarrow> 'h sdk \<Rightarrow> string list \<Rightarrow> 'h \<Rightarrow> string option \<times> 'h" where
  "findSessionCookie A S [] h =
     (None, LOG_DEBUG S (''Cookie '' @ kCookieName @ '' not found in request'') h)"
| "findSessionCookie A S (sp # sps) h =
     (if sp = [] then findSessionCookie A S sps (LOG_DEBUG S ''Empty cookie pair found, skipping'' h)
      else
        let parts = StrSplitMax1 A sp (CHR ''='')
        in if length parts \<noteq> 2
           then findSessionCookie A S sps (LOG_DEBUG S (''Malformed cookie pair, skipping: '' @ sp) h)
           else if parts ! 0 = kCookieName
           then let h1 = LOG_DEBUG S (''Found target cookie: '' @ kCookieName) h;
                    (valid, h2) = isValidSessionId S (parts ! 1) h1
                in if valid
                   then (Some (parts ! 1), LOG_DEBUG S (''Valid session ID found: '' @ parts ! 1) h2)
                   else (None, LOG_WARN S (''Invalid session ID format for cookie '' @ kCookieName @
                                 '': '' @ parts ! 1) h2)
           else findSessionCookie A S sps h)"

definition getSessionIdFromCookie :: "absl \<Rightarrow> 'h sdk \<Rightarrow> 'h \<Rightarrow> string option \<times> 'h" where
  "getSessionIdFromCookie A S h =
     (let cookie_header_ptr = getRequestHeader S ''Cookie'' h
      in if \<not> is_set cookie_header_ptr
         then (None, LOG_DEBUG S ''getRequestHeader returned null pointer'' h)
         else
           let cookies = wview cookie_header_ptr
           in if cookies = [] then (None, LOG_DEBUG S ''Empty Cookie header found'' h)
              else if length cookies > kMaxCookieLength
              then (None, LOG_WARN S (''Cookie header too large ('' @ dec_nat (length cookies) @
                      '' bytes), ignoring for security'') h)
              else findSessionCookie A S (StrSplitBy A cookies ''; '')
                     (LOG_DEBUG S (''Parsing Cookie header: '' @ cookies) h))"

text \<open>The stream context keeps the session id found in the request.\<close>

definition set_cookie_onRequestHeaders ::
    "absl \<Rightarrow> 'h sdk \<Rightarrow> string option \<times> 'h \<Rightarrow> FilterHeadersStatus \<times> string option \<times> 'h" where
  "set_cookie_onRequestHeaders A S = (\<lambda>(session_id, h).
     let (session_id', h1) = getSessionIdFromCookie A S h
     in (Continue, session_id',
         if session_id' \<noteq> None then LOG_DEBUG S ''Found existing session ID in request'' h1
         else LOG_DEBUG S ''No valid session ID found in request'' h1))"

definition set_cookie_onResponseHeaders ::
    "u64 \<Rightarrow> 'h sdk \<Rightarrow> string option \<times> 'h \<Rightarrow> FilterHeadersStatus \<times> string option \<times> 'h" where
  "set_cookie_onResponseHeaders rnd S = (\<lambda>(session_id, h).
     case session_id of
       Some sid \<Rightarrow>
         (Continue, session_id, LOG_INFO S (''This current request is for the existing session ID: '' @ sid) h)
     | None \<Rightarrow>
         let new_session_id = dec_nat (unat rnd);
             h1 = LOG_INFO S (''New session ID created for the current request: '' @ new_session_id) h;
             cookie_value = kCookieName @ ''='' @ new_session_id @ ''; Path=/; HttpOnly'';
             (r, h2) = addResponseHeader S ''Set-Cookie'' cookie_value h1
         in (Continue, session_id,
             if r = Ok then LOG_DEBUG S ''Successfully added Set-Cookie header'' h2
             else LOG_ERROR S (''Failed to add Set-Cookie header. Error code: '' @ dec_int (result_code S r)) h2))"

section \<open>set\_reset\_cookie\<close>

datatype CookieOperation = COOKIE_OPERATION_UNSPECIFIED | SET | DELETE | OVERWRITE

record CookieConfig =
  cc_name :: string
  cc_value :: string
  cc_domain :: string
  cc_path :: string
  cc_max_age :: int
  cc_secure :: bool
  cc_http_only :: bool
  cc_same_site_strict :: bool
  cc_operation :: CookieOperation

type_synonym cookies = "(string \<times> string) list"

primrec operation_number :: "CookieOperation \<Rightarrow> nat" where
  "operation_number COOKIE_OPERATION_UNSPECIFIED = 0"
| "operation_number SET = 1"
| "operation_number DELETE = 2"
| "operation_number OVERWRITE = 3"

fun loadCookieConfigs :: "'h sdk \<Rightarrow> CookieConfig list \<Rightarrow> nat \<times> CookieConfig list \<times> 'h
    \<Rightarrow> nat \<times> CookieConfig list \<times> 'h" where
  "loadCookieConfigs S [] st = st"
| "loadCookieConfigs S (cfg # cfgs) (valid_cookies, configs, h) =
     (if cc_name cfg = []
      then loadCookieConfigs S cfgs (valid_cookies, configs,
             LOG_ERROR S (''Cookie configuration missing required '' @ [CHR 0x27] @ ''name'' @ [CHR 0x27] @
               '' field, skipping'') h)
      else
        let h1 = (if (cc_operation cfg = SET \<or> cc_operation cfg = OVERWRITE) \<and> cc_value cfg = []
                  then LOG_WARN S (''Cookie '' @ [CHR 0x27] @ cc_name cfg @ [CHR 0x27] @
                         '' has SET/OVERWRITE operation but empty value'') h
                  else h);
            h2 = LOG_DEBUG S (''Configure cookie name='' @ cc_name cfg @ '', operation='' @
                   dec_nat (operation_number (cc_operation cfg))) h1
        in loadCookieConfigs S cfgs (valid_cookies + 1, configs @ [cfg], h2))"

definition set_reset_cookie_onConfigure :: "(string \<Rightarrow> CookieConfig list option) \<Rightarrow> 'h sdk \<Rightarrow> nat
    \<Rightarrow> CookieConfig list \<times> 'h \<Rightarrow> bool \<times> CookieConfig list \<times> 'h" where
  "set_reset_cookie_onConfigure ParseFromString S config_size = (\<lambda>(configs, h).
     if config_size = 0
     then (True, configs, LOG_WARN S ''Empty configuration provided, no cookies will be managed'' h)
     else
       let configuration_data = getBufferBytes S PluginConfiguration 0 config_size h
       in if \<not> is_set configuration_data
          then (False, configs, LOG_ERROR S ''Failed to retrieve configuration data buffer'' h)
          else case ParseFromString (wview configuration_data) of
             None \<Rightarrow> (False, configs, LOG_ERROR S
               (''Failed to parse cookie manager configuration as text protobuf. '' @
                ''Please ensure configuration follows the text protobuf format. '' @
                ''Example: cookies { name: '' @ [CHR 0x22] @ ''session'' @ [CHR 0x22] @ '' value: '' @
                [CHR 0x22] @ ''abc'' @ [CHR 0x22] @ '' }'') h)
           | Some config \<Rightarrow>
               if length config = 0
               then (True, configs,
                     LOG_WARN S ''Configuration parsed successfully but contains no cookie definitions'' h)
               else
                 let (valid_cookies, configs', h1) = loadCookieConfigs S config (0, configs, h)
                 in if valid_cookies = 0
                    then (False, configs', LOG_ERROR S ''No valid cookie configurations found after validation'' h1)
                    else (True, configs', LOG_INFO S (''Successfully loaded '' @ dec_nat valid_cookies @
                            '' cookie configuration(s)'') h1))"

fun parseCookiePairs :: "absl \<Rightarrow> string list \<Rightarrow> cookies \<Rightarrow> cookies" where
  "parseCookiePairs A [] request_cookies = request_cookies"
| "parseCookiePairs A (p # ps) request_cookies =
     (let cookie_pair = StripAsciiWhitespace A p
      in if cookie_pair = [] then parseCookiePairs A ps request_cookies
         else
           let parts = StrSplitMax1 A cookie_pair (CHR ''='')
           in parseCookiePairs A ps
                (if length parts = 2
                 then request_cookies @ [(StripAsciiWhitespace A (parts ! 0), StripAsciiWhitespace A (parts ! 1))]
                 else request_cookies))"

definition parseRequestCookies :: "absl \<Rightarrow> 'h sdk \<Rightarrow> 'h \<Rightarrow> cookies \<Rightarrow> cookies" where
  "parseRequestCookies A S h request_cookies =
     (let cookie_header = getRequestHeader S ''Cookie'' h
      in if \<not> is_set cookie_header then request_cookies
         else parseCookiePairs A (StrSplit A (wview cookie_header) (CHR '';'')) request_cookies)"

definition rebuildCookieHeader :: "absl \<Rightarrow> 'h sdk \<Rightarrow> cookies \<Rightarrow> 'h \<Rightarrow> 'h" where
  "rebuildCookieHeader A S request_cookies h =
     (if request_cookies = [] then snd (removeRequestHeader S ''Cookie'' h)
      else
        let remaining_cookies = map (\<lambda>cookie. fst cookie @ ''='' @ snd cookie) request_cookies
        in snd (replaceRequestHeader S ''Cookie'' (StrJoin A remaining_cookies ''; '') h))"

fun deleteCookies :: "'h sdk \<Rightarrow> CookieConfig list \<Rightarrow> bool \<times> cookies \<times> 'h \<Rightarrow> bool \<times> cookies \<times> 'h" where
  "deleteCookies S [] st = st"
| "deleteCookies S (config # configs) (modified, request_cookies, h) =
     (if cc_operation config \<noteq> DELETE then deleteCookies S configs (modified, request_cookies, h)
      else
        let kept = filter (\<lambda>cookie. fst cookie \<noteq> cc_name config) request_cookies
        in if length request_cookies - length kept > 0
           then deleteCookies S configs (True, kept,
                  LOG_INFO S (''Marking cookie for deletion before CDN cache: '' @ cc_name config) h)
           else deleteCookies S configs (modified, kept, h))"

definition processCookieDeletions :: "absl \<Rightarrow> 'h sdk \<Rightarrow> CookieConfig list \<Rightarrow> cookies \<times> 'h \<Rightarrow> cookies \<times> 'h" where
  "processCookieDeletions A S configs = (\<lambda>(request_cookies, h).
     let (modified, request_cookies', h1) = deleteCookies S configs (False, request_cookies, h)
     in (request_cookies', if modified then rebuildCookieHeader A S request_cookies' h1 else h1))"

definition set_reset_cookie_onRequestHeaders :: "absl \<Rightarrow> CookieConfig list \<Rightarrow> 'h sdk \<Rightarrow> cookies \<times> 'h
    \<Rightarrow> FilterHeadersStatus \<times> cookies \<times> 'h" where
  "set_reset_cookie_onRequestHeaders A configs S = (\<lambda>(request_cookies, h).
     let cookies1 = parseRequestCookies A S h request_cookies
     in (Continue, processCookieDeletions A S configs (cookies1, h)))"

definition setCookieValue :: "CookieConfig \<Rightarrow> string" where
  "setCookieValue config =
     cc_name config @ ''='' @ cc_value config @
     ''; Path='' @ cc_path config @
     (if cc_domain config \<noteq> [] then ''; Domain='' @ cc_domain config else []) @
     (if cc_max_age config > 0 then ''; Max-Age='' @ dec_int (cc_max_age config) else []) @
     (if cc_http_only config then ''; HttpOnly'' else []) @
     (if cc_secure config then ''; Secure'' else []) @
     (if cc_same_site_strict config then ''; SameSite=Strict'' else [])"

definition setCookie :: "'h sdk \<Rightarrow> CookieConfig \<Rightarrow> 'h \<Rightarrow> 'h" where
  "setCookie S config h =
     (let h1 = snd (addResponseHeader S ''Set-Cookie'' (setCookieValue config) h);
          log_type = (if cc_max_age config > 0 then ''persistent'' else ''session'')
      in LOG_INFO S (''Setting '' @ log_type @ '' cookie: '' @ cc_name config) h1)"

text \<open>The loop over the response headers: the \<open>Set-Cookie\<close> values kept, and whether one was dropped.\<close>

fun splitSetCookies :: "absl \<Rightarrow> string \<Rightarrow> header list \<Rightarrow> string list \<times> bool \<Rightarrow> string list \<times> bool" where
  "splitSetCookies A prefix_text [] st = st"
| "splitSetCookies A prefix_text ((k, v) # hs) (kept, removed) =
     (if \<not> EqualsIgnoreCase A k ''Set-Cookie'' then splitSetCookies A prefix_text hs (kept, removed)
      else if StartsWith A (StripLeadingAsciiWhitespace A v) prefix_text
      then splitSetCookies A prefix_text hs (kept, True)
      else splitSetCookies A prefix_text hs (kept @ [v], removed))"

definition removeExistingSetCookie :: "absl \<Rightarrow> 'h sdk \<Rightarrow> string \<Rightarrow> 'h \<Rightarrow> 'h" where
  "removeExistingSetCookie A S nm h =
     (let (kept, removed) = splitSetCookies A (nm @ ''='') (getHeaderMapPairs S ResponseHeaders h) ([], False)
      in if \<not> removed then h
         else foldl (\<lambda>h v. snd (addResponseHeader S ''Set-Cookie'' v h))
                (snd (removeResponseHeader S ''Set-Cookie'' h)) kept)"

definition overwriteCookie :: "absl \<Rightarrow> 'h sdk \<Rightarrow> CookieConfig \<Rightarrow> 'h \<Rightarrow> 'h" where
  "overwriteCookie A S config h =
     (let h1 = removeExistingSetCookie A S (cc_name config) h
      in if cc_value config \<noteq> []
         then LOG_INFO S (''Overwriting existing cookie: '' @ cc_name config) (setCookie S config h1)
         else
           let expire_cookie = cc_name config @ ''=; Path='' @ cc_path config @ ''; Max-Age=0'' @
                 (if cc_domain config \<noteq> [] then ''; Domain='' @ cc_domain config else [])
           in LOG_INFO S (''Removing Set-Cookie directive for: '' @ cc_name config)
                (snd (addResponseHeader S ''Set-Cookie'' expire_cookie h1)))"

fun processCookieOperations :: "absl \<Rightarrow> 'h sdk \<Rightarrow> CookieConfig list \<Rightarrow> 'h \<Rightarrow> 'h" where
  "processCookieOperations A S [] h = h"
| "processCookieOperations A S (config # configs) h =
     processCookieOperations A S configs
       (if cc_operation config = SET then setCookie S config h
        else if cc_operation config = OVERWRITE then overwriteCookie A S config h
        else h)"

definition set_reset_cookie_onResponseHeaders :: "absl \<Rightarrow> CookieConfig list \<Rightarrow> 'h sdk \<Rightarrow> cookies \<times> 'h
    \<Rightarrow> FilterHeadersStatus \<times> cookies \<times> 'h" where
  "set_reset_cookie_onResponseHeaders A configs S = (\<lambda>(request_cookies, h).
     (Continue, request_cookies, processCookieOperations A S configs h))"

section \<open>Cookie strings\<close>

lemma find_str_absent: "d \<notin> set s \<Longrightarrow> find_str (d # ds) s = None"
proof (induction s)
  case (Cons c s)
  then have "\<not> prefix (d # ds) (c # s)" by auto
  with Cons show ?case by simp
qed simp

lemma find_str_append: "d \<notin> set a \<Longrightarrow> find_str (d # ds) (a @ (d # ds) @ b) = Some (length a)"
proof (induction a)
  case Nil
  then show ?case by (cases ds) auto
next
  case (Cons c a)
  then have "\<not> prefix (d # ds) (c # a @ (d # ds) @ b)" by auto
  with Cons show ?case by simp
qed

lemma split_str_join:
  "ws \<noteq> [] \<Longrightarrow> \<forall>w \<in> set ws. d \<notin> set w \<Longrightarrow> split_str (d # ds) (join (d # ds) ws) = ws"
proof (induction ws)
  case (Cons w ws)
  show ?case
  proof (cases "ws = []")
    case True
    with Cons.prems show ?thesis by (simp add: split_str.simps [of _ w] find_str_absent)
  next
    case False
    have "find_str (d # ds) (w @ (d # ds) @ join (d # ds) ws) = Some (length w)"
      using Cons.prems by (intro find_str_append) simp
    with False Cons show ?thesis
      by (simp add: join_Cons split_str.simps [of _ "w @ _"])
  qed
qed simp

lemma set_strip: "set (strip s) \<subseteq> set s"
  by (auto simp: strip_def dest!: set_dropWhileD)

lemma strip_id: "s = [] \<or> \<not> isspace (hd s) \<and> \<not> isspace (last s) \<Longrightarrow> strip s = s"
proof -
  assume a: "s = [] \<or> \<not> isspace (hd s) \<and> \<not> isspace (last s)"
  have "dropWhile isspace s = s" using a by (cases s) auto
  moreover have "dropWhile isspace (rev s) = rev s" using a by (cases s rule: rev_cases) auto
  ultimately show ?thesis by (simp add: strip_def)
qed

lemma strip_eq_iff: "strip s = s \<longleftrightarrow> s = [] \<or> \<not> isspace (hd s) \<and> \<not> isspace (last s)"
  using strip_id strip_no_outer_space by metis

lemma strip_space [simp]: "strip (CHR 0x20 # s) = strip s"
  by (simp add: strip_def isspace_def char_code_def)

lemma length_dec_nat: "n < 10 ^ Suc k \<Longrightarrow> length (dec_nat n) \<le> Suc k"
proof (induction k arbitrary: n)
  case 0
  then show ?case by (simp add: dec_nat.simps)
next
  case (Suc k)
  then show ?case by (cases "n < 10") (auto simp: dec_nat.simps [of n])
qed

section \<open>Session cookies\<close>

definition valid_session_id :: "string \<Rightarrow> bool" where
  "valid_session_id s \<longleftrightarrow> s \<noteq> [] \<and> length s \<le> 128 \<and> list_all isalnum s"

text \<open>The value of the first cookie of the expected name, if it is acceptable.\<close>

definition session_cookie :: "string list \<Rightarrow> string option" where
  "session_cookie sps = (case find (prefix ''my_cookie='') sps of
      None \<Rightarrow> None
    | Some sp \<Rightarrow> let v = drop (length ''my_cookie='') sp in if valid_session_id v then Some v else None)"

lemma checkSessionIdChars_fst: "fst (checkSessionIdChars S s h) = list_all isalnum s"
  by (induction s arbitrary: h) auto

lemma isValidSessionId_fst: "fst (isValidSessionId S s h) = valid_session_id s"
  by (simp add: isValidSessionId_def valid_session_id_def checkSessionIdChars_fst kMaxSessionIdLength_def)

lemma valid_session_id_dec: "valid_session_id (dec_nat (unat (n :: u64)))"
proof -
  have "unat n < 2 ^ LENGTH(64)" by (rule unsigned_less)
  then have "length (dec_nat (unat n)) \<le> Suc 19" by (intro length_dec_nat) simp
  moreover have "list_all isalnum (dec_nat (unat n))"
    using dec_nat_digits [of "unat n"] by (auto simp: list_all_iff isalnum_def)
  ultimately show ?thesis using dec_nat_digits [of "unat n"] by (simp add: valid_session_id_def)
qed

lemma my_cookie_pair:
  "split_once (CHR ''='') sp = [n, v] \<Longrightarrow> n = kCookieName \<longleftrightarrow> prefix ''my_cookie='' sp"
proof
  assume two: "split_once (CHR ''='') sp = [n, v]"
  note sp = split_once_two [OF two]
  show "n = kCookieName \<Longrightarrow> prefix ''my_cookie='' sp" using sp by (simp add: kCookieName_def)
  assume "prefix ''my_cookie='' sp"
  then obtain r where r: "sp = ''my_cookie='' @ r" by (auto simp: prefix_def)
  have "split_once (CHR ''='') (''my_cookie'' @ CHR ''='' # r) = [''my_cookie'', r]"
    by (rule split_once_append) simp
  then show "n = kCookieName" using two r by (simp add: kCookieName_def)
qed

context plugin_env
begin

lemma findSessionCookie_fst: "fst (findSessionCookie A S sps h) = session_cookie sps"
proof (induction sps arbitrary: h)
  case (Cons sp sps)
  show ?case
  proof (cases "CHR ''='' \<in> set sp")
    case False
    then have "\<not> prefix ''my_cookie='' sp" by (auto simp: prefix_def)
    with False Cons show ?thesis by (simp add: session_cookie_def split_once_absent)
  next
    case True
    then obtain n v where two: "split_once (CHR ''='') sp = [n, v]"
      using length_split_once [of "CHR ''=''" sp] by (auto simp: numeral_2_eq_2 length_Suc_conv)
    note sp = split_once_two [OF two]
    show ?thesis
    proof (cases "n = kCookieName")
      case True
      then have pre: "prefix ''my_cookie='' sp" and v: "v = drop (length ''my_cookie='') sp" and "sp \<noteq> []"
        using sp by (simp_all add: kCookieName_def)
      then show ?thesis
        using True two isValidSessionId_fst [of S v]
        by (auto simp: session_cookie_def Let_def split_beta)
    next
      case False
      then have "\<not> prefix ''my_cookie='' sp" and "sp \<noteq> []" using my_cookie_pair [OF two] sp by auto
      with False two Cons show ?thesis by (simp add: session_cookie_def)
    qed
  qed
qed (simp add: session_cookie_def)

lemma getSessionIdFromCookie_fst:
  assumes "good h" and "v_phase (view h) = Some RequestHeaders"
  shows "fst (getSessionIdFromCookie A S h) = (case v_hdrs (view h) ''Cookie'' of
      None \<Rightarrow> None
    | Some s \<Rightarrow> if s = [] \<or> 4096 < length s then None else session_cookie (split_str ''; '' s))"
  using get_Some [OF assms, of "''Cookie''"] get_None [OF assms, of "''Cookie''"]
  by (cases "v_hdrs (view h) ''Cookie''")
     (auto simp: getSessionIdFromCookie_def Let_def findSessionCookie_fst kMaxCookieLength_def)

end

context plugin_env
begin

lemma checkSessionIdChars_logs:
  "good h \<Longrightarrow> good (snd (checkSessionIdChars S s h)) \<and> logs_only (view h) (view (snd (checkSessionIdChars S s h)))"
  by (induction s arbitrary: h) auto

lemma isValidSessionId_logs:
  "good h \<Longrightarrow> good (snd (isValidSessionId S s h)) \<and> logs_only (view h) (view (snd (isValidSessionId S s h)))"
  by (simp add: isValidSessionId_def checkSessionIdChars_logs)

lemma findSessionCookie_logs:
  "good h \<Longrightarrow> good (snd (findSessionCookie A S sps h)) \<and> logs_only (view h) (view (snd (findSessionCookie A S sps h)))"
proof (induction sps arbitrary: h)
  case (Cons sp sps)
  have step: "good (snd (findSessionCookie A S sps (LOG_DEBUG S m h))) \<and>
      logs_only (view h) (view (snd (findSessionCookie A S sps (LOG_DEBUG S m h))))" for m
    using Cons.IH [of "LOG_DEBUG S m h"] Cons.prems by (auto intro: logs_only_trans)
  have valid: "good (snd (isValidSessionId S s (LOG_DEBUG S m h))) \<and>
      logs_only (view h) (view (snd (isValidSessionId S s (LOG_DEBUG S m h))))" for s m
    using isValidSessionId_logs [of "LOG_DEBUG S m h" s] Cons.prems by (auto intro: logs_only_trans)
  show ?case
    using Cons step valid
    by (auto simp: Let_def split_beta intro: logs_only_trans)
qed simp

lemma getSessionIdFromCookie_logs:
  "good h \<Longrightarrow> good (snd (getSessionIdFromCookie A S h)) \<and> logs_only (view h) (view (snd (getSessionIdFromCookie A S h)))"
  using findSessionCookie_logs [of "LOG_DEBUG S m h" for m]
  by (auto simp: getSessionIdFromCookie_def Let_def)

lemma set_cookie_request:
  assumes "good h" and "v_phase (view h) = Some RequestHeaders"
  shows "\<exists>h'. set_cookie_onRequestHeaders A S (sid, h) =
      (Continue, (case v_hdrs (view h) ''Cookie'' of None \<Rightarrow> None
         | Some s \<Rightarrow> if s = [] \<or> 4096 < length s then None else session_cookie (split_str ''; '' s)), h') \<and>
    logs_only (view h) (view h')"
  using getSessionIdFromCookie_fst [OF assms] getSessionIdFromCookie_logs [OF assms(1)]
  by (auto simp: set_cookie_onRequestHeaders_def split_beta intro: logs_only_trans)

lemma set_cookie_response_new:
  assumes "good h" and "v_phase (view h) = Some ResponseHeaders"
  shows "\<exists>h'. set_cookie_onResponseHeaders rnd S (None, h) = (Continue, None, h') \<and>
     logs_only ((view h)\<lparr>v_hdrs := hupd ''Set-Cookie'' (Some (appended (v_hdrs (view h) ''Set-Cookie'')
       (''my_cookie='' @ dec_nat (unat rnd) @ ''; Path=/; HttpOnly''))) (v_hdrs (view h))\<rparr>) (view h')"
  using assms
  by (simp add: set_cookie_onResponseHeaders_def Let_def split_beta kCookieName_def v_log_update)

lemma set_cookie_response_existing:
  assumes "good h"
  shows "\<exists>h'. set_cookie_onResponseHeaders rnd S (Some sid, h) = (Continue, Some sid, h') \<and>
     logs_only (view h) (view h')"
  using assms by (simp add: set_cookie_onResponseHeaders_def)

end

section \<open>Configured cookies\<close>

text \<open>What one piece of a \<open>Cookie\<close> header contributes, and all the cookies of a header.\<close>

definition cookie_pair :: "string \<Rightarrow> (string \<times> string) option" where
  "cookie_pair p = (let t = strip p
     in if t = [] then None
        else case split_once (CHR ''='') t of [a, b] \<Rightarrow> Some (strip a, strip b) | _ \<Rightarrow> None)"

definition cookies_of :: "string \<Rightarrow> cookies" where
  "cookies_of s = List.map_filter cookie_pair (split_char (CHR '';'') s)"

definition cookie_text :: "cookies \<Rightarrow> string" where
  "cookie_text ps = join ''; '' (map (\<lambda>c. fst c @ ''='' @ snd c) ps)"

definition clean_cookie :: "string \<times> string \<Rightarrow> bool" where
  "clean_cookie = (\<lambda>(n, v). CHR ''='' \<notin> set n \<and> CHR '';'' \<notin> set n \<and> CHR '';'' \<notin> set v \<and>
     strip n = n \<and> strip v = v)"

lemma cookie_pair_clean:
  assumes "cookie_pair p = Some c" and "CHR '';'' \<notin> set p"
  shows "clean_cookie c"
proof -
  obtain a b where two: "split_once (CHR ''='') (strip p) = [a, b]" and c: "c = (strip a, strip b)"
    using assms(1) by (auto simp: cookie_pair_def Let_def split: if_splits list.splits)
  from split_once_two [OF two] have "strip p = a @ CHR ''='' # b" and "CHR ''='' \<notin> set a" by auto
  moreover have "CHR '';'' \<notin> set (strip p)" using assms(2) set_strip by blast
  ultimately show ?thesis
    using set_strip [of a] set_strip [of b] by (auto simp: clean_cookie_def c)
qed

lemma cookies_of_clean: "c \<in> set (cookies_of s) \<Longrightarrow> clean_cookie c"
  using cookie_pair_clean split_char_no_sep
  by (auto simp: cookies_of_def map_filter_def)

lemma cookie_pair_text:
  assumes "clean_cookie (n, v)"
  shows "cookie_pair (n @ CHR ''='' # v) = Some (n, v)"
proof -
  have eq: "\<not> isspace (CHR ''='')" by (simp add: isspace_def char_code_def)
  have "strip (n @ ''='' @ v) = n @ ''='' @ v"
    using assms eq by (cases n; cases v rule: rev_cases) (auto simp: clean_cookie_def strip_eq_iff)
  moreover have "split_once (CHR ''='') (n @ ''='' @ v) = [n, v]"
    using assms split_once_append [of "CHR ''=''" n v] by (simp add: clean_cookie_def)
  ultimately show ?thesis using assms by (simp add: cookie_pair_def clean_cookie_def)
qed

lemma cookie_pair_space [simp]: "cookie_pair (CHR 0x20 # p) = cookie_pair p"
  by (simp add: cookie_pair_def)

lemma cookies_of_join:
  "ws \<noteq> [] \<Longrightarrow> \<forall>w \<in> set ws. CHR '';'' \<notin> set w \<Longrightarrow>
     cookies_of (join ''; '' ws) = List.map_filter cookie_pair ws"
proof (induction ws)
  case (Cons w ws)
  show ?case
  proof (cases "ws = []")
    case True
    with Cons.prems show ?thesis by (simp add: cookies_of_def split_char_piece)
  next
    case False
    obtain x xs where x: "split_char (CHR '';'') (join ''; '' ws) = x # xs"
      using split_char_not_Nil by (cases "split_char (CHR '';'') (join ''; '' ws)") auto
    have "cookies_of (join ''; '' (w # ws)) =
        List.map_filter cookie_pair (w # split_char (CHR '';'') (CHR 0x20 # join ''; '' ws))"
      using False Cons.prems split_char_append [of "CHR '';''" w "CHR 0x20 # join ''; '' ws"]
      by (simp add: cookies_of_def join_Cons)
    also have "\<dots> = List.map_filter cookie_pair (w # x # xs)"
      using x by (simp add: map_filter_simps split: option.split)
    also have "\<dots> = List.map_filter cookie_pair (w # ws)"
      using Cons False x by (simp add: cookies_of_def map_filter_simps split: option.split)
    finally show ?thesis .
  qed
qed simp

lemma cookies_roundtrip:
  assumes "ps \<noteq> []" and "\<forall>c \<in> set ps. clean_cookie c"
  shows "cookies_of (cookie_text ps) = ps"
proof -
  have "\<forall>w \<in> set (map (\<lambda>c. fst c @ ''='' @ snd c) ps). CHR '';'' \<notin> set w"
    using assms(2) by (auto simp: clean_cookie_def)
  then have "cookies_of (cookie_text ps) = List.map_filter cookie_pair (map (\<lambda>c. fst c @ ''='' @ snd c) ps)"
    using assms(1) by (simp add: cookie_text_def cookies_of_join)
  also have "\<dots> = ps"
    using assms(2) by (induction ps) (auto simp: map_filter_simps cookie_pair_text)
  finally show ?thesis .
qed

section \<open>Deletion and overwriting on any host\<close>

definition deleted_names :: "CookieConfig list \<Rightarrow> string set" where
  "deleted_names configs = {cc_name cfg | cfg. cfg \<in> set configs \<and> cc_operation cfg = DELETE}"

lemma deleted_names_Cons:
  "deleted_names (cfg # cfgs) =
     (if cc_operation cfg = DELETE then insert (cc_name cfg) (deleted_names cfgs) else deleted_names cfgs)"
  by (auto simp: deleted_names_def)

lemma length_filter_removed: "length (filter P xs) < length xs \<longleftrightarrow> (\<exists>x \<in> set xs. \<not> P x)"
  using length_filter_less [of _ xs P] filter_True [of xs P] by fastforce

context plugin_env
begin

lemma parseCookiePairs_eq: "parseCookiePairs A ps acc = acc @ List.map_filter cookie_pair ps"
proof (induction ps arbitrary: acc)
  case (Cons p ps)
  show ?case
  proof (cases "strip p = []")
    case False
    show ?thesis
    proof (cases "CHR ''='' \<in> set (strip p)")
      case True
      then obtain a b where "split_once (CHR ''='') (strip p) = [a, b]"
        using length_split_once [of "CHR ''=''" "strip p"] by (auto simp: numeral_2_eq_2 length_Suc_conv)
      with Cons False show ?thesis by (simp add: cookie_pair_def map_filter_simps)
    next
      case absent: False
      with Cons False show ?thesis by (simp add: cookie_pair_def map_filter_simps split_once_absent)
    qed
  qed (simp add: Cons cookie_pair_def map_filter_simps)
qed (simp add: map_filter_simps)

lemma parseRequestCookies_eq:
  assumes "good h" and "v_phase (view h) = Some RequestHeaders" and "v_hdrs (view h) ''Cookie'' = Some s"
  shows "parseRequestCookies A S h acc = acc @ cookies_of s"
  using get_Some [OF assms] by (simp add: parseRequestCookies_def parseCookiePairs_eq cookies_of_def)

lemma deleteCookies_eq:
  "good h \<Longrightarrow> \<exists>h'. deleteCookies S configs (modified, cs, h) =
     (modified \<or> (\<exists>c \<in> set cs. fst c \<in> deleted_names configs),
      filter (\<lambda>c. fst c \<notin> deleted_names configs) cs, h') \<and> good h' \<and> logs_only (view h) (view h')"
proof (induction configs arbitrary: modified cs h)
  case Nil
  then show ?case by (simp add: deleted_names_def)
next
  case (Cons cfg configs)
  let ?kept = "filter (\<lambda>c. fst c \<noteq> cc_name cfg) cs"
  let ?m = "''Marking cookie for deletion before CDN cache: '' @ cc_name cfg"
  show ?case
  proof (cases "cc_operation cfg = DELETE")
    case False
    with Cons show ?thesis by (simp add: deleted_names_Cons)
  next
    case delete: True
    show ?thesis
    proof (cases "\<exists>c \<in> set cs. fst c = cc_name cfg")
      case True
      then have "0 < length cs - length ?kept" by (simp add: length_filter_removed)
      with Cons.IH [of "LOG_INFO S ?m h" True ?kept] Cons.prems delete True show ?thesis
        by (auto simp: deleted_names_Cons Let_def conj_commute)
    next
      case False
      then have none: "\<not> 0 < length cs - length ?kept" and id: "?kept = cs"
        by (simp_all add: length_filter_removed filter_id_conv)
      have "(\<exists>c \<in> set cs. fst c \<in> insert (cc_name cfg) N) = (\<exists>c \<in> set cs. fst c \<in> N)"
        and "filter (\<lambda>c. fst c \<notin> insert (cc_name cfg) N) cs = filter (\<lambda>c. fst c \<notin> N) cs" for N
        using False by (auto intro!: filter_cong)
      with Cons.IH [of h modified cs] Cons.prems delete none id show ?thesis
        by (simp add: deleted_names_Cons del: insert_iff)
    qed
  qed
qed

lemma set_reset_cookie_request:
  assumes "good h" and "v_phase (view h) = Some RequestHeaders" and "v_hdrs (view h) ''Cookie'' = Some s"
  shows "let kept = filter (\<lambda>c. fst c \<notin> deleted_names configs) (cookies_of s)
     in \<exists>h'. set_reset_cookie_onRequestHeaders A configs S ([], h) = (Continue, kept, h') \<and>
       logs_only ((view h)\<lparr>v_hdrs :=
         (if \<exists>c \<in> set (cookies_of s). fst c \<in> deleted_names configs
          then hupd ''Cookie'' (if kept = [] then None else Some (cookie_text kept)) (v_hdrs (view h))
          else v_hdrs (view h))\<rparr>) (view h')"
proof -
  let ?kept = "filter (\<lambda>c. fst c \<notin> deleted_names configs) (cookies_of s)"
  obtain h' where d: "deleteCookies S configs (False, cookies_of s, h) =
     (\<exists>c \<in> set (cookies_of s). fst c \<in> deleted_names configs, ?kept, h')" and g: "good h'"
    and l: "logs_only (view h) (view h')"
    using deleteCookies_eq [OF assms(1), of configs False "cookies_of s"] by auto
  have ph: "v_phase (view h') = Some RequestHeaders" and hd: "v_hdrs (view h') = v_hdrs (view h)"
    using logs_onlyD [OF l] assms(2) by simp_all
  show ?thesis
    using parseRequestCookies_eq [OF assms, of "[]"] d g ph hd logs_only_update(1) [OF l] l
    by (cases "\<exists>c \<in> set (cookies_of s). fst c \<in> deleted_names configs")
       (simp_all add: set_reset_cookie_onRequestHeaders_def processCookieDeletions_def rebuildCookieHeader_def
        Let_def cookie_text_def)
qed

text \<open>
  The host of the contract holds at most one value per name, so at most one \<open>Set-Cookie\<close> pair is
  found, and it is either kept or dropped as a whole.
\<close>

lemma setCookie_view:
  assumes "good h" and "v_phase (view h) = Some ResponseHeaders"
  shows "good (setCookie S cfg h)"
    "view (setCookie S cfg h) = v_log Info (''Setting '' @ (if cc_max_age cfg > 0 then ''persistent'' else ''session'') @
        '' cookie: '' @ cc_name cfg) ((view h)\<lparr>v_hdrs := hupd ''Set-Cookie''
          (Some (appended (v_hdrs (view h) ''Set-Cookie'') (setCookieValue cfg))) (v_hdrs (view h))\<rparr>)"
  using assms by (simp_all add: setCookie_def Let_def)

end

section \<open>Properties\<close>

lemma find_skip: "\<forall>w \<in> set pre. \<not> P w \<Longrightarrow> P x \<Longrightarrow> find P (pre @ x # post) = Some x"
  by (induction pre) auto

lemma dec_nat_no_semicolon: "CHR '';'' \<notin> set (dec_nat n)"
  using dec_nat_digits [of n] by (auto simp: list_all_iff isdigit_def char_code_def)

lemma session_cookie_join:
  assumes "\<forall>w \<in> set (pre @ post). CHR '';'' \<notin> set w" and "\<forall>w \<in> set pre. \<not> prefix ''my_cookie='' w"
  shows "session_cookie (split_str ''; '' (join ''; '' (pre @ [''my_cookie='' @ dec_nat (unat (rnd :: u64))] @ post))) =
     Some (dec_nat (unat rnd))"
proof -
  let ?x = "''my_cookie='' @ dec_nat (unat rnd)"
  have "split_str ''; '' (join ''; '' (pre @ [?x] @ post)) = pre @ [?x] @ post"
    using assms(1) dec_nat_no_semicolon by (intro split_str_join) auto
  moreover have "find (prefix ''my_cookie='') (pre @ ?x # post) = Some ?x"
    by (rule find_skip) (use assms(2) in auto)
  ultimately show ?thesis using valid_session_id_dec [of rnd] by (simp add: session_cookie_def)
qed

lemma set_cookie_issue:
  assumes "absl_strings A" and "hdr_sorted hs" and "\<not> sent_local_response c"
  shows "\<exists>c1. SendResponseHeaders (\<lambda>n e. set_cookie_onResponseHeaders rnd (test_sdk A)) hs (None, c) = (result c1, None, c1) \<and>
      hdr_find ''Set-Cookie'' (headers (result c1)) = Some (appended (hdr_find ''Set-Cookie'' hs)
        (''my_cookie='' @ dec_nat (unat rnd) @ ''; Path=/; HttpOnly''))"
proof -
  let ?g = "\<lambda>(n :: nat) (e :: bool). set_cookie_onResponseHeaders rnd (test_sdk A)"
  obtain c1 where g: "?g (length hs) False (None, response_phase hs c) = (Continue, None, c1)"
    and v: "logs_only ((test_view (response_phase hs c))\<lparr>v_hdrs := hupd ''Set-Cookie'' (Some (appended (hdr_find ''Set-Cookie'' hs)
       (''my_cookie='' @ dec_nat (unat rnd) @ ''; Path=/; HttpOnly''))) (v_hdrs (test_view (response_phase hs c)))\<rparr>) (test_view c1)"
    using plugin_env.set_cookie_response_new [OF test_env [OF assms(1)], of "response_phase hs c" rnd] assms(2) by auto
  show ?thesis
    by (rule exI [of _ "leave_phase Continue c1"])
       (simp add: SendResponseHeaders_run [of _ ?g, OF assms(3) g] test_logs_onlyD(1) [OF v])
qed

lemma set_cookie_recognise:
  assumes "absl_strings A" and "hdr_sorted hs" and "\<not> sent_local_response c" and "hdr_sorted hs'"
    and "hdr_find ''Cookie'' hs = Some s" and "s \<noteq> []" and "length s \<le> 4096"
    and "session_cookie (split_str ''; '' s) = Some sid"
  shows "\<exists>c2 c3. SendRequestHeaders (\<lambda>n e. set_cookie_onRequestHeaders A (test_sdk A)) hs (None, c) =
        (result c2, Some sid, c2) \<and>
      SendResponseHeaders (\<lambda>n e. set_cookie_onResponseHeaders rnd (test_sdk A)) hs' (Some sid, c2) =
        (result c3, Some sid, c3) \<and>
      (\<forall>k. hdr_find k (headers (result c3)) = hdr_find k hs')"
proof -
  let ?f = "\<lambda>(n :: nat) (e :: bool). set_cookie_onRequestHeaders A (test_sdk A)"
  let ?g = "\<lambda>(n :: nat) (e :: bool). set_cookie_onResponseHeaders rnd (test_sdk A)"
  note env = test_env [OF assms(1)]
  obtain c1 where f: "?f (length hs) False (None, request_phase hs c) = (Continue, Some sid, c1)"
    and v: "logs_only (test_view (request_phase hs c)) (test_view c1)"
    using plugin_env.set_cookie_request [OF env, of "request_phase hs c" None] assms(2,5-8) by auto
  have quiet: "\<not> sent_local_response (leave_phase Continue c1)"
    using test_logs_onlyD(2) [OF v] assms(3) by simp
  let ?h = "response_phase hs' (leave_phase Continue c1)"
  obtain c2 where g: "?g (length hs') False (Some sid, ?h) = (Continue, Some sid, c2)"
    and v2: "logs_only (test_view ?h) (test_view c2)"
    using plugin_env.set_cookie_response_existing [OF env, of ?h rnd sid] assms(4) by auto
  show ?thesis
    by (intro exI [of _ "leave_phase Continue c1"] exI [of _ "leave_phase Continue c2"])
       (simp add: SendRequestHeaders_run [of ?f, OF f] SendResponseHeaders_run [of _ ?g, OF quiet g]
         test_logs_onlyD(1) [OF v2])
qed

text \<open>C15: A session cookie handed out by set\_cookie is recognised: a response on a stream without session
  carries a fresh identifier in \<open>Set-Cookie\<close>, and when a later request sends it back among any other
  cookies, that stream has this session and its response gets no new cookie.\<close>

theorem set_cookie_session_roundtrip:
  assumes "absl_strings A" and "hdr_sorted hs" and "\<not> sent_local_response c"
    and "hdr_sorted hs'" and "\<not> sent_local_response c'" and "hdr_sorted hs''"
    and "hdr_find ''Cookie'' hs' = Some (join ''; '' (pre @ [''my_cookie='' @ dec_nat (unat rnd)] @ post))"
    and "\<forall>w \<in> set (pre @ post). CHR '';'' \<notin> set w" and "\<forall>w \<in> set pre. \<not> prefix ''my_cookie='' w"
    and "length (join ''; '' (pre @ [''my_cookie='' @ dec_nat (unat rnd)] @ post)) \<le> 4096"
  shows "(\<exists>c1. SendResponseHeaders (\<lambda>n e. set_cookie_onResponseHeaders rnd (test_sdk A)) hs (None, c) = (result c1, None, c1) \<and>
      hdr_find ''Set-Cookie'' (headers (result c1)) = Some (appended (hdr_find ''Set-Cookie'' hs)
        (''my_cookie='' @ dec_nat (unat rnd) @ ''; Path=/; HttpOnly''))) \<and>
    (\<exists>c2 c3. SendRequestHeaders (\<lambda>n e. set_cookie_onRequestHeaders A (test_sdk A)) hs' (None, c') =
        (result c2, Some (dec_nat (unat rnd)), c2) \<and>
      SendResponseHeaders (\<lambda>n e. set_cookie_onResponseHeaders rnd' (test_sdk A)) hs'' (Some (dec_nat (unat rnd)), c2) =
        (result c3, Some (dec_nat (unat rnd)), c3) \<and>
      (\<forall>k. hdr_find k (headers (result c3)) = hdr_find k hs''))"
proof (rule conjI)
  let ?s = "join ''; '' (pre @ [''my_cookie='' @ dec_nat (unat rnd)] @ post)"
  show "\<exists>c1. SendResponseHeaders (\<lambda>n e. set_cookie_onResponseHeaders rnd (test_sdk A)) hs (None, c) = (result c1, None, c1) \<and>
      hdr_find ''Set-Cookie'' (headers (result c1)) = Some (appended (hdr_find ''Set-Cookie'' hs)
        (''my_cookie='' @ dec_nat (unat rnd) @ ''; Path=/; HttpOnly''))"
    using assms(1-3) by (rule set_cookie_issue)
  have "session_cookie (split_str ''; '' ?s) = Some (dec_nat (unat rnd))"
    using assms(8,9) by (rule session_cookie_join)
  moreover from this have "?s \<noteq> []" by (auto simp: session_cookie_def split_str.simps [of _ "[]"])
  ultimately show "\<exists>c2 c3. SendRequestHeaders (\<lambda>n e. set_cookie_onRequestHeaders A (test_sdk A)) hs' (None, c') =
        (result c2, Some (dec_nat (unat rnd)), c2) \<and>
      SendResponseHeaders (\<lambda>n e. set_cookie_onResponseHeaders rnd' (test_sdk A)) hs'' (Some (dec_nat (unat rnd)), c2) =
        (result c3, Some (dec_nat (unat rnd)), c3) \<and>
      (\<forall>k. hdr_find k (headers (result c3)) = hdr_find k hs'')"
    by (intro set_cookie_recognise [OF assms(1,4,5,6,7) _ assms(10)])
qed

theorem set_cookie_session_roundtrip_witness:
  "\<exists>c2 c3. SendRequestHeaders (\<lambda>n e. set_cookie_onRequestHeaders absl_ref (test_sdk absl_ref))
      [(''Cookie'', ''a=1; my_cookie=7'')] (None, new_stream Info None 0 [] []) = (result c2, Some ''7'', c2) \<and>
    SendResponseHeaders (\<lambda>n e. set_cookie_onResponseHeaders 9 (test_sdk absl_ref)) [] (Some ''7'', c2) = (result c3, Some ''7'', c3)"
proof -
  have sorted: "hdr_sorted [(''Cookie'', ''a=1; my_cookie=7'')]" "hdr_sorted []" by (simp_all add: hdr_sorted_def)
  have fresh: "\<not> sent_local_response (new_stream Info None 0 [] [])" by (simp add: new_stream_def)
  have seven: "dec_nat 7 = ''7''" by (simp add: dec_eval)
  have find: "hdr_find ''Cookie'' [(''Cookie'', ''a=1; my_cookie=7'')] =
      Some (join ''; '' ([''a=1''] @ [''my_cookie='' @ dec_nat (unat (7 :: u64))] @ []))"
    by (simp add: seven)
  show ?thesis
    using set_cookie_session_roundtrip [OF absl_ref_spec sorted(2) fresh sorted(1) fresh sorted(2) find, of 9]
    by (auto simp: seven)
qed

text \<open>C16: On a request with a \<open>Cookie\<close> header, set\_reset\_cookie removes every cookie whose name is configured
  for deletion and no other: the header is unchanged when there is none of them, removed when no
  cookie is left, and otherwise lists exactly the remaining cookies, in their order, which is what
  parsing the new header yields.\<close>

theorem cookie_deletion_exact:
  assumes "absl_strings A" and "hdr_sorted hs" and "hdr_find ''Cookie'' hs = Some s"
    and "kept = filter (\<lambda>c. fst c \<notin> deleted_names configs) (cookies_of s)"
  shows "\<exists>c1. SendRequestHeaders (\<lambda>n e. set_reset_cookie_onRequestHeaders A configs (test_sdk A)) hs ([], c) =
      (result c1, kept, c1) \<and>
    (\<forall>k. hdr_find k (headers (result c1)) =
      (if same_key ''Cookie'' k \<and> kept \<noteq> cookies_of s
       then (if kept = [] then None else Some (cookie_text kept)) else hdr_find k hs)) \<and>
    (kept \<noteq> [] \<longrightarrow> cookies_of (cookie_text kept) = kept)"
proof -
  let ?f = "\<lambda>(n :: nat) (e :: bool). set_reset_cookie_onRequestHeaders A configs (test_sdk A)"
  have touched: "(\<exists>c \<in> set (cookies_of s). fst c \<in> deleted_names configs) \<longleftrightarrow> kept \<noteq> cookies_of s"
    unfolding assms(4) by (auto simp: filter_id_conv)
  obtain c1 where f: "?f (length hs) False ([], request_phase hs c) = (Continue, kept, c1)"
    and v: "logs_only ((test_view (request_phase hs c))\<lparr>v_hdrs :=
         (if kept \<noteq> cookies_of s
          then hupd ''Cookie'' (if kept = [] then None else Some (cookie_text kept)) (v_hdrs (test_view (request_phase hs c)))
          else v_hdrs (test_view (request_phase hs c)))\<rparr>) (test_view c1)"
    using plugin_env.set_reset_cookie_request [OF test_env [OF assms(1)], of "request_phase hs c" s configs] assms(2,3)
    unfolding assms(4) [symmetric] Let_def touched by auto
  have "\<forall>c \<in> set kept. clean_cookie c" using cookies_of_clean by (auto simp: assms(4))
  then show ?thesis
    by (intro exI [of _ "leave_phase Continue c1"])
       (simp add: SendRequestHeaders_run [of ?f, OF f] test_logs_onlyD(1) [OF v] hupd_def cookies_roundtrip)
qed

theorem cookie_deletion_exact_witness:
  "\<exists>c1. SendRequestHeaders (\<lambda>n e. set_reset_cookie_onRequestHeaders absl_ref
      [\<lparr>cc_name = ''a'', cc_value = [], cc_domain = [], cc_path = [], cc_max_age = 0, cc_secure = False,
        cc_http_only = False, cc_same_site_strict = False, cc_operation = DELETE\<rparr>] (test_sdk absl_ref))
      [(''Cookie'', ''a=1;b=2; a=3'')] ([], new_stream Info None 0 [] []) = (result c1, [(''b'', ''2'')], c1) \<and>
    hdr_find ''Cookie'' (headers (result c1)) = Some ''b=2''"
proof -
  let ?cfg = "\<lparr>cc_name = ''a'', cc_value = [], cc_domain = [], cc_path = [], cc_max_age = 0, cc_secure = False,
        cc_http_only = False, cc_same_site_strict = False, cc_operation = DELETE\<rparr>"
  have sorted: "hdr_sorted [(''Cookie'', ''a=1;b=2; a=3'')]" by (simp add: hdr_sorted_def)
  have find: "hdr_find ''Cookie'' [(''Cookie'', ''a=1;b=2; a=3'')] = Some ''a=1;b=2; a=3''" by simp
  have cookies: "cookies_of ''a=1;b=2; a=3'' = [(''a'', ''1''), (''b'', ''2''), (''a'', ''3'')]"
    by (simp add: cookies_of_def cookie_pair_def strip_def isspace_def char_code_def split_once_def map_filter_simps)
  have kept: "[(''b'', ''2'')] = filter (\<lambda>c. fst c \<notin> deleted_names [?cfg]) (cookies_of ''a=1;b=2; a=3'')"
    by (simp add: cookies deleted_names_def)
  have txt_eq: "cookie_text [(''b'', ''2'')] = ''b=2''" by (simp add: cookie_text_def)
  show ?thesis
    using cookie_deletion_exact [OF absl_ref_spec sorted find kept, of "new_stream Info None 0 [] []"] cookies txt_eq
    by auto
qed

end
