(* ===== verification/Url_Samples.thy ===== *)
theory Url_Samples
  imports Header_Samples
begin

text \<open>
  The plugins that read or rewrite the request path: log\_query, add\_geo\_query, set\_query, ab\_testing
  and regex\_rewrite. Boost.URL, RE2 and \<^verbatim>\<open>std::hash\<close> are not part of the repository: the operations
  on URLs are the fields of the record \<open>urls\<close> over an unspecified type of URLs, the compiled
  expression and the hash function are arguments.
\<close>

section \<open>URLs\<close>

record 'u urls =
  parse_relative_ref :: "string \<Rightarrow> string + 'u"
  parse_uri_reference :: "string \<Rightarrow> string + 'u"
  params :: "'u \<Rightarrow> (string \<times> string) list"
  params_erase :: "nat \<Rightarrow> 'u \<Rightarrow> 'u"
  params_set :: "string \<Rightarrow> string \<Rightarrow> 'u \<Rightarrow> 'u"
  params_plus_erase :: "string \<Rightarrow> 'u \<Rightarrow> 'u"
  params_plus_set :: "string \<Rightarrow> string \<Rightarrow> 'u \<Rightarrow> 'u"
  encode_pchars_plus :: "string \<Rightarrow> string"
  url_buffer :: "'u \<Rightarrow> string"
  encoded_resource :: "'u \<Rightarrow> string"

text \<open>\<^verbatim>\<open>params().find(key)\<close>: the position of the first parameter with that key.\<close>

fun find_param :: "string \<Rightarrow> (string \<times> string) list \<Rightarrow> nat option" where
  "find_param key [] = None"
| "find_param key ((k, v) # ps) = (if k = key then Some 0 else map_option Suc (find_param key ps))"

text \<open>
  \<^verbatim>\<open>params().set(key, value)\<close> as documented: the first parameter with that key gets the value and
  the others with that key are erased; without one, a new parameter is appended.
\<close>

fun param_set :: "string \<Rightarrow> string \<Rightarrow> (string \<times> string) list \<Rightarrow> (string \<times> string) list" where
  "param_set key val [] = [(key, val)]"
| "param_set key val ((k, v) # ps) =
     (if k = key then (key, val) # filter (\<lambda>p. fst p \<noteq> key) ps else (k, v) # param_set key val ps)"

definition urls_spec :: "'u urls \<Rightarrow> bool" where
  "urls_spec U \<longleftrightarrow>
     (\<forall>u key val. params U (params_set U key val u) = param_set key val (params U u)) \<and>
     (\<forall>u. parse_uri_reference U (url_buffer U u) = Inr u)"

lemma find_param_Some:
  "find_param key ps = Some i \<Longrightarrow> i < length ps \<and> fst (ps ! i) = key \<and> (\<forall>j < i. fst (ps ! j) \<noteq> key)"
proof (induction ps arbitrary: i)
  case (Cons p ps)
  obtain k v where p: "p = (k, v)" by (cases p)
  show ?case
  proof (cases "k = key")
    case False
    then obtain j where "find_param key ps = Some j" and i: "i = Suc j" using Cons.prems by (auto simp: p)
    with Cons.IH show ?thesis using False by (auto simp: p nth_Cons split: nat.splits)
  qed (use Cons.prems in \<open>simp add: p\<close>)
qed simp

lemma find_param_None: "find_param key ps = None \<longleftrightarrow> key \<notin> fst ` set ps"
  by (induction key ps rule: find_param.induct) auto

lemma param_set_values: "map snd (filter (\<lambda>p. fst p = key) (param_set key val ps)) = [val]"
proof (induction ps)
  case (Cons p ps)
  then show ?case by (cases p) (auto simp: filter_empty_conv)
qed simp

lemma param_set_others:
  "filter (\<lambda>p. fst p \<noteq> key) (param_set key val ps) = filter (\<lambda>p. fst p \<noteq> key) ps"
  by (induction key val ps rule: param_set.induct) auto

section \<open>The plugins\<close>

definition log_query_onRequestHeaders :: "'u urls \<Rightarrow> 'h sdk \<Rightarrow> 'h \<Rightarrow> FilterHeadersStatus \<times> 'h" where
  "log_query_onRequestHeaders U S h =
     (let path = getRequestHeader S '':path'' h
      in if is_set path
         then let token = (case parse_uri_reference U (wview path) of
                    Inl _ \<Rightarrow> ''<missing>''
                  | Inr url \<Rightarrow> (case find_param ''token'' (params U url) of
                      None \<Rightarrow> ''<missing>'' | Some it \<Rightarrow> snd (params U url ! it)))
              in (Continue, LOG_INFO S (''token: '' @ token) h)
         else (Continue, h))"

definition add_geo_query_onRequestHeaders ::
    "'u urls \<Rightarrow> 'h sdk \<Rightarrow> 'h \<Rightarrow> (FilterHeadersStatus \<times> 'h) option" where
  "add_geo_query_onRequestHeaders U S h =
     (case (case getProperty S [''request'', ''client_region''] h of
              None \<Rightarrow> Some ''unknown''
            | Some client_region \<Rightarrow>
                (case deref client_region of
                   None \<Rightarrow> None
                 | Some client_region_view \<Rightarrow>
                     Some (if client_region_view \<noteq> [] then client_region_view else ''unknown''))) of
        None \<Rightarrow> None
      | Some country_value \<Rightarrow>
          let h1 = LOG_INFO S (''country: '' @ country_value) h;
              path = getRequestHeader S '':path'' h1
          in if is_set path
             then (case parse_uri_reference U (wview path) of
                     Inl _ \<Rightarrow> Some (Continue, h1)
                   | Inr url \<Rightarrow>
                       Some (Continue, snd (replaceRequestHeader S '':path''
                         (url_buffer U (params_set U ''country'' country_value url)) h1)))
             else Some (Continue, h1))"

definition kMaxPathLength :: nat where
  "kMaxPathLength = 4096"

definition set_query_onRequestHeaders :: "'u urls \<Rightarrow> 'h sdk \<Rightarrow> 'h \<Rightarrow> FilterHeadersStatus \<times> 'h" where
  "set_query_onRequestHeaders U S h =
     (let path = getRequestHeader S '':path'' h
      in if \<not> is_set path then (Continue, LOG_DEBUG S ''No :path header found'' h)
         else
           let path_view = wview path
           in if length path_view > kMaxPathLength
              then (Continue, LOG_WARN S (''Path too long ('' @ dec_nat (length path_view) @
                      '' bytes), skipping processing'') h)
              else case parse_uri_reference U path_view of
                Inl _ \<Rightarrow> (Continue, LOG_WARN S (''Failed to parse URL: '' @ path_view) h)
              | Inr url \<Rightarrow>
                  let val = encode_pchars_plus U ''new val'';
                      url1 = params_plus_erase U ''key'' url;
                      url2 = params_plus_set U ''key'' val url1;
                      (r, h1) = replaceRequestHeader S '':path'' (encoded_resource U url2) h
                  in (Continue,
                      if r \<noteq> Ok
                      then LOG_ERROR S (''Failed to replace :path header, error: '' @ dec_int (result_code S r)) h1
                      else LOG_DEBUG S (''Successfully updated :path to: '' @ encoded_resource U url2) h1))"

section \<open>ab\_testing\<close>

definition a_path :: string where
  "a_path = ''/v1/''"

definition b_path :: string where
  "b_path = ''/v2/''"

definition percentile :: nat where
  "percentile = 50"

text \<open>
  The user is returned as a view of a temporary string that is gone when the caller looks at it:
  \<open>stale\<close> is what the caller reads through the view. A path that does not parse is dereferenced
  all the same, hence \<^const>\<open>None\<close>.
\<close>

definition extractUserFromPath :: "'u urls \<Rightarrow> (string \<Rightarrow> string) \<Rightarrow> string \<Rightarrow> string option" where
  "extractUserFromPath U stale path = (case parse_relative_ref U path of
      Inl _ \<Rightarrow> None
    | Inr url \<Rightarrow> (case find_param ''user'' (params U url) of
        Some it \<Rightarrow> Some (stale (snd (params U url ! it))) | None \<Rightarrow> Some []))"

definition ab_testing_onRequestHeaders :: "absl \<Rightarrow> 'u urls \<Rightarrow> (string \<Rightarrow> string) \<Rightarrow> (string \<Rightarrow> u64) \<Rightarrow> 'h sdk \<Rightarrow> 'h
    \<Rightarrow> (FilterHeadersStatus \<times> 'h) option" where
  "ab_testing_onRequestHeaders A U stale hash S h =
     (case deref (getRequestHeader S '':path'' h) of
        None \<Rightarrow> None
      | Some path \<Rightarrow>
          (case extractUserFromPath U stale path of
             None \<Rightarrow> None
           | Some user \<Rightarrow>
               if StartsWithIgnoreCase A path a_path \<and> user \<noteq> [] \<and> unat (hash user) mod 100 \<le> percentile
               then let new_path = b_path @ drop (length a_path) path
                    in Some (Continue, snd (replaceRequestHeader S '':path'' new_path h))
               else Some (Continue, h)))"

section \<open>regex\_rewrite\<close>

text \<open>\<open>re_replace\<close> is \<^verbatim>\<open>RE2::Replace\<close> with the compiled expression: the new text if there was a match.\<close>

definition regex_rewrite_onConfigure :: "(string \<Rightarrow> string option) \<times> bool \<Rightarrow> bool \<times> (string \<Rightarrow> string option) option" where
  "regex_rewrite_onConfigure compiled = (snd compiled, Some (fst compiled))"

definition regex_rewrite_onRequestHeaders :: "(string \<Rightarrow> string option) option \<Rightarrow> 'h sdk \<Rightarrow> 'h
    \<Rightarrow> (FilterHeadersStatus \<times> 'h) option" where
  "regex_rewrite_onRequestHeaders path_match S h =
     (let path = getRequestHeader S '':path'' h
      in if \<not> is_set path then Some (Continue, LOG_ERROR S ''Failed to get :path header'' h)
         else case path_match of
             None \<Rightarrow> None
           | Some re_replace \<Rightarrow> (case re_replace (wview path) of
               Some edit \<Rightarrow> Some (Continue, or_log S ''Failed to replace :path header''
                              (replaceRequestHeader S '':path'' edit h))
             | None \<Rightarrow> Some (Continue, h)))"

section \<open>Behaviour on any host that honours the contract\<close>

text \<open>The country a host reports for a request, or \<open>unknown\<close>.\<close>

definition country_of :: "string option \<Rightarrow> string" where
  "country_of r = (case r of None \<Rightarrow> ''unknown'' | Some c \<Rightarrow> if c = [] then ''unknown'' else c)"

context plugin_env
begin

lemma add_geo_query_view:
  assumes "good h" and "v_phase (view h) = Some RequestHeaders"
    and "v_hdrs (view h) '':path'' = Some path" and "parse_uri_reference U path = Inr url"
  shows "\<exists>h'. add_geo_query_onRequestHeaders U S h = Some (Continue, h') \<and>
     logs_only ((view h)\<lparr>v_hdrs := hupd '':path'' (Some (url_buffer U (params_set U ''country''
       (country_of (v_props (view h) [''request'', ''client_region''])) url))) (v_hdrs (view h))\<rparr>) (view h')"
proof -
  have seg: "list_all path_segment [''request'', ''client_region'']" by (simp add: path_segment_def)
  have get: "getRequestHeader S '':path'' (LOG_INFO S m h) = WasmData (Some path)" for m
    using assms(1-3) by (intro get_Some) simp_all
  show ?thesis
    using get_property [OF assms(1) seg] assms get
    by (simp add: add_geo_query_onRequestHeaders_def country_of_def Let_def v_log_update split: option.split)
qed

lemma ab_testing_view:
  assumes "good h" and "v_phase (view h) = Some RequestHeaders"
    and "v_hdrs (view h) '':path'' = Some path" and "extractUserFromPath U stale path = Some user"
  shows "\<exists>h'. ab_testing_onRequestHeaders A U stale hash S h = Some (Continue, h') \<and> good h' \<and>
     view h' = (view h)\<lparr>v_hdrs :=
       (if prefix ''/v1/'' (map tolower path) \<and> user \<noteq> [] \<and> unat (hash user) mod 100 \<le> 50
        then hupd '':path'' (Some (''/v2/'' @ drop (length ''/v1/'') path)) (v_hdrs (view h)) else v_hdrs (view h))\<rparr>"
proof -
  have low: "map tolower ''/v1/'' = ''/v1/''" by (simp add: ascii_eval)
  show ?thesis
    using get_deref [OF assms(1-3)] assms
    by (auto simp: ab_testing_onRequestHeaders_def a_path_def b_path_def percentile_def Let_def low
        simp del: list.map)
qed

end

section \<open>Properties\<close>


text \<open>
  A concrete library of URLs: a URL is its parameters; keys and values are written with every
  character escaped.
\<close>

fun esc :: "string \<Rightarrow> string" where
  "esc [] = []"
| "esc (c # s) = CHR ''x'' # c # esc s"

fun unesc :: "string \<Rightarrow> string \<times> string" where
  "unesc (x # c # s) = (if x = CHR ''x'' then let (t, r) = unesc s in (c # t, r) else ([], c # s))"
| "unesc [x] = ([], [])"
| "unesc [] = ([], [])"

definition simple_buffer :: "(string \<times> string) list \<Rightarrow> string" where
  "simple_buffer ps = concat (map (\<lambda>p. esc (fst p) @ ''='' @ esc (snd p) @ ''&'') ps)"

lemma unesc_esc: "d \<noteq> CHR ''x'' \<Longrightarrow> unesc (esc s @ d # r) = (s, r)"
proof (induction s)
  case Nil
  then show ?case by (cases r) auto
qed simp

lemma length_unesc: "length (snd (unesc s)) \<le> length s - 1"
  by (induction s rule: unesc.induct) (auto simp: split_beta)

function simple_parse :: "string \<Rightarrow> (string \<times> string) list" where
  "simple_parse s = (if s = [] then [] else
     let (k, r) = unesc s; (v, r') = unesc r in (k, v) # simple_parse r')"
  by pat_completeness auto
termination
proof (relation "measure length")
  fix s x k r y v r'
  assume "s \<noteq> []" "x = unesc s" "(k, r) = x" "y = unesc r" "(v, r') = y"
  then have "length r' \<le> length r - 1" "length r \<le> length s - 1" "0 < length s"
    using length_unesc [of r] length_unesc [of s] by (auto simp: prod_eq_iff)
  then have "length r' < length s" by linarith
  then show "(r', s) \<in> measure length" by simp
qed simp

declare simple_parse.simps [simp del]

lemma simple_parse_buffer: "simple_parse (simple_buffer ps) = ps"
proof (induction ps)
  case Nil
  then show ?case by (simp add: simple_buffer_def simple_parse.simps)
next
  case (Cons p ps)
  let ?rest = "esc (snd p) @ CHR ''&'' # simple_buffer ps"
  have eq: "simple_buffer (p # ps) = esc (fst p) @ CHR ''='' # ?rest" by (simp add: simple_buffer_def)
  have "unesc (esc (fst p) @ CHR ''='' # ?rest) = (fst p, ?rest)" and "unesc ?rest = (snd p, simple_buffer ps)"
    by (simp_all add: unesc_esc)
  with Cons show ?case by (subst simple_parse.simps) (simp add: eq)
qed

definition simple_urls :: "(string \<times> string) list urls" where
  "simple_urls = \<lparr>parse_relative_ref = (\<lambda>s. Inr (simple_parse s)), parse_uri_reference = (\<lambda>s. Inr (simple_parse s)),
     params = (\<lambda>u. u), params_erase = (\<lambda>i u. take i u @ drop (Suc i) u), params_set = param_set,
     params_plus_erase = (\<lambda>k. filter (\<lambda>p. fst p \<noteq> k)), params_plus_set = param_set,
     encode_pchars_plus = (\<lambda>s. s), url_buffer = simple_buffer, encoded_resource = simple_buffer\<rparr>"

lemma simple_urls_spec: "urls_spec simple_urls"
  by (simp add: urls_spec_def simple_urls_def simple_parse_buffer)


text \<open>ab\_testing sends a request to version 2 exactly when its path is below \<open>/v1/\<close> (in any letter
  case), it names a user, and the hash of the user falls into the buckets 0 to 50 out of 100; then
  only the version in the path changes. The decision depends on nothing but the path.\<close>

theorem ab_testing_decision:
  assumes "absl_strings A" and "hdr_sorted hs" and "hdr_find '':path'' hs = Some path"
    and "extractUserFromPath U stale path = Some user"
  shows "\<exists>c1. ab_testing_onRequestHeaders A U stale hash (test_sdk A) (request_phase hs c) = Some (Continue, c1) \<and>
    (\<forall>k. hdr_find k (headers (result c1)) =
      (if same_key '':path'' k \<and> prefix ''/v1/'' (map tolower path) \<and> user \<noteq> [] \<and> unat (hash user) mod 100 \<le> 50
       then Some (''/v2/'' @ drop (length ''/v1/'') path) else hdr_find k hs))"
proof -
  obtain c1 where f: "ab_testing_onRequestHeaders A U stale hash (test_sdk A) (request_phase hs c) = Some (Continue, c1)"
    and v: "test_view c1 = (test_view (request_phase hs c))\<lparr>v_hdrs :=
       (if prefix ''/v1/'' (map tolower path) \<and> user \<noteq> [] \<and> unat (hash user) mod 100 \<le> 50
        then hupd '':path'' (Some (''/v2/'' @ drop (length ''/v1/'') path)) (v_hdrs (test_view (request_phase hs c)))
        else v_hdrs (test_view (request_phase hs c)))\<rparr>"
    using plugin_env.ab_testing_view [OF test_env [OF assms(1)], of "request_phase hs c" path U stale user hash] assms(2-4)
    by auto
  show ?thesis
    by (rule exI [of _ c1]) (auto simp: f test_viewD(1) [OF v] hupd_def)
qed

theorem ab_testing_decision_witness:
  "\<exists>c1. ab_testing_onRequestHeaders absl_ref (simple_urls\<lparr>parse_relative_ref := \<lambda>s. Inr [(''user'', ''u'')]\<rparr>)
      (\<lambda>s. s) (\<lambda>s. 150) (test_sdk absl_ref) (request_phase [('':path'', ''/V1/f'')] (new_stream Info None 0 [] [])) =
      Some (Continue, c1) \<and> hdr_find '':path'' (headers (result c1)) = Some ''/v2/f''"
proof -
  let ?U = "simple_urls\<lparr>parse_relative_ref := \<lambda>s. Inr [(''user'', ''u'')]\<rparr>"
  have sorted: "hdr_sorted [('':path'', ''/V1/f'')]" by (simp add: hdr_sorted_def)
  have find: "hdr_find '':path'' [('':path'', ''/V1/f'')] = Some ''/V1/f''" by simp
  have user: "extractUserFromPath ?U (\<lambda>s. s) ''/V1/f'' = Some ''u''"
    by (simp add: extractUserFromPath_def simple_urls_def)
  show ?thesis
    using ab_testing_decision [OF absl_ref_spec sorted find user, of "\<lambda>s. 150" "new_stream Info None 0 [] []"]
    by (auto simp: ascii_eval)
qed

end
