(* ===== verification/Auth_Samples.thy ===== *)
theory Auth_Samples
  imports Url_Samples
begin

text \<open>
  The plugins that admit requests by a token: hmac\_token\_validation (a time stamp and a keyed hash
  in \<open>Authorization\<close>), hmac\_authcookie (a signed cookie), hmac\_authtoken (a signed path) and
  jwt\_auth. OpenSSL, Abseil's escapings and the JWT library are not part of the repository; their
  functions are the fields of the records \<open>crypto\<close> and \<open>jwt_lib\<close>. The clock is an argument.
\<close>

record crypto =
  HMAC_md5 :: "string \<Rightarrow> string \<Rightarrow> string option"
  HMAC_sha256 :: "string \<Rightarrow> string \<Rightarrow> string"
  BytesToHexString :: "string \<Rightarrow> string"
  Base64Unescape :: "string \<Rightarrow> string option"

section \<open>hmac\_token\_validation\<close>

definition hv_secret_key :: string where
  "hv_secret_key = ''your-secret-key''"

definition token_validity_seconds :: int where
  "token_validity_seconds = 300"

definition computeHmacMd5 :: "crypto \<Rightarrow> string \<Rightarrow> string \<Rightarrow> string" where
  "computeHmacMd5 K message key =
     (if message = [] \<or> key = [] then []
      else case HMAC_md5 K key message of
             None \<Rightarrow> []
           | Some hash \<Rightarrow> if length hash = 0 then [] else BytesToHexString K hash)"

text \<open>The age of a token is computed in 64 unsigned bits.\<close>

definition token_expired :: "int \<Rightarrow> int \<Rightarrow> bool" where
  "token_expired now token_timestamp \<longleftrightarrow>
     (word_of_int token_validity_seconds :: u64) < word_of_int now - word_of_int token_timestamp"

definition hv_prefix :: string where
  "hv_prefix = ''HMAC ''"

definition hmac_token_validation_onRequestHeaders ::
    "absl \<Rightarrow> crypto \<Rightarrow> int \<Rightarrow> 'h sdk \<Rightarrow> 'h \<Rightarrow> FilterHeadersStatus \<times> 'h" where
  "hmac_token_validation_onRequestHeaders A K now S h =
     (let auth_header = getRequestHeader S ''authorization'' h
      in if \<not> is_set auth_header \<or> wview auth_header = []
         then (StopIteration, snd (sendLocalResponse S 401
                 (''WWW-Authenticate: HMAC realm='' @ [CHR 0x22] @ ''api'' @ [CHR 0x22])
                 ''Missing Authorization header'' [] h))
         else
           let auth_value = wview auth_header
           in if \<not> StartsWithIgnoreCase A auth_value hv_prefix
              then (StopIteration, snd (sendLocalResponse S 400 []
                      (''Invalid Authorization scheme. Use '' @ [CHR 0x27] @ ''HMAC'' @ [CHR 0x27]) [] h))
              else
                let token = drop (length hv_prefix) auth_value;
                    token_parts = StrSplitMax1 A token (CHR '':'')
                in if length token_parts \<noteq> 2
                   then (StopIteration, snd (sendLocalResponse S 400 []
                           (''Invalid token format: expected '' @ [CHR 0x27] @ ''timestamp:hmac'' @ [CHR 0x27]) [] h))
                   else
                     let token_timestamp_str = token_parts ! 0; token_hmac = token_parts ! 1
                     in case SimpleAtoi64 A token_timestamp_str of
                          None \<Rightarrow> (StopIteration, snd (sendLocalResponse S 400 [] ''Invalid timestamp'' [] h))
                        | Some token_timestamp \<Rightarrow>
                            if token_expired now token_timestamp
                            then (StopIteration, snd (sendLocalResponse S 403 [] ''Token expired'' [] h))
                            else
                              let path = getRequestHeader S '':path'' h; method = getRequestHeader S '':method'' h
                              in if \<not> is_set path \<or> \<not> is_set method
                                 then (StopIteration, snd (sendLocalResponse S 400 [] ''Missing required headers'' [] h))
                                 else
                                   let message = wview method @ wview path @ token_timestamp_str;
                                       expected_hmac = computeHmacMd5 K message hv_secret_key
                                   in if expected_hmac = []
                                      then (StopIteration, snd (sendLocalResponse S 500 []
                                              ''Internal server error during authentication'' [] h))
                                      else if expected_hmac \<noteq> token_hmac
                                      then (StopIteration, snd (sendLocalResponse S 403 [] ''Invalid HMAC'' [] h))
                                      else (Continue, h))"

section \<open>hmac\_authcookie\<close>

definition kSecretKey :: string where
  "kSecretKey = ''your_secret_key''"

definition computeHmacSignature :: "crypto \<Rightarrow> string \<Rightarrow> string" where
  "computeHmacSignature K data = BytesToHexString K (HMAC_sha256 K kSecretKey data)"

definition isHashTimestampValid :: "absl \<Rightarrow> int \<Rightarrow> string \<Rightarrow> bool" where
  "isHashTimestampValid A unix_now expiration_timestamp \<longleftrightarrow>
     (case SimpleAtoi64 A expiration_timestamp of
        None \<Rightarrow> False
      | Some parsed_expiration_timestamp \<Rightarrow> unix_now \<le> parsed_expiration_timestamp)"

fun firstMatch :: "(string \<Rightarrow> bool) \<Rightarrow> string list \<Rightarrow> string option" where
  "firstMatch ip_match [] = None"
| "firstMatch ip_match (ip # ips) = (if ip_match ip then Some ip else firstMatch ip_match ips)"

text \<open>The outer option is the dereferenced header pointer, the inner one the result.\<close>

definition getClientIp :: "absl \<Rightarrow> (string \<Rightarrow> bool) \<Rightarrow> 'h sdk \<Rightarrow> 'h \<Rightarrow> string option option" where
  "getClientIp A ip_match S h = (case deref (getRequestHeader S ''X-Forwarded-For'' h) of
      None \<Rightarrow> None
    | Some ips \<Rightarrow> Some (firstMatch ip_match (StrSplit A ips (CHR '',''))))"

fun findAuthorization :: "absl \<Rightarrow> string list \<Rightarrow> string option" where
  "findAuthorization A [] = None"
| "findAuthorization A (sp # sps) =
     (let cookie = to_pair A (StrSplitMax1 A sp (CHR ''=''))
      in if fst cookie = ''Authorization'' then Some (snd cookie) else findAuthorization A sps)"

definition getAuthorizationCookie :: "absl \<Rightarrow> 'h sdk \<Rightarrow> 'h \<Rightarrow> string option option" where
  "getAuthorizationCookie A S h = (case deref (getRequestHeader S ''Cookie'' h) of
      None \<Rightarrow> None
    | Some cookies \<Rightarrow> Some (findAuthorization A (StrSplitBy A cookies ''; '')))"

definition parseAuthorizationCookie :: "absl \<Rightarrow> crypto \<Rightarrow> string \<Rightarrow> (string \<times> string) option" where
  "parseAuthorizationCookie A K cookie =
     (let payload_and_hash = to_pair A (StrSplitBy A cookie ''.'')
      in if snd payload_and_hash \<noteq> []
         then case Base64Unescape K (fst payload_and_hash) of
                None \<Rightarrow> None
              | Some payload \<Rightarrow> (case Base64Unescape K (snd payload_and_hash) of
                  None \<Rightarrow> None | Some hash \<Rightarrow> Some (payload, hash))
         else None)"

definition forbid :: "'h sdk \<Rightarrow> string \<Rightarrow> 'h \<Rightarrow> FilterHeadersStatus \<times> 'h" where
  "forbid S msg h = (ContinueAndEndStream,
     snd (sendLocalResponse S 403 [] (msg @ [CHR 0x0A]) [] (LOG_INFO S msg h)))"

definition hmac_authcookie_onRequestHeaders :: "absl \<Rightarrow> crypto \<Rightarrow> (string \<Rightarrow> bool) \<Rightarrow> int \<Rightarrow> 'h sdk \<Rightarrow> 'h
    \<Rightarrow> (FilterHeadersStatus \<times> 'h) option" where
  "hmac_authcookie_onRequestHeaders A K ip_match now S h =
     (case getClientIp A ip_match S h of
        None \<Rightarrow> None
      | Some None \<Rightarrow> Some (forbid S ''Access forbidden - missing client IP.'' h)
      | Some (Some ip) \<Rightarrow>
          (case getAuthorizationCookie A S h of
             None \<Rightarrow> None
           | Some None \<Rightarrow> Some (forbid S ''Access forbidden - missing HMAC cookie.'' h)
           | Some (Some token) \<Rightarrow>
               (case parseAuthorizationCookie A K token of
                  None \<Rightarrow> Some (forbid S ''Access forbidden - invalid HMAC cookie.'' h)
                | Some (payload, hash) \<Rightarrow>
                    if computeHmacSignature K payload \<noteq> hash
                    then Some (forbid S ''Access forbidden - invalid HMAC hash.'' h)
                    else
                      let client_ip_and_expiration = to_pair A (StrSplit A payload (CHR '',''))
                      in if ip \<noteq> fst client_ip_and_expiration
                         then Some (forbid S ''Access forbidden - invalid client IP.'' h)
                         else if \<not> isHashTimestampValid A now (snd client_ip_and_expiration)
                         then Some (forbid S ''Access forbidden - hash expired.'' h)
                         else Some (Continue, h))))"

section \<open>hmac\_authtoken\<close>

definition hmac_authtoken_onRequestHeaders :: "crypto \<Rightarrow> 'u urls \<Rightarrow> 'h sdk \<Rightarrow> 'h
    \<Rightarrow> (FilterHeadersStatus \<times> 'h) option" where
  "hmac_authtoken_onRequestHeaders K U S h =
     (case deref (getRequestHeader S '':path'' h) of
        None \<Rightarrow> None
      | Some p \<Rightarrow>
          (case parse_relative_ref U p of
             Inl err \<Rightarrow>
               Some (ContinueAndEndStream, snd (sendLocalResponse S 400 []
                 (''Error parsing the :path HTTP header.'' @ [CHR 0x0A]) []
                 (LOG_ERROR S (''Error parsing the :path HTTP header: '' @ err) h)))
           | Inr url \<Rightarrow>
               (case find_param ''token'' (params U url) of
                  None \<Rightarrow> Some (forbid S ''Access forbidden - missing token.'' h)
                | Some it \<Rightarrow>
                    let token = snd (params U url ! it);
                        path = url_buffer U (params_erase U it url)
                    in if computeHmacSignature K path \<noteq> token
                       then Some (forbid S ''Access forbidden - invalid token.'' h)
                       else Some (Continue, snd (replaceRequestHeader S '':path'' path h)))))"

section \<open>jwt\_auth\<close>

record ('j, 'k) jwt_lib =
  createFrom :: "string \<Rightarrow> 'k"
  keys_ok :: "'k \<Rightarrow> bool"
  parseFromString :: "string \<Rightarrow> 'j option"
  verifyJwt :: "'j \<Rightarrow> 'k \<Rightarrow> bool"

definition jwt_auth_onConfigure :: "('j, 'k) jwt_lib \<Rightarrow> 'h sdk \<Rightarrow> nat \<Rightarrow> 'h \<Rightarrow> (bool \<times> 'k) option" where
  "jwt_auth_onConfigure J S config_len h =
     (case deref (getBufferBytes S PluginConfiguration 0 config_len h) of
        None \<Rightarrow> None
      | Some rsa_key \<Rightarrow> let jwks = createFrom J rsa_key in Some (keys_ok J jwks, jwks))"

definition jwt_auth_onRequestHeaders :: "('j, 'k) jwt_lib \<Rightarrow> 'u urls \<Rightarrow> 'k \<Rightarrow> 'h sdk \<Rightarrow> 'h
    \<Rightarrow> (FilterHeadersStatus \<times> 'h) option" where
  "jwt_auth_onRequestHeaders J U jwks S h =
     (let path = getRequestHeader S '':path'' h
      in if is_set path \<and> length (wview path) > 0
         then (case parse_uri_reference U (wview path) of
                 Inl _ \<Rightarrow> None
               | Inr url \<Rightarrow>
                   (case find_param ''jwt'' (params U url) of
                      None \<Rightarrow> Some (forbid S ''Access forbidden - missing token.'' h)
                    | Some it \<Rightarrow>
                        (case parseFromString J (snd (params U url ! it)) of
                           None \<Rightarrow> Some (forbid S ''Access forbidden - invalid token.'' h)
                         | Some jwt \<Rightarrow>
                             if \<not> verifyJwt J jwt jwks then Some (forbid S ''Access forbidden.'' h)
                             else Some (Continue, snd (replaceRequestHeader S '':path''
                                    (url_buffer U (params_erase U it url)) h)))))
         else Some (Continue, h))"

section \<open>Tokens of hmac\_token\_validation\<close>

lemma uint_word_of_int_64: "uint (word_of_int x :: u64) = x mod 2 ^ 64"
  by (simp add: uint_word_of_int)

text \<open>The wrap-around of the subtraction makes a time stamp from the future an expired one.\<close>

lemma token_expired_iff:
  assumes "0 \<le> now" and "now < 2 ^ 63" and "- (2 ^ 63) \<le> t" and "t < 2 ^ 63"
  shows "token_expired now t \<longleftrightarrow> \<not> (t \<le> now \<and> now \<le> t + 300)"
proof -
  have "token_expired now t \<longleftrightarrow> 300 < (now - t) mod 2 ^ 64"
    by (simp add: token_expired_def token_validity_seconds_def word_less_def uint_word_of_int_64 flip: of_int_diff)
  also have "\<dots> \<longleftrightarrow> \<not> (t \<le> now \<and> now \<le> t + 300)"
  proof (cases "t \<le> now")
    case True
    then show ?thesis using assms by (subst mod_pos_pos_trivial) auto
  next
    case False
    have "(now - t) mod 2 ^ 64 = (now - t + 2 ^ 64) mod 2 ^ 64" by (simp only: mod_add_self2)
    also have "\<dots> = now - t + 2 ^ 64" using False assms by (intro mod_pos_pos_trivial) auto
    finally show ?thesis using False assms by simp
  qed
  finally show ?thesis .
qed

text \<open>The time stamp and the hash of an \<open>Authorization\<close> value.\<close>

definition token_of :: "string \<Rightarrow> (string \<times> string) option" where
  "token_of a = (if prefix (map tolower hv_prefix) (map tolower a)
     then case split_once (CHR '':'') (drop (length hv_prefix) a) of [ts, mac] \<Rightarrow> Some (ts, mac) | _ \<Rightarrow> None
     else None)"

lemma prefix_tolower_iff:
  "prefix (map tolower p) (map tolower s) \<longleftrightarrow> (\<exists>a b. s = a @ b \<and> same_key p a)"
proof
  assume "prefix (map tolower p) (map tolower s)"
  then obtain r where r: "map tolower s = map tolower p @ r" by (auto simp: prefix_def)
  then have "same_key p (take (length p) s)"
    by (simp add: same_key_def take_map [symmetric])
  then show "\<exists>a b. s = a @ b \<and> same_key p a" by (metis append_take_drop_id)
qed (auto simp: same_key_def prefix_def)

lemma token_of_iff:
  "token_of a = Some (ts, mac) \<longleftrightarrow>
     (\<exists>pre. a = pre @ ts @ CHR '':'' # mac \<and> same_key hv_prefix pre \<and> CHR '':'' \<notin> set ts)"
proof
  assume tok: "token_of a = Some (ts, mac)"
  then have p: "prefix (map tolower hv_prefix) (map tolower a)"
    and two: "split_once (CHR '':'') (drop (length hv_prefix) a) = [ts, mac]"
    by (auto simp: token_of_def split: if_splits list.splits)
  from p obtain x b where a: "a = x @ b" and x: "same_key hv_prefix x"
    unfolding prefix_tolower_iff by blast
  have "length x = length hv_prefix" using same_key_length [OF x] by simp
  then have "drop (length hv_prefix) a = b" using a by simp
  with two split_once_two [of "CHR '':''" b ts mac] a x
  show "\<exists>pre. a = pre @ ts @ CHR '':'' # mac \<and> same_key hv_prefix pre \<and> CHR '':'' \<notin> set ts" by auto
next
  assume "\<exists>pre. a = pre @ ts @ CHR '':'' # mac \<and> same_key hv_prefix pre \<and> CHR '':'' \<notin> set ts"
  then obtain pre where a: "a = pre @ ts @ CHR '':'' # mac" and pre: "same_key hv_prefix pre"
    and ts: "CHR '':'' \<notin> set ts" by blast
  have "prefix (map tolower hv_prefix) (map tolower a)" unfolding prefix_tolower_iff using a pre by blast
  moreover have "drop (length hv_prefix) a = ts @ CHR '':'' # mac" using a same_key_length [OF pre] by simp
  ultimately show "token_of a = Some (ts, mac)"
    using ts by (simp add: token_of_def split_once_append)
qed

text \<open>The requests hmac\_token\_validation admits.\<close>

definition token_admitted :: "crypto \<Rightarrow> int \<Rightarrow> string \<Rightarrow> string \<Rightarrow> string \<Rightarrow> bool" where
  "token_admitted K now method path auth \<longleftrightarrow> (\<exists>pre ts mac t.
     auth = pre @ ts @ '':'' @ mac \<and> same_key hv_prefix pre \<and> CHR '':'' \<notin> set ts \<and>
     simple_atoi (- (2 ^ 63)) (2 ^ 63 - 1) ts = Some t \<and> t \<le> now \<and> now \<le> t + 300 \<and>
     mac \<noteq> [] \<and> mac = computeHmacMd5 K (method @ path @ ts) hv_secret_key)"

lemma token_admitted_alt:
  "token_admitted K now method path auth \<longleftrightarrow> (\<exists>ts mac t. token_of auth = Some (ts, mac) \<and>
     simple_atoi (- (2 ^ 63)) (2 ^ 63 - 1) ts = Some t \<and> t \<le> now \<and> now \<le> t + 300 \<and>
     mac \<noteq> [] \<and> mac = computeHmacMd5 K (method @ path @ ts) hv_secret_key)"
  unfolding token_admitted_def token_of_iff by auto

definition replies :: "'h sdk \<Rightarrow> 'h \<Rightarrow> FilterHeadersStatus \<Rightarrow> u32 set \<Rightarrow> FilterHeadersStatus \<times> 'h \<Rightarrow> bool" where
  "replies S h st codes r \<longleftrightarrow> (\<exists>code det msg. code \<in> codes \<and> r = (st, snd (sendLocalResponse S code det msg [] h)))"

lemma repliesI: "code \<in> codes \<Longrightarrow> replies S h st codes (st, snd (sendLocalResponse S code det msg [] h))"
  by (auto simp: replies_def)

context plugin_env
begin

lemma hmac_token_validation_cases:
  assumes "good h" and "v_phase (view h) = Some RequestHeaders"
    and "v_hdrs (view h) '':path'' = Some path" and "v_hdrs (view h) '':method'' = Some method"
    and "0 \<le> now" and "now < 2 ^ 63"
  shows "if \<exists>a. v_hdrs (view h) ''authorization'' = Some a \<and> token_admitted K now method path a
     then hmac_token_validation_onRequestHeaders A K now S h = (Continue, h)
     else replies S h StopIteration {400, 401, 403, 500} (hmac_token_validation_onRequestHeaders A K now S h)"
proof -
  let ?r = "hmac_token_validation_onRequestHeaders A K now S h"
  let ?reply = "replies S h StopIteration {400, 401, 403, 500} ?r"
  note get = get_Some [OF assms(1-3)] get_Some [OF assms(1,2,4)]
  note code = hmac_token_validation_onRequestHeaders_def Let_def
  show ?thesis
  proof (cases "v_hdrs (view h) ''authorization''")
    case None
    then have "wview (getRequestHeader S ''authorization'' h) = []"
      using get_wview [OF assms(1,2)] by simp
    with None show ?thesis by (simp add: code repliesI)
  next
    case (Some a)
    note auth = get_Some [OF assms(1,2) Some]
    show ?thesis
    proof (cases "token_of a")
      case bad: None
      have "?reply"
      proof (cases "a = [] \<or> \<not> prefix (map tolower hv_prefix) (map tolower a)")
        case True
        then show ?thesis by (auto simp: code auth repliesI)
      next
        case False
        then have "length (split_once (CHR '':'') (drop (length hv_prefix) a)) \<noteq> 2"
          using bad by (auto simp: token_of_def numeral_2_eq_2 length_Suc_conv split: list.splits)
        with False show ?thesis by (simp add: code auth repliesI)
      qed
      with bad Some show ?thesis by (simp add: token_admitted_alt)
    next
      case tok: (Some p)
      obtain ts mac where p: "p = (ts, mac)" by (cases p)
      then have pre: "prefix (map tolower hv_prefix) (map tolower a)"
        and two: "split_once (CHR '':'') (drop (length hv_prefix) a) = [ts, mac]"
        using tok by (auto simp: token_of_def split: if_splits list.splits)
      then have ne: "a \<noteq> []" by (auto simp: split_once_def)
      have r: "?r = (case simple_atoi (- (2 ^ 63)) (2 ^ 63 - 1) ts of
          None \<Rightarrow> (StopIteration, snd (sendLocalResponse S 400 [] ''Invalid timestamp'' [] h))
        | Some t \<Rightarrow>
            if token_expired now t then (StopIteration, snd (sendLocalResponse S 403 [] ''Token expired'' [] h))
            else let e = computeHmacMd5 K (method @ path @ ts) hv_secret_key
              in if e = [] then (StopIteration, snd (sendLocalResponse S 500 [] ''Internal server error during authentication'' [] h))
                 else if e \<noteq> mac then (StopIteration, snd (sendLocalResponse S 403 [] ''Invalid HMAC'' [] h))
                 else (Continue, h))"
        using pre two ne by (simp add: code auth get split: option.split)
      have exp: "token_expired now t \<longleftrightarrow> \<not> (t \<le> now \<and> now \<le> t + 300)"
        if "simple_atoi (- (2 ^ 63)) (2 ^ 63 - 1) ts = Some t" for t
        using simple_atoi_bounds [OF that] assms(5,6) by (intro token_expired_iff) auto
      show ?thesis
        unfolding r Some
        using tok p exp
        by (auto simp: token_admitted_alt Let_def repliesI split: option.splits)
    qed
  qed
qed

lemma forbid_view:
  assumes "good h" and "v_can_reply (view h)"
  shows "fst (forbid S msg h) = ContinueAndEndStream"
    "logs_only ((view h)\<lparr>v_reply := Some (403, [], msg @ [CHR 0x0A]), v_hdrs := hupds []\<rparr>) (view (snd (forbid S msg h)))"
  using assms by (simp_all add: forbid_def v_log_update)

lemma replies_view:
  assumes "good h" and "v_can_reply (view h)" and "replies S h st codes r"
  shows "fst r = st \<and> (\<exists>code \<in> codes. \<exists>det msg.
      view (snd r) = (view h)\<lparr>v_reply := Some (code, det, msg), v_hdrs := hupds []\<rparr>)"
  using assms unfolding replies_def by fastforce

end

section \<open>Cookies, paths and web tokens\<close>

text \<open>The requests hmac\_authcookie admits, by their \<open>X-Forwarded-For\<close> and \<open>Cookie\<close> headers.\<close>

definition cookie_admitted :: "absl \<Rightarrow> crypto \<Rightarrow> (string \<Rightarrow> bool) \<Rightarrow> int \<Rightarrow> string \<Rightarrow> string \<Rightarrow> bool" where
  "cookie_admitted A K ip_match now xff cookies \<longleftrightarrow> (\<exists>ip token p h payload t.
     firstMatch ip_match (split_char (CHR '','') xff) = Some ip \<and>
     findAuthorization A (split_str ''; '' cookies) = Some token \<and>
     pair_of (split_str ''.'' token) = (p, h) \<and> h \<noteq> [] \<and>
     Base64Unescape K p = Some payload \<and>
     Base64Unescape K h = Some (BytesToHexString K (HMAC_sha256 K kSecretKey payload)) \<and>
     fst (pair_of (split_char (CHR '','') payload)) = ip \<and>
     simple_atoi (- (2 ^ 63)) (2 ^ 63 - 1) (snd (pair_of (split_char (CHR '','') payload))) = Some t \<and> now \<le> t)"

context plugin_env
begin

lemma hmac_authcookie_cases:
  assumes "good h" and "v_phase (view h) = Some RequestHeaders"
    and "v_hdrs (view h) ''X-Forwarded-For'' = Some xff" and "v_hdrs (view h) ''Cookie'' = Some cookies"
  shows "if cookie_admitted A K ip_match now xff cookies
     then hmac_authcookie_onRequestHeaders A K ip_match now S h = Some (Continue, h)
     else \<exists>msg. hmac_authcookie_onRequestHeaders A K ip_match now S h = Some (forbid S msg h)"
proof -
  let ?r = "hmac_authcookie_onRequestHeaders A K ip_match now S h"
  note code = hmac_authcookie_onRequestHeaders_def getClientIp_def getAuthorizationCookie_def
    get_deref [OF assms(1-3)] get_deref [OF assms(1,2,4)]
  show ?thesis
  proof (cases "firstMatch ip_match (split_char (CHR '','') xff)")
    case None
    then show ?thesis by (auto simp: code cookie_admitted_def)
  next
    case ip: (Some ip)
    show ?thesis
    proof (cases "findAuthorization A (split_str ''; '' cookies)")
      case None
      then show ?thesis by (auto simp: code ip cookie_admitted_def)
    next
      case token: (Some token)
      obtain p hsh where ph: "pair_of (split_str ''.'' token) = (p, hsh)" by force
      have parse: "parseAuthorizationCookie A K token =
          (if hsh = [] then None else case Base64Unescape K p of None \<Rightarrow> None
           | Some payload \<Rightarrow> map_option (Pair payload) (Base64Unescape K hsh))"
        by (auto simp: parseAuthorizationCookie_def ph split: option.splits)
      show ?thesis
      proof (cases "parseAuthorizationCookie A K token")
        case None
        then show ?thesis
          using parse
          by (auto simp: code ip token ph cookie_admitted_def split: if_splits option.splits)
      next
        case (Some x)
        then obtain payload mac where x: "x = (payload, mac)" and "hsh \<noteq> []"
          and "Base64Unescape K p = Some payload" and "Base64Unescape K hsh = Some mac"
          using parse by (auto split: if_splits option.splits)
        then show ?thesis
          using Some
          by (auto simp: code ip token ph cookie_admitted_def computeHmacSignature_def Let_def
              isHashTimestampValid_def split: option.splits)
      qed
    qed
  qed
qed

lemma hmac_authtoken_cases:
  assumes "good h" and "v_phase (view h) = Some RequestHeaders"
    and "v_hdrs (view h) '':path'' = Some path" and "parse_relative_ref U path = Inr url"
  shows "case find_param ''token'' (params U url) of
      None \<Rightarrow> hmac_authtoken_onRequestHeaders K U S h = Some (forbid S ''Access forbidden - missing token.'' h)
    | Some it \<Rightarrow>
        let stripped = url_buffer U (params_erase U it url)
        in if snd (params U url ! it) = computeHmacSignature K stripped
           then hmac_authtoken_onRequestHeaders K U S h = Some (Continue, snd (replaceRequestHeader S '':path'' stripped h))
           else hmac_authtoken_onRequestHeaders K U S h = Some (forbid S ''Access forbidden - invalid token.'' h)"
  using get_deref [OF assms(1-3)] assms(4)
  by (auto simp: hmac_authtoken_onRequestHeaders_def Let_def split: option.split)

lemma jwt_auth_cases:
  assumes "good h" and "v_phase (view h) = Some RequestHeaders"
    and "v_hdrs (view h) '':path'' = Some path" and "path \<noteq> []" and "parse_uri_reference U path = Inr url"
  shows "if \<exists>it jwt. find_param ''jwt'' (params U url) = Some it \<and>
        parseFromString J (snd (params U url ! it)) = Some jwt \<and> verifyJwt J jwt jwks
     then \<exists>it. find_param ''jwt'' (params U url) = Some it \<and> jwt_auth_onRequestHeaders J U jwks S h =
        Some (Continue, snd (replaceRequestHeader S '':path'' (url_buffer U (params_erase U it url)) h))
     else \<exists>msg. jwt_auth_onRequestHeaders J U jwks S h = Some (forbid S msg h)"
  using get_Some [OF assms(1-3)] assms(4,5)
  by (auto simp: jwt_auth_onRequestHeaders_def Let_def split: option.split)

lemma jwt_auth_no_path:
  assumes "good h" and "v_phase (view h) = Some RequestHeaders"
    and "v_hdrs (view h) '':path'' \<in> {None, Some []}"
  shows "jwt_auth_onRequestHeaders J U jwks S h = Some (Continue, h)"
  using get_wview [OF assms(1,2), of "'':path''"] assms(3)
  by (auto simp: jwt_auth_onRequestHeaders_def Let_def)

end

section \<open>Properties\<close>

lemma forbid_test:
  assumes "absl_strings A" and "\<not> sent_local_response c" and "hdr_sorted hs"
  shows "fst (forbid (test_sdk A) msg (request_phase hs c)) = ContinueAndEndStream \<and>
     sent_local_response (snd (forbid (test_sdk A) msg (request_phase hs c))) \<and>
     http_code (result (snd (forbid (test_sdk A) msg (request_phase hs c)))) = 403"
  using plugin_env.forbid_view [OF test_env [OF assms(1)], of "request_phase hs c" msg] assms(3)
    test_logs_onlyD(2,3) [where c = "snd (forbid (test_sdk A) msg (request_phase hs c))"]
  by fastforce


text \<open>The hashed message has no separators, so one hash serves different requests: whenever method, path
  and time stamp of two requests concatenate to the same string, a hash that fits the one fits the
  other. In particular the hash made for path \<open>/x1\<close> at time 700000000 admits path \<open>/x\<close> a billion
  seconds later, although its own time stamp has long expired.\<close>

theorem hmac_token_message_ambiguous:
  assumes "mac = computeHmacMd5 K (''GET'' @ ''/x1'' @ ''700000000'') hv_secret_key" and "mac \<noteq> []"
    and "1700000000 \<le> now" and "now \<le> 1700000300"
  shows "token_admitted K now ''GET'' ''/x'' (''HMAC 1700000000:'' @ mac)"
proof -
  have "simple_atoi (- (2 ^ 63)) (2 ^ 63 - 1) ''1700000000'' = Some 1700000000"
    using simple_atoi_dec_nat [of "- (2 ^ 63)" 1700000000 "2 ^ 63 - 1"] by (simp add: dec_eval)
  then show ?thesis
    unfolding token_admitted_def
    using assms
    by (intro exI [of _ "''HMAC ''"] exI [of _ "''1700000000''"] exI [of _ mac] exI [of _ 1700000000] conjI)
       (simp_all add: hv_prefix_def)
qed

text \<open>A concrete stand-in for the hash functions, used in the witnesses only.\<close>

definition plain_crypto :: crypto where
  "plain_crypto = \<lparr>HMAC_md5 = (\<lambda>key msg. Some (key @ msg)), HMAC_sha256 = (\<lambda>key msg. key @ msg),
     BytesToHexString = (\<lambda>s. s), Base64Unescape = Some\<rparr>"

theorem hmac_token_message_ambiguous_witness:
  "token_admitted plain_crypto 1700000000 ''GET'' ''/x''
     (''HMAC 1700000000:'' @ ''your-secret-keyGET/x1700000000'')"
  by (rule hmac_token_message_ambiguous)
     (simp_all add: computeHmacMd5_def plain_crypto_def hv_secret_key_def)




text \<open>C20: jwt\_auth admits a request with a parsable, non-empty path exactly when the path has a parameter \<open>jwt\<close>
  whose value parses and verifies against the configured keys, and it then forwards the path
  without that parameter; any other such request is answered with status 403.\<close>

theorem jwt_auth_admits_exactly:
  assumes "absl_strings A" and "hdr_sorted hs" and "\<not> sent_local_response c"
    and "hdr_find '':path'' hs = Some path" and "path \<noteq> []" and "parse_uri_reference U path = Inr url"
  shows "\<exists>st c1. jwt_auth_onRequestHeaders J U jwks (test_sdk A) (request_phase hs c) = Some (st, c1) \<and>
    (if \<exists>it jwt. find_param ''jwt'' (params U url) = Some it \<and>
        parseFromString J (snd (params U url ! it)) = Some jwt \<and> verifyJwt J jwt jwks
     then st = Continue \<and> \<not> sent_local_response c1 \<and>
       (\<exists>it. find_param ''jwt'' (params U url) = Some it \<and>
         hdr_find '':path'' (headers (result c1)) = Some (url_buffer U (params_erase U it url)))
     else st = ContinueAndEndStream \<and> sent_local_response c1 \<and> http_code (result c1) = 403)"
  (is "\<exists>st c1. ?r = Some (st, c1) \<and> (if ?ok then ?pass st c1 else ?deny st c1)")
proof -
  note env = test_env [OF assms(1)]
  let ?h = "request_phase hs c"
  note cases = plugin_env.jwt_auth_cases [OF env, of ?h path U url J jwks]
  show ?thesis
  proof (cases ?ok)
    case True
    then obtain it where it: "find_param ''jwt'' (params U url) = Some it"
      and r: "?r = Some (Continue, snd (replaceRequestHeader (test_sdk A) '':path'' (url_buffer U (params_erase U it url)) ?h))"
      using cases assms(2,4-6) by auto
    have "test_view (snd (replaceRequestHeader (test_sdk A) '':path'' (url_buffer U (params_erase U it url)) ?h)) =
        (test_view ?h)\<lparr>v_hdrs := hupd '':path'' (Some (url_buffer U (params_erase U it url))) (v_hdrs (test_view ?h))\<rparr>"
      using wasm_host.header_simps(6) [OF plugin_env.axioms(2) [OF env], of ?h RequestHeaders] assms(2) by simp
    note v = test_viewD [OF this]
    show ?thesis using r True it v(1) v(3) assms(3) by simp
  next
    case False
    then obtain msg where "?r = Some (forbid (test_sdk A) msg ?h)"
      using cases assms(2,4-6) by (auto split: if_splits)
    then show ?thesis
      using forbid_test [OF assms(1,3,2), of msg] False by (cases "forbid (test_sdk A) msg ?h") simp
  qed
qed

text \<open>A concrete stand-in for the JWT library, used in the witnesses only.\<close>

definition plain_jwt :: "(string, string) jwt_lib" where
  "plain_jwt = \<lparr>createFrom = (\<lambda>s. s), keys_ok = (\<lambda>_. True), parseFromString = Some, verifyJwt = (\<lambda>j k. j = k)\<rparr>"

theorem jwt_auth_admits_exactly_witness:
  "\<exists>st c1. jwt_auth_onRequestHeaders plain_jwt simple_urls ''K'' (test_sdk absl_ref)
      (request_phase [('':path'', simple_buffer [(''jwt'', ''K'')])] (new_stream Info None 0 [] [])) = Some (st, c1) \<and>
    st = Continue \<and> hdr_find '':path'' (headers (result c1)) = Some []"
proof -
  let ?path = "simple_buffer [(''jwt'', ''K'')]"
  have sorted: "hdr_sorted [('':path'', ?path)]" by (simp add: hdr_sorted_def)
  have fresh: "\<not> sent_local_response (new_stream Info None 0 [] [])" by (simp add: new_stream_def)
  have find: "hdr_find '':path'' [('':path'', ?path)] = Some ?path" by simp
  have ne: "?path \<noteq> []" by (simp add: simple_buffer_def)
  have parse: "parse_uri_reference simple_urls ?path = Inr [(''jwt'', ''K'')]"
    by (simp add: simple_urls_def simple_parse_buffer)
  show ?thesis
    using jwt_auth_admits_exactly [OF absl_ref_spec sorted fresh find ne parse, of plain_jwt "''K''"]
    by (auto simp: simple_urls_def plain_jwt_def simple_buffer_def)
qed

text \<open>jwt\_auth asks for no token when there is no path to carry it: a request whose \<open>:path\<close> is missing or
  empty passes unchecked.\<close>

theorem jwt_auth_open_without_path:
  assumes "absl_strings A" and "hdr_sorted hs" and "hdr_find '':path'' hs \<in> {None, Some []}"
  shows "jwt_auth_onRequestHeaders J U jwks (test_sdk A) (request_phase hs c) = Some (Continue, request_phase hs c)"
  using plugin_env.jwt_auth_no_path [OF test_env [OF assms(1)], of "request_phase hs c"] assms(2,3) by simp

theorem jwt_auth_open_without_path_witness:
  "jwt_auth_onRequestHeaders plain_jwt simple_urls ''K'' (test_sdk absl_ref) (request_phase [] (new_stream Info None 0 [] [])) =
     Some (Continue, request_phase [] (new_stream Info None 0 [] []))"
  by (rule jwt_auth_open_without_path [OF absl_ref_spec]) (simp_all add: hdr_sorted_def)

end
