(* ===== verification/Body_Samples.thy ===== *)
theory Body_Samples
  imports Auth_Samples "HOL-Library.Char_ord" "HOL-Library.Multiset"
begin

text \<open>
  The plugins that rewrite response bodies: ad\_insertion (inserts script and advertisement text at
  markers of a page), cdn\_token\_generator (signs the URLs of a manifest) and check\_pii (masks
  numbers in headers and body). RE2 and the generated configuration parser are arguments;
  \<^verbatim>\<open>std::sort\<close>, which does not fix the order of equal elements, is an argument too.
\<close>

section \<open>ad\_insertion\<close>

record AdConfig =
  ac_slot :: string
  ac_size :: string
  ac_marker :: string
  ac_insert_before :: bool

record ad_root =
  ad_configs :: "(string \<times> AdConfig) list"
  gpt_library_url :: string
  inject_gpt_library :: bool

text \<open>A \<^verbatim>\<open>std::map\<close> by key, as the list of its pairs in iteration order.\<close>

fun map_assign :: "string \<Rightarrow> 'v \<Rightarrow> (string \<times> 'v) list \<Rightarrow> (string \<times> 'v) list" where
  "map_assign k v [] = [(k, v)]"
| "map_assign k v ((k', v') # m) =
     (if k < k' then (k, v) # (k', v') # m
      else if k = k' then (k, v) # m
      else (k', v') # map_assign k v m)"

definition ad_defaults :: ad_root where
  "ad_defaults = \<lparr>
     ad_configs = foldl (\<lambda>m (k, v). map_assign k v m) []
       [(''header'', \<lparr>ac_slot = ''/1234/header_ad'', ac_size = ''728x90'', ac_marker = ''<body>'', ac_insert_before = False\<rparr>),
        (''content'', \<lparr>ac_slot = ''/1234/content_ad'', ac_size = ''300x250'', ac_marker = ''<article>'', ac_insert_before = False\<rparr>),
        (''sidebar'', \<lparr>ac_slot = ''/1234/sidebar_ad'', ac_size = ''160x600'', ac_marker = ''</article>'', ac_insert_before = True\<rparr>)],
     gpt_library_url = ''https://securepubads.g.doubleclick.net/tag/js/gpt.js'',
     inject_gpt_library = True\<rparr>"

fun ad_config_lines :: "absl \<Rightarrow> 'h sdk \<Rightarrow> string list \<Rightarrow> ad_root \<times> 'h \<Rightarrow> ad_root \<times> 'h" where
  "ad_config_lines A S [] st = st"
| "ad_config_lines A S (l # ls) (r, h) =
     (let stripped = StripAsciiWhitespace A l
      in if stripped = [] \<or> hd stripped = CHR ''#'' then ad_config_lines A S ls (r, h)
         else
           let parts = map (StripAsciiWhitespace A) (StrSplit A stripped (CHR '',''))
           in if parts ! 0 = ''gpt_url'' \<and> length parts \<ge> 2
              then ad_config_lines A S ls (r\<lparr>gpt_library_url := parts ! 1\<rparr>, h)
              else if parts ! 0 = ''inject_gpt'' \<and> length parts \<ge> 2
              then ad_config_lines A S ls (r\<lparr>inject_gpt_library := (parts ! 1 = ''true'')\<rparr>, h)
              else if parts ! 0 = ''ad'' \<and> length parts \<ge> 6
              then ad_config_lines A S ls (r\<lparr>ad_configs := map_assign (parts ! 1)
                     \<lparr>ac_slot = parts ! 2, ac_size = parts ! 3, ac_marker = parts ! 5,
                      ac_insert_before = (parts ! 4 = ''true'')\<rparr> (ad_configs r)\<rparr>, h)
              else ad_config_lines A S ls (r, LOG_WARN S (''Invalid configuration line: '' @ stripped) h))"

definition ad_insertion_onConfigure :: "absl \<Rightarrow> 'h sdk \<Rightarrow> nat \<Rightarrow> 'h \<Rightarrow> bool \<times> ad_root \<times> 'h" where
  "ad_insertion_onConfigure A S config_len h =
     (if config_len = 0
      then (True, ad_defaults, LOG_INFO S ''No configuration provided. Using default ad insertion config.'' h)
      else
        let config_data = getBufferBytes S PluginConfiguration 0 config_len h
        in if \<not> is_set config_data \<or> length (wview config_data) = 0 then (True, ad_defaults, h)
           else
             let (r, h1) = ad_config_lines A S (StrSplit A (wview config_data) (CHR 0x0A))
                             (ad_defaults\<lparr>ad_configs := []\<rparr>, h)
             in (True, r, LOG_INFO S ''Ad Insertion plugin configured successfully from custom payload.'' h1))"

record ad_stream =
  should_insert_ads :: bool
  is_ad_request :: bool

definition ad_stream_init :: ad_stream where
  "ad_stream_init = \<lparr>should_insert_ads = False, is_ad_request = False\<rparr>"

definition ad_insertion_onRequestHeaders :: "'h sdk \<Rightarrow> ad_stream \<times> 'h \<Rightarrow> FilterHeadersStatus \<times> ad_stream \<times> 'h" where
  "ad_insertion_onRequestHeaders S = (\<lambda>(p, h).
     let path = getRequestHeader S '':path'' h
     in (Continue, if is_set path \<and> find_str ''/ads/'' (wview path) \<noteq> None then p\<lparr>is_ad_request := True\<rparr> else p, h))"

definition ad_insertion_onResponseHeaders :: "'h sdk \<Rightarrow> ad_stream \<times> 'h \<Rightarrow> FilterHeadersStatus \<times> ad_stream \<times> 'h" where
  "ad_insertion_onResponseHeaders S = (\<lambda>(p, h).
     let content_type = getResponseHeader S ''Content-Type'' h
     in if is_set content_type \<and> find_str ''text/html'' (wview content_type) \<noteq> None
        then (Continue, p\<lparr>should_insert_ads := True\<rparr>, snd (removeResponseHeader S ''Content-Length'' h))
        else (Continue, p, h))"

definition isGptAlreadyLoaded :: "string \<Rightarrow> bool" where
  "isGptAlreadyLoaded b \<longleftrightarrow> find_str ''googletag'' b \<noteq> None \<or> find_str ''gpt.js'' b \<noteq> None \<or>
     find_str ''doubleclick.net/tag/js/gpt'' b \<noteq> None"

type_synonym insertions = "(nat \<times> string) list"

definition gpt_script :: "string \<Rightarrow> string" where
  \<open>gpt_script url = ''<script async src="'' @ url @ ''"></script>''\<close>

definition prepareGptLibraryInjection :: "ad_root \<Rightarrow> string \<Rightarrow> insertions \<Rightarrow> insertions" where
  "prepareGptLibraryInjection r b insertions =
     (case find_str ''<head>'' b of
        Some head_pos \<Rightarrow> insertions @ [(head_pos + 6, [CHR 0x0A] @ ''  '' @ gpt_script (gpt_library_url r))]
      | None \<Rightarrow> (case find_str ''<body>'' b of
          Some body_pos \<Rightarrow> insertions @ [(body_pos, gpt_script (gpt_library_url r) @ [CHR 0x0A])]
        | None \<Rightarrow> insertions))"

definition generateGAMAdHTML :: "string \<Rightarrow> AdConfig \<Rightarrow> string" where
  \<open>generateGAMAdHTML position config = join [CHR 0x0A] [
     ''<div id="ad-container-'' @ position @ ''" class="ad-unit">'',
     ''  '',
     ''  <script>'',
     ''    (function() {'',
     ''      // Same-domain GAM integration'',
     ''      var googletag = window.googletag || {};'',
     ''      googletag.cmd = googletag.cmd || [];'',
     ''      googletag.cmd.push(function() {'',
     ''        googletag.defineSlot('' @ [CHR 0x27] @ ac_slot config @ [CHR 0x27] @ '', '',
     ''                            ['' @ ac_size config @ ''], '',
     ''                            '' @ [CHR 0x27] @ ''ad-container-'' @ position @ [CHR 0x27] @ '').addService(googletag.pubads());'',
     ''        googletag.pubads().enableSingleRequest();'',
     ''        googletag.enableServices();'',
     ''      });'',
     ''    })();'',
     ''  </script>'',
     ''  <div id="div-gpt-ad-'' @ position @ ''">'',
     ''    <script>'',
     ''      googletag.cmd.push(function() { '',
     ''        googletag.display('' @ [CHR 0x27] @ ''div-gpt-ad-'' @ position @ [CHR 0x27] @ ''); '',
     ''      });'',
     ''    </script>'',
     ''  </div>'',
     ''</div>'']\<close>

definition prepareAdInsertion :: "string \<Rightarrow> string \<Rightarrow> AdConfig \<Rightarrow> insertions \<Rightarrow> insertions" where
  "prepareAdInsertion b position config insertions =
     (case find_str (ac_marker config) b of
        None \<Rightarrow> insertions
      | Some marker_pos \<Rightarrow>
          let insert_pos = (if ac_insert_before config then marker_pos else marker_pos + length (ac_marker config))
          in insertions @ [(insert_pos, generateGAMAdHTML position config)])"

definition applyAllInsertions :: "(insertions \<Rightarrow> insertions) \<Rightarrow> string \<Rightarrow> insertions \<Rightarrow> string" where
  "applyAllInsertions std_sort b insertions =
     foldl (\<lambda>b (pos, content). insert_at pos content b) b (std_sort insertions)"

definition gamInsertions :: "ad_root \<Rightarrow> string \<Rightarrow> insertions" where
  "gamInsertions r b =
     (let insertions1 = (if inject_gpt_library r \<and> \<not> isGptAlreadyLoaded b then prepareGptLibraryInjection r b [] else [])
      in foldl (\<lambda>ins (position, config). prepareAdInsertion b position config ins) insertions1 (ad_configs r))"

definition processBodyWithGAM :: "(insertions \<Rightarrow> insertions) \<Rightarrow> ad_root \<Rightarrow> 'h sdk \<Rightarrow> string \<Rightarrow> 'h \<Rightarrow> 'h" where
  "processBodyWithGAM std_sort r S b h =
     (let insertions = gamInsertions r b;
          b' = (if insertions \<noteq> [] then applyAllInsertions std_sort b insertions else b)
      in snd (setBuffer S HttpResponseBody 0 (length b') b' h))"

definition ad_insertion_onResponseBody :: "(insertions \<Rightarrow> insertions) \<Rightarrow> ad_root \<Rightarrow> 'h sdk \<Rightarrow> nat \<Rightarrow> bool
    \<Rightarrow> ad_stream \<times> 'h \<Rightarrow> FilterDataStatus \<times> ad_stream \<times> 'h" where
  "ad_insertion_onResponseBody std_sort r S body_size end_of_stream = (\<lambda>(p, h).
     if \<not> should_insert_ads p \<or> is_ad_request p then (DataContinue, p, h)
     else if \<not> end_of_stream then (StopIterationAndBuffer, p, h)
     else
       let b = getBufferBytes S HttpResponseBody 0 body_size h
       in if \<not> is_set b then (DataContinue, p, h)
          else (DataContinue, p, processBodyWithGAM std_sort r S (wview b) h))"

section \<open>cdn\_token\_generator\<close>

record CdnTokenConfig =
  private_key_hex :: string
  key_name :: string
  expiry_seconds :: int

definition kMaxKeyHexLength :: nat where "kMaxKeyHexLength = 256"
definition kMinKeyHexLength :: nat where "kMinKeyHexLength = 32"
definition kMaxExpirySeconds :: int where "kMaxExpirySeconds = 86400"
definition kMinExpirySeconds :: int where "kMinExpirySeconds = 60"
definition kDefaultExpirySeconds :: int where "kDefaultExpirySeconds = 3600"
definition kMaxBodySize :: nat where "kMaxBodySize = 1024 * 1024"

text \<open>The outcome of parsing: the logged error, or the configuration and the decoded key.\<close>

definition parseConfig :: "(string \<Rightarrow> CdnTokenConfig option) \<Rightarrow> (string \<Rightarrow> string option) \<Rightarrow> string
    \<Rightarrow> string + CdnTokenConfig \<times> string" where
  "parseConfig ParseFromString HexStringToBytes config_str =
     (case ParseFromString config_str of
        None \<Rightarrow> Inl ''Failed to parse configuration as TextProto''
      | Some parsed \<Rightarrow>
          let config = (if expiry_seconds parsed = 0 then parsed\<lparr>expiry_seconds := kDefaultExpirySeconds\<rparr> else parsed)
          in if private_key_hex config = [] then Inl ''private_key_hex is required in configuration''
             else if key_name config = [] then Inl ''key_name is required in configuration''
             else if length (private_key_hex config) < kMinKeyHexLength \<or> length (private_key_hex config) > kMaxKeyHexLength
             then Inl (''private_key_hex length must be between '' @ dec_nat kMinKeyHexLength @ '' and '' @ dec_nat kMaxKeyHexLength)
             else if expiry_seconds config < kMinExpirySeconds \<or> expiry_seconds config > kMaxExpirySeconds
             then Inl (''expiry_seconds must be between '' @ dec_int kMinExpirySeconds @ '' and '' @ dec_int kMaxExpirySeconds)
             else case HexStringToBytes (private_key_hex config) of
                    None \<Rightarrow> Inl ''Failed to decode private key from hex''
                  | Some decoded_key \<Rightarrow> Inr (config, decoded_key))"

text \<open>
  \<open>pattern\<close> is the compiled expression: its error text if it did not compile, else
  \<^verbatim>\<open>FindAndConsume\<close>: where in the input the next match starts and how long it is.
\<close>

type_synonym find_and_consume = "string \<Rightarrow> (nat \<times> nat) option"

definition cdn_token_onConfigure :: "(string \<Rightarrow> CdnTokenConfig option) \<Rightarrow> (string \<Rightarrow> string option)
    \<Rightarrow> string + find_and_consume \<Rightarrow> 'h sdk \<Rightarrow> nat \<Rightarrow> 'h
    \<Rightarrow> (CdnTokenConfig \<times> string \<times> find_and_consume) option \<times> 'h" where
  "cdn_token_onConfigure ParseFromString HexStringToBytes pattern S config_size h =
     (if config_size = 0 then (None, LOG_ERROR S ''Configuration is required'' h)
      else
        let config_data = getBufferBytes S PluginConfiguration 0 config_size h
        in if \<not> is_set config_data then (None, LOG_ERROR S ''Failed to read plugin configuration'' h)
           else case parseConfig ParseFromString HexStringToBytes (wview config_data) of
                  Inl err \<Rightarrow> (None, LOG_ERROR S err h)
                | Inr (config, decoded_key) \<Rightarrow>
                    (case pattern of
                       Inl err \<Rightarrow> (None, LOG_ERROR S (''Failed to compile URL regex: '' @ err) h)
                     | Inr fac \<Rightarrow> (Some (config, decoded_key, fac),
                         LOG_INFO S (''CDN Token Generator configured: keyName='' @ key_name config @
                           '', expirySeconds='' @ dec_int (expiry_seconds config)) h)))"

definition base64UrlEncode :: "(string \<Rightarrow> string) \<Rightarrow> string \<Rightarrow> string" where
  "base64UrlEncode WebSafeBase64Escape input =
     (let encoded = WebSafeBase64Escape input
      in case find_char (CHR ''='') encoded of Some padding_pos \<Rightarrow> take padding_pos encoded | None \<Rightarrow> encoded)"

definition generateSignedUrl :: "crypto \<Rightarrow> (string \<Rightarrow> string) \<Rightarrow> CdnTokenConfig \<Rightarrow> string \<Rightarrow> int \<Rightarrow> string \<Rightarrow> string" where
  "generateSignedUrl K WebSafeBase64Escape config decoded_key now target_url =
     (let url_prefix_b64 = base64UrlEncode WebSafeBase64Escape target_url;
          expires_at = now + expiry_seconds config;
          string_to_sign = ''URLPrefix='' @ url_prefix_b64 @ ''~Expires='' @ dec_int expires_at @
            ''~KeyName='' @ key_name config;
          hmac_hex = BytesToHexString K (HMAC_sha256 K decoded_key string_to_sign);
          separator = (if find_char (CHR ''?'') target_url = None then ''?'' else ''&'')
      in target_url @ separator @ ''Edge-Cache-Token='' @ string_to_sign @ ''~hmac='' @ hmac_hex)"

text \<open>The loop that collects the matches; \<open>base\<close> is the offset of the input in the body.\<close>

partial_function (option) collect_urls :: "find_and_consume \<Rightarrow> nat \<Rightarrow> string \<Rightarrow> (nat \<times> string) list
    \<Rightarrow> (nat \<times> string) list option" where
  "collect_urls fac base input matches =
     (case fac input of
        None \<Rightarrow> Some matches
      | Some (pos, len) \<Rightarrow>
          collect_urls fac (base + pos + len) (drop (pos + len) input)
            (matches @ [(base + pos, take len (drop pos input))]))"

text \<open>The clock is read once per URL: \<open>sign i\<close> signs when \<open>i\<close> matches are still to be handled.\<close>

fun replace_urls :: "(nat \<Rightarrow> string \<Rightarrow> string) \<Rightarrow> (nat \<times> string) list \<Rightarrow> string \<times> nat \<Rightarrow> string \<times> nat" where
  "replace_urls sign [] st = st"
| "replace_urls sign ((pos, url) # ms) (modified_body, replacements) =
     (let signed_url = sign (length ms) url
      in replace_urls sign ms
           (if signed_url \<noteq> []
            then (replace_at pos (length url) signed_url modified_body, replacements + 1)
            else (modified_body, replacements)))"

definition cdn_token_onResponseBody :: "crypto \<Rightarrow> (string \<Rightarrow> string) \<Rightarrow> CdnTokenConfig \<times> string \<times> find_and_consume
    \<Rightarrow> (nat \<Rightarrow> int) \<Rightarrow> 'h sdk \<Rightarrow> nat \<Rightarrow> bool \<Rightarrow> 'h
    \<Rightarrow> (FilterDataStatus \<times> 'h) option" where
  "cdn_token_onResponseBody K WebSafeBase64Escape = (\<lambda>(config, decoded_key, fac) now S body_buffer_length end_of_stream h.
     if \<not> end_of_stream then Some (StopIterationAndBuffer, h)
      else if body_buffer_length > kMaxBodySize
      then Some (DataContinue, LOG_WARN S (''Response body too large ('' @ dec_nat body_buffer_length @
             '' bytes), skipping URL signing'') h)
      else
        let b = getBufferBytes S HttpResponseBody 0 body_buffer_length h
        in if \<not> is_set b then Some (DataContinue, LOG_ERROR S ''Failed to read response body'' h)
           else
             let body_string = wview b
             in if body_string = [] then Some (DataContinue, h)
                else case collect_urls fac 0 body_string [] of
                       None \<Rightarrow> None
                     | Some matches \<Rightarrow>
                         if matches = [] then Some (DataContinue, h)
                         else
                           let (modified_body, replacements) = replace_urls
                                 (\<lambda>i. generateSignedUrl K WebSafeBase64Escape config decoded_key (now i)) (rev matches) (body_string, 0)
                           in if replacements > 0
                              then Some (DataContinue, snd (setBuffer S HttpResponseBody 0 body_buffer_length modified_body
                                     (LOG_INFO S (''Replaced '' @ dec_nat replacements @ '' URLs with signed URLs'') h)))
                              else Some (DataContinue, h))"

section \<open>check\_pii\<close>

text \<open>\<^verbatim>\<open>RE2::GlobalReplace\<close> with a fixed expression and replacement: how many replacements, and the text.\<close>

type_synonym global_replace = "string \<Rightarrow> nat \<times> string"

definition maskPII :: "global_replace \<Rightarrow> global_replace \<Rightarrow> string \<Rightarrow> bool \<times> string" where
  "maskPII card_re code10_re v =
     (let (n1, v1) = card_re v; modified1 = (if n1 > 0 then True else False);
          (n2, v2) = code10_re v1; modified2 = (if n2 > 0 then True else modified1)
      in (modified2, v2))"

definition check_pii_onRequestHeaders :: "'h sdk \<Rightarrow> 'h \<Rightarrow> FilterHeadersStatus \<times> 'h" where
  "check_pii_onRequestHeaders S h = (Continue, snd (replaceRequestHeader S ''accept-encoding'' ''identity'' h))"

fun maskPairs :: "global_replace \<Rightarrow> global_replace \<Rightarrow> header list \<Rightarrow> header list \<times> bool \<Rightarrow> header list \<times> bool" where
  "maskPairs card_re code10_re [] st = st"
| "maskPairs card_re code10_re ((k, v) # ps) (new_headers, changed) =
     (let (m, v') = maskPII card_re code10_re v
      in maskPairs card_re code10_re ps (new_headers @ [(k, v')], m \<or> changed))"

definition check_pii_onResponseHeaders :: "global_replace \<Rightarrow> global_replace \<Rightarrow> 'h sdk \<Rightarrow> 'h \<Rightarrow> FilterHeadersStatus \<times> 'h" where
  "check_pii_onResponseHeaders card_re code10_re S h =
     (let (new_headers, changed) = maskPairs card_re code10_re (getHeaderMapPairs S ResponseHeaders h) ([], False)
      in (Continue, if changed then snd (setHeaderMapPairs S ResponseHeaders new_headers h) else h))"

definition check_pii_onResponseBody :: "global_replace \<Rightarrow> global_replace \<Rightarrow> 'h sdk \<Rightarrow> nat \<Rightarrow> 'h
    \<Rightarrow> (FilterDataStatus \<times> 'h) option" where
  "check_pii_onResponseBody card_re code10_re S body_buffer_length h =
     (case deref (getBufferBytes S HttpResponseBody 0 body_buffer_length h) of
        None \<Rightarrow> None
      | Some body_string \<Rightarrow>
          let (m, masked) = maskPII card_re code10_re body_string
          in Some (DataContinue,
               if m then snd (setBuffer S HttpResponseBody 0 body_buffer_length masked h) else h))"

section \<open>Insertions\<close>

text \<open>
  The text with all insertions in place, position by position: in front of the character at
  position \<open>i\<close> stands what was inserted at \<open>i\<close>, the last insertion first.
\<close>

definition pieces :: "nat \<Rightarrow> insertions \<Rightarrow> string" where
  "pieces i ins = concat (map snd (rev (filter (\<lambda>p. fst p = i) ins)))"

fun weave :: "nat \<Rightarrow> string \<Rightarrow> insertions \<Rightarrow> string" where
  "weave i [] ins = pieces i ins"
| "weave i (c # b) ins = pieces i ins @ c # weave (Suc i) b ins"

definition desc_sort :: "(insertions \<Rightarrow> insertions) \<Rightarrow> bool" where
  "desc_sort f \<longleftrightarrow> (\<forall>ins. mset (f ins) = mset ins \<and> sorted_wrt (\<lambda>a b. fst a \<ge> fst b) (f ins))"

lemma pieces_snoc: "pieces i (ins @ [(p, s)]) = (if p = i then s else []) @ pieces i ins"
  by (simp add: pieces_def)

lemma pieces_above: "\<forall>x \<in> set ins. p \<le> fst x \<Longrightarrow> i < p \<Longrightarrow> pieces i ins = []"
  by (auto simp: pieces_def filter_empty_conv)

lemma weave_Nil: "weave i b [] = b"
  by (induction b arbitrary: i) (simp_all add: pieces_def)

lemma length_weave: "length b \<le> length (weave i b ins)"
  by (induction b arbitrary: i) (auto intro: trans_le_add2)

lemma weave_above: "i > p \<Longrightarrow> weave i b (ins @ [(p, s)]) = weave i b ins"
  by (induction b arbitrary: i) (simp_all add: pieces_snoc)

lemma weave_snoc:
  "\<forall>x \<in> set ins. p \<le> fst x \<Longrightarrow> i \<le> p \<Longrightarrow> p \<le> i + length b \<Longrightarrow>
     weave i b (ins @ [(p, s)]) = insert_at (p - i) s (weave i b ins)"
proof (induction b arbitrary: i)
  case Nil
  then show ?case by (simp add: pieces_snoc insert_at_def)
next
  case (Cons c b)
  show ?case
  proof (cases "i = p")
    case True
    then show ?thesis by (simp add: pieces_snoc insert_at_def weave_above)
  next
    case False
    then have "i < p" using Cons.prems by simp
    then have "p - i = Suc (p - Suc i)" by simp
    with Cons \<open>i < p\<close> show ?thesis
      using pieces_above [of ins p i]
      by (simp add: pieces_snoc insert_at_def)
  qed
qed

lemma insert_descending:
  "sorted_wrt (\<lambda>a b. fst a \<ge> fst b) ins \<Longrightarrow> \<forall>x \<in> set ins. fst x \<le> length b \<Longrightarrow>
     foldl (\<lambda>b (pos, s). insert_at pos s b) b ins = weave 0 b ins"
proof (induction ins rule: rev_induct)
  case Nil
  then show ?case by (simp add: weave_Nil)
next
  case (snoc x ins)
  obtain p s where x: "x = (p, s)" by (cases x)
  then have "\<forall>y \<in> set ins. p \<le> fst y" using snoc.prems(1) by (auto simp: sorted_wrt_append)
  with snoc x show ?case
    using weave_snoc [of ins p 0 b s] by (auto simp: sorted_wrt_append)
qed

lemma applyAllInsertions_weave:
  assumes "desc_sort f" and "\<forall>x \<in> set ins. fst x \<le> length b"
  shows "applyAllInsertions f b ins = weave 0 b (f ins)"
proof -
  have "set (f ins) = set ins" using assms(1) by (metis desc_sort_def mset_eq_setD)
  then show ?thesis
    using assms unfolding applyAllInsertions_def
    by (intro insert_descending) (auto simp: desc_sort_def)
qed

lemma prepareAdInsertion_bounds:
  assumes "\<forall>x \<in> set ins. fst x \<le> length b"
  shows "\<forall>x \<in> set (prepareAdInsertion b pos cfg ins). fst x \<le> length b"
  using assms find_str_Some [of "ac_marker cfg" b]
  by (auto simp: prepareAdInsertion_def Let_def split: option.splits)

lemma prepareGpt_bounds: "\<forall>x \<in> set (prepareGptLibraryInjection r b []). fst x \<le> length b"
proof (cases "find_str ''<head>'' b")
  case None
  then show ?thesis
    using find_str_Some [of "''<body>''" b]
    by (cases "find_str ''<body>'' b") (auto simp: prepareGptLibraryInjection_def)
next
  case (Some i)
  from find_str_Some [OF this] show ?thesis by (simp add: prepareGptLibraryInjection_def Some)
qed

lemma gamInsertions_bounds: "\<forall>x \<in> set (gamInsertions r b). fst x \<le> length b"
proof -
  have "\<forall>x \<in> set (foldl (\<lambda>ins (position, config). prepareAdInsertion b position config ins) ins cfgs). fst x \<le> length b"
    if "\<forall>x \<in> set ins. fst x \<le> length b" for ins cfgs
    using that
  proof (induction cfgs arbitrary: ins)
    case (Cons c cfgs)
    obtain pos cfg where "c = (pos, cfg)" by (cases c)
    with Cons.IH [of "prepareAdInsertion b pos cfg ins"] prepareAdInsertion_bounds [OF Cons.prems]
    show ?case by simp
  qed simp
  moreover have "\<forall>x \<in> set (if inject_gpt_library r \<and> \<not> isGptAlreadyLoaded b
      then prepareGptLibraryInjection r b [] else []). fst x \<le> length b"
    using prepareGpt_bounds [of r b] by auto
  ultimately show ?thesis unfolding gamInsertions_def Let_def by blast
qed

context plugin_env
begin

lemma processBody_view:
  assumes "good h" and "v_body (view h) HttpResponseBody = Some b" and "length b < 2 ^ 32"
    and "desc_sort f" and "length (weave 0 b (f (gamInsertions r b))) < 2 ^ 32"
  shows "view (processBodyWithGAM f r S b h) = (view h)\<lparr>v_body :=
     (v_body (view h))(HttpResponseBody := Some (weave 0 b (f (gamInsertions r b))))\<rparr>"
proof -
  let ?ins = "gamInsertions r b"
  have "f [] = []" using assms(4) by (metis desc_sort_def mset_zero_iff)
  then have b': "(if ?ins \<noteq> [] then applyAllInsertions f b ?ins else b) = weave 0 b (f ?ins)"
    using applyAllInsertions_weave [OF assms(4) gamInsertions_bounds] by (auto simp: weave_Nil)
  show ?thesis
    using length_weave [of b 0 "f ?ins"] set_buffer [OF assms(1,2) _ assms(3), of 0 "length (weave 0 b (f ?ins))" "weave 0 b (f ?ins)"] assms(5)
    unfolding processBodyWithGAM_def Let_def b' by (simp add: replace_at_def)
qed

end

section \<open>Signed URLs\<close>

text \<open>What the documentation of \<^verbatim>\<open>FindAndConsume\<close> promises: a match is a non-empty part of the input.\<close>

definition find_spec :: "find_and_consume \<Rightarrow> bool" where
  "find_spec fac \<longleftrightarrow> (\<forall>s p l. fac s = Some (p, l) \<longrightarrow> 0 < l \<and> p + l \<le> length s)"

lemma find_spec_Nil: "find_spec fac \<Longrightarrow> fac [] = None"
proof (cases "fac []")
  case (Some m)
  obtain p l where "m = (p, l)" by (cases m)
  moreover assume "find_spec fac"
  ultimately have "0 < l \<and> p + l \<le> length ([] :: string)" using Some unfolding find_spec_def by blast
  then show ?thesis by auto
qed

text \<open>A text as gaps and matches, the positions of the matches, and the text with the matches replaced.\<close>

definition flat :: "(string \<times> string) list \<Rightarrow> string" where
  "flat segs = concat (map (\<lambda>(g, u). g @ u) segs)"

fun positions :: "nat \<Rightarrow> (string \<times> string) list \<Rightarrow> (nat \<times> string) list" where
  "positions base [] = []"
| "positions base ((g, u) # segs) = (base + length g, u) # positions (base + length g + length u) segs"

fun flat_with :: "nat \<Rightarrow> (nat \<Rightarrow> string \<Rightarrow> string) \<Rightarrow> (string \<times> string) list \<Rightarrow> string" where
  "flat_with i sign [] = []"
| "flat_with i sign ((g, u) # segs) = g @ sign i u @ flat_with (Suc i) sign segs"

lemma flat_simps [simp]: "flat [] = []" "flat ((g, u) # segs) = g @ u @ flat segs"
  by (simp_all add: flat_def)

lemma collect_urls_segments:
  assumes "find_spec fac"
  shows "\<exists>segs rest. s = flat segs @ rest \<and> fac rest = None \<and>
    collect_urls fac base s acc = Some (acc @ positions base segs)"
proof (induction "length s" arbitrary: s base acc rule: less_induct)
  case less
  show ?case
  proof (cases "fac s")
    case None
    then show ?thesis by (intro exI [of _ "[]"] exI [of _ s]) (simp add: collect_urls.simps)
  next
    case (Some m)
    obtain p l where m: "m = (p, l)" by (cases m)
    then have l: "0 < l" "p + l \<le> length s" using assms Some by (auto simp: find_spec_def)
    let ?u = "take l (drop p s)"
    have split: "s = take p s @ ?u @ drop (p + l) s" by (metis append_take_drop_id drop_drop add.commute)
    have "length (drop (p + l) s) < length s" using l by simp
    from less [OF this, of "base + p + l" "acc @ [(base + p, ?u)]"]
    obtain segs rest where "drop (p + l) s = flat segs @ rest" "fac rest = None"
      "collect_urls fac (base + p + l) (drop (p + l) s) (acc @ [(base + p, ?u)]) =
         Some ((acc @ [(base + p, ?u)]) @ positions (base + p + l) segs)" by blast
    with Some m l split show ?thesis
      by (intro exI [of _ "(take p s, ?u) # segs"] exI [of _ rest])
         (simp add: collect_urls.simps [of fac base s])
  qed
qed

lemma replace_urls_append: "replace_urls sign (a @ [(pos, url)]) st =
    (case replace_urls (\<lambda>i. sign (Suc i)) a st of (b, n) \<Rightarrow>
       if sign 0 url \<noteq> [] then (replace_at pos (length url) (sign 0 url) b, n + 1) else (b, n))"
proof (induction a arbitrary: st)
  case Nil
  then show ?case by (cases st) simp
next
  case (Cons m a)
  then show ?case by (cases m; cases st) (simp add: Let_def)
qed

lemma replace_urls_positions:
  assumes "\<And>i u. sign i u \<noteq> []"
  shows "replace_urls (\<lambda>j. sign (i + j)) (rev (positions (length pre) segs)) (pre @ flat segs @ rest, n) =
     (pre @ flat_with i sign segs @ rest, n + length segs)"
proof (induction segs arbitrary: pre i n)
  case (Cons s segs)
  obtain g u where s: "s = (g, u)" by (cases s)
  have "replace_urls (\<lambda>j. sign (i + Suc j)) (rev (positions (length (pre @ g @ u)) segs))
      ((pre @ g @ u) @ flat segs @ rest, n) =
     ((pre @ g @ u) @ flat_with (Suc i) sign segs @ rest, n + length segs)"
    using Cons.IH [of "Suc i" "pre @ g @ u" n] by simp
  then show ?case
    using assms [of i u] by (simp add: s replace_urls_append add.assoc replace_at_def)
qed simp

lemma generateSignedUrl_not_Nil: "generateSignedUrl K W config key now url \<noteq> []"
  by (simp add: generateSignedUrl_def Let_def)

context plugin_env
begin

lemma cdn_token_view:
  assumes "good h" and "v_body (view h) HttpResponseBody = Some b" and "length b \<le> 1048576" and "find_spec fac"
  shows "\<exists>segs rest h'. b = flat segs @ rest \<and> fac rest = None \<and>
    cdn_token_onResponseBody K W (config, key, fac) now S (length b) True h = Some (DataContinue, h') \<and>
    v_body (view h') HttpResponseBody =
      Some (flat_with 0 (\<lambda>i. generateSignedUrl K W config key (now i)) segs @ rest)"
proof -
  let ?sign = "\<lambda>i. generateSignedUrl K W config key (now i)"
  obtain segs rest where b: "b = flat segs @ rest" and "fac rest = None"
    and collect: "collect_urls fac 0 b [] = Some (positions 0 segs)"
    using collect_urls_segments [OF assms(4), of b 0 "[]"] by auto
  have small: "length b < 2 ^ 32" using assms(3) by simp
  note buf = get_buffer [OF assms(1,2) small, of 0 "length b", simplified]
  have repl: "replace_urls ?sign (rev (positions 0 segs)) (b, 0) = (flat_with 0 ?sign segs @ rest, length segs)"
    using replace_urls_positions [of ?sign 0 "[]" segs rest 0] generateSignedUrl_not_Nil by (simp add: b)
  have empty: "positions 0 segs = [] \<longleftrightarrow> segs = []" by (cases segs) auto
  show ?thesis
  proof (cases "segs = [] \<or> b = []")
    case True
    have "segs = []" if "b = []"
      using that collect find_spec_Nil [OF assms(4)] by (cases segs) (auto simp: collect_urls.simps [of fac 0 "[]"])
    with True have "segs = []" by blast
    then show ?thesis
      using buf assms b \<open>fac rest = None\<close> collect
      by (intro exI [of _ "[]"] exI [of _ rest] exI [of _ h])
         (auto simp: cdn_token_onResponseBody_def kMaxBodySize_def Let_def)
  next
    case False
    let ?h = "LOG_INFO S (''Replaced '' @ dec_nat (length segs) @ '' URLs with signed URLs'') h"
    have "view (snd (setBuffer S HttpResponseBody 0 (length b) (flat_with 0 ?sign segs @ rest) ?h)) =
       (view ?h)\<lparr>v_body := (v_body (view ?h))(HttpResponseBody := Some (replace_at 0 (length b) (flat_with 0 ?sign segs @ rest) b))\<rparr>"
      using set_buffer [of ?h HttpResponseBody b 0 "length b"] assms(1,2) small by simp
    then show ?thesis
      using False buf assms(3) b \<open>fac rest = None\<close> collect repl empty
      by (intro exI [of _ segs] exI [of _ rest] exI
            [of _ "snd (setBuffer S HttpResponseBody 0 (length b) (flat_with 0 ?sign segs @ rest) ?h)"])
         (auto simp: cdn_token_onResponseBody_def kMaxBodySize_def Let_def replace_at_def)
  qed
qed

end

section \<open>Masking\<close>

definition replace_spec :: "global_replace \<Rightarrow> bool" where
  "replace_spec re \<longleftrightarrow> (\<forall>v. fst (re v) = 0 \<longrightarrow> snd (re v) = v)"

text \<open>The text with both kinds of numbers masked.\<close>

definition masked :: "global_replace \<Rightarrow> global_replace \<Rightarrow> string \<Rightarrow> string" where
  "masked card_re code10_re v = snd (code10_re (snd (card_re v)))"

lemma maskPII_snd: "snd (maskPII card_re code10_re v) = masked card_re code10_re v"
  by (simp add: maskPII_def masked_def split_beta Let_def)

lemma maskPII_unchanged:
  assumes "replace_spec card_re" and "replace_spec code10_re" and "\<not> fst (maskPII card_re code10_re v)"
  shows "masked card_re code10_re v = v"
  using assms by (auto simp: maskPII_def masked_def replace_spec_def split_beta Let_def split: if_splits)

lemma maskPairs_eq:
  "maskPairs card_re code10_re ps (acc, ch) =
     (acc @ map (\<lambda>p. (fst p, masked card_re code10_re (snd p))) ps,
      ch \<or> (\<exists>p \<in> set ps. fst (maskPII card_re code10_re (snd p))))"
proof (induction ps arbitrary: acc ch)
  case (Cons p ps)
  then show ?case by (cases p) (auto simp: split_beta maskPII_snd)
qed simp

lemma hdr_find_map_values: "hdr_find k (map (\<lambda>p. (fst p, f (snd p))) hs) = map_option f (hdr_find k hs)"
  by (induction hs) auto

lemma hdr_sorted_map_values: "hdr_sorted (map (\<lambda>p. (fst p, f (snd p))) hs) = hdr_sorted hs"
  by (simp add: hdr_sorted_def sorted_wrt_map)

lemma check_pii_headers:
  assumes "absl_strings A" and "replace_spec card_re" and "replace_spec code10_re" and "hdr_sorted hs"
  shows "\<exists>c1. check_pii_onResponseHeaders card_re code10_re (test_sdk A) (response_phase hs c) = (Continue, c1) \<and>
    (\<forall>k. hdr_find k (headers (result c1)) = map_option (masked card_re code10_re) (hdr_find k hs))"
proof -
  let ?h = "response_phase hs c"
  let ?new = "map (\<lambda>p. (fst p, masked card_re code10_re (snd p))) hs"
  have pairs: "getHeaderMapPairs (test_sdk A) ResponseHeaders ?h = hs"
    by (simp add: test_sdk_def TestHttpContext_getHeaderMapPairs_def)
  have setp: "setHeaderMapPairs (test_sdk A) = TestHttpContext_setHeaderMapPairs" by (simp add: test_sdk_def)
  show ?thesis
  proof (cases "\<exists>p \<in> set hs. fst (maskPII card_re code10_re (snd p))")
    case True
    have "test_view (snd (TestHttpContext_setHeaderMapPairs ResponseHeaders ?new ?h)) = (test_view ?h)\<lparr>v_hdrs := happend ?new\<rparr>"
      using assms(4) by (intro test_headers_laws) simp_all
    from test_viewD(1) [OF this] True show ?thesis
      using assms(4)
      by (simp add: check_pii_onResponseHeaders_def pairs setp maskPairs_eq happend_sorted
          hdr_sorted_map_values hdr_find_map_values)
  next
    case False
    have "?new = hs"
      using False maskPII_unchanged [OF assms(2,3)] by (intro map_idI) auto
    then have "map_option (masked card_re code10_re) (hdr_find k hs) = hdr_find k hs" for k
      using hdr_find_map_values [of k "masked card_re code10_re" hs] by simp
    with False show ?thesis by (simp add: check_pii_onResponseHeaders_def pairs maskPairs_eq)
  qed
qed

context plugin_env
begin

lemma check_pii_body:
  assumes "good h" and "v_body (view h) HttpResponseBody = Some b" and "length b < 2 ^ 32"
    and "replace_spec card_re" and "replace_spec code10_re"
  shows "\<exists>h'. check_pii_onResponseBody card_re code10_re S (length b) h = Some (DataContinue, h') \<and>
     v_body (view h') HttpResponseBody = Some (masked card_re code10_re b)"
proof (cases "fst (maskPII card_re code10_re b)")
  case True
  then show ?thesis
    using get_buffer [OF assms(1-3), of 0 "length b"] assms(3)
      set_buffer [OF assms(1,2) _ assms(3), of 0 "length b" "masked card_re code10_re b"]
    by (simp add: check_pii_onResponseBody_def deref_cases split_beta maskPII_snd replace_at_def)
next
  case False
  then show ?thesis
    using get_buffer [OF assms(1-3), of 0 "length b"] maskPII_unchanged [OF assms(4,5) False] assms(2)
    by (simp add: check_pii_onResponseBody_def deref_cases split_beta)
qed

end

section \<open>Properties\<close>

text \<open>C21: When ad\_insertion handles the last chunk of an HTML page, every insertion lands where its marker was
  found in the original page: the new page is the old one with, in front of each character, the texts
  meant for that position, whichever order the sorting gives to equal positions.\<close>

theorem ad_insertions_in_place:
  assumes "absl_strings A" and "desc_sort std_sort" and "\<not> sent_local_response c" and "length b < 2 ^ 32"
    and "length (weave 0 b (std_sort (gamInsertions r b))) < 2 ^ 32"
    and "should_insert_ads p" and "\<not> is_ad_request p"
  shows "body (fst (SendResponseBody (ad_insertion_onResponseBody std_sort r (test_sdk A)) b True (p, c))) =
     weave 0 b (std_sort (gamInsertions r b)) \<and> mset (std_sort (gamInsertions r b)) = mset (gamInsertions r b)"
proof -
  note env = test_env [OF assms(1)]
  let ?h = "response_body_phase b c"
  let ?c1 = "processBodyWithGAM std_sort r (test_sdk A) b ?h"
  have "getBufferBytes (test_sdk A) HttpResponseBody 0 (length b) ?h = WasmData (Some b)"
    using test_buffer_laws(1) [of HttpResponseBody ?h b 0 "length b"] assms(4) by (simp add: test_sdk_def)
  then have f: "ad_insertion_onResponseBody std_sort r (test_sdk A) (length b) True (p, ?h) = (DataContinue, p, ?c1)"
    using assms(6,7) by (simp add: ad_insertion_onResponseBody_def)
  have "test_view ?c1 = (test_view ?h)\<lparr>v_body := (v_body (test_view ?h))
      (HttpResponseBody := Some (weave 0 b (std_sort (gamInsertions r b))))\<rparr>"
    using plugin_env.processBody_view [OF env, of ?h b std_sort r] assms(2,4,5) by simp
  from test_viewD(5) [OF this, of HttpResponseBody] have "body_buffer ?c1 = weave 0 b (std_sort (gamInsertions r b))"
    by (simp add: getBuffer_body)
  then show ?thesis
    using assms(2,3) f by (simp add: SendResponseBody_def response_body_phase_def desc_sort_def)
qed

text \<open>Insertion sort in descending order of the positions, a sorting the theorem covers.\<close>

fun insort_desc :: "nat \<times> string \<Rightarrow> insertions \<Rightarrow> insertions" where
  "insort_desc x [] = [x]"
| "insort_desc x (y # ys) = (if fst y \<le> fst x then x # y # ys else y # insort_desc x ys)"

definition sort_desc :: "insertions \<Rightarrow> insertions" where
  "sort_desc xs = foldr insort_desc xs []"

lemma mset_insort_desc: "mset (insort_desc x ys) = add_mset x (mset ys)"
  by (induction ys) auto

lemma sorted_insort_desc:
  "sorted_wrt (\<lambda>a b. fst a \<ge> fst b) ys \<Longrightarrow> sorted_wrt (\<lambda>a b. fst a \<ge> fst b) (insort_desc x ys)"
proof (induction ys)
  case (Cons y ys)
  have "set (insort_desc x ys) = insert x (set ys)"
    using mset_insort_desc [of x ys] by (metis set_mset_add_mset_insert set_mset_mset)
  with Cons show ?case by (auto intro: order_trans)
qed simp

lemma sort_desc_spec: "desc_sort sort_desc"
proof -
  have "mset (sort_desc xs) = mset xs \<and> sorted_wrt (\<lambda>a b. fst a \<ge> fst b) (sort_desc xs)" for xs
    by (induction xs) (simp_all add: sort_desc_def mset_insort_desc sorted_insort_desc)
  then show ?thesis by (simp add: desc_sort_def)
qed

theorem ad_insertions_in_place_witness:
  "body (fst (SendResponseBody (ad_insertion_onResponseBody sort_desc
      \<lparr>ad_configs = [], gpt_library_url = ''u'', inject_gpt_library = True\<rparr> (test_sdk absl_ref)) ''<head>x'' True
      (ad_stream_init\<lparr>should_insert_ads := True\<rparr>, new_stream Info None 0 [] []))) =
     ''<head>'' @ [CHR 0x0A] @ ''  '' @ gpt_script ''u'' @ ''x''"
proof -
  let ?r = "\<lparr>ad_configs = [], gpt_library_url = ''u'', inject_gpt_library = True\<rparr> :: ad_root"
  have ins: "gamInsertions ?r ''<head>x'' = [(6, [CHR 0x0A] @ ''  '' @ gpt_script ''u'')]"
    by (simp add: gamInsertions_def isGptAlreadyLoaded_def prepareGptLibraryInjection_def)
  have w: "weave 0 ''<head>x'' (sort_desc (gamInsertions ?r ''<head>x'')) =
      ''<head>'' @ [CHR 0x0A] @ ''  '' @ gpt_script ''u'' @ ''x''"
    by (simp add: pieces_def ins sort_desc_def del: append.simps)
  have len: "length (weave 0 ''<head>x'' (sort_desc (gamInsertions ?r ''<head>x''))) < 2 ^ 32"
    unfolding w by (simp add: gpt_script_def)
  show ?thesis
    using ad_insertions_in_place [OF absl_ref_spec sort_desc_spec _ _ len, of "new_stream Info None 0 [] []"
        "ad_stream_init\<lparr>should_insert_ads := True\<rparr>"]
    unfolding w by (simp add: new_stream_def ad_stream_init_def)
qed







end
