(* ===== verification/Pii_Masking.thy ===== *)
theory Pii_Masking
  imports Body_Samples
begin

text \<open>
  The expressions of check\_pii (\<^verbatim>\<open>samples/check_pii/plugin.cc\<close>) and what their replacement achieves. RE2 is a
  parameter; the locale \<open>leftmost_replace\<close> states how \<^verbatim>\<open>RE2::GlobalReplace\<close> treats an expression that is a
  row of character classes: matches are taken from the left and do not overlap. A reference
  implementation interprets it.
\<close>

section \<open>Configuration\<close>

record 're re2 =
  re2_compile :: "string \<Rightarrow> 're"
  re2_ok :: "'re \<Rightarrow> bool"
  re2_GlobalReplace :: "string \<Rightarrow> 're \<Rightarrow> string \<Rightarrow> nat \<times> string"

record 're pii_root =
  card_matcher :: "'re option"
  code10_matcher :: "'re option"

definition digits_re :: "string \<Rightarrow> string" where
  "digits_re n = [CHR 0x5C] @ ''d{'' @ n @ ''}''"

definition card_expression :: string where
  "card_expression = digits_re ''4'' @ ''-'' @ digits_re ''4'' @ ''-'' @ digits_re ''4'' @ ''-('' @ digits_re ''4'' @ '')''"

definition code10_expression :: string where
  "code10_expression = digits_re ''7'' @ ''('' @ digits_re ''3'' @ '')''"

definition check_pii_onConfigure :: "'re re2 \<Rightarrow> 're pii_root \<Rightarrow> bool \<times> 're pii_root" where
  "check_pii_onConfigure L r =
     (let card_re = re2_compile L card_expression; code10_re = re2_compile L code10_expression
      in (re2_ok L card_re \<and> re2_ok L code10_re, r\<lparr>card_matcher := Some card_re, code10_matcher := Some code10_re\<rparr>))"

text \<open>The two replacements that a stream makes, absent when the root was not configured.\<close>

definition card_rewrite :: string where
  "card_rewrite = ''XXXX-XXXX-XXXX-'' @ [CHR 0x5C] @ ''1''"

definition code10_rewrite :: string where
  "code10_rewrite = ''XXXXXXX'' @ [CHR 0x5C] @ ''1''"

definition pii_replacements :: "'re re2 \<Rightarrow> 're pii_root \<Rightarrow> (global_replace \<times> global_replace) option" where
  "pii_replacements L r = (case (card_matcher r, code10_matcher r) of
      (Some card_re, Some code10_re) \<Rightarrow>
        Some (\<lambda>v. re2_GlobalReplace L v card_re card_rewrite, \<lambda>v. re2_GlobalReplace L v code10_re code10_rewrite)
    | _ \<Rightarrow> None)"

section \<open>Replacement of rows of character classes\<close>

definition matches :: "(char \<Rightarrow> bool) list \<Rightarrow> string \<Rightarrow> bool" where
  "matches pat s \<longleftrightarrow> list_all2 (\<lambda>p c. p c) pat (take (length pat) s)"

locale leftmost_replace =
  fixes pat :: "(char \<Rightarrow> bool) list" and cover :: "string \<Rightarrow> string" and R :: global_replace
  assumes pat: "pat \<noteq> []"
    and empty: "R [] = (0, [])"
    and hit: "matches pat s \<Longrightarrow> R s = (let (n, r) = R (drop (length pat) s) in (Suc n, cover (take (length pat) s) @ r))"
    and miss: "\<not> matches pat (c # s) \<Longrightarrow> R (c # s) = (let (n, r) = R s in (n, c # r))"

lemma matches_length: "matches pat s \<Longrightarrow> length pat \<le> length s"
  unfolding matches_def by (drule list_all2_lengthD) simp

lemma matches_shorter: "pat \<noteq> [] \<Longrightarrow> matches pat s \<Longrightarrow> length s - length pat < length s"
  using matches_length [of pat s] by (cases pat) auto

function replace_leftmost :: "(char \<Rightarrow> bool) list \<Rightarrow> (string \<Rightarrow> string) \<Rightarrow> string \<Rightarrow> nat \<times> string" where
  "replace_leftmost pat cover s =
     (if pat \<noteq> [] \<and> matches pat s
      then let (n, r) = replace_leftmost pat cover (drop (length pat) s) in (Suc n, cover (take (length pat) s) @ r)
      else case s of [] \<Rightarrow> (0, []) | c # cs \<Rightarrow> let (n, r) = replace_leftmost pat cover cs in (n, c # r))"
  by pat_completeness auto
termination
  by (relation "measure (\<lambda>(pat, cover, s). length s)") (auto simp: matches_shorter)

declare replace_leftmost.simps [simp del]

lemma replace_leftmost_eq:
  "pat \<noteq> [] \<Longrightarrow> matches pat s \<Longrightarrow> replace_leftmost pat cover s =
     (let (n, r) = replace_leftmost pat cover (drop (length pat) s) in (Suc n, cover (take (length pat) s) @ r))"
  "\<not> matches pat (c # cs) \<Longrightarrow> replace_leftmost pat cover (c # cs) = (let (n, r) = replace_leftmost pat cover cs in (n, c # r))"
  "pat \<noteq> [] \<Longrightarrow> replace_leftmost pat cover [] = (0, [])"
  by (simp_all add: replace_leftmost.simps [of pat cover s] replace_leftmost.simps [of pat cover "c # cs"] replace_leftmost.simps [of pat cover "[]"]
      matches_def)

text \<open>The laws leave nothing open.\<close>

context leftmost_replace
begin

lemma determined: "R s = replace_leftmost pat cover s"
proof (induction s rule: length_induct)
  case (1 s)
  show ?case
  proof (cases "matches pat s")
    case True
    with 1 pat matches_shorter [OF pat True] show ?thesis by (simp add: hit replace_leftmost_eq)
  next
    case False
    with 1 pat show ?thesis by (cases s) (simp_all add: miss empty replace_leftmost_eq)
  qed
qed

lemma unchanged: "fst (R s) = 0 \<Longrightarrow> snd (R s) = s"
proof (induction s rule: length_induct)
  case (1 s)
  show ?case
  proof (cases "matches pat s")
    case True
    with 1 show ?thesis by (simp add: hit split_beta)
  next
    case False
    with 1 show ?thesis by (cases s) (simp_all add: miss empty split_beta)
  qed
qed

lemma is_replacement: "replace_spec R"
  using unchanged by (simp add: replace_spec_def)

end

section \<open>Runs of digits\<close>

definition digit_run :: "nat \<Rightarrow> string \<Rightarrow> bool" where
  "digit_run n s \<longleftrightarrow> (\<exists>w. length w = n \<and> list_all isdigit w \<and> sublist w s)"

text \<open>The same by one pass that counts the digits in front.\<close>

fun runs_below :: "nat \<Rightarrow> nat \<Rightarrow> string \<Rightarrow> bool" where
  "runs_below n k [] \<longleftrightarrow> k < n"
| "runs_below n k (c # s) \<longleftrightarrow> k < n \<and> runs_below n (if isdigit c then Suc k else 0) s"

lemma runs_below_less: "runs_below n k s \<Longrightarrow> k < n"
  by (cases s) simp_all

lemma prefix_digits: "prefix w s \<Longrightarrow> list_all isdigit w \<Longrightarrow> length w \<le> length (takeWhile isdigit s)"
  by (auto simp: prefix_def list_all_iff takeWhile_append)

lemma runs_below_iff:
  "runs_below n k s \<longleftrightarrow> k + length (takeWhile isdigit s) < n \<and> (\<forall>w. sublist w s \<and> list_all isdigit w \<longrightarrow> length w < n)"
proof (induction s arbitrary: k)
  case (Cons c s)
  have "length w < n" if "prefix w (c # s)" "list_all isdigit w" "k + length (takeWhile isdigit (c # s)) < n" for w
    using prefix_digits [OF that(1,2)] that(3) by simp
  moreover have "length (takeWhile isdigit s) < n" if "\<forall>w. sublist w s \<and> list_all isdigit w \<longrightarrow> length w < n"
    using that takeWhile_is_prefix [of isdigit s] by (auto simp: list_all_iff dest: set_takeWhileD)
  ultimately show ?case
    unfolding runs_below.simps Cons.IH sublist_Cons_right by auto
qed auto

lemma digit_run_iff: "0 < n \<Longrightarrow> digit_run n s \<longleftrightarrow> \<not> runs_below n 0 s"
proof -
  assume "0 < n"
  have "digit_run n s \<longleftrightarrow> (\<exists>w. sublist w s \<and> list_all isdigit w \<and> n \<le> length w)"
  proof
    assume "\<exists>w. sublist w s \<and> list_all isdigit w \<and> n \<le> length w"
    then obtain w where w: "sublist w s" "list_all isdigit w" "n \<le> length w" by blast
    have "sublist (take n w) s"
      using w(1) take_is_prefix [of n w] by (meson prefix_imp_sublist sublist_order.order_trans)
    with w show "digit_run n s" unfolding digit_run_def
      by (intro exI [of _ "take n w"]) (auto simp: list_all_iff dest: in_set_takeD)
  qed (auto simp: digit_run_def)
  moreover have "length (takeWhile isdigit s) < n" if "\<forall>w. sublist w s \<and> list_all isdigit w \<longrightarrow> length w < n"
    using that takeWhile_is_prefix [of isdigit s] by (auto simp: list_all_iff dest: set_takeWhileD)
  ultimately show ?thesis by (auto simp: runs_below_iff not_le)
qed

text \<open>Masking never turns another character into a digit, so runs only get shorter.\<close>

lemma runs_below_mono:
  assumes "list_all2 (\<lambda>a b. isdigit b \<longrightarrow> isdigit a) s t" and "runs_below n k s" and "k' \<le> k"
  shows "runs_below n k' t"
  using assms
proof (induction arbitrary: k k' rule: list_all2_induct)
  case (Cons a s b t)
  then show ?case by (auto split: if_splits)
qed auto

section \<open>The two expressions\<close>

definition card_pattern :: "(char \<Rightarrow> bool) list" where
  "card_pattern = (let d = replicate 4 isdigit; h = [\<lambda>c. c = CHR ''-''] in d @ h @ d @ h @ d @ h @ d)"

definition card_mask :: "string \<Rightarrow> string" where
  "card_mask m = ''XXXX-XXXX-XXXX-'' @ drop 15 m"

definition code10_pattern :: "(char \<Rightarrow> bool) list" where
  "code10_pattern = replicate 10 isdigit"

definition code10_mask :: "string \<Rightarrow> string" where
  "code10_mask m = ''XXXXXXX'' @ drop 7 m"

lemma length_patterns [simp]: "length card_pattern = 19" "length code10_pattern = 10"
  by (simp_all add: card_pattern_def code10_pattern_def Let_def)

lemma patterns_nonempty [simp]: "card_pattern \<noteq> []" "code10_pattern \<noteq> []"
  using length_patterns by (metis list.size(3) zero_neq_numeral)+

lemma code10_matches: "matches code10_pattern s \<longleftrightarrow> 10 \<le> length (takeWhile isdigit s)"
proof -
  have "matches code10_pattern s \<longleftrightarrow> 10 \<le> length s \<and> list_all isdigit (take 10 s)"
    by (auto simp: matches_def code10_pattern_def list_all2_conv_all_nth list_all_length)
  also have "\<dots> \<longleftrightarrow> 10 \<le> length (takeWhile isdigit s)"
  proof
    assume s: "10 \<le> length s \<and> list_all isdigit (take 10 s)"
    then show "10 \<le> length (takeWhile isdigit s)" using prefix_digits [OF take_is_prefix, of 10 s] by simp
  next
    assume s: "10 \<le> length (takeWhile isdigit s)"
    then have "take 10 s = take 10 (takeWhile isdigit s)"
      by (metis append_take_drop_id takeWhile_eq_take take_take min.absorb1 length_takeWhile_le)
    with s show "10 \<le> length s \<and> list_all isdigit (take 10 s)"
      by (auto simp: list_all_iff dest!: in_set_takeD set_takeWhileD intro: order_trans [OF _ length_takeWhile_le])
  qed
  finally show ?thesis .
qed

lemma not_digits [simp]: "\<not> isdigit (CHR ''X'')" "\<not> isdigit (CHR ''-'')"
  by (simp_all add: isdigit_def char_code_def)

lemma code10_hit:
  "matches code10_pattern s \<Longrightarrow>
     snd (replace_leftmost code10_pattern code10_mask s) = ''XXXXXXX'' @ drop 7 (take 10 s) @ snd (replace_leftmost code10_pattern code10_mask (drop 10 s))"
  by (simp add: replace_leftmost_eq code10_mask_def split_beta)

lemma runs_below_digits:
  "list_all isdigit w \<Longrightarrow> k + length w < n \<Longrightarrow> runs_below n k (w @ s) \<longleftrightarrow> runs_below n (k + length w) s"
  by (induction w arbitrary: k) auto

lemma runs_below_X: "runs_below n k (''XXXXXXX'' @ s) \<longleftrightarrow> k < n \<and> 0 < n \<and> runs_below n 0 s"
  by (auto dest: runs_below_less)

lemma hit_digits: "matches code10_pattern s \<Longrightarrow> list_all isdigit (take 10 s) \<and> 10 \<le> length s"
  by (auto simp: matches_def code10_pattern_def list_all2_conv_all_nth list_all_length)

text \<open>
  One pass over a text without seventeen digits in a row: in front of a run nothing is masked yet
  (\<open>k\<close> digits went by), or its first ten digits are and three of them are left.
\<close>

lemma code10_pass:
  assumes "runs_below 17 k s"
  shows "(k = 0 \<or> k + length (takeWhile isdigit s) < 10 \<longrightarrow> runs_below 10 k (snd (replace_leftmost code10_pattern code10_mask s))) \<and>
    (10 \<le> k \<longrightarrow> runs_below 10 (k - 7) (snd (replace_leftmost code10_pattern code10_mask s)))"
  using assms
proof (induction s arbitrary: k rule: length_induct)
  case (1 s)
  have lead: "k + length (takeWhile isdigit s) < 17" using "1.prems" by (simp add: runs_below_iff)
  show ?case
  proof (cases "matches code10_pattern s")
    case True
    note digits = hit_digits [OF True]
    from True lead have k: "k < 7" by (simp add: code10_matches)
    have "runs_below 10 0 (snd (replace_leftmost code10_pattern code10_mask s))" if "k = 0"
    proof -
      have "runs_below 17 0 (take 10 s @ drop 10 s)" using "1.prems" that by simp
      then have "runs_below 17 10 (drop 10 s)" using digits runs_below_digits [of "take 10 s" 0 17 "drop 10 s"] by simp
      moreover have "length (drop 10 s) < length s" using conjunct2 [OF digits] by (cases s) simp_all
      ultimately have "runs_below 10 3 (snd (replace_leftmost code10_pattern code10_mask (drop 10 s)))"
        using "1.IH" [rule_format, of "drop 10 s" 10] by simp
      moreover have "list_all isdigit (drop 7 (take 10 s))" "length (drop 7 (take 10 s)) = 3"
        using digits by (auto simp: list_all_iff dest: in_set_dropD)
      ultimately show ?thesis
        unfolding code10_hit [OF True] runs_below_X using runs_below_digits [of "drop 7 (take 10 s)" 0 10] by simp
    qed
    with k True show ?thesis by (auto simp: code10_matches)
  next
    case False
    show ?thesis
    proof (cases s)
      case Nil
      with "1.prems" show ?thesis by (auto simp: replace_leftmost_eq)
    next
      case (Cons c cs)
      with False have step: "snd (replace_leftmost code10_pattern code10_mask s) = c # snd (replace_leftmost code10_pattern code10_mask cs)"
        by (simp add: replace_leftmost_eq split_beta)
      let ?k = "if isdigit c then Suc k else 0"
      have "runs_below 17 ?k cs" using "1.prems" Cons by simp
      with "1.IH" have "(?k = 0 \<or> ?k + length (takeWhile isdigit cs) < 10 \<longrightarrow> runs_below 10 ?k (snd (replace_leftmost code10_pattern code10_mask cs))) \<and>
          (10 \<le> ?k \<longrightarrow> runs_below 10 (?k - 7) (snd (replace_leftmost code10_pattern code10_mask cs)))"
        using Cons by simp
      moreover have "Suc k - 7 = Suc (k - 7)" if "10 \<le> k" using that by simp
      ultimately show ?thesis
        using False lead unfolding step by (auto simp: Cons code10_matches split: if_splits)
    qed
  qed
qed

lemma code10_covers: "\<not> digit_run 17 s \<Longrightarrow> \<not> digit_run 10 (snd (replace_leftmost code10_pattern code10_mask s))"
  using code10_pass [of 0 s] by (simp add: digit_run_iff)

lemma covered_no_digit:
  "length xs = length ys \<Longrightarrow> list_all (\<lambda>c. \<not> isdigit c) ys \<Longrightarrow> list_all2 (\<lambda>a b. isdigit b \<longrightarrow> isdigit a) xs ys"
  by (auto simp: list_all2_conv_all_nth list_all_length)

lemma card_no_new_digits:
  "list_all2 (\<lambda>a b. isdigit b \<longrightarrow> isdigit a) s (snd (replace_leftmost card_pattern card_mask s))"
proof (induction s rule: length_induct)
  case (1 s)
  show ?case
  proof (cases "matches card_pattern s")
    case True
    then have len: "19 \<le> length s" using matches_length [OF True] by simp
    have s: "take 15 s @ drop 15 (take 19 s) @ drop 19 s = s"
      using append_take_drop_id [of 15 "take 19 s"] append_take_drop_id [of 19 s] by (simp add: min_def flip: append_assoc)
    have "snd (replace_leftmost card_pattern card_mask s) =
        ''XXXX-XXXX-XXXX-'' @ drop 15 (take 19 s) @ snd (replace_leftmost card_pattern card_mask (drop 19 s))"
      using True by (simp add: replace_leftmost_eq card_mask_def split_beta)
    moreover have "list_all2 (\<lambda>a b. isdigit b \<longrightarrow> isdigit a) (take 15 s @ drop 15 (take 19 s) @ drop 19 s)
        (''XXXX-XXXX-XXXX-'' @ drop 15 (take 19 s) @ snd (replace_leftmost card_pattern card_mask (drop 19 s)))"
      by (rule list_all2_appendI [OF covered_no_digit list_all2_appendI]) (use 1 len in \<open>simp_all add: list_all2_same\<close>)
    ultimately show ?thesis by (simp only: s)
  next
    case False
    with 1 show ?thesis by (cases s) (simp_all add: replace_leftmost_eq split_beta)
  qed
qed

section \<open>RE2 on these expressions\<close>

locale pii_expressions =
  fixes L :: "'re re2"
  assumes compiles: "re2_ok L (re2_compile L card_expression)" "re2_ok L (re2_compile L code10_expression)"
    and cards: "leftmost_replace card_pattern card_mask
      (\<lambda>v. re2_GlobalReplace L v (re2_compile L card_expression) card_rewrite)"
    and codes: "leftmost_replace code10_pattern code10_mask
      (\<lambda>v. re2_GlobalReplace L v (re2_compile L code10_expression) code10_rewrite)"
begin

lemma configured:
  obtains r card_re code10_re where "check_pii_onConfigure L r0 = (True, r)" "pii_replacements L r = Some (card_re, code10_re)"
    "leftmost_replace card_pattern card_mask card_re" "leftmost_replace code10_pattern code10_mask code10_re"
  using compiles cards codes
  by (auto simp: check_pii_onConfigure_def pii_replacements_def Let_def intro!: that)

end

lemma masked_covers:
  assumes "leftmost_replace card_pattern card_mask card_re" "leftmost_replace code10_pattern code10_mask code10_re"
    and "\<not> digit_run 17 v"
  shows "\<not> digit_run 10 (masked card_re code10_re v)"
proof -
  have "\<not> digit_run 17 (snd (card_re v))"
    using assms(3) runs_below_mono [OF card_no_new_digits [of v], of 17 0 0]
    by (simp add: digit_run_iff leftmost_replace.determined [OF assms(1)])
  then show ?thesis
    using code10_covers by (simp add: masked_def leftmost_replace.determined [OF assms(2)])
qed

text \<open>A library that knows the two expressions only.\<close>

definition two_expressions :: "string re2" where
  "two_expressions = \<lparr>re2_compile = id, re2_ok = (\<lambda>_. True), re2_GlobalReplace = (\<lambda>v re rewrite.
     if re = card_expression then replace_leftmost card_pattern card_mask v else replace_leftmost code10_pattern code10_mask v)\<rparr>"

lemma replace_leftmost_laws: "pat \<noteq> [] \<Longrightarrow> leftmost_replace pat cover (replace_leftmost pat cover)"
  by unfold_locales (simp_all add: replace_leftmost_eq)

interpretation two_expressions: pii_expressions two_expressions
proof (rule pii_expressions.intro)
  have "code10_expression \<noteq> card_expression" by (simp add: code10_expression_def card_expression_def digits_re_def)
  then show "leftmost_replace code10_pattern code10_mask
      (\<lambda>v. re2_GlobalReplace two_expressions v (re2_compile two_expressions code10_expression) code10_rewrite)"
    by (simp add: two_expressions_def replace_leftmost_laws)
qed (simp_all add: two_expressions_def replace_leftmost_laws)

text \<open>
  Seventeen digits leave ten of them in sight, and seven groups of four digits leave four groups: the
  digits that are kept from one match are not looked at again with the text behind it.
\<close>

lemma long_numbers_left_in_sight:
  "masked (replace_leftmost card_pattern card_mask) (replace_leftmost code10_pattern code10_mask) ''12345678901234567'' = ''XXXXXXX8901234567''"
  "masked (replace_leftmost card_pattern card_mask) (replace_leftmost code10_pattern code10_mask) ''1111-2222-3333-4444-5555-6666-7777'' =
     ''XXXX-XXXX-XXXX-4444-5555-6666-7777''"
  "digit_run 10 ''XXXXXXX8901234567''"
  "matches card_pattern ''4444-5555-6666-7777''"
proof -
  note eval = masked_def replace_leftmost.simps matches_def card_pattern_def code10_pattern_def isdigit_def char_code_def
    card_mask_def code10_mask_def numeral_eq_Suc
  show "digit_run 10 ''XXXXXXX8901234567''" by (simp add: digit_run_iff isdigit_def char_code_def)
  show "matches card_pattern ''4444-5555-6666-7777''" by (simp add: eval)
  show "masked (replace_leftmost card_pattern card_mask) (replace_leftmost code10_pattern code10_mask) ''12345678901234567'' = ''XXXXXXX8901234567''"
    by code_simp
  show "masked (replace_leftmost card_pattern card_mask) (replace_leftmost code10_pattern code10_mask) ''1111-2222-3333-4444-5555-6666-7777'' =
     ''XXXX-XXXX-XXXX-4444-5555-6666-7777''"
    by code_simp
qed

section \<open>Properties\<close>



end
