(* ===== verification/Lua_Coroutine.thy ===== *)
theory Lua_Coroutine
  imports Header_Samples
begin

text \<open>
  The Lua plugin (\<^verbatim>\<open>plugins/samples/lua\<close>): a Lua thread (\<^verbatim>\<open>lua_state.cc\<close>), the coroutine that runs a
  script on one direction of an HTTP stream (\<^verbatim>\<open>coroutine.cc\<close>) and the accessors of the handle that can
  suspend it (\<^verbatim>\<open>envoy_lua_api_registration.cc\<close>). The Lua
  virtual machine and LuaBridge are not part of the repository. The machine is an argument: between
  two calls into the handle it runs on its own, so all that is asked of it is what it does next,
  given the value the previous call returned. Running a script may not end; every operation that
  runs it returns \<^const>\<open>None\<close> in that case.
\<close>

section \<open>The machine\<close>

datatype ExecutionState = kExited | kYielded

datatype YieldReason = kNone | kWaitForHeaders | kWaitForBody | kWaitForBodyChunks
  | kWaitForTrailers | kWaitForHttp | kWaitToStart | kResponded

datatype LuaStreamCoroutineMode = kRequest | kResponse

datatype lua_value = LuaNil | LuaHandle | LuaBuffer WasmBufferType | LuaHeader WasmHeaderMapType bool
  | LuaFunction string | LuaError string | LuaInt int | LuaOther

text \<open>
  The flag of a header object tells whether it was made with the callback that asks if the headers
  have been passed on (\<^verbatim>\<open>Handle::GetHeaders\<close>) or without it (\<^verbatim>\<open>Header(header_type)\<close> in \<^verbatim>\<open>coroutine.cc\<close>).
\<close>

text \<open>
  What the machine does next: the function returns or fails, the script suspends itself and leaves
  some values, it calls an accessor of the handle (the flag tells whether Lua can suspend at this
  point: it cannot inside some library functions), or it calls a method that works on the host and
  may ask whether the headers have been passed on.
\<close>

datatype 'h lua_action = Finish | Raise string | PlainYield nat
  | CallBody bool | CallHeaders bool | CallTrailers bool | NextChunk bool
  | HostCall "bool \<Rightarrow> 'h \<Rightarrow> lua_value \<times> 'h"

record ('m, 'h) lua_vm =
  is_function :: "string \<Rightarrow> 'm \<Rightarrow> bool"
  enter :: "lua_value \<Rightarrow> 'm \<Rightarrow> 'm"
  push_error :: "lua_value \<Rightarrow> 'm \<Rightarrow> string option"
  step :: "lua_value \<Rightarrow> 'm \<Rightarrow> 'h lua_action \<times> 'm"

record 'm Thread =
  machine :: 'm
  stack :: "lua_value list"
  yielded :: bool
  is_finished :: bool
  is_running :: bool

definition NewThread :: "'m \<Rightarrow> 'm Thread" where
  "NewThread m = \<lparr>machine = m, stack = [], yielded = False, is_finished = False, is_running = False\<rparr>"

record LuaStreamCoroutine =
  co_mode :: LuaStreamCoroutineMode
  co_state :: ExecutionState
  yield_reason :: YieldReason
  headers_passed_on :: bool
  received_headers :: bool
  received_body :: bool
  has_body_data :: bool
  body_chunk_consumed :: bool
  received_trailers :: bool
  stream_ended :: bool

definition new_coroutine :: "LuaStreamCoroutineMode \<Rightarrow> LuaStreamCoroutine" where
  "new_coroutine m = \<lparr>co_mode = m, co_state = kYielded, yield_reason = kWaitToStart,
     headers_passed_on = False, received_headers = False, received_body = False, has_body_data = False,
     body_chunk_consumed = False, received_trailers = False, stream_ended = False\<rparr>"

definition MarkHeadersPassedOn :: "LuaStreamCoroutine \<Rightarrow> LuaStreamCoroutine" where
  "MarkHeadersPassedOn c = c\<lparr>headers_passed_on := True\<rparr>"

definition body_type :: "LuaStreamCoroutineMode \<Rightarrow> WasmBufferType" where
  "body_type m = (if m = kRequest then HttpRequestBody else HttpResponseBody)"

definition header_type :: "LuaStreamCoroutineMode \<Rightarrow> WasmHeaderMapType" where
  "header_type m = (if m = kRequest then RequestHeaders else ResponseHeaders)"

definition trailer_type :: "LuaStreamCoroutineMode \<Rightarrow> WasmHeaderMapType" where
  "trailer_type m = (if m = kRequest then RequestTrailers else ResponseTrailers)"

definition Coroutine_Yield :: "YieldReason \<Rightarrow> LuaStreamCoroutine \<Rightarrow> LuaStreamCoroutine" where
  "Coroutine_Yield reason c = c\<lparr>co_state := kYielded, yield_reason := reason\<rparr>"

section \<open>Accessors of the handle\<close>

text \<open>An accessor returns a value, or it notes why the coroutine waits and suspends the thread.\<close>

definition handle_body :: "LuaStreamCoroutine \<Rightarrow> lua_value option \<times> LuaStreamCoroutine" where
  "handle_body c = (if \<not> received_body c then (None, Coroutine_Yield kWaitForBody c)
     else (Some (LuaBuffer (body_type (co_mode c))), c))"

definition handle_headers :: "LuaStreamCoroutine \<Rightarrow> lua_value option \<times> LuaStreamCoroutine" where
  "handle_headers c = (if \<not> received_headers c then (None, Coroutine_Yield kWaitForHeaders c)
     else (Some (LuaHeader (header_type (co_mode c)) True), c))"

definition handle_trailers :: "LuaStreamCoroutine \<Rightarrow> lua_value option \<times> LuaStreamCoroutine" where
  "handle_trailers c = (if \<not> received_trailers c then (None, Coroutine_Yield kWaitForTrailers c)
     else (Some (LuaHeader (trailer_type (co_mode c)) True), c))"

definition handle_next_chunk :: "LuaStreamCoroutine \<Rightarrow> lua_value option \<times> LuaStreamCoroutine" where
  "handle_next_chunk c = (None, Coroutine_Yield kWaitForBodyChunks c)"

definition cannot_yield :: lua_value where
  "cannot_yield = LuaError ''attempt to yield across a C-call boundary''"

datatype resume_result = RFinished | RError string | RYield nat

text \<open>
  One activation of the thread. An accessor that has to suspend where Lua cannot do so becomes an
  error inside the script, after the reason has been noted.
\<close>

datatype 'h reaction = Stop resume_result | Go lua_value

definition react_accessor :: "bool \<Rightarrow> lua_value option \<times> LuaStreamCoroutine \<Rightarrow> 'h
    \<Rightarrow> 'h reaction \<times> LuaStreamCoroutine \<times> 'h" where
  "react_accessor can_yield r h = (case fst r of
      Some v \<Rightarrow> (Go v, snd r, h)
    | None \<Rightarrow> if can_yield then (Stop (RYield 0), snd r, h) else (Go cannot_yield, snd r, h))"

definition react :: "'h lua_action \<Rightarrow> LuaStreamCoroutine \<Rightarrow> 'h \<Rightarrow> 'h reaction \<times> LuaStreamCoroutine \<times> 'h" where
  "react a c h = (case a of
      Finish \<Rightarrow> (Stop RFinished, c, h)
    | Raise e \<Rightarrow> (Stop (RError e), c, h)
    | PlainYield k \<Rightarrow> (Stop (RYield k), c, h)
    | CallBody y \<Rightarrow> react_accessor y (handle_body c) h
    | CallHeaders y \<Rightarrow> react_accessor y (handle_headers c) h
    | CallTrailers y \<Rightarrow> react_accessor y (handle_trailers c) h
    | NextChunk y \<Rightarrow> react_accessor y (handle_next_chunk c) h
    | HostCall f \<Rightarrow> (Go (fst (f (headers_passed_on c) h)), c, snd (f (headers_passed_on c) h)))"

partial_function (option) lua_run :: "('m, 'h) lua_vm \<Rightarrow> lua_value \<Rightarrow> 'm \<Rightarrow> LuaStreamCoroutine \<Rightarrow> 'h
    \<Rightarrow> (resume_result \<times> 'm \<times> LuaStreamCoroutine \<times> 'h) option" where
  "lua_run V v m c h =
     (case react (fst (step V v m)) c h of
        (Stop r, c', h') \<Rightarrow> Some (r, snd (step V v m), c', h')
      | (Go v', c', h') \<Rightarrow> lua_run V v' (snd (step V v m)) c' h')"

section \<open>Threads\<close>

type_synonym ('m, 'h) stream_state = "LuaStreamCoroutine \<times> 'm Thread \<times> 'h"

definition Thread_Resume :: "('m, 'h) lua_vm \<Rightarrow> nat \<Rightarrow> ('m, 'h) stream_state
    \<Rightarrow> ((Status + ExecutionState) \<times> ('m, 'h) stream_state) option" where
  "Thread_Resume V n_arg = (\<lambda>(c, th, h).
     if is_finished th then Some (Inl (kFailedPrecondition, ''cannot resume dead thread''), c, th, h)
     else if n_arg > length (stack th)
     then Some (Inl (kInvalidArgument, ''not enough arguments on stack to resume''), c, th, h)
     else if \<not> yielded th \<and> n_arg = length (stack th)
     then Some (Inl (kInvalidArgument, ''not enough arguments on stack to resume''), c, th, h)
     else if is_running th then Some (Inl (kFailedPrecondition, ''cannot resume a running thread''), c, th, h)
     else
       let v = (if n_arg = 0 then LuaNil else last (stack th));
           m = (if yielded th then machine th
                else enter V (stack th ! (length (stack th) - n_arg - 1)) (machine th))
       in case lua_run V v m c h of
            None \<Rightarrow> None
          | Some (RFinished, m', c', h') \<Rightarrow>
              Some (Inr kExited, c', th\<lparr>machine := m', stack := [], yielded := False, is_finished := True\<rparr>, h')
          | Some (RYield k, m', c', h') \<Rightarrow>
              Some (Inr kYielded, c', th\<lparr>machine := m', stack := replicate k LuaOther, yielded := True\<rparr>, h')
          | Some (RError e, m', c', h') \<Rightarrow>
              Some (Inl (kInternal, e), c', th\<lparr>machine := m', stack := [], yielded := False, is_finished := True\<rparr>, h'))"

definition CanExecuteFunction :: "'m Thread \<Rightarrow> Status option" where
  "CanExecuteFunction th =
     (if is_finished th then Some (kFailedPrecondition, ''cannot execute on dead thread'')
      else if yielded th then Some (kFailedPrecondition, ''cannot execute on yielded thread'')
      else None)"

definition ExecuteFunctionImpl :: "('m, 'h) lua_vm \<Rightarrow> string \<Rightarrow> lua_value \<Rightarrow> ('m, 'h) stream_state
    \<Rightarrow> ((Status + ExecutionState) \<times> ('m, 'h) stream_state) option" where
  "ExecuteFunctionImpl V func_name arg = (\<lambda>(c, th, h).
     if \<not> is_function V func_name (machine th)
     then Some (Inl (kNotFound, ''could not find '' @ func_name @ '' as a global function''), c, th, h)
     else case push_error V arg (machine th) of
            Some e \<Rightarrow> Some (Inl (kInternal, ''Failed to push argument: '' @ e), c, th, h)
          | None \<Rightarrow> Thread_Resume V 1 (c, th\<lparr>stack := stack th @ [LuaFunction func_name, arg]\<rparr>, h))"

definition ExecuteFunction :: "('m, 'h) lua_vm \<Rightarrow> string \<Rightarrow> lua_value \<Rightarrow> ('m, 'h) stream_state
    \<Rightarrow> ((Status + ExecutionState) \<times> ('m, 'h) stream_state) option" where
  "ExecuteFunction V func_name arg = (\<lambda>(c, th, h).
     case CanExecuteFunction th of
       Some e \<Rightarrow> Some (Inl e, c, th, h)
     | None \<Rightarrow> ExecuteFunctionImpl V func_name arg (c, th, h))"

section \<open>The coroutine\<close>

definition Coroutine_Resume :: "('m, 'h) lua_vm \<Rightarrow> nat \<Rightarrow> ('m, 'h) stream_state
    \<Rightarrow> ((Status + ExecutionState) \<times> ('m, 'h) stream_state) option" where
  "Coroutine_Resume V narg = (\<lambda>(c, th, h).
     if co_state c = kExited
     then Some (Inl (kFailedPrecondition, ''Cannot resume exited coroutine''), c, th, h)
     else case Thread_Resume V narg (c\<lparr>yield_reason := kNone\<rparr>, th, h) of
            None \<Rightarrow> None
          | Some (Inl e, c', th', h') \<Rightarrow> Some (Inl e, c'\<lparr>co_state := kExited\<rparr>, th', h')
          | Some (Inr st, c', th', h') \<Rightarrow> Some (Inr st, c'\<lparr>co_state := st\<rparr>, th', h'))"

text \<open>Push one value on the stack of the thread and resume with it.\<close>

definition push_and_resume :: "('m, 'h) lua_vm \<Rightarrow> lua_value \<Rightarrow> string \<Rightarrow> ('m, 'h) stream_state
    \<Rightarrow> ((Status + ExecutionState) \<times> ('m, 'h) stream_state) option" where
  "push_and_resume V v what = (\<lambda>(c, th, h).
     case push_error V v (machine th) of
       Some e \<Rightarrow> Some (Inl (kInternal, what @ e), c, th, h)
     | None \<Rightarrow> Coroutine_Resume V 1 (c, th\<lparr>stack := stack th @ [v]\<rparr>, h))"

text \<open>
  What one round of \<^verbatim>\<open>RunToCompletion\<close> pushes for the reason the coroutine waits for, with the text
  of the error and the flags it sets; there is no further round for the other reasons.
\<close>

definition completion_push :: "LuaStreamCoroutine \<Rightarrow> (lua_value \<times> string \<times> LuaStreamCoroutine) option" where
  "completion_push c = (case yield_reason c of
      kWaitForBodyChunks \<Rightarrow>
        if \<not> body_chunk_consumed c \<and> has_body_data c
        then Some (LuaBuffer (body_type (co_mode c)), ''Failed to push final body chunk to coroutine: '',
                   c\<lparr>body_chunk_consumed := True\<rparr>)
        else Some (LuaNil, ''Failed to push nil to coroutine: '', c)
    | kWaitForBody \<Rightarrow> Some (LuaBuffer (body_type (co_mode c)), ''Failed to push emptybody to coroutine: '', c)
    | kWaitForTrailers \<Rightarrow> Some (LuaHeader (trailer_type (co_mode c)) False, ''Failed to push empty trailers to coroutine: '', c)
    | _ \<Rightarrow> None)"

partial_function (option) RunToCompletion :: "('m, 'h) lua_vm \<Rightarrow> ('m, 'h) stream_state
    \<Rightarrow> (Status option \<times> ('m, 'h) stream_state) option" where
  "RunToCompletion V s =
     (if co_state (fst s) = kExited then Some (None, s)
      else case completion_push (fst s) of
             None \<Rightarrow> Some (None, s)
           | Some (v, what, c') \<Rightarrow>
               (case push_error V v (machine (fst (snd s))) of
                  Some e \<Rightarrow> Some (Some (kInternal, what @ e), s)
                | None \<Rightarrow>
                    (case push_and_resume V v what (c', snd s) of
                       None \<Rightarrow> None
                     | Some (Inl e, s') \<Rightarrow> Some (Some e, s')
                     | Some (Inr st, s') \<Rightarrow> RunToCompletion V s')))"

text \<open>The common end of the handlers: complete the script if the stream has ended.\<close>

definition finish_event :: "('m, 'h) lua_vm \<Rightarrow> bool \<Rightarrow> ('m, 'h) stream_state
    \<Rightarrow> ((Status + ExecutionState) \<times> ('m, 'h) stream_state) option" where
  "finish_event V ended s =
     (if ended
      then case RunToCompletion V s of
             None \<Rightarrow> None
           | Some (Some e, s') \<Rightarrow> Some (Inl e, s')
           | Some (None, s') \<Rightarrow> Some (Inr (co_state (fst s')), s')
      else Some (Inr (co_state (fst s)), s))"

definition Coroutine_Start :: "('m, 'h) lua_vm \<Rightarrow> ('m, 'h) stream_state
    \<Rightarrow> ((Status + ExecutionState) \<times> ('m, 'h) stream_state) option" where
  "Coroutine_Start V = (\<lambda>(c, th, h).
     if co_state c \<noteq> kYielded \<or> yield_reason c \<noteq> kWaitToStart
     then Some (Inl (kFailedPrecondition, ''Cannot start already started coroutine''), c, th, h)
     else case ExecuteFunction V (if co_mode c = kRequest then ''envoy_on_request'' else ''envoy_on_response'')
                 LuaHandle (c, th, h) of
            None \<Rightarrow> None
          | Some (Inl e, c', s') \<Rightarrow> Some (Inl e, c'\<lparr>co_state := kExited\<rparr>, s')
          | Some (Inr st, c', s') \<Rightarrow> finish_event V (stream_ended c') (c'\<lparr>co_state := st\<rparr>, s'))"

definition HandleHeaders :: "('m, 'h) lua_vm \<Rightarrow> bool \<Rightarrow> ('m, 'h) stream_state
    \<Rightarrow> ((Status + ExecutionState) \<times> ('m, 'h) stream_state) option" where
  "HandleHeaders V end_of_stream = (\<lambda>(c, th, h).
     let c1 = c\<lparr>stream_ended := end_of_stream, received_headers := True\<rparr>
     in if yield_reason c1 = kWaitForHeaders
        then case push_and_resume V (LuaHeader (header_type (co_mode c1)) False) ''Failed to push headers to coroutine: '' (c1, th, h) of
               None \<Rightarrow> None
             | Some (Inl e, s') \<Rightarrow> Some (Inl e, s')
             | Some (Inr st, s') \<Rightarrow> finish_event V (stream_ended (fst s')) s'
        else finish_event V (stream_ended c1) (c1, th, h))"

definition HandleBody :: "('m, 'h) lua_vm \<Rightarrow> nat \<Rightarrow> bool \<Rightarrow> ('m, 'h) stream_state
    \<Rightarrow> ((Status + ExecutionState) \<times> ('m, 'h) stream_state) option" where
  "HandleBody V body_buffer_length end_of_stream = (\<lambda>(c, th, h).
     if stream_ended c
     then Some (Inl (kFailedPrecondition, ''Cannot handle body on ended stream''), c, th, h)
     else
       let c1 = c\<lparr>stream_ended := end_of_stream\<rparr>;
           c2 = (if body_buffer_length > 0 then c1\<lparr>has_body_data := True, body_chunk_consumed := False\<rparr> else c1);
           c3 = (if stream_ended c2 then c2\<lparr>received_body := True\<rparr> else c2)
       in if co_state c3 = kExited then Some (Inr (co_state c3), c3, th, h)
          else if yield_reason c3 = kWaitForBodyChunks \<or> (yield_reason c3 = kWaitForBody \<and> stream_ended c3)
          then case push_error V (LuaBuffer (body_type (co_mode c3))) (machine th) of
                 Some e \<Rightarrow> Some (Inl (kInternal, ''Failed to push body to coroutine: '' @ e), c3, th, h)
               | None \<Rightarrow>
                   (case push_and_resume V (LuaBuffer (body_type (co_mode c3))) ''Failed to push body to coroutine: ''
                           (c3\<lparr>body_chunk_consumed := True\<rparr>, th, h) of
                      None \<Rightarrow> None
                    | Some (Inl e, s') \<Rightarrow> Some (Inl e, s')
                    | Some (Inr st, s') \<Rightarrow> finish_event V (stream_ended (fst s')) s')
          else finish_event V (stream_ended c3) (c3, th, h))"

text \<open>One of the three waits that the arrival of trailers can end.\<close>

definition resume_if :: "('m, 'h) lua_vm \<Rightarrow> YieldReason \<Rightarrow> lua_value \<Rightarrow> string \<Rightarrow> ('m, 'h) stream_state
    \<Rightarrow> (Status option \<times> ('m, 'h) stream_state) option" where
  "resume_if V reason v what s =
     (if yield_reason (fst s) = reason
      then case push_and_resume V v what s of
             None \<Rightarrow> None
           | Some (Inl e, s') \<Rightarrow> Some (Some e, s')
           | Some (Inr st, s') \<Rightarrow> Some (None, s')
      else Some (None, s))"

definition HandleTrailers :: "('m, 'h) lua_vm \<Rightarrow> ('m, 'h) stream_state
    \<Rightarrow> ((Status + ExecutionState) \<times> ('m, 'h) stream_state) option" where
  "HandleTrailers V = (\<lambda>(c, th, h).
     if stream_ended c
     then Some (Inl (kFailedPrecondition, ''Cannot handle trailers on ended stream''), c, th, h)
     else if \<not> received_headers c
     then Some (Inl (kFailedPrecondition, ''Cannot process trailers before stream headers''), c, th, h)
     else if received_trailers c
     then Some (Inl (kFailedPrecondition, ''Trailers already received''), c, th, h)
     else
       let c1 = c\<lparr>received_trailers := True, stream_ended := True\<rparr>
       in if co_state c1 = kExited then Some (Inr (co_state c1), c1, th, h)
          else case resume_if V kWaitForBody (LuaBuffer (body_type (co_mode c1)))
                      ''Failed to push body to coroutine: '' (c1, th, h) of
                 None \<Rightarrow> None
               | Some (Some e, s1) \<Rightarrow> Some (Inl e, s1)
               | Some (None, s1) \<Rightarrow>
                   (case resume_if V kWaitForBodyChunks LuaNil ''Failed to push nil to coroutine: '' s1 of
                      None \<Rightarrow> None
                    | Some (Some e, s2) \<Rightarrow> Some (Inl e, s2)
                    | Some (None, s2) \<Rightarrow>
                        (case resume_if V kWaitForTrailers (LuaHeader (trailer_type (co_mode c1)) False)
                                ''Failed to push trailers to coroutine: '' s2 of
                           None \<Rightarrow> None
                         | Some (Some e, s3) \<Rightarrow> Some (Inl e, s3)
                         | Some (None, s3) \<Rightarrow> finish_event V True s3)))"

definition HandleHttpResponse :: "('m, 'h) stream_state \<Rightarrow> (Status + ExecutionState) \<times> ('m, 'h) stream_state" where
  "HandleHttpResponse s = (Inr (co_state (fst s)), s)"

section \<open>What running a script leaves alone\<close>

text \<open>A script changes the execution state and the reason for waiting of its coroutine, nothing else.\<close>

definition data_flags :: "LuaStreamCoroutine \<Rightarrow> LuaStreamCoroutine" where
  "data_flags c = c\<lparr>co_state := kExited, yield_reason := kNone\<rparr>"

lemma data_flags_simps [simp]:
  "data_flags (c\<lparr>co_state := x\<rparr>) = data_flags c" "data_flags (c\<lparr>yield_reason := y\<rparr>) = data_flags c"
  "data_flags (Coroutine_Yield y c) = data_flags c"
  by (simp_all add: data_flags_def Coroutine_Yield_def)

lemma data_flagsD:
  assumes "data_flags c = data_flags d"
  shows "co_mode c = co_mode d" "stream_ended c = stream_ended d" "received_body c = received_body d"
    "received_headers c = received_headers d" "received_trailers c = received_trailers d"
    "headers_passed_on c = headers_passed_on d"
  using assms by (cases c; cases d; simp add: data_flags_def)+

lemma react_flags: "data_flags (fst (snd (react a c h))) = data_flags c"
  by (cases a) (auto simp: react_def react_accessor_def handle_body_def handle_headers_def
      handle_trailers_def handle_next_chunk_def split: option.splits)

lemma lua_run_flags_aux:
  "lua_run V v m c h = Some y \<Longrightarrow> data_flags (fst (snd (snd y))) = data_flags c"
proof (rule lua_run.raw_induct [where P = "\<lambda>V v m c h y. data_flags (fst (snd (snd y))) = data_flags c"])
  fix run :: "('m, 'h) lua_vm \<Rightarrow> lua_value \<Rightarrow> 'm \<Rightarrow> LuaStreamCoroutine \<Rightarrow> 'h
    \<Rightarrow> (resume_result \<times> 'm \<times> LuaStreamCoroutine \<times> 'h) option"
    and V :: "('m, 'h) lua_vm" and v m c h y
  assume IH: "\<And>V v m c h y. run V v m c h = Some y \<Longrightarrow> data_flags (fst (snd (snd y))) = data_flags c"
    and body: "(case react (fst (step V v m)) c h of
      (Stop r, c', h') \<Rightarrow> Some (r, snd (step V v m), c', h')
      | (Go v', c', h') \<Rightarrow> run V v' (snd (step V v m)) c' h') = Some y"
  obtain a c1 h1 where r: "react (fst (step V v m)) c h = (a, c1, h1)" by (metis prod_cases3)
  with react_flags [of "fst (step V v m)" c h] have "data_flags c1 = data_flags c" by simp
  with body r show "data_flags (fst (snd (snd y))) = data_flags c"
    using IH by (cases a) auto
qed

lemma lua_run_flags: "lua_run V v m c h = Some (r, m', c', h') \<Longrightarrow> data_flags c' = data_flags c"
  using lua_run_flags_aux by fastforce

lemma Thread_Resume_flags:
  "Thread_Resume V n (c, th, h) = Some (r, c', th', h') \<Longrightarrow> data_flags c' = data_flags c"
  by (auto simp: Thread_Resume_def Let_def dest!: lua_run_flags
      split: if_splits option.splits prod.splits resume_result.splits)

lemma Coroutine_Resume_flags:
  "Coroutine_Resume V n (c, th, h) = Some (r, c', th', h') \<Longrightarrow> data_flags c' = data_flags c"
  by (auto simp: Coroutine_Resume_def dest!: Thread_Resume_flags
      split: if_splits option.splits prod.splits sum.splits)

lemma push_and_resume_flags:
  "push_and_resume V v what (c, th, h) = Some (r, c', th', h') \<Longrightarrow> data_flags c' = data_flags c"
  by (auto simp: push_and_resume_def dest: Coroutine_Resume_flags split: option.splits)

lemma push_and_resume_state:
  "push_and_resume V v what s = Some (Inr st, s') \<Longrightarrow> co_state (fst s') = st"
  by (auto simp: push_and_resume_def Coroutine_Resume_def
      split: option.splits if_splits prod.splits sum.splits)

section \<open>Completion\<close>

definition data_wait :: "YieldReason \<Rightarrow> bool" where
  "data_wait y \<longleftrightarrow> y \<in> {kWaitForBody, kWaitForBodyChunks, kWaitForTrailers}"

lemma completion_push_None: "completion_push c = None \<longleftrightarrow> \<not> data_wait (yield_reason c)"
  by (auto simp: completion_push_def data_wait_def split: YieldReason.splits)

definition completed :: "('m, 'h) stream_state \<Rightarrow> bool" where
  "completed s \<longleftrightarrow> co_state (fst s) = kExited \<or> \<not> data_wait (yield_reason (fst s))"

lemma RunToCompletion_post_aux: "RunToCompletion V s = Some y \<Longrightarrow> fst y = None \<longrightarrow> completed (snd y)"
proof (rule RunToCompletion.raw_induct [where P = "\<lambda>V s y. fst y = None \<longrightarrow> completed (snd y)"])
  fix run :: "('m, 'h) lua_vm \<Rightarrow> ('m, 'h) stream_state \<Rightarrow> (Status option \<times> ('m, 'h) stream_state) option"
    and V :: "('m, 'h) lua_vm" and s :: "('m, 'h) stream_state" and y
  assume IH: "\<And>V s y. run V s = Some y \<Longrightarrow> fst y = None \<longrightarrow> completed (snd y)"
    and body: "(if co_state (fst s) = kExited then Some (None, s)
      else case completion_push (fst s) of None \<Rightarrow> Some (None, s)
           | Some (v, what, c') \<Rightarrow>
               case push_error V v (machine (fst (snd s))) of
               None \<Rightarrow>
                 case push_and_resume V v what (c', snd s) of None \<Rightarrow> None
                 | Some (Inl e, s') \<Rightarrow> Some (Some e, s')
                 | Some (Inr st, s') \<Rightarrow> run V s'
               | Some e \<Rightarrow> Some (Some (kInternal, what @ e), s)) = Some y"
  show "fst y = None \<longrightarrow> completed (snd y)"
  proof (cases "completed s")
    case True
    then show ?thesis
      using body IH completion_push_None [of "fst s"]
      by (auto simp: completed_def split: if_splits)
  next
    case False
    then obtain v what c' where push: "completion_push (fst s) = Some (v, what, c')"
      and "co_state (fst s) \<noteq> kExited"
      using completion_push_None [of "fst s"] by (cases "completion_push (fst s)") (auto simp: completed_def)
    then show ?thesis
      using body IH by (auto split: option.splits sum.splits prod.splits)
  qed
qed

lemma RunToCompletion_post: "RunToCompletion V s = Some (None, s') \<Longrightarrow> completed s'"
  using RunToCompletion_post_aux by fastforce

lemma finish_event_post:
  "finish_event V True s = Some (Inr st, s') \<Longrightarrow> st = co_state (fst s') \<and> completed s'"
  using RunToCompletion_post by (fastforce simp: finish_event_def split: option.splits)

section \<open>Termination\<close>

text \<open>A script that ends after finitely many steps, whatever the calls return.\<close>

definition ends_within :: "('m, 'h) lua_vm \<Rightarrow> ('m \<Rightarrow> nat) \<Rightarrow> bool" where
  "ends_within V \<mu> \<longleftrightarrow> (\<forall>v m. fst (step V v m) = Finish \<or> (\<exists>e. fst (step V v m) = Raise e) \<or>
     \<mu> (snd (step V v m)) < \<mu> m)"

definition wf_thread :: "'m Thread \<Rightarrow> bool" where
  "wf_thread th \<longleftrightarrow> yielded th \<or> stack th = []"

lemma react_Stop_or_less:
  assumes "ends_within V \<mu>"
  shows "(\<exists>c' h'. react (fst (step V v m)) c h = (Stop RFinished, c', h')) \<or>
     (\<exists>e c' h'. react (fst (step V v m)) c h = (Stop (RError e), c', h')) \<or> \<mu> (snd (step V v m)) < \<mu> m"
proof -
  from assms consider "fst (step V v m) = Finish" | e where "fst (step V v m) = Raise e"
    | "\<mu> (snd (step V v m)) < \<mu> m" unfolding ends_within_def by blast
  then show ?thesis by cases (simp_all add: react_def)
qed

lemma lua_run_total:
  assumes "ends_within V \<mu>"
  shows "\<exists>r m' c' h'. lua_run V v m c h = Some (r, m', c', h') \<and>
    (case r of RYield k \<Rightarrow> \<mu> m' < \<mu> m | _ \<Rightarrow> True)"
proof (induction "\<mu> m" arbitrary: v m c h rule: less_induct)
  case less
  obtain a c1 h1 where r: "react (fst (step V v m)) c h = (a, c1, h1)" by (metis prod_cases3)
  show ?case
  proof (cases a)
    case (Stop res)
    then show ?thesis
      using r react_Stop_or_less [OF assms, of v m c h]
      by (auto simp: lua_run.simps [of V v m] split: resume_result.split)
  next
    case (Go v')
    then have "\<mu> (snd (step V v m)) < \<mu> m" using r react_Stop_or_less [OF assms, of v m c h] by auto
    moreover from less [OF this, of v' c1 h1] obtain r m' c' h'
      where "lua_run V v' (snd (step V v m)) c1 h1 = Some (r, m', c', h')"
        and "case r of RYield k \<Rightarrow> \<mu> m' < \<mu> (snd (step V v m)) | _ \<Rightarrow> True" by blast
    ultimately show ?thesis
      using r Go
      by (intro exI [of _ r] exI [of _ m'] exI [of _ c'] exI [of _ h'])
         (cases r; simp add: lua_run.simps [of V v m])
  qed
qed

lemma Thread_Resume_total:
  assumes "ends_within V \<mu>"
  shows "\<exists>r c' th' h'. Thread_Resume V n (c, th, h) = Some (r, c', th', h')"
proof -
  let ?v = "if n = 0 then LuaNil else last (stack th)"
  let ?m = "if yielded th then machine th else enter V (stack th ! (length (stack th) - n - 1)) (machine th)"
  obtain r m' c' h' where run: "lua_run V ?v ?m c h = Some (r, m', c', h')"
    using lua_run_total [OF assms, of ?v ?m c h] by blast
  show ?thesis unfolding Thread_Resume_def Let_def prod.case run by (cases r) auto
qed

lemma Thread_Resume_yield:
  assumes "ends_within V \<mu>" and "Thread_Resume V n (c, th, h) = Some (Inr kYielded, c', th', h')" and "yielded th"
  shows "\<mu> (machine th') < \<mu> (machine th) \<and> yielded th'"
  using assms(2,3) lua_run_total [OF assms(1), of "if n = 0 then LuaNil else last (stack th)" "machine th" c h]
  by (auto simp: Thread_Resume_def Let_def split: if_splits option.splits resume_result.splits)

lemma push_and_resume_total:
  assumes "ends_within V \<mu>"
  shows "\<exists>r s'. push_and_resume V v what (c, th, h) = Some (r, s')"
proof -
  obtain r c' th' h' where "Thread_Resume V 1 (c\<lparr>yield_reason := kNone\<rparr>, th\<lparr>stack := stack th @ [v]\<rparr>, h) = Some (r, c', th', h')"
    using Thread_Resume_total [OF assms] by blast
  then show ?thesis
    by (cases r; cases "push_error V v (machine th)") (simp_all add: push_and_resume_def Coroutine_Resume_def)
qed

lemma push_and_resume_yield:
  assumes "ends_within V \<mu>" and "wf_thread th"
    and res: "push_and_resume V v what (c, th, h) = Some (Inr kYielded, c', th', h')"
  shows "\<mu> (machine th') < \<mu> (machine th) \<and> wf_thread th'"
proof -
  let ?th = "th\<lparr>stack := stack th @ [v]\<rparr>"
  obtain c1 where resume: "Thread_Resume V 1 (c\<lparr>yield_reason := kNone\<rparr>, ?th, h) = Some (Inr kYielded, c1, th', h')"
    using res by (auto simp: push_and_resume_def Coroutine_Resume_def split: option.splits if_splits sum.splits prod.splits)
  have "yielded th"
  proof (rule ccontr)
    assume "\<not> yielded th"
    with assms(2) have "stack ?th = [v]" by (simp add: wf_thread_def)
    with \<open>\<not> yielded th\<close> resume show False by (auto simp: Thread_Resume_def split: if_splits)
  qed
  with Thread_Resume_yield [OF assms(1) resume] show ?thesis by (simp add: wf_thread_def)
qed

lemma RunToCompletion_total:
  assumes "ends_within V \<mu>"
  shows "wf_thread th \<Longrightarrow> \<exists>r s'. RunToCompletion V (c, th, h) = Some (r, s')"
proof (induction "\<mu> (machine th)" arbitrary: c th h rule: less_induct)
  case less
  show ?case
  proof (cases "co_state c = kExited \<or> completion_push c = None")
    case True
    then show ?thesis by (subst RunToCompletion.simps) auto
  next
    case False
    then obtain v what c' where push: "completion_push c = Some (v, what, c')" and run: "co_state c \<noteq> kExited"
      by (cases "completion_push c") auto
    obtain r c1 th1 h1 where res: "push_and_resume V v what (c', th, h) = Some (r, c1, th1, h1)"
      using push_and_resume_total [OF assms, of v what c' th h] by (metis prod_cases3)
    have again: "\<exists>r' s'. RunToCompletion V (c1, th1, h1) = Some (r', s')" if "r = Inr st" for st
    proof (cases st)
      case kExited
      then have "co_state c1 = kExited" using res that push_and_resume_state by fastforce
      then show ?thesis by (subst RunToCompletion.simps) simp
    next
      case kYielded
      then show ?thesis
        using less push_and_resume_yield [OF assms less.prems, of v what c' h c1 th1 h1] res that by blast
    qed
    show ?thesis
      using push run res again
      by (subst RunToCompletion.simps) (cases r; cases "push_error V v (machine th)"; auto)
  qed
qed

lemma finish_event_total:
  assumes "ends_within V \<mu>" and "wf_thread th"
  shows "\<exists>y. finish_event V e (c, th, h) = Some y"
proof -
  obtain r s' where "RunToCompletion V (c, th, h) = Some (r, s')" using RunToCompletion_total [OF assms] by blast
  then show ?thesis by (cases r; cases s') (auto simp: finish_event_def)
qed

text \<open>A thread that has run is in order again: suspended, or without anything on its stack.\<close>

lemma push_and_resume_wf:
  assumes "ends_within V \<mu>" and "wf_thread th" and "push_and_resume V v what (c, th, h) = Some (Inr st, c', th', h')"
  shows "wf_thread th'"
proof (cases st)
  case kYielded
  then show ?thesis using push_and_resume_yield [OF assms(1,2)] assms(3) by blast
next
  case kExited
  then show ?thesis
    using assms(3)
    by (auto simp: wf_thread_def push_and_resume_def Coroutine_Resume_def Thread_Resume_def Let_def
        split: option.splits if_splits sum.splits prod.splits resume_result.splits)
qed

lemma resume_then_finish_total:
  assumes "ends_within V \<mu>" and "wf_thread th"
  shows "\<exists>y. (case push_and_resume V v what (c, th, h) of
      None \<Rightarrow> None
    | Some (Inl e, s') \<Rightarrow> Some (Inl e, s')
    | Some (Inr st, s') \<Rightarrow> finish_event V (stream_ended (fst s')) s') = Some y"
proof -
  obtain r c1 th1 h1 where res: "push_and_resume V v what (c, th, h) = Some (r, c1, th1, h1)"
    using push_and_resume_total [OF assms(1), of v what c th h] by (metis prod_cases3)
  show ?thesis
  proof (cases r)
    case (Inr st)
    then have "wf_thread th1" using push_and_resume_wf [OF assms] res by blast
    with finish_event_total [OF assms(1)] Inr res show ?thesis by simp
  qed (simp add: res)
qed

section \<open>The end of the stream\<close>

lemma completion_push_ended:
  "completion_push c = Some (v, what, c') \<Longrightarrow> stream_ended c' = stream_ended c"
  by (auto simp: completion_push_def split: YieldReason.splits if_splits)

lemma push_and_resume_ended:
  "push_and_resume V v what s = Some (r, s') \<Longrightarrow> stream_ended (fst s') = stream_ended (fst s)"
  by (cases s; cases s') (auto dest!: push_and_resume_flags data_flagsD(2))

text \<open>What every round of the completion loop keeps, the loop keeps.\<close>

lemma RunToCompletion_keeps:
  fixes V :: "('m, 'h) lua_vm"
  assumes "RunToCompletion V s = Some y" and "I s"
    and rounds: "\<And>s v what c' r s'. I s \<Longrightarrow> completion_push (fst s) = Some (v, what, c') \<Longrightarrow>
      push_and_resume V v what (c', snd s) = Some (r, s') \<Longrightarrow> I s'"
  shows "I (snd y)"
proof -
  have "V' = V \<longrightarrow> I s' \<longrightarrow> I (snd y')" if "RunToCompletion V' s' = Some y'" for V' s' y'
    using that
  proof (rule RunToCompletion.raw_induct [where P = "\<lambda>V' s' y'. V' = V \<longrightarrow> I s' \<longrightarrow> I (snd y')", rotated])
    fix run :: "('m, 'h) lua_vm \<Rightarrow> ('m, 'h) stream_state \<Rightarrow> (Status option \<times> ('m, 'h) stream_state) option"
      and V' :: "('m, 'h) lua_vm" and s' y'
    assume IH: "\<And>V' s' y'. run V' s' = Some y' \<Longrightarrow> V' = V \<longrightarrow> I s' \<longrightarrow> I (snd y')"
      and body: "(if co_state (fst s') = kExited then Some (None, s')
        else case completion_push (fst s') of None \<Rightarrow> Some (None, s')
             | Some (v, what, c') \<Rightarrow>
                 case push_error V' v (machine (fst (snd s'))) of
                 None \<Rightarrow>
                   case push_and_resume V' v what (c', snd s') of None \<Rightarrow> None
                   | Some (Inl e, s') \<Rightarrow> Some (Some e, s')
                   | Some (Inr st, s') \<Rightarrow> run V' s'
                 | Some e \<Rightarrow> Some (Some (kInternal, what @ e), s')) = Some y'"
    show "V' = V \<longrightarrow> I s' \<longrightarrow> I (snd y')"
    proof (intro impI)
      assume V: "V' = V" and "I s'"
      note round = rounds [OF \<open>I s'\<close>] and rest = IH [THEN mp, OF _ refl, THEN mp]
      from body show "I (snd y')"
        unfolding V using \<open>I s'\<close>
        by (auto split: if_splits option.splits sum.splits prod.splits dest: round rest)
    qed
  qed
  with assms show ?thesis by blast
qed

lemma RunToCompletion_ended:
  assumes "RunToCompletion V s = Some y"
  shows "stream_ended (fst (snd y)) = stream_ended (fst s)"
  using assms
  by (rule RunToCompletion_keeps [where I = "\<lambda>s'. stream_ended (fst s') = stream_ended (fst s)"])
     (auto dest!: push_and_resume_ended completion_push_ended)

lemma finish_event_ended:
  "finish_event V e s = Some (r, s') \<Longrightarrow> stream_ended (fst s') = stream_ended (fst s)"
  by (auto simp: finish_event_def dest!: RunToCompletion_ended split: if_splits option.splits)

lemma finish_event_True:
  assumes "finish_event V True s = Some (Inr st, s')"
  shows "st = co_state (fst s') \<and> completed s' \<and> stream_ended (fst s') = stream_ended (fst s)"
  using finish_event_post [OF assms] finish_event_ended [OF assms] by simp

lemma resume_if_ended:
  "resume_if V y v what s = Some (r, s') \<Longrightarrow> stream_ended (fst s') = stream_ended (fst s)"
  by (auto simp: resume_if_def dest!: push_and_resume_ended split: if_splits option.splits sum.splits)

lemmas ended_preserved = push_and_resume_ended resume_if_ended finish_event_True

text \<open>An event that ends the stream, and is accepted, leaves no script waiting for data.\<close>

lemma HandleHeaders_end:
  assumes "HandleHeaders V True s = Some (Inr st, s')"
  shows "st = co_state (fst s') \<and> completed s' \<and> stream_ended (fst s')"
  using assms
  by (cases s) (auto simp: HandleHeaders_def Let_def dest!: ended_preserved
      split: if_splits option.splits sum.splits)

lemma HandleBody_end:
  assumes "HandleBody V n True s = Some (Inr st, s')"
  shows "st = co_state (fst s') \<and> completed s' \<and> stream_ended (fst s')"
  using assms
  by (cases s) (auto simp: HandleBody_def Let_def completed_def [of "(_, _)"]
      dest!: ended_preserved split: if_splits option.splits sum.splits)

lemma HandleTrailers_end:
  assumes "HandleTrailers V s = Some (Inr st, s')"
  shows "st = co_state (fst s') \<and> completed s' \<and> stream_ended (fst s')"
  using assms
  by (cases s) (auto simp: HandleTrailers_def Let_def completed_def [of "(_, _)"]
      dest!: ended_preserved split: if_splits option.splits sum.splits)

section \<open>Every event returns\<close>

lemma resume_if_total:
  assumes "ends_within V \<mu>" and "wf_thread th"
  obtains r c1 th1 h1 where "resume_if V y v what (c, th, h) = Some (r, c1, th1, h1)"
    and "r = None \<Longrightarrow> wf_thread th1"
proof -
  obtain r c1 th1 h1 where res: "push_and_resume V v what (c, th, h) = Some (r, c1, th1, h1)"
    using push_and_resume_total [OF assms(1), of v what c th h] by (metis prod_cases3)
  have "wf_thread th1" if "r = Inr st" for st using push_and_resume_wf [OF assms] res that by blast
  with res assms(2) that show ?thesis
    by (cases r; cases "yield_reason c = y") (auto simp: resume_if_def)
qed

lemma HandleHeaders_total:
  assumes "ends_within V \<mu>" and "wf_thread th"
  shows "\<exists>y. HandleHeaders V e (c, th, h) = Some y"
  using resume_then_finish_total [OF assms] finish_event_total [OF assms]
  by (auto simp: HandleHeaders_def Let_def)

lemma HandleBody_total:
  assumes "ends_within V \<mu>" and "wf_thread th"
  shows "\<exists>y. HandleBody V n e (c, th, h) = Some y"
  using resume_then_finish_total [OF assms] finish_event_total [OF assms]
  by (auto simp: HandleBody_def Let_def split: option.split)

lemma HandleTrailers_total:
  assumes V: "ends_within V \<mu>" and "wf_thread th"
  shows "\<exists>y. HandleTrailers V (c, th, h) = Some y"
proof -
  let ?c = "c\<lparr>received_trailers := True, stream_ended := True\<rparr>"
  let ?b = "LuaBuffer (body_type (co_mode c))" and ?t = "LuaHeader (trailer_type (co_mode c)) False"
  obtain r1 c1 th1 h1 where 1: "resume_if V kWaitForBody ?b ''Failed to push body to coroutine: '' (?c, th, h) = Some (r1, c1, th1, h1)"
    and wf1: "r1 = None \<Longrightarrow> wf_thread th1" using resume_if_total [OF assms] by blast
  show ?thesis
  proof (cases r1)
    case None
    obtain r2 c2 th2 h2 where 2: "resume_if V kWaitForBodyChunks LuaNil ''Failed to push nil to coroutine: '' (c1, th1, h1) = Some (r2, c2, th2, h2)"
      and wf2: "r2 = None \<Longrightarrow> wf_thread th2" using resume_if_total [OF V wf1 [OF None]] by blast
    show ?thesis
    proof (cases r2)
      case None
      obtain r3 c3 th3 h3 where 3: "resume_if V kWaitForTrailers ?t ''Failed to push trailers to coroutine: '' (c2, th2, h2) = Some (r3, c3, th3, h3)"
        and "r3 = None \<Longrightarrow> wf_thread th3" using resume_if_total [OF V wf2 [OF None]] by blast
      then have "r3 = None \<Longrightarrow> \<exists>y. finish_event V True (c3, th3, h3) = Some y"
        using finish_event_total [OF V] by blast
      with 1 2 3 \<open>r1 = None\<close> None show ?thesis by (cases r3) (auto simp: HandleTrailers_def Let_def)
    qed (use 1 2 \<open>r1 = None\<close> in \<open>auto simp: HandleTrailers_def Let_def\<close>)
  qed (use 1 in \<open>auto simp: HandleTrailers_def Let_def\<close>)
qed

lemma Coroutine_Start_total:
  assumes V: "ends_within V \<mu>"
  shows "\<exists>y. Coroutine_Start V (c, th, h) = Some y"
proof -
  let ?f = "if co_mode c = kRequest then ''envoy_on_request'' else ''envoy_on_response''"
  let ?th = "th\<lparr>stack := stack th @ [LuaFunction ?f, LuaHandle]\<rparr>"
  obtain r c1 th1 h1 where res: "Thread_Resume V 1 (c, ?th, h) = Some (r, c1, th1, h1)"
    using Thread_Resume_total [OF V] by blast
  have "\<exists>y. finish_event V (stream_ended c1) (c1\<lparr>co_state := st\<rparr>, th1, h1) = Some y" if "r = Inr st" for st
  proof -
    have "wf_thread th1"
      using res that by (auto simp: wf_thread_def Thread_Resume_def Let_def
          split: if_splits option.splits resume_result.splits)
    with finish_event_total [OF V] show ?thesis by blast
  qed
  with res show ?thesis
    by (cases r; cases "push_error V LuaHandle (machine th)")
       (auto simp: Coroutine_Start_def ExecuteFunction_def ExecuteFunctionImpl_def CanExecuteFunction_def)
qed

lemmas event_total = HandleHeaders_total HandleBody_total HandleTrailers_total Coroutine_Start_total

end
