(* ===== verification/Lua_Plugin.thy ===== *)
theory Lua_Plugin
  imports Lua_Coroutine
begin

text \<open>
  The callbacks of the Lua plugin (\<^verbatim>\<open>plugins/samples/lua/lua_plugin.cc\<close>): the root context that runs the
  configured script once, the stream context that keeps one coroutine per direction, and the events
  of a stream handed to the coroutine of their direction. The properties say what the end of a stream
  guarantees, that every event returns when the script ends, and how two kinds of script leave a
  stream waiting.
\<close>

section \<open>The plugin's callbacks\<close>

primrec AbslStatusToHttpStatusCode :: "StatusCode \<Rightarrow> u32" where
  "AbslStatusToHttpStatusCode kInvalidArgument = 400"
| "AbslStatusToHttpStatusCode kFailedPrecondition = 400"
| "AbslStatusToHttpStatusCode kOutOfRange = 400"
| "AbslStatusToHttpStatusCode kUnauthenticated = 401"
| "AbslStatusToHttpStatusCode kPermissionDenied = 403"
| "AbslStatusToHttpStatusCode kNotFound = 404"
| "AbslStatusToHttpStatusCode kAlreadyExists = 409"
| "AbslStatusToHttpStatusCode kResourceExhausted = 429"
| "AbslStatusToHttpStatusCode kUnimplemented = 501"
| "AbslStatusToHttpStatusCode kUnavailable = 503"
| "AbslStatusToHttpStatusCode kDeadlineExceeded = 504"
| "AbslStatusToHttpStatusCode kInternal = 500"
| "AbslStatusToHttpStatusCode kUnknown = 500"
| "AbslStatusToHttpStatusCode kDataLoss = 500"
| "AbslStatusToHttpStatusCode kAborted = 500"
| "AbslStatusToHttpStatusCode kCancelled = 500"

definition HandleEventError :: "'h sdk \<Rightarrow> Status \<Rightarrow> 'h \<Rightarrow> 'h" where
  "HandleEventError S status h =
     snd (sendLocalResponse S (AbslStatusToHttpStatusCode (fst status)) ''plugin_error'' (snd status) [] h)"

definition no_coroutine :: Status where
  "no_coroutine = (kInternal, ''No coroutine exists to process event'')"

type_synonym 'm direction = "(LuaStreamCoroutine \<times> 'm Thread) option"

definition HandleHeadersEvent :: "('m, 'h) lua_vm \<Rightarrow> 'h sdk \<Rightarrow> bool \<Rightarrow> 'm direction \<times> 'h
    \<Rightarrow> (FilterHeadersStatus \<times> 'm direction \<times> 'h) option" where
  "HandleHeadersEvent V S end_of_stream = (\<lambda>(d, h).
     case d of
       None \<Rightarrow> Some (StopIteration, None, HandleEventError S no_coroutine h)
     | Some (c, th) \<Rightarrow>
         (case HandleHeaders V end_of_stream (c, th, h) of
            None \<Rightarrow> None
          | Some (Inl e, c', th', h') \<Rightarrow> Some (StopIteration, Some (c', th'), HandleEventError S e h')
          | Some (Inr st, c', th', h') \<Rightarrow>
              if yield_reason c' \<in> {kWaitForHttp, kWaitForBody, kResponded}
              then Some (StopIteration, Some (c', th'), h')
              else Some (Continue, Some (MarkHeadersPassedOn c', th'), h')))"

definition HandleBodyEvent :: "('m, 'h) lua_vm \<Rightarrow> 'h sdk \<Rightarrow> nat \<Rightarrow> bool \<Rightarrow> 'm direction \<times> 'h
    \<Rightarrow> (FilterDataStatus \<times> 'm direction \<times> 'h) option" where
  "HandleBodyEvent V S body_buffer_length end_of_stream = (\<lambda>(d, h).
     case d of
       None \<Rightarrow> Some (StopIterationNoBuffer, None, HandleEventError S no_coroutine h)
     | Some (c, th) \<Rightarrow>
         (case HandleBody V body_buffer_length end_of_stream (c, th, h) of
            None \<Rightarrow> None
          | Some (Inl e, c', th', h') \<Rightarrow> Some (StopIterationNoBuffer, Some (c', th'), HandleEventError S e h')
          | Some (Inr st, c', th', h') \<Rightarrow>
              if yield_reason c' = kWaitForHttp then Some (StopIterationAndWatermark, Some (c', th'), h')
              else if yield_reason c' = kWaitForBody then Some (StopIterationAndBuffer, Some (c', th'), h')
              else if yield_reason c' = kResponded then Some (StopIterationNoBuffer, Some (c', th'), h')
              else Some (DataContinue, Some (MarkHeadersPassedOn c', th'), h')))"

definition HandleTrailersEvent :: "('m, 'h) lua_vm \<Rightarrow> 'h sdk \<Rightarrow> 'm direction \<times> 'h
    \<Rightarrow> (FilterTrailersStatus \<times> 'm direction \<times> 'h) option" where
  "HandleTrailersEvent V S = (\<lambda>(d, h).
     case d of
       None \<Rightarrow> Some (TrailersStopIteration, None, HandleEventError S no_coroutine h)
     | Some (c, th) \<Rightarrow>
         (case HandleTrailers V (c, th, h) of
            None \<Rightarrow> None
          | Some (Inl e, c', th', h') \<Rightarrow> Some (TrailersStopIteration, Some (c', th'), HandleEventError S e h')
          | Some (Inr st, c', th', h') \<Rightarrow>
              if yield_reason c' \<in> {kWaitForHttp, kResponded}
              then Some (TrailersStopIteration, Some (c', th'), h')
              else Some (TrailersContinue, Some (MarkHeadersPassedOn c', th'), h')))"

text \<open>\<open>ToString\<close> is the printed form of a status, used in log lines only.\<close>

definition start_and_handle :: "(Status \<Rightarrow> string) \<Rightarrow> ('m, 'h) lua_vm \<Rightarrow> 'h sdk \<Rightarrow> string \<Rightarrow> bool \<Rightarrow> 'm direction \<times> 'h
    \<Rightarrow> (FilterHeadersStatus \<times> 'm direction \<times> 'h) option" where
  "start_and_handle ToString V S what end_of_stream = (\<lambda>(d, h).
     case d of
       None \<Rightarrow> Some (StopIteration, None, HandleEventError S no_coroutine h)
     | Some (c, th) \<Rightarrow>
         (case Coroutine_Start V (c, th, h) of
            None \<Rightarrow> None
          | Some (Inl e, c', th', h') \<Rightarrow>
              Some (StopIteration, Some (c', th'),
                    LOG_ERROR S (''[LuaHttpContext] Failed to start '' @ what @ '' coroutine: '' @ ToString e) h')
          | Some (Inr st, c', th', h') \<Rightarrow> HandleHeadersEvent V S end_of_stream (Some (c', th'), h')))"

record 'm LuaHttpContext =
  request_side :: "'m direction"
  response_side :: "'m direction"

definition lua_onRequestHeaders :: "(Status \<Rightarrow> string) \<Rightarrow> ('m, 'h) lua_vm \<Rightarrow> 'h sdk \<Rightarrow> bool \<Rightarrow> 'm LuaHttpContext \<times> 'h
    \<Rightarrow> (FilterHeadersStatus \<times> 'm LuaHttpContext \<times> 'h) option" where
  "lua_onRequestHeaders ToString V S end_of_stream = (\<lambda>(x, h).
     map_option (\<lambda>(st, d, h'). (st, x\<lparr>request_side := d\<rparr>, h'))
       (start_and_handle ToString V S ''request'' end_of_stream (request_side x, h)))"

definition lua_onRequestBody :: "('m, 'h) lua_vm \<Rightarrow> 'h sdk \<Rightarrow> nat \<Rightarrow> bool \<Rightarrow> 'm LuaHttpContext \<times> 'h
    \<Rightarrow> (FilterDataStatus \<times> 'm LuaHttpContext \<times> 'h) option" where
  "lua_onRequestBody V S len end_of_stream = (\<lambda>(x, h).
     map_option (\<lambda>(st, d, h'). (st, x\<lparr>request_side := d\<rparr>, h'))
       (HandleBodyEvent V S len end_of_stream (request_side x, h)))"

definition lua_onRequestTrailers :: "('m, 'h) lua_vm \<Rightarrow> 'h sdk \<Rightarrow> 'm LuaHttpContext \<times> 'h
    \<Rightarrow> (FilterTrailersStatus \<times> 'm LuaHttpContext \<times> 'h) option" where
  "lua_onRequestTrailers V S = (\<lambda>(x, h).
     map_option (\<lambda>(st, d, h'). (st, x\<lparr>request_side := d\<rparr>, h')) (HandleTrailersEvent V S (request_side x, h)))"

definition lua_onResponseHeaders :: "(Status \<Rightarrow> string) \<Rightarrow> ('m, 'h) lua_vm \<Rightarrow> 'h sdk \<Rightarrow> bool \<Rightarrow> 'm LuaHttpContext \<times> 'h
    \<Rightarrow> (FilterHeadersStatus \<times> 'm LuaHttpContext \<times> 'h) option" where
  "lua_onResponseHeaders ToString V S end_of_stream = (\<lambda>(x, h).
     map_option (\<lambda>(st, d, h'). (st, x\<lparr>response_side := d\<rparr>, h'))
       (start_and_handle ToString V S ''response'' end_of_stream (response_side x, h)))"

definition lua_onResponseBody :: "('m, 'h) lua_vm \<Rightarrow> 'h sdk \<Rightarrow> nat \<Rightarrow> bool \<Rightarrow> 'm LuaHttpContext \<times> 'h
    \<Rightarrow> (FilterDataStatus \<times> 'm LuaHttpContext \<times> 'h) option" where
  "lua_onResponseBody V S len end_of_stream = (\<lambda>(x, h).
     map_option (\<lambda>(st, d, h'). (st, x\<lparr>response_side := d\<rparr>, h'))
       (HandleBodyEvent V S len end_of_stream (response_side x, h)))"

definition lua_onResponseTrailers :: "('m, 'h) lua_vm \<Rightarrow> 'h sdk \<Rightarrow> 'm LuaHttpContext \<times> 'h
    \<Rightarrow> (FilterTrailersStatus \<times> 'm LuaHttpContext \<times> 'h) option" where
  "lua_onResponseTrailers V S = (\<lambda>(x, h).
     map_option (\<lambda>(st, d, h'). (st, x\<lparr>response_side := d\<rparr>, h')) (HandleTrailersEvent V S (response_side x, h)))"

text \<open>Creating a stream: \<open>new_thread\<close> is the machine's answer to a request for a thread.\<close>

definition create_direction :: "(Status \<Rightarrow> string) \<Rightarrow> Status + 'm \<Rightarrow> LuaStreamCoroutineMode \<Rightarrow> 'h sdk \<Rightarrow> 'h \<Rightarrow> 'm direction \<times> 'h" where
  "create_direction ToString new_thread mode S h = (case new_thread of
      Inl e \<Rightarrow> (None, LOG_ERROR S (''[LuaHttpContext] onCreate: thread creation failed -- '' @ ToString e) h)
    | Inr m \<Rightarrow> (Some (new_coroutine mode, NewThread m), h))"

definition lua_onCreate :: "(Status \<Rightarrow> string) \<Rightarrow> 'r option \<Rightarrow> ('r \<Rightarrow> LuaStreamCoroutineMode \<Rightarrow> Status + 'm) \<Rightarrow> 'h sdk \<Rightarrow> 'h
    \<Rightarrow> 'm LuaHttpContext \<times> 'h" where
  "lua_onCreate ToString lua_state new_thread S h = (case lua_state of
      None \<Rightarrow> (\<lparr>request_side = None, response_side = None\<rparr>,
               LOG_ERROR S ''[LuaHttpContext] onCreate: root Lua state is null'' h)
    | Some r \<Rightarrow>
        let (req, h1) = create_direction ToString (new_thread r kRequest) kRequest S h;
            (rsp, h2) = create_direction ToString (new_thread r kResponse) kResponse S h1
        in (\<lparr>request_side = req, response_side = rsp\<rparr>, h2))"

text \<open>\<open>run_chunk\<close> loads and runs a piece of source text in the root state.\<close>

definition ExecuteString :: "(string \<Rightarrow> 'r \<Rightarrow> string + 'r) \<Rightarrow> string \<Rightarrow> 'r \<Rightarrow> Status + 'r" where
  "ExecuteString run_chunk s r =
     (if s \<noteq> [] \<and> hd s = CHR 0x1B then Inl (kInvalidArgument, ''Precompiled lua bytecode is not supported'')
      else case run_chunk s r of Inl e \<Rightarrow> Inl (kInternal, e) | Inr r' \<Rightarrow> Inr r')"

definition lua_onConfigure :: "(Status \<Rightarrow> string) \<Rightarrow> Status + 'r \<Rightarrow> (string \<Rightarrow> 'r \<Rightarrow> string + 'r) \<Rightarrow> 'h sdk \<Rightarrow> nat
    \<Rightarrow> 'r option \<times> 'h \<Rightarrow> bool \<times> 'r option \<times> 'h" where
  "lua_onConfigure ToString created run_chunk S cfg_size = (\<lambda>(old, h).
     case created of
       Inl e \<Rightarrow> (False, old, LOG_ERROR S (''[LuaRootContext] onConfigure: '' @ ToString e) h)
     | Inr r \<Rightarrow>
         if cfg_size > 0
         then
           let config_data = getBufferBytes S PluginConfiguration 0 cfg_size h
           in if \<not> is_set config_data \<or> length (wview config_data) = 0
              then (False, old, LOG_ERROR S ''[LuaRootContext] onConfigure: could not get config data'' h)
              else case ExecuteString run_chunk (wview config_data) r of
                     Inl e \<Rightarrow> (False, old, LOG_ERROR S (''[LuaRootContext] onConfigure: lua error -- '' @ ToString e) h)
                   | Inr r' \<Rightarrow> (True, Some r', h)
         else (True, Some r, h))"

section \<open>A scripted machine\<close>

text \<open>
  A machine that performs a fixed list of actions and then returns, for the entry points it is given:
  enough of a machine to run the plugin on concrete scripts.
\<close>

definition scripted :: "string list \<Rightarrow> ('h lua_action list, 'h) lua_vm" where
  "scripted names = \<lparr>is_function = (\<lambda>n m. n \<in> set names), enter = (\<lambda>_ m. m), push_error = (\<lambda>_ _. None),
     step = (\<lambda>_ m. case m of [] \<Rightarrow> (Finish, []) | a # as \<Rightarrow> (a, as))\<rparr>"

lemma scripted_simps [simp]:
  "is_function (scripted names) n m \<longleftrightarrow> n \<in> set names" "enter (scripted names) v m = m"
  "push_error (scripted names) v m = None" "step (scripted names) v [] = (Finish, [])"
  "step (scripted names) v (a # as) = (a, as)"
  by (simp_all add: scripted_def)

lemma scripted_ends: "ends_within (scripted names) length"
  by (auto simp: ends_within_def split: list.split) (case_tac m; simp)

lemma NewThread_wf [simp]: "wf_thread (NewThread m)"
  by (simp add: NewThread_def wf_thread_def)

section \<open>Running a script step by step\<close>

lemma lua_run_Stop: "step V v m = (a, m') \<Longrightarrow> react a c h = (Stop r, c', h') \<Longrightarrow> lua_run V v m c h = Some (r, m', c', h')"
  by (subst lua_run.simps) simp

lemma lua_run_Go: "step V v m = (a, m') \<Longrightarrow> react a c h = (Go v', c', h') \<Longrightarrow> lua_run V v m c h = lua_run V v' m' c' h'"
  by (subst lua_run.simps) simp

lemmas accessor_defs = react_def react_accessor_def handle_body_def handle_headers_def handle_trailers_def
  handle_next_chunk_def Coroutine_Yield_def new_coroutine_def

text \<open>The first activation of a fresh coroutine.\<close>

lemma Coroutine_Start_new:
  assumes "is_function V (if mode = kRequest then ''envoy_on_request'' else ''envoy_on_response'') m"
    and "push_error V LuaHandle m = None"
    and "lua_run V LuaHandle (enter V (LuaFunction (if mode = kRequest then ''envoy_on_request'' else ''envoy_on_response'')) m)
           (new_coroutine mode) h = Some (r, m', c', h')"
    and "\<And>e. r \<noteq> RError e" and "\<not> stream_ended c'"
  shows "Coroutine_Start V (new_coroutine mode, NewThread m, h) =
    (case r of
       RYield k \<Rightarrow> Some (Inr kYielded, c'\<lparr>co_state := kYielded\<rparr>,
         \<lparr>machine = m', stack = replicate k LuaOther, yielded = True, is_finished = False, is_running = False\<rparr>, h')
     | _ \<Rightarrow> Some (Inr kExited, c'\<lparr>co_state := kExited\<rparr>,
         \<lparr>machine = m', stack = [], yielded = False, is_finished = True, is_running = False\<rparr>, h'))"
  using assms
  by (cases r) (auto simp: Coroutine_Start_def ExecuteFunction_def ExecuteFunctionImpl_def CanExecuteFunction_def
      Thread_Resume_def NewThread_def new_coroutine_def finish_event_def)

section \<open>Reachable states of one direction of a stream\<close>

text \<open>
  A direction starts with a fresh coroutine and sees the callbacks of the plugin in any order; between
  two callbacks the host may change its own state.
\<close>

inductive lua_reach :: "(Status \<Rightarrow> string) \<Rightarrow> ('m, 'h) lua_vm \<Rightarrow> 'h sdk \<Rightarrow> 'm direction \<times> 'h \<Rightarrow> bool"
  for ToString V S where
  created: "lua_reach ToString V S (Some (new_coroutine mode, NewThread m), h)"
| on_headers: "lua_reach ToString V S s \<Longrightarrow> start_and_handle ToString V S what e s = Some (st, s') \<Longrightarrow>
    lua_reach ToString V S s'"
| on_body: "lua_reach ToString V S s \<Longrightarrow> HandleBodyEvent V S n e s = Some (st', s') \<Longrightarrow> lua_reach ToString V S s'"
| on_trailers: "lua_reach ToString V S s \<Longrightarrow> HandleTrailersEvent V S s = Some (st'', s') \<Longrightarrow> lua_reach ToString V S s'"
| host_step: "lua_reach ToString V S (d, h) \<Longrightarrow> lua_reach ToString V S (d, h')"

text \<open>
  The invariant: the thread is in order or will not run again, and the coroutine never waits for an
  HTTP call or for a reply it has sent, since no method of the handle makes it do so.
\<close>

definition data_reason :: "YieldReason \<Rightarrow> bool" where
  "data_reason y \<longleftrightarrow> y \<noteq> kWaitForHttp \<and> y \<noteq> kResponded"

definition settled :: "('m, 'h) stream_state \<Rightarrow> bool" where
  "settled s \<longleftrightarrow> (co_state (fst s) = kExited \<or> wf_thread (fst (snd s))) \<and> data_reason (yield_reason (fst s))"

lemma react_reason:
  "data_reason (yield_reason c) \<Longrightarrow> data_reason (yield_reason (fst (snd (react a c h))))"
  by (cases a) (auto simp: accessor_defs data_reason_def split: option.splits)

lemma lua_run_reason_aux:
  "lua_run V v m c h = Some y \<Longrightarrow> data_reason (yield_reason c) \<longrightarrow> data_reason (yield_reason (fst (snd (snd y))))"
proof (rule lua_run.raw_induct [where P = "\<lambda>V v m c h y. data_reason (yield_reason c) \<longrightarrow> data_reason (yield_reason (fst (snd (snd y))))"])
  fix run :: "('m, 'h) lua_vm \<Rightarrow> lua_value \<Rightarrow> 'm \<Rightarrow> LuaStreamCoroutine \<Rightarrow> 'h
    \<Rightarrow> (resume_result \<times> 'm \<times> LuaStreamCoroutine \<times> 'h) option"
    and V :: "('m, 'h) lua_vm" and v m c h y
  assume IH: "\<And>V v m c h y. run V v m c h = Some y \<Longrightarrow>
      data_reason (yield_reason c) \<longrightarrow> data_reason (yield_reason (fst (snd (snd y))))"
    and body: "(case react (fst (step V v m)) c h of
      (Stop r, c', h') \<Rightarrow> Some (r, snd (step V v m), c', h')
      | (Go v', c', h') \<Rightarrow> run V v' (snd (step V v m)) c' h') = Some y"
  obtain a c1 h1 where r: "react (fst (step V v m)) c h = (a, c1, h1)" by (metis prod_cases3)
  with react_reason [of c "fst (step V v m)" h] have "data_reason (yield_reason c) \<Longrightarrow> data_reason (yield_reason c1)" by simp
  with body r show "data_reason (yield_reason c) \<longrightarrow> data_reason (yield_reason (fst (snd (snd y))))"
    using IH by (cases a) auto
qed

lemma Thread_Resume_reason:
  assumes "Thread_Resume V n (c, th, h) = Some (r, c', th', h')" and "data_reason (yield_reason c)"
  shows "data_reason (yield_reason c')"
  using assms
  by (auto simp: Thread_Resume_def Let_def dest!: lua_run_reason_aux
      split: if_splits option.splits prod.splits resume_result.splits)

lemma Thread_Resume_yielded:
  "Thread_Resume V n (c, th, h) = Some (Inr kYielded, c', th', h') \<Longrightarrow> wf_thread th'"
  by (auto simp: Thread_Resume_def Let_def wf_thread_def split: if_splits option.splits prod.splits resume_result.splits)

lemma resumed_settled:
  assumes "Thread_Resume V n (c, th, h) = Some (Inr st, c', th', h')" and "data_reason (yield_reason c)"
  shows "settled (c'\<lparr>co_state := st\<rparr>, th', h')"
  using Thread_Resume_reason [OF assms] Thread_Resume_yielded [of V n c th h c' th' h'] assms(1)
  by (cases st) (auto simp: settled_def)

lemma failed_settled:
  assumes "Thread_Resume V n (c, th, h) = Some (Inl e, c', th', h')" and "data_reason (yield_reason c)"
  shows "settled (c'\<lparr>co_state := kExited\<rparr>, th', h')"
  using Thread_Resume_reason [OF assms] by (simp add: settled_def)

lemma data_reason_kNone [simp]: "data_reason kNone"
  by (simp add: data_reason_def)

lemma push_and_resume_settled:
  assumes "settled s" and "push_and_resume V v what s = Some (r, s')"
  shows "settled s'"
proof -
  obtain c th h where s: "s = (c, th, h)" by (cases s)
  have kept: "settled (c, th\<lparr>stack := x\<rparr>, h)" if "co_state c = kExited" for x
    using assms(1) that by (simp add: settled_def s)
  note run = resumed_settled [of V 1 "c\<lparr>yield_reason := kNone\<rparr>"] failed_settled [of V 1 "c\<lparr>yield_reason := kNone\<rparr>"]
  show ?thesis
    using assms kept
    by (auto simp: s push_and_resume_def Coroutine_Resume_def intro: run [simplified]
        split: option.splits if_splits sum.splits)
qed

lemma settled_flags:
  "settled (c\<lparr>stream_ended := a\<rparr>, t) = settled (c, t)" "settled (c\<lparr>received_headers := a\<rparr>, t) = settled (c, t)"
  "settled (c\<lparr>has_body_data := a\<rparr>, t) = settled (c, t)" "settled (c\<lparr>body_chunk_consumed := a\<rparr>, t) = settled (c, t)"
  "settled (c\<lparr>received_body := a\<rparr>, t) = settled (c, t)" "settled (c\<lparr>received_trailers := a\<rparr>, t) = settled (c, t)"
  "settled (c\<lparr>headers_passed_on := a\<rparr>, t) = settled (c, t)" "settled (c, th, h) = settled (c, th, h0)"
  by (simp_all add: settled_def)

lemma completion_push_settled:
  "completion_push c = Some (v, what, c') \<Longrightarrow> settled (c', t) = settled (c, t)"
  by (auto simp: completion_push_def settled_flags split: YieldReason.splits if_splits)

lemma finish_event_settled:
  assumes "settled s" and "finish_event V e s = Some (r, s')"
  shows "settled s'"
proof -
  have "settled (snd y)" if "RunToCompletion V s = Some y" for y
    using that assms(1)
  proof (rule RunToCompletion_keeps)
    fix s v what c' r s'
    assume "settled s" and "completion_push (fst s) = Some (v, what, c')"
      and "push_and_resume V v what (c', snd s) = Some (r, s')"
    then show "settled s'"
      using completion_push_settled [of "fst s" v what c' "snd s"] push_and_resume_settled by (metis prod.collapse)
  qed
  with assms show ?thesis by (fastforce simp: finish_event_def split: if_splits option.splits)
qed

lemma settled_steps:
  "push_and_resume V v what s = Some (r, s') \<Longrightarrow> settled s \<longrightarrow> settled s'"
  "finish_event V e s = Some (r', s') \<Longrightarrow> settled s \<longrightarrow> settled s'"
  using push_and_resume_settled finish_event_settled by blast+

lemma resume_if_settled: "resume_if V y v what s = Some (r, s') \<Longrightarrow> settled s \<longrightarrow> settled s'"
  by (auto simp: resume_if_def dest!: settled_steps split: if_splits option.splits sum.splits)

text \<open>Every operation of the coroutine keeps the invariant.\<close>

lemma HandleHeaders_settled: "HandleHeaders V e s = Some (r, s') \<Longrightarrow> settled s \<longrightarrow> settled s'"
  by (cases s) (auto simp: HandleHeaders_def Let_def settled_flags dest!: settled_steps
      split: if_splits option.splits sum.splits)

lemma HandleBody_settled: "HandleBody V n e s = Some (r, s') \<Longrightarrow> settled s \<longrightarrow> settled s'"
  by (cases s) (auto simp: HandleBody_def Let_def settled_flags dest!: settled_steps
      split: if_splits option.splits sum.splits)

lemma HandleTrailers_settled: "HandleTrailers V s = Some (r, s') \<Longrightarrow> settled s \<longrightarrow> settled s'"
  by (cases s) (auto simp: HandleTrailers_def Let_def settled_flags dest!: settled_steps resume_if_settled
      split: if_splits option.splits)

lemma Coroutine_Start_settled: "Coroutine_Start V (c, th, h) = Some (r, s') \<Longrightarrow> settled (c, th, h) \<longrightarrow> settled s'"
proof (intro impI)
  assume start: "Coroutine_Start V (c, th, h) = Some (r, s')" and inv: "settled (c, th, h)"
  then have reason: "data_reason (yield_reason c)" by (simp add: settled_def)
  then have exited: "settled (c\<lparr>co_state := kExited\<rparr>, th', h')" for th' :: "'a Thread" and h' :: 'b
    by (simp add: settled_def)
  show "settled s'"
    using start inv exited resumed_settled [OF _ reason] failed_settled [OF _ reason]
    by (fastforce simp: Coroutine_Start_def ExecuteFunction_def ExecuteFunctionImpl_def
        dest!: settled_steps split: if_splits option.splits sum.splits)
qed

lemmas event_settled = HandleHeaders_settled HandleBody_settled HandleTrailers_settled Coroutine_Start_settled

text \<open>The invariant holds in every reachable state.\<close>

definition direction_ok :: "'m direction \<Rightarrow> bool" where
  "direction_ok d = (case d of None \<Rightarrow> True | Some (c, th) \<Rightarrow>
     (co_state c = kExited \<or> wf_thread th) \<and> data_reason (yield_reason c))"

lemma direction_ok_simps [simp]:
  "direction_ok None" "direction_ok (Some (MarkHeadersPassedOn c, th)) = direction_ok (Some (c, th))"
  by (simp_all add: direction_ok_def MarkHeadersPassedOn_def)

lemma settled_direction: "settled (c, th, h) = direction_ok (Some (c, th))"
  by (simp add: settled_def direction_ok_def)

lemmas event_direction = event_settled [unfolded settled_direction]

lemma HandleHeadersEvent_ok:
  "HandleHeadersEvent V S e (d, h) = Some (st, d', h') \<Longrightarrow> direction_ok d \<longrightarrow> direction_ok d'"
  by (auto simp: HandleHeadersEvent_def settled_direction dest!: event_settled
      split: option.splits sum.splits if_splits)

lemma HandleBodyEvent_ok:
  "HandleBodyEvent V S n e (d, h) = Some (st, d', h') \<Longrightarrow> direction_ok d \<longrightarrow> direction_ok d'"
  by (auto simp: HandleBodyEvent_def settled_direction dest!: event_settled
      split: option.splits sum.splits if_splits)

lemma HandleTrailersEvent_ok:
  "HandleTrailersEvent V S (d, h) = Some (st, d', h') \<Longrightarrow> direction_ok d \<longrightarrow> direction_ok d'"
  by (auto simp: HandleTrailersEvent_def settled_direction dest!: event_settled
      split: option.splits sum.splits if_splits)

lemma start_and_handle_ok:
  "start_and_handle ToString V S what e (d, h) = Some (st, d', h') \<Longrightarrow> direction_ok d \<longrightarrow> direction_ok d'"
  by (auto simp: start_and_handle_def settled_direction dest!: event_settled HandleHeadersEvent_ok
      split: option.splits sum.splits)

lemma reachable_ok: "lua_reach ToString V S s \<Longrightarrow> direction_ok (fst s)"
proof (induction rule: lua_reach.induct)
  case (created mode m h)
  show ?case by (simp add: direction_ok_def new_coroutine_def data_reason_def)
next
  case (on_headers s what e st s')
  then show ?case using start_and_handle_ok [of ToString V S what e "fst s" "snd s" st "fst s'" "snd s'"] by simp
next
  case (on_body s n e st s')
  then show ?case using HandleBodyEvent_ok [of V S n e "fst s" "snd s" st "fst s'" "snd s'"] by simp
next
  case (on_trailers s st s')
  then show ?case using HandleTrailersEvent_ok [of V S "fst s" "snd s" st "fst s'" "snd s'"] by simp
qed simp

section \<open>Every callback returns\<close>

text \<open>A coroutine that has exited runs nothing, so its events return whatever its thread looks like.\<close>

lemma exited_returns:
  assumes "co_state c = kExited"
  shows "\<exists>y. HandleHeaders V e (c, th, h) = Some y" "\<exists>y. HandleBody V n e (c, th, h) = Some y"
    "\<exists>y. HandleTrailers V (c, th, h) = Some y" "\<exists>y. Coroutine_Start V (c, th, h) = Some y"
proof -
  have run: "RunToCompletion V (c', th, h) = Some (None, (c', th, h))" if "co_state c' = kExited" for c'
    using that by (subst RunToCompletion.simps) simp
  then show "\<exists>y. HandleHeaders V e (c, th, h) = Some y"
    using assms by (auto simp: HandleHeaders_def Let_def push_and_resume_def Coroutine_Resume_def finish_event_def split: option.split)
qed (use assms in \<open>simp_all add: HandleBody_def HandleTrailers_def Coroutine_Start_def Let_def\<close>)

lemma settled_returns:
  assumes "ends_within V \<mu>" and "direction_ok (Some (c, th))"
  shows "\<exists>r s. HandleHeaders V e (c, th, h) = Some (r, s)" "\<exists>r s. HandleBody V n e (c, th, h) = Some (r, s)"
    "\<exists>r s. HandleTrailers V (c, th, h) = Some (r, s)" "\<exists>r s. Coroutine_Start V (c, th, h) = Some (r, s)"
proof -
  from assms(2) consider "co_state c = kExited" | "wf_thread th" by (auto simp: direction_ok_def)
  then have "\<exists>y. HandleHeaders V e (c, th, h) = Some y" "\<exists>y. HandleBody V n e (c, th, h) = Some y"
    "\<exists>y. HandleTrailers V (c, th, h) = Some y" "\<exists>y. Coroutine_Start V (c, th, h) = Some y"
    using exited_returns [of c V] event_total [OF assms(1)] by meson+
  then show "\<exists>r s. HandleHeaders V e (c, th, h) = Some (r, s)" "\<exists>r s. HandleBody V n e (c, th, h) = Some (r, s)"
    "\<exists>r s. HandleTrailers V (c, th, h) = Some (r, s)" "\<exists>r s. Coroutine_Start V (c, th, h) = Some (r, s)"
    by (metis prod.collapse)+
qed

lemma events_return:
  assumes "ends_within V \<mu>" and "direction_ok d"
  shows "\<exists>y. HandleHeadersEvent V S e (d, h) = Some y" "\<exists>y. HandleBodyEvent V S n e (d, h) = Some y"
    "\<exists>y. HandleTrailersEvent V S (d, h) = Some y"
proof -
  note returns = settled_returns [OF assms(1)]
  show "\<exists>y. HandleHeadersEvent V S e (d, h) = Some y"
    using returns(1) [of _ _ e h] assms(2) by (auto simp: HandleHeadersEvent_def split: option.split sum.split) (metis option.distinct(1) surj_pair)
  show "\<exists>y. HandleBodyEvent V S n e (d, h) = Some y"
    using returns(2) [of _ _ n e h] assms(2) by (auto simp: HandleBodyEvent_def split: option.split sum.split) (metis option.distinct(1) surj_pair)
  show "\<exists>y. HandleTrailersEvent V S (d, h) = Some y"
    using returns(3) [of _ _ h] assms(2) by (auto simp: HandleTrailersEvent_def split: option.split sum.split) (metis option.distinct(1) surj_pair)
qed

lemma start_and_handle_returns:
  assumes "ends_within V \<mu>" and "direction_ok d"
  shows "\<exists>y. start_and_handle ToString V S what e (d, h) = Some y"
proof (cases d)
  case None
  then show ?thesis by (simp add: start_and_handle_def)
next
  case (Some x)
  obtain c th where x: "x = (c, th)" by (cases x)
  obtain r c' th' h' where start: "Coroutine_Start V (c, th, h) = Some (r, c', th', h')"
    using settled_returns(4) [OF assms(1)] assms(2) Some x by (metis prod_cases3)
  then have "direction_ok (Some (c', th'))"
    using Coroutine_Start_settled [of V c th h r] assms(2) Some x by (auto simp: settled_direction)
  with start Some x events_return(1) [OF assms(1) this] show ?thesis
    by (cases r) (auto simp: start_and_handle_def)
qed

lemma HandleBodyEvent_no_watermark:
  assumes "HandleBodyEvent V S n e (d, h) = Some (st, d', h')" and "direction_ok d"
  shows "st \<noteq> StopIterationAndWatermark"
proof -
  have "direction_ok d'" using HandleBodyEvent_ok [OF assms(1)] assms(2) by simp
  with assms(1) show ?thesis
    by (auto simp: HandleBodyEvent_def direction_ok_def data_reason_def
        split: option.splits sum.splits if_splits)
qed

section \<open>Properties\<close>

text \<open>C24: When an event ends the stream and the coroutine accepts it, the script has either returned or
  is not waiting for body data or trailers any more: the loop of \<^verbatim>\<open>RunToCompletion\<close> has handed it
  everything the stream will ever have. The result is the state of the coroutine, and the stream
  counts as ended from then on.
\<close>

theorem lua_end_of_stream_completes:
  assumes "event \<in> {HandleHeaders V True, HandleBody V n True, HandleTrailers V}"
    and "event s = Some (Inr st, s')"
  shows "st = co_state (fst s') \<and> completed s' \<and> stream_ended (fst s')"
  using assms HandleHeaders_end HandleBody_end HandleTrailers_end by fast

theorem lua_end_of_stream_completes_witness:
  "\<exists>st s'. HandleBody (scripted []) 4 True
      ((new_coroutine kRequest)\<lparr>yield_reason := kWaitForBody\<rparr>, (NewThread [CallTrailers True])\<lparr>yielded := True\<rparr>, ()) = Some (Inr st, s') \<and>
    st = co_state (fst s') \<and> completed s' \<and> stream_ended (fst s')"
proof -
  let ?V = "scripted [] :: (unit lua_action list, unit) lua_vm"
  let ?s = "((new_coroutine kRequest)\<lparr>yield_reason := kWaitForBody\<rparr>, (NewThread [CallTrailers True])\<lparr>yielded := True\<rparr>, ())"
  have run: "\<And>v c h. lua_run ?V v [] c h = Some (RFinished, [], c, h)"
    by (subst lua_run.simps) (simp add: react_def)
  have "\<exists>s'. HandleBody ?V 4 True ?s = Some (Inr kExited, s')"
    using run by (simp add: HandleBody_def push_and_resume_def Coroutine_Resume_def Thread_Resume_def Let_def
        NewThread_def finish_event_def RunToCompletion.simps [of ?V] completion_push_def
        lua_run.simps [of ?V "LuaBuffer (body_type kRequest)"] accessor_defs)
  then obtain s' where "HandleBody ?V 4 True ?s = Some (Inr kExited, s')" by blast
  with lua_end_of_stream_completes [of "HandleBody ?V 4 True" ?V 4 ?s kExited s'] show ?thesis by blast
qed

text \<open>C25: If the script ends after finitely many steps, every callback returns in every state a direction
  of a stream can reach, the completion loop included, and the proxy is never asked to hold the body
  back with a watermark.
\<close>

theorem lua_stream_never_hangs:
  assumes "ends_within V \<mu>" and "lua_reach ToString V S (d, h)"
  shows "(\<exists>y. start_and_handle ToString V S what e (d, h) = Some y) \<and>
    (\<exists>st d' h'. HandleBodyEvent V S n e (d, h) = Some (st, d', h') \<and> st \<noteq> StopIterationAndWatermark) \<and>
    (\<exists>y. HandleTrailersEvent V S (d, h) = Some y)"
proof (intro conjI)
  have ok: "direction_ok d" using reachable_ok [OF assms(2)] by simp
  note returns = events_return [OF assms(1) ok]
  show "\<exists>y. start_and_handle ToString V S what e (d, h) = Some y"
    by (rule start_and_handle_returns [OF assms(1) ok])
  show "\<exists>y. HandleTrailersEvent V S (d, h) = Some y" by (rule returns(3))
  obtain st d' h' where res: "HandleBodyEvent V S n e (d, h) = Some (st, d', h')"
    using returns(2) by (metis prod_cases3)
  moreover have "st \<noteq> StopIterationAndWatermark" using HandleBodyEvent_no_watermark [OF res ok] .
  ultimately show "\<exists>st d' h'. HandleBodyEvent V S n e (d, h) = Some (st, d', h') \<and> st \<noteq> StopIterationAndWatermark"
    by blast
qed

theorem lua_stream_never_hangs_witness:
  "(\<exists>y. start_and_handle snd (scripted [''envoy_on_request'']) (test_sdk absl_ref) ''request'' True
      (Some (new_coroutine kRequest, NewThread [CallBody True]), new_stream Info None 0 [] []) = Some y) \<and>
    (\<exists>st d' h'. HandleBodyEvent (scripted [''envoy_on_request'']) (test_sdk absl_ref) 4 True
      (Some (new_coroutine kRequest, NewThread [CallBody True]), new_stream Info None 0 [] []) = Some (st, d', h') \<and>
      st \<noteq> StopIterationAndWatermark) \<and>
    (\<exists>y. HandleTrailersEvent (scripted [''envoy_on_request'']) (test_sdk absl_ref)
      (Some (new_coroutine kRequest, NewThread [CallBody True]), new_stream Info None 0 [] []) = Some y)"
  by (rule lua_stream_never_hangs [OF scripted_ends]) (rule lua_reach.created)

text \<open>C26: A script that asks for the body at a point where Lua cannot suspend it, and handles that
  error, returns normally. The reason noted for the refused suspension is kept, though, so the
  plugin stops the request although nothing is left to run: at the headers, and again at the last
  piece of the body. The client is not answered.
\<close>

theorem lua_refused_yield_stalls_stream:
  assumes fn: "is_function V ''envoy_on_request'' m" and push: "push_error V LuaHandle m = None"
    and 1: "step V LuaHandle (enter V (LuaFunction ''envoy_on_request'') m) = (CallBody False, m1)"
    and 2: "step V cannot_yield m1 = (Finish, m2)"
  shows "\<exists>c th. co_state c = kExited \<and>
    lua_onRequestHeaders ToString V S False (\<lparr>request_side = Some (new_coroutine kRequest, NewThread m), response_side = d\<rparr>, h)
      = Some (StopIteration, \<lparr>request_side = Some (c, th), response_side = d\<rparr>, h) \<and>
    (\<exists>c'. lua_onRequestBody V S n True (\<lparr>request_side = Some (c, th), response_side = d\<rparr>, h)
      = Some (StopIterationAndBuffer, \<lparr>request_side = Some (c', th), response_side = d\<rparr>, h))"
proof -
  have run: "lua_run V LuaHandle (enter V (LuaFunction ''envoy_on_request'') m) (new_coroutine kRequest) h =
      Some (RFinished, m2, Coroutine_Yield kWaitForBody (new_coroutine kRequest), h)"
    using lua_run_Go [OF 1] lua_run_Stop [OF 2] by (simp add: accessor_defs)
  let ?c = "(Coroutine_Yield kWaitForBody (new_coroutine kRequest))\<lparr>co_state := kExited, received_headers := True\<rparr>"
  let ?th = "\<lparr>machine = m2, stack = [], yielded = False, is_finished = True, is_running = False\<rparr>"
  have start: "Coroutine_Start V (new_coroutine kRequest, NewThread m, h) =
      Some (Inr kExited, ?c\<lparr>received_headers := False\<rparr>, ?th, h)"
    using Coroutine_Start_new [OF _ push, of kRequest] fn run by (simp add: accessor_defs)
  then have "lua_onRequestHeaders ToString V S False (\<lparr>request_side = Some (new_coroutine kRequest, NewThread m), response_side = d\<rparr>, h)
      = Some (StopIteration, \<lparr>request_side = Some (?c, ?th), response_side = d\<rparr>, h)"
    by (simp add: lua_onRequestHeaders_def start_and_handle_def HandleHeadersEvent_def HandleHeaders_def
        finish_event_def accessor_defs)
  moreover have "\<exists>c'. lua_onRequestBody V S n True (\<lparr>request_side = Some (?c, ?th), response_side = d\<rparr>, h)
      = Some (StopIterationAndBuffer, \<lparr>request_side = Some (c', ?th), response_side = d\<rparr>, h)"
    by (simp add: lua_onRequestBody_def HandleBodyEvent_def HandleBody_def Let_def accessor_defs)
  ultimately show ?thesis by (intro exI [of _ ?c] exI [of _ ?th]) simp
qed

theorem lua_refused_yield_stalls_stream_witness:
  "\<exists>c th. co_state c = kExited \<and>
    lua_onRequestHeaders snd (scripted [''envoy_on_request'']) (test_sdk absl_ref) False
        (\<lparr>request_side = Some (new_coroutine kRequest, NewThread [CallBody False]), response_side = None\<rparr>, new_stream Info None 0 [] [])
      = Some (StopIteration, \<lparr>request_side = Some (c, th), response_side = None\<rparr>, new_stream Info None 0 [] []) \<and>
    (\<exists>c'. lua_onRequestBody (scripted [''envoy_on_request'']) (test_sdk absl_ref) 4 True
        (\<lparr>request_side = Some (c, th), response_side = None\<rparr>, new_stream Info None 0 [] [])
      = Some (StopIterationAndBuffer, \<lparr>request_side = Some (c', th), response_side = None\<rparr>, new_stream Info None 0 [] []))"
  by (rule lua_refused_yield_stalls_stream [where ?m1.0 = "[]" and ?m2.0 = "[]"]) simp_all

text \<open>C27: A script without the entry point of a direction stops the stream: starting the coroutine fails,
  the failure is logged, and the callback asks the proxy to wait without sending a reply.
\<close>

theorem lua_missing_entry_point_stops_stream:
  assumes "\<not> is_function V ''envoy_on_response'' m"
  shows "lua_onResponseHeaders ToString V S e (\<lparr>request_side = d, response_side = Some (new_coroutine kResponse, NewThread m)\<rparr>, h) =
    Some (StopIteration,
          \<lparr>request_side = d, response_side = Some ((new_coroutine kResponse)\<lparr>co_state := kExited\<rparr>, NewThread m)\<rparr>,
          LOG_ERROR S (''[LuaHttpContext] Failed to start response coroutine: '' @
            ToString (kNotFound, ''could not find envoy_on_response as a global function'')) h)"
  using assms
  by (simp add: lua_onResponseHeaders_def start_and_handle_def Coroutine_Start_def ExecuteFunction_def
      ExecuteFunctionImpl_def CanExecuteFunction_def NewThread_def new_coroutine_def)

theorem lua_missing_entry_point_stops_stream_witness:
  "lua_onResponseHeaders snd (scripted [''envoy_on_request'']) (test_sdk absl_ref) True
      (\<lparr>request_side = None, response_side = Some (new_coroutine kResponse, NewThread [])\<rparr>, new_stream Info None 0 [] []) =
    Some (StopIteration,
          \<lparr>request_side = None, response_side = Some ((new_coroutine kResponse)\<lparr>co_state := kExited\<rparr>, NewThread [])\<rparr>,
          LOG_ERROR (test_sdk absl_ref) (''[LuaHttpContext] Failed to start response coroutine: '' @
            snd (kNotFound, ''could not find envoy_on_response as a global function'')) (new_stream Info None 0 [] []))"
  by (rule lua_missing_entry_point_stops_stream) simp

end
