(* ===== verification/Lua_Api.thy ===== *)
theory Lua_Api
  imports Lua_Plugin
begin

text \<open>
  The objects a Lua script works with (\<^verbatim>\<open>plugins/samples/lua/envoy_lua_api.cc\<close>): headers, buffers,
  metrics and the properties of the TLS connection, with the encodings they use. The calls of the
  SDK that the other plugins do not need are the fields of \<open>lua_host\<close>, an argument like \<open>sdk\<close>; the
  locale \<open>lua_buffers\<close> states what the buffer methods rely on, and the test context satisfies it.
  An object method returns an error status (\<^const>\<open>Inl\<close>) or a value; the shim in
  \<^verbatim>\<open>envoy_lua_api_registration.cc\<close> turns an error status into a Lua error.
\<close>

record 'h lua_host =
  getBufferStatus :: "WasmBufferType \<Rightarrow> 'h \<Rightarrow> WasmResult \<times> nat"
  proxy_get_buffer_bytes :: "WasmBufferType \<Rightarrow> nat \<Rightarrow> nat \<Rightarrow> 'h \<Rightarrow> WasmResult \<times> string option"
  header_map_data :: "WasmHeaderMapType \<Rightarrow> 'h \<Rightarrow> header list option"
  proxy_get_header_map_pairs :: "WasmHeaderMapType \<Rightarrow> 'h \<Rightarrow> WasmResult \<times> header list option"
  incrementMetric :: "u32 \<Rightarrow> u64 \<Rightarrow> 'h \<Rightarrow> WasmResult \<times> 'h"
  recordMetric :: "u32 \<Rightarrow> u64 \<Rightarrow> 'h \<Rightarrow> WasmResult \<times> 'h"
  getMetric :: "u32 \<Rightarrow> 'h \<Rightarrow> WasmResult \<times> u64"
  getValueBool :: "string list \<Rightarrow> 'h \<Rightarrow> bool option"
  getValueU64 :: "string list \<Rightarrow> 'h \<Rightarrow> u64 option"
  getValueString :: "string list \<Rightarrow> 'h \<Rightarrow> string option"
  ParseTimeSeconds :: "string \<Rightarrow> u64 option"
  Base64Unescape :: "string \<Rightarrow> string option"
  toString :: "WasmResult \<Rightarrow> string"

section \<open>Properties of the connection\<close>

definition GetBoolValue :: "'h lua_host \<Rightarrow> string list \<Rightarrow> 'h \<Rightarrow> bool" where
  "GetBoolValue L path h = (case getValueBool L path h of
      Some out \<Rightarrow> out
    | None \<Rightarrow> (case getValueU64 L path h of Some out_int \<Rightarrow> out_int \<noteq> 0 | None \<Rightarrow> False))"

definition FetchTimestampProperty :: "'h lua_host \<Rightarrow> string list \<Rightarrow> 'h \<Rightarrow> u64" where
  "FetchTimestampProperty L path h = (case getValueString L path h of
      None \<Rightarrow> 0
    | Some timestamp_str \<Rightarrow>
        if timestamp_str = [] then 0
        else case ParseTimeSeconds L timestamp_str of None \<Rightarrow> 0 | Some t \<Rightarrow> t)"

section \<open>Percent encoding and certificates\<close>

definition hex_digit :: "nat \<Rightarrow> char" where
  "hex_digit n = (if n < 10 then char_of (48 + n) else char_of (55 + n))"

definition url_safe :: "char \<Rightarrow> bool" where
  "url_safe c \<longleftrightarrow> isalnum c \<or> c \<in> set ''-_.~''"

definition url_char :: "char \<Rightarrow> string" where
  "url_char c = (if url_safe c then [c]
     else [CHR ''%'', hex_digit (char_code c div 16), hex_digit (char_code c mod 16)])"

definition UrlEncode :: "string \<Rightarrow> string" where
  "UrlEncode value = concat (map url_char value)"

definition StripPrefix :: "string \<Rightarrow> string \<Rightarrow> string" where
  "StripPrefix s p = (if prefix p s then drop (length p) s else s)"

definition StripSuffix :: "string \<Rightarrow> string \<Rightarrow> string" where
  "StripSuffix s p = (if suffix p s then take (length s - length p) s else s)"

text \<open>The loop that puts a line end behind every 64 characters.\<close>

function pem_lines :: "string \<Rightarrow> string" where
  "pem_lines s = (if s = [] then [] else take 64 s @ [CHR 0x0A] @ pem_lines (drop 64 s))"
  by pat_completeness auto
termination by (relation "measure length") auto

declare pem_lines.simps [simp del]

definition Base64DerToUrlEncodedPem :: "string \<Rightarrow> string" where
  "Base64DerToUrlEncodedPem b64_der =
     (let b = StripSuffix (StripPrefix b64_der '':'') '':''
      in UrlEncode (''-----BEGIN CERTIFICATE-----'' @ [CHR 0x0A] @ pem_lines b @ ''-----END CERTIFICATE-----'' @ [CHR 0x0A]))"

section \<open>Headers\<close>

record Header =
  map_type :: WasmHeaderMapType
  is_passed_on :: bool

text \<open>
  \<open>is_passed_on\<close> tells whether the object has the callback; \<open>passed\<close> is what the callback answers.
\<close>

definition frozen :: "Header \<Rightarrow> bool \<Rightarrow> bool" where
  "frozen hdr passed \<longleftrightarrow> is_passed_on hdr \<and> passed \<and> map_type hdr \<in> {RequestHeaders, ResponseHeaders}"

definition frozen_error :: Status where
  "frozen_error = (kInternal, ''attempt to mutate headers after they have been passed on'')"

definition Header_Add :: "'h sdk \<Rightarrow> 'h lua_host \<Rightarrow> Header \<Rightarrow> bool \<Rightarrow> string \<Rightarrow> string \<Rightarrow> 'h \<Rightarrow> (Status + unit) \<times> 'h" where
  "Header_Add S L hdr passed key value h =
     (if frozen hdr passed then (Inl frozen_error, h)
      else let (r, h') = addHeaderMapValue S (map_type hdr) key value h
           in if r \<noteq> Ok then (Inl (kInternal, ''Failed to add header: '' @ toString L r), h') else (Inr (), h'))"

definition Header_Remove :: "'h sdk \<Rightarrow> 'h lua_host \<Rightarrow> Header \<Rightarrow> bool \<Rightarrow> string \<Rightarrow> 'h \<Rightarrow> (Status + unit) \<times> 'h" where
  "Header_Remove S L hdr passed key h =
     (if frozen hdr passed then (Inl frozen_error, h)
      else let (r, h') = removeHeaderMapValue S (map_type hdr) key h
           in if r \<noteq> Ok then (Inl (kInternal, ''Failed to remove header: '' @ toString L r), h') else (Inr (), h'))"

definition Header_Replace :: "'h sdk \<Rightarrow> 'h lua_host \<Rightarrow> Header \<Rightarrow> bool \<Rightarrow> string \<Rightarrow> string \<Rightarrow> 'h \<Rightarrow> (Status + unit) \<times> 'h" where
  "Header_Replace S L hdr passed key value h =
     (if frozen hdr passed then (Inl frozen_error, h)
      else let (r, h') = replaceHeaderMapValue S (map_type hdr) key value h
           in if r \<noteq> Ok then (Inl (kInternal, ''Failed to replace header: '' @ toString L r), h') else (Inr (), h'))"

definition Header_SetHttp1ReasonPhrase :: "'h \<Rightarrow> (Status + unit) \<times> 'h" where
  "Header_SetHttp1ReasonPhrase h = (Inl (kUnimplemented, ''Header::SetHttp1ReasonPhrase is not supported''), h)"

definition Header_Get :: "'h sdk \<Rightarrow> Header \<Rightarrow> string \<Rightarrow> 'h \<Rightarrow> Status + string option" where
  "Header_Get S hdr key h =
     (let data = getHeaderMapValue S (map_type hdr) key h
      in if \<not> is_set data \<or> \<not> has_data data then Inr None else Inr (Some (wview data)))"

fun at_index :: "absl \<Rightarrow> string \<Rightarrow> int \<Rightarrow> int \<Rightarrow> header list \<Rightarrow> string option" where
  "at_index A key index count [] = None"
| "at_index A key index count ((k, v) # ps) =
     (if EqualsIgnoreCase A k key
      then if count = index then Some v else at_index A key index (count + 1) ps
      else at_index A key index count ps)"

definition Header_GetAtIndex :: "absl \<Rightarrow> 'h lua_host \<Rightarrow> Header \<Rightarrow> string \<Rightarrow> int \<Rightarrow> 'h \<Rightarrow> Status + string option" where
  "Header_GetAtIndex A L hdr key index h =
     (if index < 0 then Inl (kInvalidArgument, ''index must be non-negative'')
      else case header_map_data L (map_type hdr) h of
             None \<Rightarrow> Inl (kInternal, ''Failed to get header pairs for GetAtIndex'')
           | Some pairs \<Rightarrow> Inr (at_index A key index 0 pairs))"

fun count_key :: "absl \<Rightarrow> string \<Rightarrow> int \<Rightarrow> header list \<Rightarrow> int" where
  "count_key A key count [] = count"
| "count_key A key count ((k, v) # ps) = count_key A key (if EqualsIgnoreCase A k key then count + 1 else count) ps"

definition Header_GetNumValues :: "absl \<Rightarrow> 'h lua_host \<Rightarrow> Header \<Rightarrow> string \<Rightarrow> 'h \<Rightarrow> Status + int" where
  "Header_GetNumValues A L hdr key h = (case header_map_data L (map_type hdr) h of
      None \<Rightarrow> Inl (kInternal, ''Failed to get header pairs for GetNumValues'')
    | Some pairs \<Rightarrow> Inr (count_key A key 0 pairs))"

definition Header_GetPairs :: "'h lua_host \<Rightarrow> Header \<Rightarrow> 'h \<Rightarrow> Status + header list" where
  "Header_GetPairs L hdr h =
     (let (r, data) = proxy_get_header_map_pairs L (map_type hdr) h
      in if r = NotFound then Inr []
         else if r \<noteq> Ok then Inl (kInternal, ''Failed to get header pairs: '' @ toString L r)
         else case data of None \<Rightarrow> Inr [] | Some pairs \<Rightarrow> Inr pairs)"

section \<open>Buffers\<close>

definition Buffer_GetLength :: "'h lua_host \<Rightarrow> WasmBufferType \<Rightarrow> 'h \<Rightarrow> Status + nat" where
  "Buffer_GetLength L b h =
     (let (r, size) = getBufferStatus L b h
      in if r \<noteq> Ok then Inl (kInternal, ''Failed to get buffer status: '' @ toString L r) else Inr size)"

definition Buffer_GetBytes :: "'h lua_host \<Rightarrow> WasmBufferType \<Rightarrow> nat \<Rightarrow> nat \<Rightarrow> 'h \<Rightarrow> Status + string" where
  "Buffer_GetBytes L b index len h =
     (let (r, data) = proxy_get_buffer_bytes L b index len h
      in if r \<noteq> Ok then Inl (kInternal, ''Failed to get buffer bytes: '' @ toString L r)
         else case data of None \<Rightarrow> Inr [] | Some s \<Rightarrow> Inr s)"

definition Buffer_SetBytes :: "'h sdk \<Rightarrow> 'h lua_host \<Rightarrow> WasmBufferType \<Rightarrow> string \<Rightarrow> 'h \<Rightarrow> (Status + unit) \<times> 'h" where
  "Buffer_SetBytes S L b s h =
     (let (r, len) = getBufferStatus L b h
      in if r \<noteq> Ok then (Inl (kInternal, ''Failed to get buffer status for SetBytes: '' @ toString L r), h)
         else let (r', h') = setBuffer S b 0 len s h
              in if r' \<noteq> Ok then (Inl (kInternal, ''Failed to set buffer: '' @ toString L r'), h') else (Inr (), h'))"

section \<open>Metrics\<close>

definition metric_status :: "'h lua_host \<Rightarrow> string \<Rightarrow> WasmResult \<times> 'h \<Rightarrow> (Status + unit) \<times> 'h" where
  "metric_status L what x = (if fst x \<noteq> Ok then (Inl (kInternal, what @ toString L (fst x)), snd x) else (Inr (), snd x))"

definition Counter_Inc :: "'h lua_host \<Rightarrow> u32 \<Rightarrow> 'h \<Rightarrow> (Status + unit) \<times> 'h" where
  "Counter_Inc L metric_id h = metric_status L ''Failed to increment counter: '' (incrementMetric L metric_id 1 h)"

definition Counter_Add :: "'h lua_host \<Rightarrow> u32 \<Rightarrow> u64 \<Rightarrow> 'h \<Rightarrow> (Status + unit) \<times> 'h" where
  "Counter_Add L metric_id amount h =
     (if sint amount < 0 then (Inl (kInvalidArgument, ''Failed to add to counter: amount cannot be negative''), h)
      else metric_status L ''Failed to add to counter: '' (incrementMetric L metric_id amount h))"

definition Counter_GetValue :: "'h lua_host \<Rightarrow> u32 \<Rightarrow> 'h \<Rightarrow> Status + u64" where
  "Counter_GetValue L metric_id h =
     (let (r, v) = getMetric L metric_id h
      in if r \<noteq> Ok then Inl (kInternal, ''Failed to get counter value: '' @ toString L r) else Inr v)"

definition Gauge_Inc :: "'h lua_host \<Rightarrow> u32 \<Rightarrow> 'h \<Rightarrow> (Status + unit) \<times> 'h" where
  "Gauge_Inc L metric_id h = metric_status L ''Failed to increment gauge: '' (incrementMetric L metric_id 1 h)"

definition Gauge_Dec :: "'h lua_host \<Rightarrow> u32 \<Rightarrow> 'h \<Rightarrow> (Status + unit) \<times> 'h" where
  "Gauge_Dec L metric_id h = metric_status L ''Failed to decrement gauge: '' (incrementMetric L metric_id (- 1) h)"

definition Gauge_Add :: "'h lua_host \<Rightarrow> u32 \<Rightarrow> u64 \<Rightarrow> 'h \<Rightarrow> (Status + unit) \<times> 'h" where
  "Gauge_Add L metric_id amount h =
     (if sint amount < 0 then (Inl (kInvalidArgument, ''Failed to add to gauge: amount cannot be negative''), h)
      else metric_status L ''Failed to add to gauge: '' (incrementMetric L metric_id amount h))"

definition Gauge_Sub :: "'h lua_host \<Rightarrow> u32 \<Rightarrow> u64 \<Rightarrow> 'h \<Rightarrow> (Status + unit) \<times> 'h" where
  "Gauge_Sub L metric_id amount h =
     (if sint amount < 0 then (Inl (kInvalidArgument, ''Failed to subtract from gauge: amount cannot be negative''), h)
      else metric_status L ''Failed to subtract from gauge: '' (incrementMetric L metric_id (- amount) h))"

definition Gauge_Set :: "'h lua_host \<Rightarrow> u32 \<Rightarrow> u64 \<Rightarrow> 'h \<Rightarrow> (Status + unit) \<times> 'h" where
  "Gauge_Set L metric_id value h =
     (if sint value < 0 then (Inl (kInvalidArgument, ''Failed to set gauge: value cannot be negative''), h)
      else metric_status L ''Failed to set gauge: '' (recordMetric L metric_id value h))"

definition Gauge_GetValue :: "'h lua_host \<Rightarrow> u32 \<Rightarrow> 'h \<Rightarrow> Status + u64" where
  "Gauge_GetValue L metric_id h =
     (let (r, v) = getMetric L metric_id h
      in if r \<noteq> Ok then Inl (kInternal, ''Failed to get gauge: '' @ toString L r) else Inr v)"

definition Histogram_RecordValue :: "'h lua_host \<Rightarrow> u32 \<Rightarrow> u64 \<Rightarrow> 'h \<Rightarrow> (Status + unit) \<times> 'h" where
  "Histogram_RecordValue L metric_id value h =
     metric_status L ''Failed to record histogram: '' (recordMetric L metric_id value h)"

section \<open>The TLS connection\<close>

text \<open>A string property of the connection; the variable it is read into starts empty.\<close>

definition connection_string :: "'h lua_host \<Rightarrow> string \<Rightarrow> 'h \<Rightarrow> string" where
  "connection_string L name h = (case getValueString L [''connection'', name] h of None \<Rightarrow> [] | Some out \<Rightarrow> out)"

definition PeerCertificatePresented :: "'h lua_host \<Rightarrow> 'h \<Rightarrow> Status + bool" where
  "PeerCertificatePresented L h = Inr (GetBoolValue L [''connection'', ''mtls''] h \<or>
     GetBoolValue L [''connection'', ''client_cert_present''] h)"

definition PeerCertificateValidated :: "'h lua_host \<Rightarrow> 'h \<Rightarrow> Status + bool" where
  "PeerCertificateValidated L h = Inr (GetBoolValue L [''connection'', ''peer_certificate_valid''] h \<or>
     GetBoolValue L [''connection'', ''client_cert_chain_verified''] h)"

definition GetUriSanLocalCertificate :: "'h lua_host \<Rightarrow> 'h \<Rightarrow> Status + string list" where
  "GetUriSanLocalCertificate L h = Inr (let out = connection_string L ''uri_san_local_certificate'' h in if out \<noteq> [] then [out] else [])"

definition GetSha256PeerCertificateDigest :: "'h lua_host \<Rightarrow> 'h \<Rightarrow> Status + string" where
  "GetSha256PeerCertificateDigest L h = Inr (connection_string L ''sha256_peer_certificate_digest'' h)"

definition GetSerialNumberPeerCertificate :: "'h lua_host \<Rightarrow> 'h \<Rightarrow> Status + string" where
  "GetSerialNumberPeerCertificate L h = Inr (connection_string L ''client_cert_serial_number'' h)"

definition GetIssuerPeerCertificate :: "Status + 'a" where
  "GetIssuerPeerCertificate = Inl (kUnimplemented, ''Property SslConnection::GetIssuerPeerCertificate is unsupported.'')"

definition GetSha256PeerCertificateIssuerDigest :: "Status + 'a" where
  "GetSha256PeerCertificateIssuerDigest = Inl (kUnimplemented, ''Property SslConnection::GetSha256PeerCertificateIssuerDigest is unsupported.'')"

definition GetSerialNumberPeerCertificateIssuer :: "Status + 'a" where
  "GetSerialNumberPeerCertificateIssuer = Inl (kUnimplemented, ''Property SslConnection::GetSerialNumberPeerCertificateIssuer is unsupported.'')"

definition GetSubjectPeerCertificate :: "'h lua_host \<Rightarrow> 'h \<Rightarrow> Status + string" where
  "GetSubjectPeerCertificate L h = Inr (connection_string L ''subject_peer_certificate'' h)"

definition GetParsedSubjectPeerCertificate :: "Status + 'a" where
  "GetParsedSubjectPeerCertificate = Inl (kUnimplemented, ''Property SslConnection::GetParsedSubjectPeerCertificate is unsupported.'')"

text \<open>The elements of a comma-separated list that are valid Base64, decoded; others are dropped.\<close>

definition decode_sans :: "absl \<Rightarrow> 'h lua_host \<Rightarrow> string \<Rightarrow> string list" where
  "decode_sans A L out = List.map_filter (Base64Unescape L) (StrSplit A out (CHR '',''))"

definition GetUriSanPeerCertificate :: "absl \<Rightarrow> 'h lua_host \<Rightarrow> 'h \<Rightarrow> Status + string list" where
  "GetUriSanPeerCertificate A L h =
     (let out = connection_string L ''uri_san_peer_certificate'' h
      in if out \<noteq> [] then Inr [out]
         else
           let sans = connection_string L ''client_cert_uri_sans'' h;
               decoded_sans = (if sans \<noteq> [] then decode_sans A L sans else []);
               spiffe = connection_string L ''client_cert_spiffe_id'' h
           in Inr (if spiffe \<noteq> [] then decoded_sans @ [spiffe] else decoded_sans))"

definition GetSubjectLocalCertificate :: "'h lua_host \<Rightarrow> 'h \<Rightarrow> Status + string" where
  "GetSubjectLocalCertificate L h = Inr (connection_string L ''subject_local_certificate'' h)"

definition GetUrlEncodedPemEncodedPeerCertificate :: "'h lua_host \<Rightarrow> 'h \<Rightarrow> Status + string" where
  "GetUrlEncodedPemEncodedPeerCertificate L h =
     (let out = connection_string L ''client_cert_leaf'' h
      in if out \<noteq> [] then Inr (Base64DerToUrlEncodedPem out) else Inr [])"

definition GetUrlEncodedPemEncodedPeerCertificateChain :: "absl \<Rightarrow> 'h lua_host \<Rightarrow> 'h \<Rightarrow> Status + string" where
  "GetUrlEncodedPemEncodedPeerCertificateChain A L h =
     (let leaf_out = connection_string L ''client_cert_leaf'' h;
          full_chain = (if leaf_out \<noteq> [] then Base64DerToUrlEncodedPem leaf_out else []);
          chain_out = connection_string L ''client_cert_chain'' h
      in Inr (if chain_out \<noteq> []
              then foldl (\<lambda>acc cert. acc @ Base64DerToUrlEncodedPem cert) full_chain (StrSplit A chain_out (CHR '',''))
              else full_chain))"

definition GetDnsSansPeerCertificate :: "absl \<Rightarrow> 'h lua_host \<Rightarrow> 'h \<Rightarrow> Status + string list" where
  "GetDnsSansPeerCertificate A L h =
     (let out = connection_string L ''dns_san_peer_certificate'' h
      in if out \<noteq> [] then Inr [out]
         else let sans = connection_string L ''client_cert_dnsname_sans'' h
              in Inr (if sans \<noteq> [] then decode_sans A L sans else []))"

definition GetDnsSansLocalCertificate :: "'h lua_host \<Rightarrow> 'h \<Rightarrow> Status + string list" where
  "GetDnsSansLocalCertificate L h = Inr (let out = connection_string L ''dns_san_local_certificate'' h in if out \<noteq> [] then [out] else [])"

definition GetOidsPeerCertificate :: "Status + 'a" where
  "GetOidsPeerCertificate = Inl (kUnimplemented, ''Property SslConnection::GetOidsPeerCertificate is unsupported.'')"

definition GetOidsLocalCertificate :: "Status + 'a" where
  "GetOidsLocalCertificate = Inl (kUnimplemented, ''Property SslConnection::GetOidsLocalCertificate is unsupported.'')"

definition GetValidFromPeerCertificate :: "'h lua_host \<Rightarrow> 'h \<Rightarrow> Status + u64" where
  "GetValidFromPeerCertificate L h = Inr (FetchTimestampProperty L [''connection'', ''client_cert_valid_not_before''] h)"

definition GetExpirationPeerCertificate :: "'h lua_host \<Rightarrow> 'h \<Rightarrow> Status + u64" where
  "GetExpirationPeerCertificate L h = Inr (FetchTimestampProperty L [''connection'', ''client_cert_valid_not_after''] h)"

definition GetSessionId :: "Status + 'a" where
  "GetSessionId = Inl (kUnimplemented, ''Property SslConnection::GetSessionId is unsupported.'')"

definition GetCiphersuiteId :: "absl \<Rightarrow> 'h lua_host \<Rightarrow> 'h \<Rightarrow> Status + string" where
  "GetCiphersuiteId A L h =
     (let out = connection_string L ''tls_cipher_suite'' h
      in Inr (if out \<noteq> [] then ''0x'' @ AsciiStrToLower A out else []))"

definition GetCiphersuiteString :: "Status + 'a" where
  "GetCiphersuiteString = Inl (kUnimplemented, ''Property SslConnection::GetCiphersuiteString is unsupported.'')"

definition GetTlsVersion :: "'h lua_host \<Rightarrow> 'h \<Rightarrow> Status + string" where
  "GetTlsVersion L h = Inr (connection_string L ''tls_version'' h)"

text \<open>A connection is a TLS connection if the host knows its version.\<close>

definition GetDownstreamSslConnection :: "'h lua_host \<Rightarrow> 'h \<Rightarrow> Status + unit option" where
  "GetDownstreamSslConnection L h =
     Inr (case getValueString L [''connection'', ''tls_version''] h of Some out \<Rightarrow> Some () | None \<Rightarrow> None)"

definition GetSsl :: "'h lua_host \<Rightarrow> 'h \<Rightarrow> Status + unit option" where
  "GetSsl L h =
     Inr (case getValueString L [''connection'', ''tls_version''] h of Some out \<Rightarrow> Some () | None \<Rightarrow> None)"

section \<open>The handle\<close>

definition Handle_GetHeaders :: "bool \<Rightarrow> Status + Header" where
  "Handle_GetHeaders is_request = Inr \<lparr>map_type = (if is_request then RequestHeaders else ResponseHeaders), is_passed_on = True\<rparr>"

definition Handle_GetBody :: "bool \<Rightarrow> Status + WasmBufferType" where
  "Handle_GetBody is_request = Inr (if is_request then HttpRequestBody else HttpResponseBody)"

definition Handle_GetTrailers :: "bool \<Rightarrow> Status + Header" where
  "Handle_GetTrailers is_request = Inr \<lparr>map_type = (if is_request then RequestTrailers else ResponseTrailers), is_passed_on = True\<rparr>"

text \<open>
  Methods that are declared but have no effect: they return the same error whatever they are given
  (\<^verbatim>\<open>Metadata\<close>, \<^verbatim>\<open>FilterState\<close>, most of \<^verbatim>\<open>StreamInfo\<close>, \<^verbatim>\<open>ConnectionStreamInfo\<close>, \<^verbatim>\<open>DynamicMetadata\<close>, \<^verbatim>\<open>ParsedName\<close>, the routes and
  scopes, and of the handle the calls that would answer the client or call another service).
\<close>

definition Metadata_stub :: "Status + 'a" where
  "Metadata_stub = Inl (kUnimplemented, ''unimplemented'')"

definition StreamInfo_stub :: "Status + 'a" where
  "StreamInfo_stub = Inl (kUnimplemented, ''unimplemented'')"

definition DrainConnectionUponCompletion :: "Status + 'a" where
  "DrainConnectionUponCompletion = Inl (kUnimplemented, ''unimplemented'')"

definition ConnectionStreamInfo_stub :: "Status + 'a" where
  "ConnectionStreamInfo_stub = Inl (kUnimplemented, ''unimplemented'')"

definition DynamicMetadata_stub :: "Status + 'a" where
  "DynamicMetadata_stub = Inl (kUnimplemented, ''unimplemented'')"

definition ParsedName_stub :: "Status + 'a" where
  "ParsedName_stub = Inl (kUnimplemented, ''ParsedName is unsupported.'')"

definition Scope_stub :: "Status + 'a" where
  "Scope_stub = Inl (kUnimplemented, ''unimplemented'')"

definition GetBodyChunks :: "Status + 'a" where
  "GetBodyChunks = Inl (kUnimplemented, ''unimplemented'')"

definition Handle_stub :: "Status + 'a" where
  "Handle_stub = Inl (kUnimplemented, ''unimplemented'')"

section \<open>Calls of a script on a header object\<close>

definition to_lua :: "(Status + unit) \<times> 'h \<Rightarrow> lua_value \<times> 'h" where
  "to_lua r = (case fst r of Inl e \<Rightarrow> LuaError (snd e) | Inr _ \<Rightarrow> LuaOther, snd r)"

text \<open>The action of a script that calls \<^verbatim>\<open>replace\<close> on a header object it was given earlier.\<close>

definition script_replace :: "'h sdk \<Rightarrow> 'h lua_host \<Rightarrow> WasmHeaderMapType \<Rightarrow> bool \<Rightarrow> string \<Rightarrow> string \<Rightarrow> 'h lua_action" where
  "script_replace S L t g key value =
     HostCall (\<lambda>passed h. to_lua (Header_Replace S L \<lparr>map_type = t, is_passed_on = g\<rparr> passed key value h))"

section \<open>The test context as a host of scripts\<close>

locale lua_buffers = wasm_host S view good
  for S :: "'h sdk" and view :: "'h \<Rightarrow> host_view" and good :: "'h \<Rightarrow> bool" +
  fixes L :: "'h lua_host"
  assumes buffer_status: "good h \<Longrightarrow> v_body (view h) b = Some s \<Longrightarrow> getBufferStatus L b h = (Ok, length s)"
    and buffer_bytes: "good h \<Longrightarrow> v_body (view h) b = Some s \<Longrightarrow> length s < 2 ^ 32 \<Longrightarrow> i + n \<le> length s \<Longrightarrow>
      proxy_get_buffer_bytes L b i n h = (Ok, Some (take n (drop i s)))"
begin

lemma SetBytes_effect:
  assumes "good h" and "v_body (view h) b = Some old" and "b \<noteq> PluginConfiguration" and "length old < 2 ^ 32"
  shows "fst (Buffer_SetBytes S L b s h) = Inr ()" and "good (snd (Buffer_SetBytes S L b s h))"
    and "view (snd (Buffer_SetBytes S L b s h)) = (view h)\<lparr>v_body := (v_body (view h))(b := Some s)\<rparr>"
  using buffer_status [OF assms(1,2)] set_buffer [OF assms, of 0 "length old" s] assms(4)
  by (simp_all add: Buffer_SetBytes_def replace_at_def split_beta)

lemma read_back:
  assumes "good h" and "v_body (view h) b = Some s" and "length s < 2 ^ 32"
  shows "Buffer_GetLength L b h = Inr (length s)"
    and "i + n \<le> length s \<Longrightarrow> Buffer_GetBytes L b i n h = Inr (take n (drop i s))"
  using buffer_status [OF assms(1,2)] buffer_bytes [OF assms, of i n]
  by (simp_all add: Buffer_GetLength_def Buffer_GetBytes_def)

end

text \<open>
  The context has no metrics, so those calls fail; parsing times, decoding Base64 and the names of
  results do not depend on the host and are arguments.
\<close>

definition test_lua :: "absl \<Rightarrow> (string \<Rightarrow> u64 option) \<Rightarrow> (string \<Rightarrow> string option) \<Rightarrow> (WasmResult \<Rightarrow> string)
    \<Rightarrow> TestHttpContext lua_host" where
  "test_lua A parse_time base64 names = \<lparr>
     getBufferStatus = (\<lambda>b c. case TestHttpContext_getBuffer b c of None \<Rightarrow> (NotFound, 0) | Some s \<Rightarrow> (Ok, length s)),
     proxy_get_buffer_bytes = (\<lambda>b i n c. case TestHttpContext_getBuffer b c of
        None \<Rightarrow> (NotFound, None)
      | Some s \<Rightarrow> (case Buffer_copyTo (of_nat i) (of_nat n) s of
          CopyOk t \<Rightarrow> (Ok, Some t) | CopyError e \<Rightarrow> (e, None) | CopyOutOfBounds \<Rightarrow> (InvalidMemoryAccess, None))),
     header_map_data = (\<lambda>t c. case TestHttpContext_getHeaderMapPairs t c of Inl _ \<Rightarrow> None | Inr ps \<Rightarrow> Some ps),
     proxy_get_header_map_pairs = (\<lambda>t c. case TestHttpContext_getHeaderMapPairs t c of
        Inl e \<Rightarrow> (e, None) | Inr ps \<Rightarrow> (Ok, Some ps)),
     incrementMetric = (\<lambda>_ _ c. (Unimplemented, c)),
     recordMetric = (\<lambda>_ _ c. (Unimplemented, c)),
     getMetric = (\<lambda>_ c. (Unimplemented, 0)),
     getValueBool = (\<lambda>p c. None),
     getValueU64 = (\<lambda>p c. None),
     getValueString = (\<lambda>p c. map_option wview (test_getProperty A p c)),
     ParseTimeSeconds = parse_time,
     Base64Unescape = base64,
     toString = names \<rparr>"

lemma test_lua_buffers:
  assumes "absl_strings A"
  shows "lua_buffers (test_sdk A) test_view test_good (test_lua A pt b64 names)"
proof -
  have host: "wasm_host (test_sdk A) test_view test_good"
    using test_env [OF assms] by (simp add: plugin_env_def)
  show ?thesis
    by (rule lua_buffers.intro [OF host], unfold_locales)
       (auto simp: test_lua_def copyTo_in_bounds split: option.splits)
qed

interpretation lua_tc: lua_buffers "test_sdk absl_ref" test_view test_good "test_lua absl_ref pt b64 names"
  by (rule test_lua_buffers [OF absl_ref_spec])

section \<open>Lemmas on the encodings\<close>

definition hex_value :: "char \<Rightarrow> nat" where
  "hex_value c = (if isdigit c then char_code c - 48 else char_code c - 55)"

text \<open>The decoding of percent escapes, the specification of \<^const>\<open>UrlEncode\<close>.\<close>

fun url_decode :: "string \<Rightarrow> string" where
  "url_decode [] = []"
| "url_decode (c # s) = (case s of
      a # b # t \<Rightarrow> if c = CHR ''%'' then char_of (16 * hex_value a + hex_value b) # url_decode t else c # url_decode s
    | _ \<Rightarrow> c # url_decode s)"

lemma hex_value_digit: "n < 16 \<Longrightarrow> hex_value (hex_digit n) = n"
  by (auto simp: hex_value_def hex_digit_def isdigit_def)

lemma hex_digit_safe: "n < 16 \<Longrightarrow> url_safe (hex_digit n)"
  by (auto simp: hex_digit_def url_safe_def ascii_defs)

lemma percent_not_safe: "\<not> url_safe (CHR ''%'')"
  by (simp add: url_safe_def ascii_defs char_code_def)

lemma url_decode_safe: "c \<noteq> CHR ''%'' \<Longrightarrow> url_decode (c # s) = c # url_decode s"
  by (simp split: list.split)

lemma url_decode_char: "url_decode (url_char c @ s) = c # url_decode s"
proof (cases "url_safe c")
  case True
  then have "c \<noteq> CHR ''%''" using percent_not_safe by blast
  with True show ?thesis by (simp add: url_char_def url_decode_safe del: url_decode.simps)
next
  case False
  have "char_code c div 16 < 16" using code_less [of c] by (simp add: less_mult_imp_div_less del: code_less)
  then show ?thesis using False by (simp add: url_char_def hex_value_digit) (simp add: char_code_def)
qed

lemma url_decode_UrlEncode [simp]: "url_decode (UrlEncode s) = s"
  by (induction s) (simp_all add: UrlEncode_def url_decode_char)

lemma set_UrlEncode: "c \<in> set (UrlEncode s) \<Longrightarrow> url_safe c \<or> c = CHR ''%''"
  using hex_digit_safe by (auto simp: UrlEncode_def url_char_def less_mult_imp_div_less split: if_splits)

text \<open>The lines of a certificate: all but the last have 64 characters, and none is empty.\<close>

function lines64 :: "string \<Rightarrow> string list" where
  "lines64 s = (if s = [] then [] else take 64 s # lines64 (drop 64 s))"
  by pat_completeness auto
termination by (relation "measure length") auto

declare lines64.simps [simp del]

lemma pem_lines_lines: "pem_lines s = concat (map (\<lambda>l. l @ [CHR 0x0A]) (lines64 s))"
  by (induction s rule: lines64.induct) (subst pem_lines.simps, subst lines64.simps, simp)

lemma lines64_Nil [simp]: "lines64 [] = []"
  by (subst lines64.simps) simp

lemma lines64_step: "s \<noteq> [] \<Longrightarrow> lines64 s = take 64 s # lines64 (drop 64 s)"
  by (subst lines64.simps) simp

lemma concat_lines64: "concat (lines64 s) = s"
  by (induction s rule: lines64.induct) (metis append_take_drop_id concat.simps lines64_Nil lines64_step)

lemma length_lines64: "l \<in> set (lines64 s) \<Longrightarrow> 1 \<le> length l \<and> length l \<le> 64"
proof (induction s rule: lines64.induct)
  case (1 s)
  show ?case
  proof (cases "s = []")
    case False
    then have "l = take 64 s \<or> l \<in> set (lines64 (drop 64 s))" using 1(2) lines64_step by auto
    then show ?thesis using 1(1) [OF False] False by (cases s) (auto simp: Suc_le_eq)
  qed (use 1(2) in simp)
qed

lemma full_lines64: "l \<in> set (butlast (lines64 s)) \<Longrightarrow> length l = 64"
proof (induction s rule: lines64.induct)
  case (1 s)
  show ?case
  proof (cases "s = [] \<or> drop 64 s = []")
    case True
    then show ?thesis using 1(2) lines64_step [of s] by (cases "s = []") simp_all
  next
    case False
    then have "l = take 64 s \<or> l \<in> set (butlast (lines64 (drop 64 s)))"
      using 1(2) lines64_step [of s] by (auto split: if_splits)
    then show ?thesis using 1(1) False by auto
  qed
qed

section \<open>Lemmas on header lists\<close>

definition values_of :: "string \<Rightarrow> header list \<Rightarrow> string list" where
  "values_of key ps = map snd (filter (\<lambda>p. same_key (fst p) key) ps)"

lemma count_key_values: "absl_strings A \<Longrightarrow> count_key A key n ps = n + int (length (values_of key ps))"
  by (induction A key n ps rule: count_key.induct) (simp_all add: values_of_def absl_strings.EqualsIgnoreCase)

lemma at_index_values:
  assumes "absl_strings A" and "count \<le> index"
  shows "at_index A key index count ps = (let vs = values_of key ps; i = nat (index - count)
     in if i < length vs then Some (vs ! i) else None)"
  using assms
proof (induction A key index count ps rule: at_index.induct)
  case (2 A key index count k v ps)
  note eq [simp] = absl_strings.EqualsIgnoreCase [OF 2(3)]
  have "nat (index - count) = Suc (nat (index - (count + 1)))" if "count \<noteq> index"
    using that 2(4) by linarith
  with 2 show ?case by (auto simp: values_of_def Let_def)
qed (simp add: values_of_def)

section \<open>Properties\<close>

text \<open>C31: A certificate handed to a script is the percent encoding of a PEM text: decoding it gives the
  BEGIN and END lines around the Base64 text, without the enclosing colons, in lines of 64 characters
  of which only the last may be shorter, and the encoded form has unreserved characters and percent
  signs only.
\<close>

theorem certificate_pem_roundtrip:
  "\<exists>ls. url_decode (Base64DerToUrlEncodedPem b) =
      ''-----BEGIN CERTIFICATE-----'' @ [CHR 0x0A] @ concat (map (\<lambda>l. l @ [CHR 0x0A]) ls) @
      ''-----END CERTIFICATE-----'' @ [CHR 0x0A] \<and>
    concat ls = StripSuffix (StripPrefix b '':'') '':'' \<and>
    list_all (\<lambda>l. length l = 64) (butlast ls) \<and> list_all (\<lambda>l. 1 \<le> length l \<and> length l \<le> 64) ls \<and>
    list_all (\<lambda>c. url_safe c \<or> c = CHR ''%'') (Base64DerToUrlEncodedPem b)"
proof -
  let ?b = "StripSuffix (StripPrefix b '':'') '':''"
  have "list_all (\<lambda>l. length l = 64) (butlast (lines64 ?b))"
    and "list_all (\<lambda>l. 1 \<le> length l \<and> length l \<le> 64) (lines64 ?b)"
    using full_lines64 length_lines64 by (auto simp: list_all_iff)
  moreover have "list_all (\<lambda>c. url_safe c \<or> c = CHR ''%'') (Base64DerToUrlEncodedPem b)"
    using set_UrlEncode by (auto simp: Base64DerToUrlEncodedPem_def Let_def list_all_iff)
  moreover have "url_decode (Base64DerToUrlEncodedPem b) =
      ''-----BEGIN CERTIFICATE-----'' @ [CHR 0x0A] @ pem_lines ?b @ ''-----END CERTIFICATE-----'' @ [CHR 0x0A]"
    unfolding Base64DerToUrlEncodedPem_def Let_def by (rule url_decode_UrlEncode)
  ultimately show ?thesis
    unfolding pem_lines_lines using concat_lines64 by (intro exI [of _ "lines64 ?b"]) blast
qed

text \<open>The index methods agree: \<^verbatim>\<open>getNumValues\<close> counts the values of a header name, up to case, in the
  order of the header list, \<^verbatim>\<open>getAtIndex\<close> returns the value at every index below that number and
  nothing beyond it, and a negative index is refused.
\<close>

theorem header_values_by_index:
  assumes "absl_strings A" and "header_map_data L (map_type hdr) h = Some ps"
  shows "Header_GetNumValues A L hdr key h = Inr (int (length (values_of key ps))) \<and>
    Header_GetAtIndex A L hdr key index h =
      (if index < 0 then Inl (kInvalidArgument, ''index must be non-negative'')
       else if index < int (length (values_of key ps)) then Inr (Some (values_of key ps ! nat index))
       else Inr None)"
  using assms at_index_values [OF assms(1), of 0 index key ps]
  by (auto simp: Header_GetNumValues_def Header_GetAtIndex_def count_key_values Let_def nat_less_iff)

theorem header_values_by_index_witness:
  "header_map_data (test_lua absl_ref (\<lambda>_. None) Some (\<lambda>_. [])) RequestHeaders
      ((new_stream Info None 0 [] [])\<lparr>phase := Some RequestHeaders, result := empty_Result\<lparr>headers := [(''a'', ''1''), (''b'', ''2'')]\<rparr>\<rparr>)
     = Some [(''a'', ''1''), (''b'', ''2'')] \<and>
   Header_GetAtIndex absl_ref (test_lua absl_ref (\<lambda>_. None) Some (\<lambda>_. [])) \<lparr>map_type = RequestHeaders, is_passed_on = True\<rparr> ''b'' 0
      ((new_stream Info None 0 [] [])\<lparr>phase := Some RequestHeaders, result := empty_Result\<lparr>headers := [(''a'', ''1''), (''b'', ''2'')]\<rparr>\<rparr>)
     = Inr (Some ''2'')"
proof
  let ?L = "test_lua absl_ref (\<lambda>_. None) Some (\<lambda>_. [])"
  let ?h = "(new_stream Info None 0 [] [])\<lparr>phase := Some RequestHeaders,
    result := empty_Result\<lparr>headers := [(''a'', ''1''), (''b'', ''2'')]\<rparr>\<rparr>"
  show data: "header_map_data ?L RequestHeaders ?h = Some [(''a'', ''1''), (''b'', ''2'')]"
    by (simp add: test_lua_def TestHttpContext_getHeaderMapPairs_def)
  show "Header_GetAtIndex absl_ref ?L \<lparr>map_type = RequestHeaders, is_passed_on = True\<rparr> ''b'' 0 ?h = Inr (Some ''2'')"
    using header_values_by_index [OF absl_ref_spec, of ?L "\<lparr>map_type = RequestHeaders, is_passed_on = True\<rparr>" ?h _ "''b''" 0] data
    by (simp add: values_of_def same_key_def ascii_eval)
qed

text \<open>A script can replace the body of the callback in progress and read it back: afterwards the
  length and every range of the buffer are those of the new text.
\<close>

theorem body_set_then_get:
  assumes "absl_strings A" and "test_good c" and "b \<noteq> PluginConfiguration"
    and "TestHttpContext_getBuffer b c = Some old" and "length old < 2 ^ 32" and "length s < 2 ^ 32"
    and "i + n \<le> length s"
  shows "\<exists>c'. Buffer_SetBytes (test_sdk A) (test_lua A pt b64 names) b s c = (Inr (), c') \<and>
    Buffer_GetLength (test_lua A pt b64 names) b c' = Inr (length s) \<and>
    Buffer_GetBytes (test_lua A pt b64 names) b i n c' = Inr (take n (drop i s)) \<and>
    test_view c' = (test_view c)\<lparr>v_body := (v_body (test_view c))(b := Some s)\<rparr>"
proof -
  note host = test_lua_buffers [OF assms(1), of pt b64 names]
  let ?r = "Buffer_SetBytes (test_sdk A) (test_lua A pt b64 names) b s c"
  have "v_body (test_view c) b = Some old" using assms(4) by simp
  note set = lua_buffers.SetBytes_effect [OF host assms(2) this assms(3,5), of s]
  have "v_body (test_view (snd ?r)) b = Some s" by (simp only: set(3)) simp
  note get = lua_buffers.read_back [OF host set(2) this assms(6)]
  show ?thesis
    using set get(1) get(2) [OF assms(7)] by (intro exI [of _ "snd ?r"]) (metis prod.collapse)
qed

theorem body_set_then_get_witness:
  "\<exists>c'. Buffer_SetBytes (test_sdk absl_ref) (test_lua absl_ref (\<lambda>_. None) Some (\<lambda>_. [])) HttpRequestBody ''hello''
      ((new_stream Info None 0 [] [])\<lparr>current_callback := CbRequestBody, body_buffer := ''abc''\<rparr>) = (Inr (), c') \<and>
    Buffer_GetBytes (test_lua absl_ref (\<lambda>_. None) Some (\<lambda>_. [])) HttpRequestBody 1 3 c' = Inr ''ell''"
proof -
  let ?c = "(new_stream Info None 0 [] [])\<lparr>current_callback := CbRequestBody, body_buffer := ''abc''\<rparr>"
  have "test_good ?c" by (simp add: test_good_def new_stream_def empty_Result_def)
  moreover have "TestHttpContext_getBuffer HttpRequestBody ?c = Some ''abc''"
    by (simp add: TestHttpContext_getBuffer_def)
  ultimately show ?thesis
    using body_set_then_get [OF absl_ref_spec, of ?c HttpRequestBody "''abc''" "''hello''" 1 3 "\<lambda>_. None" Some "\<lambda>_. []"]
    by auto
qed

text \<open>C32: The guard against changing headers that have been passed on does not cover the header object a
  script gets when it asks for the headers at its start. A script that keeps this object, waits for a
  piece of the body and then replaces a header reaches the host with the change, although the request
  headers were passed on before; the same call on an object made by \<^verbatim>\<open>Handle::GetHeaders\<close> is refused
  and leaves the host alone.
\<close>

theorem late_header_change_unguarded:
  assumes fn: "is_function V ''envoy_on_request'' m" and push: "\<forall>x y. push_error V x y = None"
    and 1: "step V LuaHandle (enter V (LuaFunction ''envoy_on_request'') m) = (CallHeaders True, m1)"
    and 2: "step V (LuaHeader RequestHeaders False) m1 = (NextChunk True, m2)"
    and 3: "step V (LuaBuffer HttpRequestBody) m2 = (script_replace S L RequestHeaders False k v, m3)"
    and 4: "\<forall>x. step V x m3 = (Finish, m4)"
  shows "\<exists>c th x2.
    lua_onRequestHeaders ToString V S False (\<lparr>request_side = Some (new_coroutine kRequest, NewThread m), response_side = d\<rparr>, h)
      = Some (Continue, \<lparr>request_side = Some (c, th), response_side = d\<rparr>, h) \<and>
    headers_passed_on c \<and>
    lua_onRequestBody V S n True (\<lparr>request_side = Some (c, th), response_side = d\<rparr>, h')
      = Some (DataContinue, x2, snd (replaceHeaderMapValue S RequestHeaders k v h')) \<and>
    Header_Replace S L \<lparr>map_type = RequestHeaders, is_passed_on = True\<rparr> (headers_passed_on c) k v h' = (Inl frozen_error, h')"
proof -
  let ?start = "(new_coroutine kRequest)\<lparr>co_state := kYielded, yield_reason := kWaitForHeaders\<rparr>"
  let ?c = "(new_coroutine kRequest)\<lparr>co_state := kYielded, yield_reason := kWaitForBodyChunks, received_headers := True\<rparr>"
  let ?th = "\<lambda>m. \<lparr>machine = m, stack = [], yielded = True, is_finished = False, is_running = False\<rparr>"
  note defs = accessor_defs push_and_resume_def Coroutine_Resume_def Thread_Resume_def Let_def finish_event_def
    header_type_def body_type_def MarkHeadersPassedOn_def
  have "lua_run V LuaHandle (enter V (LuaFunction ''envoy_on_request'') m) (new_coroutine kRequest) h =
      Some (RYield 0, m1, ?start, h)"
    by (rule lua_run_Stop [OF 1]) (simp add: accessor_defs)
  then have start: "Coroutine_Start V (new_coroutine kRequest, NewThread m, h) = Some (Inr kYielded, ?start, ?th m1, h)"
    using Coroutine_Start_new [of V kRequest m h] fn push by (simp add: accessor_defs)
  have run2: "lua_run V (LuaHeader RequestHeaders False) m1 c h = Some (RYield 0, m2, Coroutine_Yield kWaitForBodyChunks c, h)" for c
    by (rule lua_run_Stop [OF 2]) (simp add: accessor_defs)
  have headers: "HandleHeaders V False (?start, ?th m1, h) = Some (Inr kYielded, ?c, ?th m2, h)"
    using push by (simp add: HandleHeaders_def run2 defs)
  have run3: "lua_run V (LuaBuffer HttpRequestBody) m2 c h' = Some (RFinished, m4, c, snd (replaceHeaderMapValue S RequestHeaders k v h'))" for c
  proof -
    obtain x where "react (script_replace S L RequestHeaders False k v) c h' =
        (Go x, c, snd (replaceHeaderMapValue S RequestHeaders k v h'))"
      by (simp add: script_replace_def react_def to_lua_def Header_Replace_def frozen_def split_beta)
    note go = lua_run_Go [OF 3 this]
    have "lua_run V x m3 c g = Some (RFinished, m4, c, g)" for g
      by (rule lua_run_Stop [OF 4 [rule_format]]) (simp add: react_def)
    with go show ?thesis by simp
  qed
  have body: "\<exists>c'. HandleBody V n True (?c\<lparr>headers_passed_on := True\<rparr>, ?th m2, h') =
      Some (Inr kExited, c', \<lparr>machine = m4, stack = [], yielded = False, is_finished = True, is_running = False\<rparr>,
        snd (replaceHeaderMapValue S RequestHeaders k v h')) \<and> yield_reason c' = kNone"
    using push by (simp add: HandleBody_def run3 RunToCompletion.simps [of V] defs)
  have "lua_onRequestHeaders ToString V S False (\<lparr>request_side = Some (new_coroutine kRequest, NewThread m), response_side = d\<rparr>, h)
      = Some (Continue, \<lparr>request_side = Some (?c\<lparr>headers_passed_on := True\<rparr>, ?th m2), response_side = d\<rparr>, h)"
    using start headers
    by (simp add: lua_onRequestHeaders_def start_and_handle_def HandleHeadersEvent_def MarkHeadersPassedOn_def)
  moreover have "\<exists>x2. lua_onRequestBody V S n True (\<lparr>request_side = Some (?c\<lparr>headers_passed_on := True\<rparr>, ?th m2), response_side = d\<rparr>, h')
      = Some (DataContinue, x2, snd (replaceHeaderMapValue S RequestHeaders k v h'))"
    using body by (auto simp: lua_onRequestBody_def HandleBodyEvent_def)
  ultimately show ?thesis
    by (intro exI [of _ "?c\<lparr>headers_passed_on := True\<rparr>"] exI [of _ "?th m2"])
       (auto simp: Header_Replace_def frozen_def)
qed

theorem late_header_change_unguarded_witness:
  "\<exists>c th x2.
    lua_onRequestHeaders snd (scripted [''envoy_on_request'']) (test_sdk absl_ref) False
        (\<lparr>request_side = Some (new_coroutine kRequest, NewThread [CallHeaders True, NextChunk True,
            script_replace (test_sdk absl_ref) (test_lua absl_ref (\<lambda>_. None) Some (\<lambda>_. [])) RequestHeaders False ''x'' ''y'']),
          response_side = None\<rparr>, new_stream Info None 0 [] [])
      = Some (Continue, \<lparr>request_side = Some (c, th), response_side = None\<rparr>, new_stream Info None 0 [] []) \<and>
    headers_passed_on c \<and>
    lua_onRequestBody (scripted [''envoy_on_request'']) (test_sdk absl_ref) 4 True
        (\<lparr>request_side = Some (c, th), response_side = None\<rparr>, new_stream Info None 0 [] [])
      = Some (DataContinue, x2, snd (replaceHeaderMapValue (test_sdk absl_ref) RequestHeaders ''x'' ''y'' (new_stream Info None 0 [] []))) \<and>
    Header_Replace (test_sdk absl_ref) (test_lua absl_ref (\<lambda>_. None) Some (\<lambda>_. [])) \<lparr>map_type = RequestHeaders, is_passed_on = True\<rparr>
      (headers_passed_on c) ''x'' ''y'' (new_stream Info None 0 [] []) = (Inl frozen_error, new_stream Info None 0 [] [])"
  by (rule late_header_change_unguarded [where ?m1.0 = "[NextChunk True,
        script_replace (test_sdk absl_ref) (test_lua absl_ref (\<lambda>_. None) Some (\<lambda>_. [])) RequestHeaders False ''x'' ''y'']"
      and ?m2.0 = "[script_replace (test_sdk absl_ref) (test_lua absl_ref (\<lambda>_. None) Some (\<lambda>_. [])) RequestHeaders False ''x'' ''y'']"
      and ?m3.0 = "[]" and ?m4.0 = "[]"]) simp_all

end
