(* ===== verification/Lua_State.thy ===== *)
theory Lua_State
  imports Lua_Api
begin

text \<open>
  The root state of the Lua plugin (\<^verbatim>\<open>plugins/samples/lua/lua_state.cc\<close>, \<^verbatim>\<open>lua_state.h\<close>): opening the
  libraries, the script that takes dangerous functions away, and the registration of the classes of
  the API with the two pieces of Lua text that come with it (\<^verbatim>\<open>envoy_lua_api_registration.cc\<close>,
  \<^verbatim>\<open>envoy_lua_api_shims.h\<close>). The Lua texts are part of the program and are translated statement by
  statement; opening a library and the bodies of library functions belong to Lua and are arguments.
  The properties: what a script can reach, how long a string it can build at once, and in which form
  it sees the results of the API.
\<close>

section \<open>The global environment\<close>

text \<open>
  What a global name or a field of a library table can hold, as far as the plugin is concerned: a
  function or table of a library, a C function, a closure of the host (its place in the list that
  keeps it alive), a function written in Lua, or a class of LuaBridge.
\<close>

datatype lua_object = LibFunction string | LibTable string | CFunction string | HostClosure nat
  | ScriptFunction string | ClassTable string

record lua_env =
  global :: "string \<Rightarrow> lua_object option"
  field :: "string \<Rightarrow> string \<Rightarrow> lua_object option"
  closure_count :: nat
  unwrapped :: "string list"

definition luaL_newstate :: lua_env where
  "luaL_newstate = \<lparr>global = (\<lambda>_. None), field = (\<lambda>_ _. None), closure_count = 0, unwrapped = []\<rparr>"

definition lua_setglobal :: "string \<Rightarrow> lua_object option \<Rightarrow> lua_env \<Rightarrow> lua_env" where
  "lua_setglobal name v E = E\<lparr>global := (global E)(name := v)\<rparr>"

definition lua_setfield :: "string \<Rightarrow> string \<Rightarrow> lua_object option \<Rightarrow> lua_env \<Rightarrow> lua_env" where
  "lua_setfield t name v E = E\<lparr>field := (field E)(t := (field E t)(name := v))\<rparr>"

text \<open>Errors of the interpreter while it runs one of the texts.\<close>

definition index_nil :: "string \<Rightarrow> string" where
  "index_nil name = ''attempt to index a nil value (global '' @ name @ '')''"

definition call_nil :: "string \<Rightarrow> string" where
  "call_nil name = ''attempt to call a nil value (global '' @ name @ '')''"

section \<open>Functions of the host\<close>

text \<open>
  \<^verbatim>\<open>RegisterFunction\<close> with a C function sets a global; with a closure of the host it also keeps the
  closure for the life of the state.
\<close>

definition RegisterFunction :: "string \<Rightarrow> string \<Rightarrow> lua_env \<Rightarrow> lua_env" where
  "RegisterFunction name func E = lua_setglobal name (Some (CFunction func)) E"

definition RegisterFunction_closure :: "string \<Rightarrow> lua_env \<Rightarrow> lua_env" where
  "RegisterFunction_closure name E =
     lua_setglobal name (Some (HostClosure (closure_count E))) (E\<lparr>closure_count := closure_count E + 1\<rparr>)"

text \<open>\<^verbatim>\<open>ScopedGlobalFunction\<close>: the global exists while the block runs and is removed on every way out.\<close>

definition ScopedGlobalFunction :: "string \<Rightarrow> string \<Rightarrow> (lua_env \<Rightarrow> Status option \<times> lua_env) \<Rightarrow> lua_env \<Rightarrow> Status option \<times> lua_env" where
  "ScopedGlobalFunction name func block E =
     (let (r, E') = block (RegisterFunction name func E) in (r, lua_setglobal name None E'))"

text \<open>The error object of the machine is on top of its stack, if there is one.\<close>

definition LuaErrorToStatus :: "lua_value list \<Rightarrow> Status" where
  "LuaErrorToStatus st =
     (if st = [] then (kInternal, ''Unknown Lua error (empty stack)'')
      else case last st of LuaError e \<Rightarrow> (kInternal, e) | _ \<Rightarrow> (kInternal, ''Unknown Lua error''))"

definition ReadAndPopLuaError :: "lua_value list \<Rightarrow> Status \<times> lua_value list" where
  "ReadAndPopLuaError st =
     (if st = [] then ((kInternal, ''Unknown Lua error (empty stack)''), st) else (LuaErrorToStatus st, butlast st))"

text \<open>A text that the state executes: its error becomes a status.\<close>

definition executed :: "string option \<times> lua_env \<Rightarrow> Status option \<times> lua_env" where
  "executed r = (case r of (None, E) \<Rightarrow> (None, E) | (Some e, E) \<Rightarrow> (Some (fst (ReadAndPopLuaError [LuaError e])), E))"

text \<open>\<^verbatim>\<open>RETURN_IF_ERROR\<close> between two steps.\<close>

definition and_if_ok :: "(lua_env \<Rightarrow> Status option \<times> lua_env) \<Rightarrow> (lua_env \<Rightarrow> Status option \<times> lua_env)
    \<Rightarrow> lua_env \<Rightarrow> Status option \<times> lua_env" where
  "and_if_ok f g E = (case f E of (None, E') \<Rightarrow> g E' | (Some e, E') \<Rightarrow> (Some e, E'))"

section \<open>Lua texts\<close>

text \<open>
  The text in \<^verbatim>\<open>LuaState::Create\<close>: \<^verbatim>\<open>string.rep\<close> is replaced by a function that limits the length of the
  result, and the functions that compile source text are removed.
\<close>

definition restrict_libraries :: "lua_env \<Rightarrow> string option \<times> lua_env" where
  "restrict_libraries E = (case global E ''string'' of
      Some (LibTable t) \<Rightarrow>
        (None, lua_setglobal ''dofile'' None (lua_setglobal ''loadfile'' None (lua_setglobal ''loadstring'' None
           (lua_setglobal ''load'' None (lua_setfield t ''rep'' (Some (ScriptFunction ''rep'')) E)))))
    | _ \<Rightarrow> (Some (index_nil ''string''), E))"

text \<open>\<^verbatim>\<open>kLua51CompatShims\<close>: names of older versions of Lua, added where they are missing.\<close>

definition add_field :: "string \<Rightarrow> string \<Rightarrow> lua_object option \<Rightarrow> lua_env \<Rightarrow> lua_env" where
  "add_field t name v E = (if field E t name = None then lua_setfield t name v E else E)"

definition table_shims :: "lua_env \<Rightarrow> string option \<times> lua_env" where
  "table_shims E = (case global E ''table'' of
      Some (LibTable t) \<Rightarrow>
        if global E ''_G'' = None then (Some (index_nil ''_G''), E)
        else (None, add_field t ''getn'' (Some (ScriptFunction ''getn''))
               (add_field t ''maxn'' (Some (ScriptFunction ''maxn''))
                 (lua_setglobal ''unpack'' (field E t ''unpack'') E)))
    | _ \<Rightarrow> (None, E))"

definition math_shims :: "lua_env \<Rightarrow> string option \<times> lua_env" where
  "math_shims E = (case global E ''math'' of
      Some (LibTable t) \<Rightarrow>
        (None, add_field t ''mod'' (field E t ''fmod'')
           (add_field t ''log10'' (Some (ScriptFunction ''log10''))
             (add_field t ''pow'' (Some (ScriptFunction ''pow'')) E)))
    | _ \<Rightarrow> (None, E))"

definition compat_shims :: "lua_env \<Rightarrow> string option \<times> lua_env" where
  "compat_shims E = (case table_shims E of (None, E') \<Rightarrow> math_shims E' | (Some e, E') \<Rightarrow> (Some e, E'))"

text \<open>
  \<^verbatim>\<open>kStatusUnwrapperFunctionShim\<close> defines the global function \<^verbatim>\<open>attach_status_unwrapper\<close>; called with the
  name of a class it replaces the way methods of the class are looked up. A class that does not
  exist is left alone.
\<close>

definition define_unwrapper :: "lua_env \<Rightarrow> string option \<times> lua_env" where
  "define_unwrapper E = (None, lua_setglobal ''attach_status_unwrapper'' (Some (ScriptFunction ''attach_status_unwrapper'')) E)"

definition attach_status_unwrapper :: "string \<Rightarrow> lua_env \<Rightarrow> string option \<times> lua_env" where
  "attach_status_unwrapper class_name E =
     (if global E ''attach_status_unwrapper'' = None then (Some (call_nil ''attach_status_unwrapper''), E)
      else if global E ''_G'' = None then (Some (index_nil ''_G''), E)
      else case global E class_name of
             None \<Rightarrow> (None, E)
           | Some _ \<Rightarrow>
               if global E ''__raw_getmetatable'' = None \<and> global E ''getmetatable'' = None
               then (Some (call_nil ''getter''), E)
               else if global E ''type'' = None then (Some (call_nil ''type''), E)
               else if global E ''pairs'' = None then (Some (call_nil ''pairs''), E)
               else (None, E\<lparr>unwrapped := class_name # unwrapped E\<rparr>))"

section \<open>The classes of the API\<close>

text \<open>
  Each class with its methods, and whether the C++ function behind a method returns a status or a
  value with a status (as opposed to nothing).
\<close>

definition log_methods :: "(string \<times> bool) list" where
  "log_methods = [(''logTrace'', False), (''logDebug'', False), (''logInfo'', False), (''logWarn'', False),
     (''logErr'', False), (''logCritical'', False)]"

definition status_methods :: "string list \<Rightarrow> (string \<times> bool) list" where
  "status_methods = map (\<lambda>n. (n, True))"

definition Header_methods :: "(string \<times> bool) list" where
  "Header_methods = status_methods [''add'', ''remove'', ''replace'', ''setHttp1ReasonPhrase'', ''get'', ''getAtIndex'',
     ''getNumValues'', ''get_pairs''] @ [(''__pairs'', False)]"

definition SslConnection_methods :: "(string \<times> bool) list" where
  "SslConnection_methods = status_methods [''peerCertificatePresented'', ''peerCertificateValidated'', ''uriSanLocalCertificate'',
     ''sha256PeerCertificateDigest'', ''serialNumberPeerCertificate'', ''issuerPeerCertificate'',
     ''sha256PeerCertificateIssuerDigest'', ''serialNumberPeerCertificateIssuer'', ''subjectPeerCertificate'',
     ''parsedSubjectPeerCertificate'', ''uriSanPeerCertificate'', ''subjectLocalCertificate'',
     ''urlEncodedPemEncodedPeerCertificate'', ''urlEncodedPemEncodedPeerCertificateChain'', ''dnsSansPeerCertificate'',
     ''dnsSansLocalCertificate'', ''oidsPeerCertificate'', ''oidsLocalCertificate'', ''validFromPeerCertificate'',
     ''expirationPeerCertificate'', ''sessionId'', ''ciphersuiteId'', ''ciphersuiteString'', ''tlsVersion''] @ log_methods"

definition envoy_classes :: "(string \<times> (string \<times> bool) list) list" where
  "envoy_classes =
     [(''Header'', Header_methods),
      (''ParsedName'', status_methods [''commonName'', ''organizationName'']),
      (''SslConnection'', SslConnection_methods),
      (''StreamInfo'', status_methods [''downstreamSslConnection''] @ log_methods),
      (''Connection'', status_methods [''ssl''] @ log_methods),
      (''Buffer'', status_methods [''length'', ''getBytes'', ''setBytes''] @ log_methods),
      (''Counter'', status_methods [''inc'', ''add'', ''value'']),
      (''Gauge'', status_methods [''inc'', ''dec'', ''add'', ''sub'', ''set'', ''value'']),
      (''Histogram'', status_methods [''recordValue'']),
      (''Handle'', status_methods [''streamInfo'', ''connection''] @ log_methods)]"

text \<open>The accessors that may suspend the script, added to the class of the handle as C functions.\<close>

definition native_accessors :: "string list" where
  "native_accessors = [''body'', ''headers'', ''trailers'', ''bodyChunks'']"

definition InjectNativeYieldAccessors :: "lua_env \<Rightarrow> Status option \<times> lua_env" where
  "InjectNativeYieldAccessors E =
     (if global E ''Handle'' \<noteq> Some (ClassTable ''Handle'')
      then (Some (kInternal, ''Failed to get metatable for Handle in LuaBridge''), E)
      else (None, fold (\<lambda>n. lua_setfield ''Handle'' n (Some (CFunction n))) native_accessors E))"

definition status_classes :: "string list" where
  "status_classes = ''absl_Status'' # map (\<lambda>n. ''StatusOr_'' @ n)
     [''BodyIterator'', ''bool'', ''Buffer'', ''Connection'', ''ConnectionStreamInfo'', ''Counter'', ''DynamicMetadata'',
      ''ExecutionState'', ''FilterState'', ''Gauge'', ''Header'', ''Histogram'', ''HttpCallResult'', ''int'', ''int64_t'',
      ''Metadata'', ''PublicKey'', ''Route'', ''size_t'', ''StatsScope'', ''string'', ''StreamInfo'', ''uint64_t'',
      ''VerifySignatureResult'', ''VirtualHost'', ''flat_hash_map_string_string'', ''optional_ParsedName'',
      ''optional_SslConnection'', ''optional_string'', ''vector_pair_string_string'', ''vector_string'']"

definition register_class :: "string \<Rightarrow> lua_env \<Rightarrow> lua_env" where
  "register_class name E = lua_setglobal name (Some (ClassTable name)) E"

definition unwrapper_classes :: "string list" where
  "unwrapper_classes = [''Handle'', ''StreamInfo'', ''Connection'', ''ConnectionStreamInfo'', ''Buffer'', ''VirtualHost'',
     ''Route'', ''Counter'', ''Gauge'', ''Histogram'', ''StatsScope'', ''Header'']"

fun attach_all :: "string list \<Rightarrow> lua_env \<Rightarrow> Status option \<times> lua_env" where
  "attach_all [] E = (None, E)"
| "attach_all (cls # classes) E = and_if_ok (executed \<circ> attach_status_unwrapper cls) (attach_all classes) E"

definition RegisterEnvoyApi :: "lua_env \<Rightarrow> Status option \<times> lua_env" where
  "RegisterEnvoyApi E =
     (let E1 = fold register_class (map fst envoy_classes @ status_classes) E
      in and_if_ok InjectNativeYieldAccessors
          (and_if_ok (executed \<circ> compat_shims)
            (ScopedGlobalFunction ''__raw_getmetatable'' ''lua_getmetatable''
              (and_if_ok (executed \<circ> define_unwrapper) (attach_all unwrapper_classes)))) E1)"

section \<open>Creating the state\<close>

text \<open>
  \<open>luaL_requiref\<close> opens a library by name and may fail with an error of Lua. \<open>alloc\<close> tells whether the
  state could be allocated.
\<close>

definition kLuaLibs :: "string list" where
  "kLuaLibs = ['''', ''coroutine'', ''table'', ''string'', ''math'']"

fun open_libraries :: "(string \<Rightarrow> lua_env \<Rightarrow> string option \<times> lua_env) \<Rightarrow> string list \<Rightarrow> lua_env \<Rightarrow> Status option \<times> lua_env" where
  "open_libraries luaL_requiref [] E = (None, E)"
| "open_libraries luaL_requiref (lib # libs) E = (case luaL_requiref lib E of
      (None, E') \<Rightarrow> open_libraries luaL_requiref libs E'
    | (Some e, E') \<Rightarrow>
        let err = fst (ReadAndPopLuaError [LuaError e])
        in (Some (kInternal, ''Could not open library '' @ lib @ '': '' @ snd err), E'))"

definition LuaState_Create :: "bool \<Rightarrow> (string \<Rightarrow> lua_env \<Rightarrow> string option \<times> lua_env) \<Rightarrow> string list \<Rightarrow> Status + lua_env" where
  "LuaState_Create alloc luaL_requiref libs_to_load =
     (if \<not> alloc then Inl (kInternal, ''Could not create new lua state'')
      else case and_if_ok (open_libraries luaL_requiref (if libs_to_load = [] then kLuaLibs else libs_to_load))
                 (and_if_ok (executed \<circ> restrict_libraries) RegisterEnvoyApi) luaL_newstate of
             (None, E) \<Rightarrow> Inr E
           | (Some e, E) \<Rightarrow> Inl e)"

section \<open>Results of the API in a script\<close>

text \<open>
  A method gives a script a plain value, or a status, or a value with a status. The functions that
  \<^verbatim>\<open>RegisterStatusOr\<close> and the class \<^verbatim>\<open>absl_Status\<close> offer on the latter two:
\<close>

datatype 'v method_result = Plain 'v | StatusNode "Status option" | StatusOrNode "Status + 'v"

datatype 'v script_result = Returned "'v method_result" | ReturnedNil | Raised string

primrec is_status_node :: "'v method_result \<Rightarrow> bool" where
  "is_status_node (Plain v) = False"
| "is_status_node (StatusNode s) = True"
| "is_status_node (StatusOrNode s) = True"

primrec has_value :: "'v method_result \<Rightarrow> bool" where
  "has_value (Plain v) = False"
| "has_value (StatusNode s) = False"
| "has_value (StatusOrNode s) = (case s of Inl _ \<Rightarrow> False | Inr _ \<Rightarrow> True)"

primrec node_status :: "'v method_result \<Rightarrow> Status option" where
  "node_status (Plain v) = None"
| "node_status (StatusNode s) = s"
| "node_status (StatusOrNode s) = (case s of Inl e \<Rightarrow> Some e | Inr _ \<Rightarrow> None)"

definition node_ok :: "'v method_result \<Rightarrow> bool" where
  "node_ok r \<longleftrightarrow> node_status r = None"

definition node_message :: "'v method_result \<Rightarrow> string" where
  "node_message r = (case node_status r of None \<Rightarrow> [] | Some (code, msg) \<Rightarrow> msg)"

definition node_value :: "'v method_result \<Rightarrow> 'v script_result" where
  "node_value r = (case r of
      StatusOrNode (Inr v) \<Rightarrow> Returned (Plain v)
    | _ \<Rightarrow> Raised (''Attempt to get value() from an error absl::StatusOr: '' @ node_message r))"

text \<open>
  The function that the unwrapper puts around a method, applied to what the method returned.
  \<open>position\<close> is the place in the script that Lua adds to an error of the calling function.
\<close>

definition unwrap :: "string \<Rightarrow> 'v method_result \<Rightarrow> 'v script_result" where
  "unwrap position res =
     (if \<not> is_status_node res then Returned res
      else if \<not> node_ok res then Raised (position @ node_message res)
      else if has_value res then node_value res
      else ReturnedNil)"

definition call_method :: "lua_env \<Rightarrow> string \<Rightarrow> string \<Rightarrow> 'v method_result \<Rightarrow> 'v script_result" where
  "call_method E cls position res = (if cls \<in> set (unwrapped E) then unwrap position res else Returned res)"

section \<open>Log methods\<close>

text \<open>The log methods of every object of a script go to one logger.\<close>

definition Logger_log :: "'h sdk \<Rightarrow> string \<Rightarrow> string \<Rightarrow> 'h \<Rightarrow> 'h option" where
  "Logger_log S name msg h = map_option (\<lambda>l. log_msg S l msg h)
     (map_of [(''logTrace'', Trace), (''logDebug'', Debug), (''logInfo'', Info), (''logWarn'', Warn),
        (''logErr'', Error), (''logCritical'', Critical)] name)"

text \<open>Every registered log method is one of the logger, and none changes the message.\<close>

context wasm_host
begin

lemma log_methods_only_log:
  assumes "good h" and "(name, b) \<in> set log_methods"
  shows "\<exists>h'. Logger_log S name msg h = Some h' \<and> good h' \<and> logs_only (view h) (view h')"
  using assms by (auto simp: log_methods_def Logger_log_def)

end

section \<open>Iterating over headers\<close>

text \<open>
  \<^verbatim>\<open>pairs(headers)\<close> in a script: the method \<^verbatim>\<open>__pairs\<close> of a header object hands the pairs to Lua, which
  LuaBridge does (\<open>push\<close>: an error, or an object that can be indexed by integers), and returns a closure
  over that object and an index that starts at 0. Each call of the closure advances the index and
  returns the entry there, or nothing.
\<close>

definition Header_pairs :: "'h lua_host \<Rightarrow> (Status + header list \<Rightarrow> string + (int \<Rightarrow> header option)) \<Rightarrow> Header \<Rightarrow> 'h
    \<Rightarrow> string + (int \<Rightarrow> header option) \<times> int" where
  "Header_pairs L push hdr h = (case push (Header_GetPairs L hdr h) of
      Inl e \<Rightarrow> Inl (''Failed to push headers: '' @ e)
    | Inr object \<Rightarrow> Inr (object, 0))"

definition pairs_next :: "(int \<Rightarrow> header option) \<times> int \<Rightarrow> header option \<times> (int \<Rightarrow> header option) \<times> int" where
  "pairs_next = (\<lambda>(object, idx). (object (idx + 1), object, idx + 1))"

text \<open>The generic loop calls the closure until it returns nothing; the value is what the loop has seen.\<close>

partial_function (option) pairs_loop :: "(int \<Rightarrow> header option) \<times> int \<Rightarrow> header list option" where
  "pairs_loop c = (case pairs_next c of
      (None, c') \<Rightarrow> Some []
    | (Some kv, c') \<Rightarrow> Option.bind (pairs_loop c') (\<lambda>seen. Some (kv # seen)))"

text \<open>A Lua sequence: indices start at 1.\<close>

definition sequence :: "header list \<Rightarrow> int \<Rightarrow> header option" where
  "sequence ps i = (if 1 \<le> i \<and> i \<le> int (length ps) then Some (ps ! nat (i - 1)) else None)"

lemma pairs_loop_sequence: "i \<le> length ps \<Longrightarrow> pairs_loop (sequence ps, int i) = Some (drop i ps)"
proof (induction "length ps - i" arbitrary: i)
  case 0
  then show ?case by (subst pairs_loop.simps) (simp add: pairs_next_def sequence_def)
next
  case (Suc n)
  then have "pairs_loop (sequence ps, int (Suc i)) = Some (drop (Suc i) ps)" by (intro Suc(1)) simp_all
  moreover have "pairs_next (sequence ps, int i) = (Some (ps ! i), sequence ps, int (Suc i))"
    using Suc(2) by (auto simp: pairs_next_def sequence_def nat_add_distrib)
  ultimately have "pairs_loop (sequence ps, int i) = Some (ps ! i # drop (Suc i) ps)"
    by (subst pairs_loop.simps) (simp del: of_nat_Suc)
  then show ?case using Suc(2) by (simp add: Cons_nth_drop_Suc)
qed

text \<open>
  The loop ends and visits every pair once, in the order of the headers, where LuaBridge hands a list over as a
  sequence.
\<close>

lemma header_pairs_loop:
  assumes "Header_GetPairs L hdr h = Inr ps" and "push (Inr ps) = Inr (sequence ps)"
  shows "\<exists>c. Header_pairs L push hdr h = Inr c \<and> pairs_loop c = Some ps"
  using assms pairs_loop_sequence [of 0 ps] by (simp add: Header_pairs_def)

section \<open>Calls of a function without a handle\<close>

text \<open>
  \<^verbatim>\<open>ExecuteFunction\<close> with no argument and with an integer. The form with a handle is the one the coroutine
  starts with.
\<close>

definition ExecuteFunction_plain :: "('m, 'h) lua_vm \<Rightarrow> string \<Rightarrow> ('m, 'h) stream_state
    \<Rightarrow> ((Status + ExecutionState) \<times> ('m, 'h) stream_state) option" where
  "ExecuteFunction_plain V func_name = (\<lambda>(c, th, h).
     case CanExecuteFunction th of
       Some e \<Rightarrow> Some (Inl e, c, th, h)
     | None \<Rightarrow>
         if \<not> is_function V func_name (machine th)
         then Some (Inl (kNotFound, ''could not find '' @ func_name @ '' as a global function''), c, th, h)
         else Thread_Resume V 0 (c, th\<lparr>stack := stack th @ [LuaFunction func_name]\<rparr>, h))"

definition ExecuteFunction_int :: "('m, 'h) lua_vm \<Rightarrow> string \<Rightarrow> 32 word \<Rightarrow> ('m, 'h) stream_state
    \<Rightarrow> ((Status + ExecutionState) \<times> ('m, 'h) stream_state) option" where
  "ExecuteFunction_int V func_name arg = ExecuteFunction V func_name (LuaInt (sint arg))"

lemma Thread_Resume_used:
  assumes "Thread_Resume V n (c, th, h) = Some (Inr st, c', th', h')"
  shows "CanExecuteFunction th' \<noteq> None"
  using assms
  by (auto simp: Thread_Resume_def CanExecuteFunction_def Let_def split: if_splits option.splits prod.splits resume_result.splits)

text \<open>
  A thread runs one function: once a call has returned or yielded, every further call on the thread is
  refused and changes nothing.
\<close>

lemma thread_runs_one_function:
  assumes "ExecuteFunction_plain V f (c, th, h) = Some (Inr st, c', th', h') \<or>
    ExecuteFunction V f a (c, th, h) = Some (Inr st, c', th', h')"
  shows "\<exists>e. ExecuteFunction_plain V g (c', th', h') = Some (Inl e, c', th', h') \<and>
    ExecuteFunction V g b (c', th', h') = Some (Inl e, c', th', h')"
proof -
  have "CanExecuteFunction th' \<noteq> None"
    using assms
    by (auto simp: ExecuteFunction_plain_def ExecuteFunction_def ExecuteFunctionImpl_def
        split: if_splits option.splits dest: Thread_Resume_used)
  then show ?thesis by (auto simp: ExecuteFunction_plain_def ExecuteFunction_def)
qed

section \<open>Compatibility functions\<close>

text \<open>\<^verbatim>\<open>table.maxn\<close> of the compatibility text, on the keys of a table in the order \<^verbatim>\<open>pairs\<close> gives them.\<close>

datatype 'n lua_key = NumberKey 'n | OtherKey string

definition maxn :: "'n :: {zero, linorder} lua_key list \<Rightarrow> 'n" where
  "maxn ks = fold (\<lambda>k m. case k of NumberKey n \<Rightarrow> if n > m then n else m | OtherKey _ \<Rightarrow> m) ks 0"

lemma finite_number_keys: "finite {n. NumberKey n \<in> set ks}"
proof (induction ks)
  case (Cons k ks)
  have "{n. NumberKey n \<in> set (k # ks)} \<subseteq> {n. k = NumberKey n} \<union> {n. NumberKey n \<in> set ks}" by auto
  moreover have "finite {n. k = NumberKey n}" by (cases k) auto
  ultimately show ?case using Cons by (meson finite_UnI finite_subset)
qed simp

lemma maxn_loop:
  "fold (\<lambda>k m. case k of NumberKey n \<Rightarrow> if n > m then n else m | OtherKey _ \<Rightarrow> m) ks m =
     Max (insert m {n. NumberKey n \<in> set ks})"
proof (induction ks arbitrary: m)
  case (Cons k ks)
  show ?case
  proof (cases k)
    case (NumberKey n)
    have "{x. NumberKey x \<in> set (k # ks)} = insert n {x. NumberKey x \<in> set ks}" using NumberKey by auto
    then have "Max (insert m {x. NumberKey x \<in> set (k # ks)}) = Max (insert (max m n) {x. NumberKey x \<in> set ks})"
      using finite_number_keys [of ks] by (cases "{x. NumberKey x \<in> set ks} = {}") (simp_all add: max.assoc)
    then show ?thesis using NumberKey by (simp add: Cons.IH max_def not_less)
  qed (simp add: Cons.IH)
qed simp

text \<open>It is the largest numeric key, or zero, whatever the order.\<close>

lemma maxn_Max: "maxn ks = Max (insert 0 {n. NumberKey n \<in> set ks})"
  by (simp add: maxn_def maxn_loop)

section \<open>The limit on repeated strings\<close>

text \<open>
  The function that replaces \<^verbatim>\<open>string.rep\<close>, for an integer count. The product is one of Lua integers, which have 64 bits and
  wrap around; \<open>orig_rep\<close> is the function of the library.
\<close>

definition string_rep :: "(string \<Rightarrow> 64 word \<Rightarrow> string + string) \<Rightarrow> string \<Rightarrow> 64 word \<Rightarrow> string + string" where
  "string_rep orig_rep s n =
     (if sint (of_nat (length s) * n) > 65536 then Inl ''string.rep: size limit exceeded (max 64KB)''
      else orig_rep s n)"

lemma sint_product:
  assumes "- (2 ^ 63) \<le> int k * sint n" and "int k * sint n < 2 ^ 63"
  shows "sint (of_nat k * n :: 64 word) = int k * sint n"
proof -
  have "of_nat k * n = (word_of_int (int k * sint n) :: 64 word)" by simp
  then have "sint (of_nat k * n) = signed_take_bit (LENGTH(64) - 1) (int k * sint n)"
    by (simp only: sint_sbintrunc')
  also have "\<dots> = int k * sint n" using assms by (intro signed_take_bit_int_eq_self) simp_all
  finally show ?thesis .
qed

text \<open>
  What the manual says of the library function: the concatenation of \<open>n\<close> copies. A string that does not
  fit the machine is an error.
\<close>

locale rep_function =
  fixes orig_rep :: "string \<Rightarrow> 64 word \<Rightarrow> string + string"
  assumes copies: "orig_rep s n = Inr t \<Longrightarrow> t = concat (replicate (nat (sint n)) s) \<and> length t < 2 ^ 63"
    and small: "int (length s) * sint n \<le> 65536 \<Longrightarrow> \<exists>t. orig_rep s n = Inr t"
begin

lemma length_copies: "length (concat (replicate (nat (sint n)) s)) = nat (sint n) * length s"
  by (simp add: length_concat sum_list_replicate)

lemma rep_bounded:
  assumes "length s < 2 ^ 63" and r: "string_rep orig_rep s n = Inr t"
  shows "length t \<le> 65536"
proof (rule ccontr)
  let ?P = "int (length s) * sint n"
  assume "\<not> length t \<le> 65536"
  moreover have t: "t = concat (replicate (nat (sint n)) s)" "length t < 2 ^ 63"
    using r copies by (auto simp: string_rep_def split: if_splits)
  ultimately have big: "65536 < nat (sint n) * length s" and small: "nat (sint n) * length s < 2 ^ 63"
    by (simp_all add: length_copies)
  then have pos: "0 < sint n" by (cases "0 < sint n") auto
  then have P: "?P = int (nat (sint n) * length s)" by (simp add: mult.commute)
  have "int (nat (sint n) * length s) < int (2 ^ 63)" using small by (simp only: of_nat_less_iff)
  then have "?P < 2 ^ 63" unfolding P by simp
  moreover have "0 \<le> ?P" unfolding P by simp
  ultimately have "sint (of_nat (length s) * n) = ?P" by (intro sint_product) auto
  moreover have "65536 < ?P" unfolding P using big by linarith
  ultimately show False using r by (simp add: string_rep_def)
qed

lemma rep_exact:
  assumes "length s < 2 ^ 63" and pos: "0 \<le> sint n"
  shows "(\<exists>t. string_rep orig_rep s n = Inr t) \<longleftrightarrow> int (length s) * sint n \<le> 65536"
proof
  assume "\<exists>t. string_rep orig_rep s n = Inr t"
  then obtain t where t: "string_rep orig_rep s n = Inr t" by blast
  then have "orig_rep s n = Inr t" by (auto simp: string_rep_def split: if_splits)
  then have "length t = nat (sint n) * length s" using copies length_copies by blast
  with rep_bounded [OF assms(1) t] have "nat (sint n) * length s \<le> 65536" by simp
  then have "int (nat (sint n) * length s) \<le> 65536" by linarith
  then show "int (length s) * sint n \<le> 65536" using pos by (simp add: mult.commute)
next
  let ?P = "int (length s) * sint n"
  assume le: "?P \<le> 65536"
  have "0 \<le> ?P" using pos by simp
  with le have "sint (of_nat (length s) * n) = ?P" by (intro sint_product) auto
  then show "\<exists>t. string_rep orig_rep s n = Inr t" using le small by (simp add: string_rep_def)
qed

end

text \<open>A library function that refuses what does not fit.\<close>

definition plain_rep :: "string \<Rightarrow> 64 word \<Rightarrow> string + string" where
  "plain_rep s n = (if int (length s) * sint n < 2 ^ 63 then Inr (concat (replicate (nat (sint n)) s))
     else Inl ''resulting string too large'')"

interpretation plain_rep: rep_function plain_rep
proof
  fix s n t
  assume "plain_rep s n = Inr t"
  then have lt: "int (length s) * sint n < 2 ^ 63" and t: "t = concat (replicate (nat (sint n)) s)"
    by (auto simp: plain_rep_def split: if_splits)
  have "int (length t) = int (length s) * int (nat (sint n))"
    unfolding t by (simp add: length_concat sum_list_replicate)
  also have "\<dots> < 2 ^ 63" using lt by (cases "0 \<le> sint n") auto
  finally have "int (length t) < int (2 ^ 63)" by simp
  then have "length t < 2 ^ 63" by (simp only: of_nat_less_iff)
  with t show "t = concat (replicate (nat (sint n)) s) \<and> length t < 2 ^ 63" ..
next
  show "\<exists>t. plain_rep s n = Inr t" if "int (length s) * sint n \<le> 65536" for s n
    using that by (auto simp: plain_rep_def)
qed

section \<open>What a script can reach\<close>

text \<open>The global names that the base library defines by the manuals of Lua 5.1 to 5.4.\<close>

definition base_names :: "string list" where
  "base_names = [''_G'', ''_VERSION'', ''assert'', ''collectgarbage'', ''dofile'', ''error'', ''getmetatable'', ''ipairs'', ''load'',
     ''loadfile'', ''loadstring'', ''next'', ''pairs'', ''pcall'', ''print'', ''rawequal'', ''rawget'', ''rawlen'', ''rawset'',
     ''select'', ''setmetatable'', ''tonumber'', ''tostring'', ''type'', ''unpack'', ''warn'', ''xpcall'']"

definition library_names :: "string \<Rightarrow> string list" where
  "library_names lib = (if lib = [] then [] # base_names else [lib])"

text \<open>Opening a library defines its own names only.\<close>

locale lua_libraries =
  fixes luaL_requiref :: "string \<Rightarrow> lua_env \<Rightarrow> string option \<times> lua_env"
  assumes own_names: "n \<notin> set (library_names lib) \<Longrightarrow> global (snd (luaL_requiref lib E)) n = global E n"
    and no_wrapping: "unwrapped (snd (luaL_requiref lib E)) = unwrapped E"

lemma global_set [simp]: "global (lua_setglobal name v E) n = (if n = name then v else global E n)"
  by (simp add: lua_setglobal_def)

lemma global_setfield [simp]: "global (lua_setfield t name v E) = global E"
  by (simp add: lua_setfield_def)

lemma global_add_field [simp]: "global (add_field t name v E) = global E"
  by (simp add: add_field_def)

lemma unwrapped_set [simp]:
  "unwrapped (lua_setglobal name v E) = unwrapped E" "unwrapped (lua_setfield t name v E) = unwrapped E"
  "unwrapped (add_field t name v E) = unwrapped E"
  by (simp_all add: lua_setglobal_def lua_setfield_def add_field_def)

text \<open>A sequence of steps succeeds if each of them does.\<close>

lemma and_if_ok_None: "and_if_ok a b E = (None, E'') \<longleftrightarrow> (\<exists>E'. a E = (None, E') \<and> b E' = (None, E''))"
  by (auto simp: and_if_ok_def split: prod.splits option.splits)

lemma scoped_None:
  "ScopedGlobalFunction name func block E = (None, E') \<longleftrightarrow>
     (\<exists>E1. block (RegisterFunction name func E) = (None, E1) \<and> E' = lua_setglobal name None E1)"
  by (auto simp: ScopedGlobalFunction_def split: prod.splits)

lemma executed_None [simp]: "executed r = (None, E) \<longleftrightarrow> r = (None, E)"
  by (cases r) (auto simp: executed_def split: option.splits)

lemma global_fold_register:
  "global (fold register_class cs E) n = (if n \<in> set cs then Some (ClassTable n) else global E n)"
  by (induction cs arbitrary: E) (auto simp: register_class_def)

lemma unwrapped_fold_register [simp]: "unwrapped (fold register_class cs E) = unwrapped E"
  by (induction cs arbitrary: E) (auto simp: register_class_def)

lemma fold_setfield [simp]:
  "unwrapped (fold (\<lambda>n. lua_setfield t n (v n)) ns E) = unwrapped E"
  "global (fold (\<lambda>n. lua_setfield t n (v n)) ns E) = global E"
  by (induction ns arbitrary: E) auto

text \<open>What each step of the creation leaves of the globals and of the wrapped classes.\<close>

lemma restrict_libraries_effect:
  assumes "restrict_libraries E = (None, E')"
  shows "global E' n = (if n \<in> {''load'', ''loadstring'', ''loadfile'', ''dofile''} then None else global E n)"
    and "unwrapped E' = unwrapped E"
  using assms by (auto simp: restrict_libraries_def split: option.splits lua_object.splits)

lemma compat_shims_effect:
  assumes "compat_shims E = (None, E')"
  shows "n \<noteq> ''unpack'' \<Longrightarrow> global E' n = global E n" and "unwrapped E' = unwrapped E"
  using assms
  by (auto simp: compat_shims_def table_shims_def math_shims_def split: option.splits lua_object.splits if_splits)

lemma inject_effect:
  assumes "InjectNativeYieldAccessors E = (None, E')"
  shows "global E' = global E" and "unwrapped E' = unwrapped E"
  using assms by (auto simp: InjectNativeYieldAccessors_def split: if_splits)

lemma attach_effect:
  assumes "attach_status_unwrapper cls E = (None, E')"
  shows "global E' = global E" and "unwrapped E' = (if global E cls = None then unwrapped E else cls # unwrapped E)"
  using assms by (auto simp: attach_status_unwrapper_def split: option.splits if_splits)

lemma attach_all_effect:
  assumes "attach_all cs E = (None, E')"
  shows "global E' = global E" and "set (unwrapped E') = {c \<in> set cs. global E c \<noteq> None} \<union> set (unwrapped E)"
  using assms
proof (induction cs arbitrary: E)
  case (Cons c cs)
  case 1
  with Cons show ?case by (auto simp: and_if_ok_None dest: attach_effect)
  case 2
  then obtain E1 where "attach_status_unwrapper c E = (None, E1)" "attach_all cs E1 = (None, E')"
    by (auto simp: and_if_ok_None)
  with Cons.IH(2) [of E1] attach_effect [of c E E1] show ?case by auto
qed auto

lemma register_api_effect:
  assumes "RegisterEnvoyApi E = (None, E')"
  shows "global E' ''__raw_getmetatable'' = None"
    and "n \<notin> {''unpack'', ''attach_status_unwrapper'', ''__raw_getmetatable''} \<Longrightarrow>
      global E' n = (if n \<in> set (map fst envoy_classes @ status_classes) then Some (ClassTable n) else global E n)"
    and "set (unwrapped E') = {c \<in> set unwrapper_classes. c \<in> set (map fst envoy_classes) \<or> global E c \<noteq> None} \<union> set (unwrapped E)"
proof -
  let ?cs = "map fst envoy_classes @ status_classes"
  obtain E1 E2 E3 where 1: "InjectNativeYieldAccessors (fold register_class ?cs E) = (None, E1)"
    and 2: "compat_shims E1 = (None, E2)"
    and 3: "attach_all unwrapper_classes (snd (define_unwrapper (RegisterFunction ''__raw_getmetatable'' ''lua_getmetatable'' E2))) = (None, E3)"
    and E': "E' = lua_setglobal ''__raw_getmetatable'' None E3"
    using assms
    by (auto simp: RegisterEnvoyApi_def Let_def and_if_ok_None scoped_None define_unwrapper_def)
  note g = inject_effect(1) [OF 1] compat_shims_effect(1) [OF 2] attach_all_effect(1) [OF 3]
  show "global E' ''__raw_getmetatable'' = None" by (simp add: E')
  show "global E' n = (if n \<in> set ?cs then Some (ClassTable n) else global E n)"
    if "n \<notin> {''unpack'', ''attach_status_unwrapper'', ''__raw_getmetatable''}"
    using that by (simp add: E' g define_unwrapper_def RegisterFunction_def global_fold_register)
  have names: "c \<notin> {''unpack'', ''attach_status_unwrapper'', ''__raw_getmetatable''}" "c \<notin> set status_classes"
    if "c \<in> set unwrapper_classes" for c
    using that by (auto simp: unwrapper_classes_def status_classes_def)
  have "global (snd (define_unwrapper (RegisterFunction ''__raw_getmetatable'' ''lua_getmetatable'' E2))) c \<noteq> None \<longleftrightarrow>
      c \<in> set (map fst envoy_classes) \<or> global E c \<noteq> None" if "c \<in> set unwrapper_classes" for c
    using names [OF that] by (simp add: define_unwrapper_def RegisterFunction_def g global_fold_register)
  moreover have "unwrapped (snd (define_unwrapper (RegisterFunction ''__raw_getmetatable'' ''lua_getmetatable'' E2))) = unwrapped E"
    by (simp add: define_unwrapper_def RegisterFunction_def compat_shims_effect(2) [OF 2] inject_effect(2) [OF 1])
  ultimately show "set (unwrapped E') = {c \<in> set unwrapper_classes. c \<in> set (map fst envoy_classes) \<or> global E c \<noteq> None} \<union> set (unwrapped E)"
    using attach_all_effect(2) [OF 3] by (simp only: E' unwrapped_set) blast
qed

text \<open>Registration succeeds where the base library is there.\<close>

definition base_ready :: "lua_env \<Rightarrow> bool" where
  "base_ready E \<longleftrightarrow> global E ''_G'' \<noteq> None \<and> global E ''getmetatable'' \<noteq> None \<and> global E ''type'' \<noteq> None \<and> global E ''pairs'' \<noteq> None"

lemma attach_all_ok:
  assumes "base_ready E" and "global E ''attach_status_unwrapper'' \<noteq> None"
  shows "\<exists>E'. attach_all cs E = (None, E')"
  using assms
proof (induction cs arbitrary: E)
  case (Cons c cs)
  then have "\<exists>E1. attach_status_unwrapper c E = (None, E1)"
    by (auto simp: attach_status_unwrapper_def base_ready_def split: option.split)
  then obtain E1 where "attach_status_unwrapper c E = (None, E1)" by blast
  with Cons.IH [of E1] Cons.prems attach_effect(1) [OF this] show ?case
    by (auto simp: and_if_ok_None base_ready_def)
qed simp

lemma RegisterEnvoyApi_ok:
  assumes "base_ready E"
  shows "\<exists>E'. RegisterEnvoyApi E = (None, E')"
proof -
  let ?E0 = "fold register_class (map fst envoy_classes @ status_classes) E"
  have "''Handle'' \<in> set (map fst envoy_classes)" by (simp add: envoy_classes_def)
  then obtain E1 where 1: "InjectNativeYieldAccessors ?E0 = (None, E1)"
    by (auto simp: InjectNativeYieldAccessors_def global_fold_register)
  have base: "base_ready E1"
    using assms inject_effect(1) [OF 1] by (simp add: base_ready_def global_fold_register)
  then obtain E2 where 2: "compat_shims E1 = (None, E2)"
    by (force simp: compat_shims_def table_shims_def math_shims_def base_ready_def split: option.splits lua_object.splits)
  let ?E3 = "snd (define_unwrapper (RegisterFunction ''__raw_getmetatable'' ''lua_getmetatable'' E2))"
  have "base_ready ?E3" "global ?E3 ''attach_status_unwrapper'' \<noteq> None"
    using base compat_shims_effect(1) [OF 2] by (simp_all add: base_ready_def define_unwrapper_def RegisterFunction_def)
  then obtain E4 where "attach_all unwrapper_classes ?E3 = (None, E4)" using attach_all_ok by blast
  with 1 2 show ?thesis
    by (auto simp: RegisterEnvoyApi_def Let_def and_if_ok_None scoped_None define_unwrapper_def)
qed

definition opened_names :: "string list" where
  "opened_names = concat (map library_names kLuaLibs)"

text \<open>The names a script finds defined, and what must not be among them.\<close>

definition script_names :: "string list" where
  "script_names = filter (\<lambda>n. n \<notin> {''load'', ''loadstring'', ''loadfile'', ''dofile''}) opened_names @
     map fst envoy_classes @ status_classes @ [''unpack'', ''attach_status_unwrapper'']"

definition dangerous_names :: "string list" where
  "dangerous_names = [''load'', ''loadstring'', ''loadfile'', ''dofile'', ''io'', ''os'', ''debug'', ''package'', ''require'',
     ''__raw_getmetatable'']"

context lua_libraries
begin

lemma open_libraries_effect:
  assumes "open_libraries luaL_requiref libs E = (None, E')"
  shows "n \<notin> set (concat (map library_names libs)) \<Longrightarrow> global E' n = global E n" and "unwrapped E' = unwrapped E"
  using assms
proof (induction libs arbitrary: E)
  case (Cons lib libs)
  have step: "\<exists>E1. luaL_requiref lib E = (None, E1) \<and> open_libraries luaL_requiref libs E1 = (None, E')"
    if "open_libraries luaL_requiref (lib # libs) E = (None, E')" for E
    using that by (auto simp: Let_def split: prod.splits option.splits)
  { case 1
    then obtain E1 where E1: "luaL_requiref lib E = (None, E1)" "open_libraries luaL_requiref libs E1 = (None, E')"
      using step by blast
    with 1 Cons.IH(1) [of E1] own_names [of n lib E] show ?case by simp
  next
    case 2
    then obtain E1 where E1: "luaL_requiref lib E = (None, E1)" "open_libraries luaL_requiref libs E1 = (None, E')"
      using step by blast
    with Cons.IH(2) [of E1] no_wrapping [of lib E] show ?case by simp }
qed auto

lemma created_env:
  assumes "LuaState_Create alloc luaL_requiref [] = Inr E"
  shows "global E n \<noteq> None \<Longrightarrow> n \<in> set script_names"
    and "set (unwrapped E) \<subseteq> set unwrapper_classes"
    and "c \<in> set unwrapper_classes \<Longrightarrow> c \<in> set (map fst envoy_classes) \<Longrightarrow> c \<in> set (unwrapped E)"
proof -
  obtain E1 E2 where 1: "open_libraries luaL_requiref kLuaLibs luaL_newstate = (None, E1)"
    and 2: "restrict_libraries E1 = (None, E2)" and 3: "RegisterEnvoyApi E2 = (None, E)"
    using assms by (auto simp: LuaState_Create_def and_if_ok_None split: if_splits prod.splits option.splits)
  note libs = open_libraries_effect [OF 1]
  note api = register_api_effect [OF 3]
  have un: "unwrapped E2 = []"
    using libs(2) restrict_libraries_effect(2) [OF 2] by (simp add: luaL_newstate_def)
  show "set (unwrapped E) \<subseteq> set unwrapper_classes" unfolding api(3) un by auto
  show "c \<in> set (unwrapped E)" if "c \<in> set unwrapper_classes" "c \<in> set (map fst envoy_classes)"
    unfolding api(3) using that by blast
  assume n: "global E n \<noteq> None"
  consider "n \<in> {''unpack'', ''attach_status_unwrapper''}" | "n \<in> set (map fst envoy_classes @ status_classes)"
    | "n \<notin> {''unpack'', ''attach_status_unwrapper'', ''__raw_getmetatable''}" "n \<notin> set (map fst envoy_classes @ status_classes)"
    using n api(1) by blast
  then show "n \<in> set script_names"
  proof cases
    case 3
    then have "global E2 n \<noteq> None" using n api(2) by simp
    then have "n \<notin> {''load'', ''loadstring'', ''loadfile'', ''dofile''}" and "global E1 n \<noteq> None"
      using restrict_libraries_effect(1) [OF 2, of n] by (auto split: if_splits)
    moreover from this(2) have "n \<in> set opened_names"
      using libs(1) [of n] unfolding opened_names_def by (fastforce simp: luaL_newstate_def)
    ultimately show ?thesis by (simp add: script_names_def)
  qed (auto simp: script_names_def)
qed

end

text \<open>Libraries that define all their names at once.\<close>

definition plain_requiref :: "string \<Rightarrow> lua_env \<Rightarrow> string option \<times> lua_env" where
  "plain_requiref lib E =
     (None, if lib = [] then fold (\<lambda>n. lua_setglobal n (Some (LibFunction n))) ([] # base_names) E
            else lua_setglobal lib (Some (LibTable lib)) E)"

interpretation plain_libs: lua_libraries plain_requiref
proof
  have fold: "n \<notin> set ns \<Longrightarrow> global (fold (\<lambda>n. lua_setglobal n (v n)) ns E) n = global E n"
      "unwrapped (fold (\<lambda>n. lua_setglobal n (v n)) ns E) = unwrapped E" for n ns v E
    by (induction ns arbitrary: E) auto
  show "global (snd (plain_requiref lib E)) n = global E n" if "n \<notin> set (library_names lib)" for n lib E
    using that fold(1) [of n "[] # base_names"] by (auto simp: plain_requiref_def library_names_def simp del: fold.simps)
  show "unwrapped (snd (plain_requiref lib E)) = unwrapped E" for lib E
    using fold(2) [of _ "[] # base_names"] by (auto simp: plain_requiref_def simp del: fold.simps)
qed

lemma plain_create: "\<exists>E. LuaState_Create True plain_requiref [] = Inr E"
proof -
  let ?E1 = "snd (open_libraries plain_requiref kLuaLibs luaL_newstate)"
  have 1: "open_libraries plain_requiref kLuaLibs luaL_newstate = (None, ?E1)"
    by (simp add: kLuaLibs_def plain_requiref_def)
  have "global ?E1 ''string'' = Some (LibTable ''string'')"
    by (simp add: kLuaLibs_def plain_requiref_def)
  then obtain E2 where 2: "restrict_libraries ?E1 = (None, E2)" by (simp add: restrict_libraries_def)
  have "base_ready ?E1" by (simp add: kLuaLibs_def plain_requiref_def base_names_def base_ready_def)
  then have "base_ready E2" using restrict_libraries_effect(1) [OF 2] by (simp add: base_ready_def)
  then obtain E3 where "RegisterEnvoyApi E2 = (None, E3)" using RegisterEnvoyApi_ok by blast
  with 1 2 have "and_if_ok (open_libraries plain_requiref kLuaLibs)
      (and_if_ok (executed \<circ> restrict_libraries) RegisterEnvoyApi) luaL_newstate = (None, E3)"
    by (auto simp: and_if_ok_None)
  then show ?thesis by (simp add: LuaState_Create_def)
qed

section \<open>Properties\<close>

text \<open>C28: A script of the Lua plugin finds only the names of the five libraries it is meant to have, without
  those that compile or load source text, the classes of the API, and two helper functions. In particular the
  libraries for files, processes, debugging and packages and the function that bypasses protected metatables
  are out of its reach. It is asked of Lua that opening a library defines the names of that library only.\<close>

theorem lua_sandbox:
  assumes "lua_libraries luaL_requiref" and "LuaState_Create alloc luaL_requiref [] = Inr E"
  shows "(\<forall>n. global E n \<noteq> None \<longrightarrow> n \<in> set script_names) \<and> list_all (\<lambda>n. global E n = None) dangerous_names"
proof -
  have "n \<notin> set script_names" if "n \<in> set dangerous_names" for n
    using that
    by (auto simp: dangerous_names_def script_names_def opened_names_def kLuaLibs_def library_names_def base_names_def
        envoy_classes_def status_classes_def)
  with lua_libraries.created_env(1) [OF assms] show ?thesis unfolding list_all_iff by blast
qed

theorem lua_sandbox_witness:
  "\<exists>E. LuaState_Create True plain_requiref [] = Inr E \<and> list_all (\<lambda>n. global E n = None) dangerous_names"
proof -
  obtain E where E: "LuaState_Create True plain_requiref [] = Inr E" using plain_create by blast
  with lua_sandbox [OF plain_libs.lua_libraries_axioms E] show ?thesis by blast
qed

text \<open>C29: The replacement of \<open>string.rep\<close> never builds a string of more than 65536 bytes, although the product
  it checks may wrap around in 64 bits: a wrapped product means that the library function itself refuses.
  For a count that is not negative it succeeds exactly when the result is within the limit.\<close>

theorem string_rep_limit:
  assumes "rep_function orig_rep" and "length s < 2 ^ 63"
  shows "(\<forall>t. string_rep orig_rep s n = Inr t \<longrightarrow> length t \<le> 65536) \<and>
    (0 \<le> sint n \<longrightarrow> ((\<exists>t. string_rep orig_rep s n = Inr t) \<longleftrightarrow> int (length s) * sint n \<le> 65536))"
  using rep_function.rep_bounded [OF assms] rep_function.rep_exact [OF assms] by blast

theorem string_rep_limit_witness:
  "rep_function plain_rep \<and> length ''abcd'' < 2 ^ 63 \<and> \<not> (\<exists>t. string_rep plain_rep ''abcd'' (2 ^ 62) = Inr t) \<and>
   (\<exists>t. string_rep plain_rep ''abcd'' 16384 = Inr t)"
proof -
  have "length ''abcd'' < 2 ^ 63" by simp
  note limit = string_rep_limit [OF plain_rep.rep_function_axioms this]
  have big: "sint (2 ^ 62 :: 64 word) = 2 ^ 62" "sint (16384 :: 64 word) = 16384" by code_simp+
  from limit [of "2 ^ 62"] limit [of 16384] show ?thesis
    using plain_rep.rep_function_axioms by (simp add: big)
qed

text \<open>C30: The results of the API reach a script without their status: where a method of a wrapped class succeeds,
  the script gets the value, or nil if there is none, and where it fails, an error with the message of the
  status is raised at the place of the call. All registered classes whose methods return a status are wrapped but
  two: the results of \<open>SslConnection\<close> and \<open>ParsedName\<close> reach the script as status objects, which count as
  true in a condition whatever they hold.\<close>

theorem api_results_unwrapped:
  assumes "lua_libraries luaL_requiref" and "LuaState_Create alloc luaL_requiref [] = Inr E"
    and "cls \<in> set (map fst envoy_classes)"
  shows "if cls \<in> {''SslConnection'', ''ParsedName''} then call_method E cls pos res = Returned res
    else call_method E cls pos res = (case res of
        Plain v \<Rightarrow> Returned (Plain v)
      | StatusNode None \<Rightarrow> ReturnedNil
      | StatusNode (Some (code, msg)) \<Rightarrow> Raised (pos @ msg)
      | StatusOrNode (Inr v) \<Rightarrow> Returned (Plain v)
      | StatusOrNode (Inl (code, msg)) \<Rightarrow> Raised (pos @ msg))"
proof -
  note env = lua_libraries.created_env(2,3) [OF assms(1,2)]
  have "cls \<in> set (unwrapped E) \<longleftrightarrow> cls \<notin> {''SslConnection'', ''ParsedName''}"
  proof (cases "cls \<in> {''SslConnection'', ''ParsedName''}")
    case True
    then have "cls \<notin> set unwrapper_classes" by (auto simp: unwrapper_classes_def)
    with True env(1) show ?thesis by blast
  next
    case False
    with assms(3) have "cls \<in> set unwrapper_classes" by (auto simp: envoy_classes_def unwrapper_classes_def)
    with False env(2) assms(3) show ?thesis by blast
  qed
  then show ?thesis
    by (simp add: call_method_def unwrap_def node_ok_def node_message_def node_value_def
        split: method_result.split option.split sum.split prod.split)
qed

theorem api_results_unwrapped_witness:
  "\<exists>E. LuaState_Create True plain_requiref [] = Inr E \<and>
     call_method E ''Header'' ''s:1: '' (StatusOrNode (Inl (kInternal, ''no'')) :: nat method_result) = Raised ''s:1: no'' \<and>
     call_method E ''SslConnection'' ''s:1: '' (StatusOrNode (Inr False)) = Returned (StatusOrNode (Inr False))"
proof -
  obtain E where E: "LuaState_Create True plain_requiref [] = Inr E" using plain_create by blast
  note unw = api_results_unwrapped [OF plain_libs.lua_libraries_axioms E]
  from unw [of "''Header''" "''s:1: ''" "StatusOrNode (Inl (kInternal, ''no'')) :: nat method_result"]
    unw [of "''SslConnection''" "''s:1: ''" "StatusOrNode (Inr False)"] E
  show ?thesis by (simp add: envoy_classes_def)
qed

end
