(* ===== verification/Dynamic_Test.thy ===== *)
theory Dynamic_Test
  imports Test_Host
begin

text \<open>
  The configurable test of \<^verbatim>\<open>plugins/test/dynamic_test.cc\<close>: matching of strings, parsing of the phase
  inputs, chunking of bodies, the checks of a phase against its expectations, the body of a test and
  the additional streams of a benchmark. RE2, the file system, the HTTP/1 parser and the URL library
  are arguments. A test reports failures; a fatal one ends the function it is reported in.
\<close>

section \<open>Test configuration (\<^verbatim>\<open>runner.proto\<close>)\<close>

datatype pb_matcher = has_exact string | has_file string | has_regex string | matcher_not_set

record pb_StringMatcher =
  invert :: bool
  matcher :: pb_matcher

record pb_Input =
  input_header :: "header list"
  input_content :: string
  input_file :: string

record pb_Immediate =
  imm_http_status :: "u32 option"
  imm_grpc_status :: "u32 option"
  imm_details :: "string option"

record pb_Expectation =
  exp_has_header :: "header list"
  exp_no_header :: "header list"
  exp_headers :: "pb_StringMatcher list"
  exp_body :: "pb_StringMatcher list"
  exp_immediate :: "pb_Immediate option"
  exp_log :: "pb_StringMatcher list"

record pb_Invocation =
  inv_input :: pb_Input
  inv_result :: pb_Expectation

datatype BodyChunkingPlan = plan_not_set | num_chunks int | chunk_size int

record pb_Test =
  body_chunking_plan :: BodyChunkingPlan
  request_headers :: "pb_Invocation option"
  request_body :: "pb_Invocation list"
  response_headers :: "pb_Invocation option"
  response_body :: "pb_Invocation list"
  plugin_init :: pb_Expectation
  stream_init :: pb_Expectation
  stream_destroy :: pb_Expectation

section \<open>Libraries\<close>

record BalsaHeaders =
  request_method :: string
  request_uri :: string
  response_code :: string
  Authority :: string
  balsa_lines :: "header list"

record ('re, 'g) test_lib =
  compile_regex :: "string \<Rightarrow> string + 're"
  FullMatch :: "string \<Rightarrow> 're \<Rightarrow> bool"
  ReadContent :: "string \<Rightarrow> Status + string"
  status_string :: "Status \<Rightarrow> string"
  balsa_frame :: "bool \<Rightarrow> string list \<Rightarrow> string + BalsaHeaders"
  GURL :: "string \<Rightarrow> 'g"
  gurl_Resolve :: "'g \<Rightarrow> string \<Rightarrow> 'g"
  gurl_is_valid :: "'g \<Rightarrow> bool"
  gurl_scheme :: "'g \<Rightarrow> string"
  gurl_PathForRequest :: "'g \<Rightarrow> string"
  gurl_host :: "'g \<Rightarrow> string"
  gurl_IntPort :: "'g \<Rightarrow> int"
  ByLength :: "nat \<Rightarrow> nat option \<Rightarrow> string \<Rightarrow> string list"

section \<open>String matching\<close>

record 're StringMatcher =
  sm_invert :: bool
  sm_exact :: string
  sm_re :: "'re option"

definition StringMatcher_Create :: "('re, 'g) test_lib \<Rightarrow> pb_StringMatcher \<Rightarrow> Status + 're StringMatcher" where
  "StringMatcher_Create T expect = (case matcher expect of
      has_exact s \<Rightarrow> Inr \<lparr>sm_invert = invert expect, sm_exact = s, sm_re = None\<rparr>
    | has_file f \<Rightarrow>
        (case ReadContent T f of
           Inr s \<Rightarrow> Inr \<lparr>sm_invert = invert expect, sm_exact = s, sm_re = None\<rparr>
         | Inl e \<Rightarrow> Inl (kInvalidArgument, ''Bad file: '' @ status_string T e))
    | has_regex r \<Rightarrow>
        (case compile_regex T r of
           Inr re \<Rightarrow> Inr \<lparr>sm_invert = invert expect, sm_exact = [], sm_re = Some re\<rparr>
         | Inl e \<Rightarrow> Inl (kInvalidArgument, ''Bad regex: '' @ e))
    | matcher_not_set \<Rightarrow> Inl (kInvalidArgument, ''StringMatcher must specify 'exact' or 'regex' field.''))"

fun StringMatcher_Matches :: "('re, 'g) test_lib \<Rightarrow> 're StringMatcher \<Rightarrow> string list \<Rightarrow> bool" where
  "StringMatcher_Matches T sm [] = sm_invert sm"
| "StringMatcher_Matches T sm (msg # contents) =
     (if (case sm_re sm of Some re \<Rightarrow> FullMatch T msg re | None \<Rightarrow> msg = sm_exact sm) then \<not> sm_invert sm
      else StringMatcher_Matches T sm contents)"

datatype failure = BadMatcher Status | NoMatch string | MissingKey string | MissingHeader string
  | WrongHeader string string string | HeaderNotRemoved string string | WrongHeaderStatus
  | WrongReplyCode u32 | WrongHttpStatus u32 u32 | WrongGrpcStatus u32 u32 | WrongDetails string string
  | NoRootContext | VmFailed string | PlanWithSeveralBodies | BadInput Status

definition FindString :: "('re, 'g) test_lib \<Rightarrow> string \<Rightarrow> pb_StringMatcher \<Rightarrow> string list \<Rightarrow> failure list" where
  "FindString T kind expect contents = (case StringMatcher_Create T expect of
      Inl e \<Rightarrow> [BadMatcher e]
    | Inr m \<Rightarrow> if \<not> StringMatcher_Matches T m contents then [NoMatch kind] else [])"

definition CheckSideEffects :: "('re, 'g) test_lib \<Rightarrow> pb_Expectation \<Rightarrow> TestHttpContext \<Rightarrow> failure list" where
  "CheckSideEffects T expect c = concat (map (\<lambda>m. FindString T ''log'' m (phase_logs c)) (exp_log expect))"

section \<open>Checks of a phase\<close>

text \<open>
  The two loops over expected and removed headers stop at the first entry without a key, which ends
  the whole check (a fatal failure): the flag of the result is set then.
\<close>

fun check_has_header :: "header list \<Rightarrow> headers \<Rightarrow> failure list \<times> bool" where
  "check_has_header [] hs = ([], False)"
| "check_has_header ((k, v) # es) hs =
     (if k = [] then ([MissingKey ''has_header''], True)
      else
        let fs = (case hdr_find k hs of
              None \<Rightarrow> [MissingHeader k]
            | Some v' \<Rightarrow> if v' \<noteq> v then [WrongHeader k v' v] else []);
            (rest, fatal) = check_has_header es hs
        in (fs @ rest, fatal))"

fun check_no_header :: "header list \<Rightarrow> headers \<Rightarrow> failure list \<times> bool" where
  "check_no_header [] hs = ([], False)"
| "check_no_header ((k, v) # es) hs =
     (if k = [] then ([MissingKey ''no_header''], True)
      else
        let fs = (case hdr_find k hs of None \<Rightarrow> [] | Some v' \<Rightarrow> [HeaderNotRemoved k v']);
            (rest, fatal) = check_no_header es hs
        in (fs @ rest, fatal))"

definition check_immediate :: "pb_Expectation \<Rightarrow> Result \<Rightarrow> failure list" where
  "check_immediate expect res =
     (let is_continue = (header_status res = Continue \<or> header_status res = ContinueAndEndStream);
          has_immediate = (exp_immediate expect \<noteq> None);
          f1 = (if has_immediate = is_continue then [WrongHeaderStatus] else []);
          f2 = (if has_immediate = (http_code res = 0) then [WrongReplyCode (http_code res)] else []);
          imm = (case exp_immediate expect of Some i \<Rightarrow> i
                 | None \<Rightarrow> \<lparr>imm_http_status = None, imm_grpc_status = None, imm_details = None\<rparr>);
          f3 = (case imm_http_status imm of Some s \<Rightarrow> if s \<noteq> http_code res then [WrongHttpStatus (http_code res) s] else [] | None \<Rightarrow> []);
          f4 = (case imm_grpc_status imm of Some s \<Rightarrow> if s \<noteq> grpc_code res then [WrongGrpcStatus (grpc_code res) s] else [] | None \<Rightarrow> []);
          f5 = (case imm_details imm of Some s \<Rightarrow> if s \<noteq> details res then [WrongDetails (details res) s] else [] | None \<Rightarrow> [])
      in f1 @ f2 @ f3 @ f4 @ f5)"

definition header_lines :: "headers \<Rightarrow> string list" where
  "header_lines hs = map (\<lambda>(k, v). k @ '': '' @ v) hs"

definition CheckPhaseResults :: "('re, 'g) test_lib \<Rightarrow> pb_Expectation \<Rightarrow> TestHttpContext \<Rightarrow> Result \<Rightarrow> failure list \<times> bool" where
  "CheckPhaseResults T expect c res =
     (let (f1, fatal1) = check_has_header (exp_has_header expect) (headers res)
      in if fatal1 then (f1, True)
         else let (f2, fatal2) = check_no_header (exp_no_header expect) (headers res)
              in if fatal2 then (f1 @ f2, True)
                 else
                   let f3 = (if length (exp_headers expect) > 0
                             then concat (map (\<lambda>m. FindString T ''header'' m (header_lines (headers res))) (exp_headers expect))
                             else []);
                       f4 = concat (map (\<lambda>m. FindString T ''body'' m [body res]) (exp_body expect));
                       f5 = check_immediate expect res;
                       f6 = concat (map (\<lambda>m. FindString T ''log'' m (phase_logs c)) (exp_log expect))
                   in (f1 @ f2 @ f3 @ f4 @ f5 @ f6, False))"

section \<open>Inputs\<close>

definition remove_host :: "absl \<Rightarrow> header list \<Rightarrow> header list" where
  "remove_host A ls = filter (\<lambda>(k, v). \<not> EqualsIgnoreCase A k ''Host'') ls"

definition insert_lines :: "absl \<Rightarrow> header list \<Rightarrow> headers \<Rightarrow> headers" where
  "insert_lines A ls hdrs = foldl (\<lambda>m (k, v). InsertOrAppend (AsciiStrToLower A k) v m) hdrs ls"

definition ParseHTTP1Headers :: "absl \<Rightarrow> ('re, 'g) test_lib \<Rightarrow> string \<Rightarrow> bool \<Rightarrow> headers \<Rightarrow> Status + headers" where
  "ParseHTTP1Headers A T content is_request hdrs =
     (case balsa_frame T is_request [content, [CHR 0x0D, CHR 0x0A, CHR 0x0D, CHR 0x0A]] of
        Inl e \<Rightarrow> Inl (kInvalidArgument, ''Header parse error: '' @ e)
      | Inr b \<Rightarrow>
          if is_request then
            let h1 = InsertOrAppend '':method'' (request_method b) hdrs;
                uri = GURL T (request_uri b)
            in if gurl_is_valid T uri then
                 let h2 = InsertOrAppend '':scheme'' (gurl_scheme T uri) h1;
                     h3 = InsertOrAppend '':path'' (gurl_PathForRequest T uri) h2;
                     h4 = InsertOrAppend '':authority''
                            (if gurl_IntPort T uri > 0 then gurl_host T uri @ '':'' @ dec_int (gurl_IntPort T uri)
                             else gurl_host T uri) h3
                 in Inr (insert_lines A (remove_host A (balsa_lines b)) h4)
               else
                 let joined = gurl_Resolve T (GURL T ''http://example.com'') (request_uri b)
                 in if \<not> gurl_is_valid T joined \<or> gurl_PathForRequest T joined \<noteq> request_uri b
                    then Inl (kInvalidArgument, ''Invalid URI: '' @ request_uri b)
                    else
                      let h2 = InsertOrAppend '':path'' (request_uri b) h1
                      in if Authority b \<noteq> []
                         then Inr (insert_lines A (remove_host A (balsa_lines b)) (InsertOrAppend '':authority'' (Authority b) h2))
                         else Inr (insert_lines A (balsa_lines b) h2)
          else Inr (insert_lines A (balsa_lines b) (InsertOrAppend '':status'' (response_code b) hdrs)))"

definition ParseHeaders :: "absl \<Rightarrow> ('re, 'g) test_lib \<Rightarrow> pb_Input \<Rightarrow> bool \<Rightarrow> Status + headers" where
  "ParseHeaders A T input is_request =
     (if input_file input \<noteq> [] then
        (case ReadContent T (input_file input) of
           Inl e \<Rightarrow> Inl e
         | Inr content \<Rightarrow> ParseHTTP1Headers A T content is_request [])
      else if input_content input \<noteq> [] then ParseHTTP1Headers A T (input_content input) is_request []
      else Inr (foldl (\<lambda>m (k, v). InsertOrAppend k v m) [] (input_header input)))"

definition ParseBodyInput :: "('re, 'g) test_lib \<Rightarrow> pb_Input \<Rightarrow> Status + string" where
  "ParseBodyInput T input = (if input_file input \<noteq> [] then ReadContent T (input_file input) else Inr (input_content input))"

text \<open>
  Chunking divides by the number of chunks and splits by a length that must be positive; both abort
  the program otherwise, which is \<^const>\<open>None\<close> here. The quotient of the unsigned length and the
  signed count is taken at 64 bits and narrowed to \<^verbatim>\<open>int\<close>, so a negative count is a large divisor.
\<close>

definition ChunkBody :: "('re, 'g) test_lib \<Rightarrow> string \<Rightarrow> BodyChunkingPlan \<Rightarrow> string list option" where
  "ChunkBody T complete_body plan = (case plan of
      num_chunks n \<Rightarrow>
        if n = 0 then None
        else
          let chunk_length = sint (word_of_int (int (length complete_body) div (n mod 2 ^ 64)) :: 32 word)
          in if chunk_length \<le> 0 then None
             else Some (ByLength T (nat chunk_length) (Some (nat (n - 1))) complete_body)
    | chunk_size n \<Rightarrow> if n \<le> 0 then None else Some (ByLength T (nat n) None complete_body)
    | plan_not_set \<Rightarrow> None)"

definition PrepBodyCallbackBenchmark :: "('re, 'g) test_lib \<Rightarrow> BodyChunkingPlan \<Rightarrow> pb_Invocation list
    \<Rightarrow> (Status + string list) option" where
  "PrepBodyCallbackBenchmark T plan invocations =
     (if invocations = [] then Some (Inr [])
      else if length invocations \<noteq> 1 \<and> plan \<noteq> plan_not_set
      then Some (Inl (kInvalidArgument, ''Cannot specify body_chunking_plan with multiple body invocations''))
      else foldl (\<lambda>acc ivk. case acc of
               Some (Inr chunks) \<Rightarrow>
                 (case ParseBodyInput T (inv_input ivk) of
                    Inl e \<Rightarrow> Some (Inl e)
                  | Inr complete_input_body \<Rightarrow>
                      if plan \<noteq> plan_not_set then map_option Inr (ChunkBody T complete_input_body plan)
                      else Some (Inr (chunks @ [complete_input_body])))
             | _ \<Rightarrow> acc) (Some (Inr [])) invocations)"

section \<open>Creating a plugin (\<^verbatim>\<open>framework.cc\<close>)\<close>

datatype pb_LogLevel = UNDEFINED | TRACE | DEBUG | INFO | WARN | ERROR | CRITICAL

record pb_Env =
  wasm_path :: string
  config_path :: string
  env_log_level :: pb_LogLevel
  log_path :: string
  time_secs :: u64

record ContextOptions =
  opt_log_file :: "string option"
  opt_clock_secs :: "u64 option"

text \<open>The engine: the state \<open>'w\<close> of a loaded module, the root context it starts and the calls on both.\<close>

record ('w, 'r) wasm_lib =
  makeVm :: "string \<Rightarrow> LogLevel \<Rightarrow> ContextOptions \<Rightarrow> 'w"
  wasm_load :: "string \<Rightarrow> 'w \<Rightarrow> bool \<times> 'w"
  wasm_initialize :: "'w \<Rightarrow> bool \<times> 'w"
  wasm_fail :: "string \<Rightarrow> 'w \<Rightarrow> 'w"
  wasm_start :: "string \<Rightarrow> 'w \<Rightarrow> 'r option \<times> 'w"
  wasm_configure :: "'r \<Rightarrow> string \<Rightarrow> 'w \<Rightarrow> bool \<times> 'w"
  wasm_isFailed :: "'w \<Rightarrow> bool"
  getRootContext :: "'w \<Rightarrow> TestHttpContext option"

definition CreatePluginVm :: "('w, 'r) wasm_lib \<Rightarrow> string \<Rightarrow> string \<Rightarrow> string \<Rightarrow> LogLevel \<Rightarrow> ContextOptions
    \<Rightarrow> Status + 'w \<times> string" where
  "CreatePluginVm W engine wasm_bytes config lvl options =
     (let (loaded, w1) = wasm_load W wasm_bytes (makeVm W engine lvl options)
      in if \<not> loaded then Inl (kFailedPrecondition, ''Failed to load Wasm code'')
         else let (ready, w2) = wasm_initialize W w1
              in if \<not> ready then Inl (kFailedPrecondition, ''Failed to initialize Wasm code'')
                 else Inr (w2, config))"

definition InitializePlugin :: "('w, 'r) wasm_lib \<Rightarrow> 'w \<times> string \<Rightarrow> Status option \<times> 'w" where
  "InitializePlugin W = (\<lambda>(w, config).
     let (root, w1) = wasm_start W config w
     in case root of
          None \<Rightarrow> (Some (kFailedPrecondition, ''Plugin.start failed''), w1)
        | Some r \<Rightarrow>
            (let (ok, w2) = wasm_configure W r config w1
             in if \<not> ok then (Some (kFailedPrecondition, ''Plugin.configure failed''), w2) else (None, w2)))"

definition CreateProxyWasmPlugin :: "('w, 'r) wasm_lib \<Rightarrow> (string \<Rightarrow> Status + string) \<Rightarrow> string \<Rightarrow> string \<Rightarrow> string
    \<Rightarrow> LogLevel \<Rightarrow> Status + 'w \<times> string" where
  "CreateProxyWasmPlugin W ReadDataFile engine path config lvl =
     (case ReadDataFile path of
        Inl e \<Rightarrow> Inl e
      | Inr wasm \<Rightarrow>
          (case CreatePluginVm W engine wasm config lvl \<lparr>opt_log_file = None, opt_clock_secs = None\<rparr> of
             Inl e \<Rightarrow> Inl e
           | Inr (w, cfg) \<Rightarrow>
               (case InitializePlugin W (w, cfg) of
                  (Some e, w') \<Rightarrow> Inl e
                | (None, w') \<Rightarrow> Inr (w', cfg))))"

primrec log_level_of :: "pb_LogLevel \<Rightarrow> LogLevel" where
  "log_level_of UNDEFINED = Info"
| "log_level_of TRACE = Trace"
| "log_level_of DEBUG = Debug"
| "log_level_of INFO = Info"
| "log_level_of WARN = Warn"
| "log_level_of ERROR = Error"
| "log_level_of CRITICAL = Critical"

definition LoadWasm :: "('w, 'r) wasm_lib \<Rightarrow> (string \<Rightarrow> Status + string) \<Rightarrow> string \<Rightarrow> pb_Env \<Rightarrow> bool
    \<Rightarrow> Status + 'w \<times> string" where
  "LoadWasm W ReadDataFile engine env benchmark =
     (let log_level = (if benchmark then Critical else log_level_of (env_log_level env))
      in case ReadDataFile (wasm_path env) of
           Inl e \<Rightarrow> Inl e
         | Inr wasm \<Rightarrow>
             (case (if config_path env \<noteq> [] then ReadDataFile (config_path env) else Inr []) of
                Inl e \<Rightarrow> Inl e
              | Inr config \<Rightarrow>
                  CreatePluginVm W engine wasm config log_level
                    \<lparr>opt_log_file = (if \<not> benchmark \<and> log_path env \<noteq> [] then Some (log_path env) else None),
                     opt_clock_secs = (if time_secs env \<noteq> 0 then Some (time_secs env) else None)\<rparr>))"

section \<open>The body of a test\<close>

text \<open>The callbacks of the plugin under test, on its state and its stream context.\<close>

record 'p callbacks =
  cb_onCreate :: "'p stream \<Rightarrow> 'p stream"
  cb_onRequestHeaders :: "nat \<Rightarrow> bool \<Rightarrow> 'p stream \<Rightarrow> FilterHeadersStatus \<times> 'p stream"
  cb_onRequestBody :: "nat \<Rightarrow> bool \<Rightarrow> 'p stream \<Rightarrow> FilterDataStatus \<times> 'p stream"
  cb_onResponseHeaders :: "nat \<Rightarrow> bool \<Rightarrow> 'p stream \<Rightarrow> FilterHeadersStatus \<times> 'p stream"
  cb_onResponseBody :: "nat \<Rightarrow> bool \<Rightarrow> 'p stream \<Rightarrow> FilterDataStatus \<times> 'p stream"
  cb_onDone :: "'p stream \<Rightarrow> 'p stream"
  cb_onDelete :: "'p stream \<Rightarrow> 'p stream"

text \<open>
  A part of the test reports failures and goes on with a stream, or ends the test. The whole program
  may also abort (\<^const>\<open>None\<close>), see \<^const>\<open>ChunkBody\<close>.
\<close>

type_synonym 'p test_step = "'p stream \<Rightarrow> (failure list \<times> 'p stream option) option"

definition next_step :: "'p test_step \<Rightarrow> 'p test_step \<Rightarrow> 'p test_step" where
  "next_step a b s = (case a s of
      None \<Rightarrow> None
    | Some (fs, None) \<Rightarrow> Some (fs, None)
    | Some (fs, Some s') \<Rightarrow> (case b s' of None \<Rightarrow> None | Some (gs, r) \<Rightarrow> Some (fs @ gs, r)))"

text \<open>\<^verbatim>\<open>ASSERT_VM_HEALTH\<close>, followed by reporting what a check found.\<close>

definition if_healthy :: "string \<Rightarrow> (TestHttpContext \<Rightarrow> failure list) \<Rightarrow> 'p test_step" where
  "if_healthy phase_name check s =
     (if vm_failed (snd s) then Some ([VmFailed phase_name], None) else Some (check (snd s), Some s))"

definition headers_phase :: "absl \<Rightarrow> ('re, 'g) test_lib \<Rightarrow> string \<Rightarrow> bool \<Rightarrow> pb_Invocation option
    \<Rightarrow> (headers \<Rightarrow> 'p stream \<Rightarrow> Result \<times> 'p stream) \<Rightarrow> 'p test_step" where
  "headers_phase A T phase_name is_request invoke send s = (case invoke of
      None \<Rightarrow> Some ([], Some s)
    | Some ivk \<Rightarrow>
        (case ParseHeaders A T (inv_input ivk) is_request of
           Inl e \<Rightarrow> Some ([BadInput e], None)
         | Inr hs \<Rightarrow>
             let (res, s') = send hs s
             in if_healthy phase_name (\<lambda>c. fst (CheckPhaseResults T (inv_result ivk) c res)) s'))"

text \<open>The chunks of one body: the bodies of the results are joined, everything else is dropped.\<close>

fun send_chunks :: "(string \<Rightarrow> bool \<Rightarrow> 'p stream \<Rightarrow> Result \<times> 'p stream) \<Rightarrow> string list \<Rightarrow> Result \<Rightarrow> 'p stream
    \<Rightarrow> bool \<times> Result \<times> 'p stream" where
  "send_chunks invoke_wasm [] body_result s = (True, body_result, s)"
| "send_chunks invoke_wasm (chunk # chunks) body_result s =
     (let (res, s') = invoke_wasm chunk (chunks = []) s
      in if vm_failed (snd s') then (False, body_result, s')
         else send_chunks invoke_wasm chunks (body_result\<lparr>body := body body_result @ body res\<rparr>) s')"

fun run_invocations :: "('re, 'g) test_lib \<Rightarrow> string \<Rightarrow> BodyChunkingPlan
    \<Rightarrow> (string \<Rightarrow> bool \<Rightarrow> 'p stream \<Rightarrow> Result \<times> 'p stream) \<Rightarrow> pb_Invocation list \<Rightarrow> 'p stream
    \<Rightarrow> (failure list \<times> bool \<times> 'p stream) option" where
  "run_invocations T phase_name plan invoke_wasm [] s = Some ([], False, s)"
| "run_invocations T phase_name plan invoke_wasm (ivk # ivks) s =
     (case ParseBodyInput T (inv_input ivk) of
        Inl e \<Rightarrow> Some ([BadInput e], True, s)
      | Inr complete_input_body \<Rightarrow>
          (case (if plan \<noteq> plan_not_set then ChunkBody T complete_input_body plan else Some [complete_input_body]) of
             None \<Rightarrow> None
           | Some chunks \<Rightarrow>
               let (healthy, body_result, s') = send_chunks invoke_wasm chunks empty_Result s
               in if \<not> healthy then Some ([VmFailed phase_name], True, s')
                  else
                    let (fs, fatal) = CheckPhaseResults T (inv_result ivk) (snd s') body_result
                    in (case run_invocations T phase_name plan invoke_wasm ivks s' of
                          None \<Rightarrow> None
                        | Some (gs, fatal', s'') \<Rightarrow> Some (fs @ gs, fatal \<or> fatal', s''))))"

definition run_body_test :: "('re, 'g) test_lib \<Rightarrow> string \<Rightarrow> BodyChunkingPlan \<Rightarrow> pb_Invocation list
    \<Rightarrow> (string \<Rightarrow> bool \<Rightarrow> 'p stream \<Rightarrow> Result \<times> 'p stream) \<Rightarrow> 'p test_step" where
  "run_body_test T phase_name plan invocations invoke_wasm s =
     (if invocations = [] then Some ([], Some s)
      else if length invocations \<noteq> 1 \<and> plan \<noteq> plan_not_set then Some ([PlanWithSeveralBodies], None)
      else case run_invocations T phase_name plan invoke_wasm invocations s of
             None \<Rightarrow> None
           | Some (fs, fatal, s') \<Rightarrow> Some (fs, if fatal then None else Some s'))"

definition stream_steps :: "absl \<Rightarrow> ('re, 'g) test_lib \<Rightarrow> 'p callbacks \<Rightarrow> pb_Test \<Rightarrow> 'p test_step" where
  "stream_steps A T P cfg =
     next_step (\<lambda>s. if_healthy ''stream_init'' (CheckSideEffects T (stream_init cfg)) (cb_onCreate P s))
     (next_step (headers_phase A T ''request_headers'' True (request_headers cfg) (SendRequestHeaders (cb_onRequestHeaders P)))
     (next_step (run_body_test T ''request_body'' (body_chunking_plan cfg) (request_body cfg) (SendRequestBody (cb_onRequestBody P)))
     (next_step (headers_phase A T ''response_headers'' False (response_headers cfg) (SendResponseHeaders (cb_onResponseHeaders P)))
     (next_step (run_body_test T ''response_body'' (body_chunking_plan cfg) (response_body cfg) (SendResponseBody (cb_onResponseBody P)))
       (\<lambda>s. if_healthy ''stream_destroy'' (CheckSideEffects T (stream_destroy cfg)) (TearDown (cb_onDone P) (cb_onDelete P) s))))))"

text \<open>
  \<open>make_context\<close> is the stream context the constructor makes on the loaded plugin, \<open>shutdown_fails\<close> tells
  whether the machine has failed after the shutdown that follows the stream.
\<close>

definition TestBody :: "absl \<Rightarrow> ('re, 'g) test_lib \<Rightarrow> ('w, 'r) wasm_lib \<Rightarrow> (string \<Rightarrow> Status + string) \<Rightarrow> ('w \<Rightarrow> 'p stream)
    \<Rightarrow> ('w \<Rightarrow> 'p stream \<Rightarrow> bool) \<Rightarrow> 'p callbacks \<Rightarrow> string \<Rightarrow> pb_Env \<Rightarrow> pb_Test \<Rightarrow> failure list option" where
  "TestBody A T W ReadDataFile make_context shutdown_fails P engine env cfg =
     (case LoadWasm W ReadDataFile engine env False of
        Inl e \<Rightarrow> Some [BadInput e]
      | Inr (w, config) \<Rightarrow>
          (case InitializePlugin W (w, config) of
             (Some e, w1) \<Rightarrow> Some [BadInput e]
           | (None, w1) \<Rightarrow>
               (case getRootContext W w1 of
                  None \<Rightarrow> Some [NoRootContext]
                | Some root \<Rightarrow>
                    if wasm_isFailed W w1 then Some [VmFailed ''plugin_init'']
                    else
                      let f1 = CheckSideEffects T (plugin_init cfg) root
                      in (case stream_steps A T P cfg (make_context w1) of
                            None \<Rightarrow> None
                          | Some (f2, None) \<Rightarrow> Some (f1 @ f2)
                          | Some (f2, Some s) \<Rightarrow>
                              Some (f1 @ f2 @ (if shutdown_fails w1 s then [VmFailed ''plugin_destroy''] else []))))))"

section \<open>What an expectation means\<close>

definition matcher_holds :: "('re, 'g) test_lib \<Rightarrow> pb_StringMatcher \<Rightarrow> string list \<Rightarrow> bool" where
  "matcher_holds T m contents = (case matcher m of
      has_exact s \<Rightarrow> (s \<in> set contents) \<noteq> invert m
    | has_file f \<Rightarrow> (\<exists>s. ReadContent T f = Inr s \<and> (s \<in> set contents) \<noteq> invert m)
    | has_regex r \<Rightarrow> (\<exists>re. compile_regex T r = Inr re \<and> (\<exists>x \<in> set contents. FullMatch T x re) \<noteq> invert m)
    | matcher_not_set \<Rightarrow> False)"

definition immediate_met :: "pb_Immediate option \<Rightarrow> Result \<Rightarrow> bool" where
  "immediate_met imm res = (case imm of
      None \<Rightarrow> header_status res \<in> {Continue, ContinueAndEndStream} \<and> http_code res = 0
    | Some i \<Rightarrow> header_status res \<notin> {Continue, ContinueAndEndStream} \<and> http_code res \<noteq> 0 \<and>
        imm_http_status i \<in> {None, Some (http_code res)} \<and> imm_grpc_status i \<in> {None, Some (grpc_code res)} \<and>
        imm_details i \<in> {None, Some (details res)})"

definition expectation_met :: "('re, 'g) test_lib \<Rightarrow> pb_Expectation \<Rightarrow> string list \<Rightarrow> Result \<Rightarrow> bool" where
  "expectation_met T e logs res \<longleftrightarrow>
     list_all (\<lambda>(k, v). k \<noteq> [] \<and> hdr_find k (headers res) = Some v) (exp_has_header e) \<and>
     list_all (\<lambda>(k, v). k \<noteq> [] \<and> hdr_find k (headers res) = None) (exp_no_header e) \<and>
     list_all (\<lambda>m. matcher_holds T m (header_lines (headers res))) (exp_headers e) \<and>
     list_all (\<lambda>m. matcher_holds T m [body res]) (exp_body e) \<and>
     immediate_met (exp_immediate e) res \<and>
     list_all (\<lambda>m. matcher_holds T m logs) (exp_log e)"

lemma Matches_iff:
  "StringMatcher_Matches T sm contents \<longleftrightarrow>
     (\<exists>x \<in> set contents. case sm_re sm of Some re \<Rightarrow> FullMatch T x re | None \<Rightarrow> x = sm_exact sm) \<noteq> sm_invert sm"
  by (induction contents) (auto split: option.splits)

lemma FindString_Nil: "FindString T kind m contents = [] \<longleftrightarrow> matcher_holds T m contents"
  by (cases "matcher m")
     (auto simp: FindString_def StringMatcher_Create_def matcher_holds_def Matches_iff split: sum.splits)

lemma FindString_all: "concat (map (\<lambda>m. FindString T kind m contents) ms) = [] \<longleftrightarrow> list_all (\<lambda>m. matcher_holds T m contents) ms"
  by (simp add: FindString_Nil list_all_iff)

lemma check_has_header_ok:
  "fst (check_has_header es hs) = [] \<longleftrightarrow> list_all (\<lambda>(k, v). k \<noteq> [] \<and> hdr_find k hs = Some v) es"
  by (induction es hs rule: check_has_header.induct) (auto simp: Let_def split_beta split: option.splits)

lemma check_no_header_ok:
  "fst (check_no_header es hs) = [] \<longleftrightarrow> list_all (\<lambda>(k, v). k \<noteq> [] \<and> hdr_find k hs = None) es"
  by (induction es hs rule: check_no_header.induct) (auto simp: Let_def split_beta split: option.splits)

text \<open>A fatal failure is a failure.\<close>

lemma check_header_fatal:
  "snd (check_has_header es hs) \<Longrightarrow> fst (check_has_header es hs) \<noteq> []"
  "snd (check_no_header es hs) \<Longrightarrow> fst (check_no_header es hs) \<noteq> []"
  by (induction es, simp, auto simp: Let_def split_beta split: if_splits)+

lemma check_immediate_ok: "check_immediate e res = [] \<longleftrightarrow> immediate_met (exp_immediate e) res"
  by (auto simp: check_immediate_def immediate_met_def Let_def split: option.splits if_splits)

text \<open>All checks of a phase together.\<close>

lemma check_phase_ok:
  "fst (CheckPhaseResults T expect c res) = [] \<longleftrightarrow> expectation_met T expect (phase_logs c) res"
proof -
  have "exp_headers expect = [] \<or> length (exp_headers expect) > 0" by simp
  then show ?thesis
    using check_header_fatal [of "exp_has_header expect" "headers res"]
      check_header_fatal(2) [of "exp_no_header expect" "headers res"]
    unfolding CheckPhaseResults_def Let_def split_beta expectation_met_def
    by (auto simp: check_has_header_ok check_no_header_ok check_immediate_ok FindString_Nil list_all_iff split_beta)
qed

section \<open>Chunks\<close>

text \<open>
  The documented behaviour of \<^verbatim>\<open>absl::ByLength\<close> under \<^verbatim>\<open>absl::MaxSplits\<close>: pieces of the given length, the
  rest in the last one; no split where the rest is not longer than a piece, and at most \<open>lim\<close> splits.
\<close>

function split_len :: "nat \<Rightarrow> nat option \<Rightarrow> string \<Rightarrow> string list" where
  "split_len n lim s =
     (if n = 0 \<or> length s \<le> n \<or> lim = Some 0 then [s]
      else take n s # split_len n (map_option (\<lambda>k. k - 1) lim) (drop n s))"
  by pat_completeness auto
termination by (relation "measure (\<lambda>(n, lim, s). length s)") auto

declare split_len.simps [simp del]

locale length_splitter =
  fixes T :: "('re, 'g) test_lib"
  assumes ByLength: "0 < n \<Longrightarrow> ByLength T n lim s = split_len n lim s"

lemma concat_split_len: "concat (split_len n lim s) = s"
  by (induction n lim s rule: split_len.induct) (subst split_len.simps, simp)

lemma split_len_sizes:
  assumes "0 < n" and "lim = None" and "w \<in> set (butlast (split_len n lim s))"
  shows "length w = n"
  using assms
proof (induction n lim s rule: split_len.induct)
  case (1 n lim s)
  show ?case
  proof (cases "length s \<le> n")
    case False
    then have "split_len n lim s = take n s # split_len n lim (drop n s)"
      using 1(2,3) by (subst split_len.simps) simp
    then have "w = take n s \<or> w \<in> set (butlast (split_len n lim (drop n s)))"
      using 1(4) by (simp split: if_splits)
    then show ?thesis using 1(1-3) False by auto
  qed (use 1(4) in \<open>simp add: split_len.simps [of n lim s]\<close>)
qed

lemma split_len_max:
  assumes "0 < n" and "lim = None" and "w \<in> set (split_len n lim s)"
  shows "length w \<le> n"
  using assms
proof (induction n lim s rule: split_len.induct)
  case (1 n lim s)
  show ?case
  proof (cases "length s \<le> n")
    case False
    then have "split_len n lim s = take n s # split_len n lim (drop n s)"
      using 1(2,3) by (subst split_len.simps) simp
    then have "w = take n s \<or> w \<in> set (split_len n lim (drop n s))" using 1(4) by simp
    then show ?thesis using 1(1-3) False by auto
  qed (use 1(4) in \<open>simp add: split_len.simps [of n lim s]\<close>)
qed

lemma split_len_count:
  assumes "0 < n" and "(k + 1) * n \<le> length s"
  shows "length (split_len n (Some k) s) = k + 1 \<and> [] \<notin> set (split_len n (Some k) s)"
  using assms(2)
proof (induction k arbitrary: s)
  case 0
  then show ?case using assms(1) by (subst (1 2) split_len.simps) auto
next
  case (Suc k)
  then have long: "n < length s" using assms(1) by (simp add: add.commute)
  then have "split_len n (Some (Suc k)) s = take n s # split_len n (Some k) (drop n s)"
    using assms(1) by (subst split_len.simps) simp
  moreover have "(k + 1) * n \<le> length (drop n s)" using Suc.prems by simp
  moreover have "take n s \<noteq> []" using assms(1) long by auto
  ultimately show ?case using Suc.IH [of "drop n s"] by auto
qed

lemma sint_word_of_int_32: "0 \<le> i \<Longrightarrow> i < 2 ^ 31 \<Longrightarrow> sint (word_of_int i :: 32 word) = i"
  by (simp add: sint_uint uint_word_of_int signed_take_bit_int_eq_self)

text \<open>A library whose splitter is the documented one; the rest is the simplest there is.\<close>

definition plain_lib :: "(string, string) test_lib" where
  "plain_lib = \<lparr>compile_regex = Inr, FullMatch = (\<lambda>x r. x = r), ReadContent = (\<lambda>f. Inl (kNotFound, f)),
     status_string = snd, balsa_frame = (\<lambda>r ls. Inl ''unsupported''), GURL = id, gurl_Resolve = (\<lambda>b u. u),
     gurl_is_valid = (\<lambda>u. False), gurl_scheme = (\<lambda>u. []), gurl_PathForRequest = id, gurl_host = (\<lambda>u. []),
     gurl_IntPort = (\<lambda>u. 0), ByLength = split_len\<rparr>"

interpretation plain_lib: length_splitter plain_lib
  by unfold_locales (simp add: plain_lib_def)

context length_splitter
begin

lemma ChunkBody_count:
  assumes "1 \<le> n" and "n \<le> int (length b)" and "length b < 2 ^ 31"
  shows "\<exists>cs. ChunkBody T b (num_chunks n) = Some cs \<and> concat cs = b \<and> length cs = nat n \<and> [] \<notin> set cs"
proof -
  let ?L = "int (length b) div n"
  have mod: "n mod 2 ^ 64 = n" using assms by (intro mod_pos_pos_trivial) auto
  have small: "?L \<le> int (length b)" using assms(1) zdiv_mono2 [of "int (length b)" 1 n] by simp
  have L: "1 \<le> ?L" using assms by (simp add: pos_imp_zdiv_pos_iff int_one_le_iff_zero_less)
  have narrow: "sint (word_of_int ?L :: 32 word) = ?L"
    using small L assms(3) by (intro sint_word_of_int_32) auto
  have "n * ?L \<le> int (length b)" using assms(1) by (simp add: minus_mod_eq_mult_div [symmetric])
  then have "nat n * nat ?L \<le> length b" using L assms(1) by (simp flip: nat_mult_distrib) 
  moreover have "nat n = nat (n - 1) + 1" using assms(1) by simp
  ultimately have "(nat (n - 1) + 1) * nat ?L \<le> length b" by simp
  note count = split_len_count [OF _ this]
  have "ChunkBody T b (num_chunks n) = Some (split_len (nat ?L) (Some (nat (n - 1))) b)"
    using assms(1) L unfolding ChunkBody_def by (simp add: narrow mod [simplified] ByLength Let_def)
  then show ?thesis using count L assms(1) concat_split_len by auto
qed

lemma ChunkBody_size:
  assumes "1 \<le> n"
  shows "\<exists>cs. ChunkBody T b (chunk_size n) = Some cs \<and> concat cs = b \<and>
    list_all (\<lambda>w. int (length w) \<le> n) cs \<and> list_all (\<lambda>w. int (length w) = n) (butlast cs)"
proof -
  have "0 < nat n" using assms by simp
  note sizes = split_len_sizes [OF this refl] split_len_max [OF this refl]
  show ?thesis
    using assms sizes [of _ b]
    by (auto simp: ChunkBody_def ByLength concat_split_len list_all_iff le_nat_iff)
qed

end

section \<open>Properties\<close>

text \<open>C35: The check of a phase is exact: it reports no failure if and only if every expected header is there
  with its value, every removed one is absent, every matcher holds of the header lines, the body and
  the log lines, and an immediate reply was sent exactly when one is expected, with the expected
  codes and details. A configuration without a header key never passes.\<close>

theorem check_phase_exact:
  "fst (CheckPhaseResults T expect c res) = [] \<longleftrightarrow> expectation_met T expect (phase_logs c) res"
  by (rule check_phase_ok)

text \<open>C40: A chunking plan cuts a body without losing anything: into the asked number of non-empty chunks,
  if the body has that many bytes, or into chunks of the asked size, the last of which may be
  shorter. A plan with no chunks, or with more chunks than bytes, aborts the program.\<close>

theorem chunk_body_partition:
  assumes "length_splitter T" and "length b < 2 ^ 31"
  shows "(1 \<le> n \<and> n \<le> int (length b) \<longrightarrow>
      (\<exists>cs. ChunkBody T b (num_chunks n) = Some cs \<and> concat cs = b \<and> length cs = nat n \<and> [] \<notin> set cs)) \<and>
    (1 \<le> n \<longrightarrow> (\<exists>cs. ChunkBody T b (chunk_size n) = Some cs \<and> concat cs = b \<and>
      list_all (\<lambda>w. int (length w) \<le> n) cs \<and> list_all (\<lambda>w. int (length w) = n) (butlast cs))) \<and>
    (n = 0 \<or> int (length b) < n \<and> n < 2 ^ 31 \<longrightarrow> ChunkBody T b (num_chunks n) = None)"
proof (intro conjI impI)
  assume "1 \<le> n \<and> n \<le> int (length b)"
  then show "\<exists>cs. ChunkBody T b (num_chunks n) = Some cs \<and> concat cs = b \<and> length cs = nat n \<and> [] \<notin> set cs"
    using length_splitter.ChunkBody_count [OF assms(1)] assms(2) by blast
next
  assume "1 \<le> n"
  then show "\<exists>cs. ChunkBody T b (chunk_size n) = Some cs \<and> concat cs = b \<and>
      list_all (\<lambda>w. int (length w) \<le> n) cs \<and> list_all (\<lambda>w. int (length w) = n) (butlast cs)"
    by (rule length_splitter.ChunkBody_size [OF assms(1)])
next
  assume "n = 0 \<or> int (length b) < n \<and> n < 2 ^ 31"
  then show "ChunkBody T b (num_chunks n) = None"
    by (auto simp: ChunkBody_def Let_def mod_pos_pos_trivial div_pos_pos_trivial)
qed

theorem chunk_body_partition_witness:
  "(\<exists>cs. ChunkBody plain_lib ''abcdefg'' (num_chunks 3) = Some cs \<and> concat cs = ''abcdefg'' \<and> length cs = 3 \<and> [] \<notin> set cs) \<and>
   (\<exists>cs. ChunkBody plain_lib ''abcdefg'' (chunk_size 3) = Some cs \<and> concat cs = ''abcdefg'') \<and>
   ChunkBody plain_lib ''abcdefg'' (num_chunks 8) = None"
  using chunk_body_partition [OF plain_lib.length_splitter_axioms, of "''abcdefg''" 3]
    chunk_body_partition [OF plain_lib.length_splitter_axioms, of "''abcdefg''" 8]
  by auto

text \<open>
  A reply in a body phase is not part of what is checked: of the results of the chunks only the body
  is kept. Whatever the plugin answers, an expected reply is reported as missing, and an unexpected
  one is not reported.
\<close>

lemma send_chunks_only_body:
  "send_chunks invoke chunks r s = (healthy, r', s') \<Longrightarrow> r' = r\<lparr>body := body r'\<rparr>"
  by (induction invoke chunks r s rule: send_chunks.induct)
     (auto simp: Let_def split: prod.splits if_splits)

lemma body_phase_reply_unseen:
  assumes "send_chunks invoke chunks empty_Result s = (True, res, s')"
  shows "immediate_met imm res \<longleftrightarrow> imm = None"
proof -
  have "header_status res = Continue" and "http_code res = 0"
    using send_chunks_only_body [OF assms] by (simp_all add: empty_Result_def)
      (metis Result.ext_inject Result.surjective Result.update_convs(4) Result.select_convs(1))+
  then show ?thesis by (auto simp: immediate_met_def split: option.splits)
qed

end
