(* ===== verification/Bench_Streams.thy ===== *)
theory Bench_Streams
  imports Dynamic_Test
begin

text \<open>
  The streams of a benchmark (\<^verbatim>\<open>plugins/test/dynamic_test.cc\<close>): the sequence of callbacks that
  \<^verbatim>\<open>BenchHttpHandlers\<close> times on its own stream, and the machine \<^verbatim>\<open>AdditionalStream\<close> that performs the
  same work on the streams in the background, one callback per call of \<^verbatim>\<open>Advance\<close>. The property says
  that a background stream sees exactly the callbacks of the timed one.
\<close>

section \<open>The timed stream\<close>

fun bench_chunks :: "(string \<Rightarrow> bool \<Rightarrow> 'p stream \<Rightarrow> Result \<times> 'p stream) \<Rightarrow> string list \<Rightarrow> 'p stream \<Rightarrow> bool \<times> 'p stream" where
  "bench_chunks send [] s = (True, s)"
| "bench_chunks send (chunk # chunks) s =
     (let s' = snd (send chunk (chunks = []) s)
      in if vm_failed (snd s') then (False, s') else bench_chunks send chunks s')"

definition bench_headers :: "(headers \<Rightarrow> 'p stream \<Rightarrow> Result \<times> 'p stream) \<Rightarrow> headers option \<Rightarrow> 'p stream \<Rightarrow> bool \<times> 'p stream" where
  "bench_headers send hs s = (case hs of
      None \<Rightarrow> (True, s)
    | Some h \<Rightarrow> let s' = snd (send h s) in (\<not> vm_failed (snd s'), s'))"

text \<open>The phases run one after the other until the machine fails.\<close>

definition and_then :: "('s \<Rightarrow> bool \<times> 's) \<Rightarrow> ('s \<Rightarrow> bool \<times> 's) \<Rightarrow> 's \<Rightarrow> bool \<times> 's" where
  "and_then f g s = (let (ok, s') = f s in if ok then g s' else (False, s'))"

definition BenchHttpHandlers_stream :: "'p callbacks \<Rightarrow> headers option \<Rightarrow> string list \<Rightarrow> headers option \<Rightarrow> string list
    \<Rightarrow> 'p stream \<Rightarrow> bool \<times> 'p stream" where
  "BenchHttpHandlers_stream P rh rb sh sb =
     and_then (bench_headers (SendRequestHeaders (cb_onRequestHeaders P)) rh)
     (and_then (bench_chunks (SendRequestBody (cb_onRequestBody P)) rb)
     (and_then (bench_headers (SendResponseHeaders (cb_onResponseHeaders P)) sh)
       (bench_chunks (SendResponseBody (cb_onResponseBody P)) sb)))"

text \<open>
  The inputs of the phases. The source reads the response headers from the input of the request
  headers; where a test has none, that is an empty input. \<^const>\<open>None\<close> is an abort while chunking.
\<close>

definition empty_Input :: pb_Input where
  "empty_Input = \<lparr>input_header = [], input_content = [], input_file = []\<rparr>"

definition bench_inputs :: "absl \<Rightarrow> ('re, 'g) test_lib \<Rightarrow> pb_Test
    \<Rightarrow> (Status + headers option \<times> headers option \<times> string list \<times> string list) option" where
  "bench_inputs A T cfg =
     (let request_input = (case request_headers cfg of None \<Rightarrow> empty_Input | Some ivk \<Rightarrow> inv_input ivk)
      in case (if request_headers cfg = None then Inr None else map_sum id Some (ParseHeaders A T request_input True)) of
           Inl e \<Rightarrow> Some (Inl e)
         | Inr rh \<Rightarrow>
             (case (if response_headers cfg = None then Inr None else map_sum id Some (ParseHeaders A T request_input False)) of
                Inl e \<Rightarrow> Some (Inl e)
              | Inr sh \<Rightarrow>
                  (case PrepBodyCallbackBenchmark T (body_chunking_plan cfg) (request_body cfg) of
                     None \<Rightarrow> None
                   | Some (Inl e) \<Rightarrow> Some (Inl e)
                   | Some (Inr rb) \<Rightarrow>
                       (case PrepBodyCallbackBenchmark T (body_chunking_plan cfg) (response_body cfg) of
                          None \<Rightarrow> None
                        | Some (Inl e) \<Rightarrow> Some (Inl e)
                        | Some (Inr sb) \<Rightarrow> Some (Inr (rh, sh, rb, sb))))))"

text \<open>What a test configures as response headers does not matter to its benchmark.\<close>

lemma bench_ignores_response_headers:
  "bench_inputs A T (cfg\<lparr>response_headers := Some ivk\<rparr>) = bench_inputs A T (cfg\<lparr>response_headers := Some ivk'\<rparr>)"
  by (auto simp: bench_inputs_def Let_def split: sum.split option.split)

section \<open>The streams in the background\<close>

datatype NextAction = kCreate | kSendRequestHeaders | kSendRequestBody | kSendResponseHeaders
  | kSendResponseBody | kDestroy

record 'p AdditionalStream =
  as_request_headers :: "headers option"
  as_response_headers :: "headers option"
  as_request_body_chunks :: "string list option"
  as_response_body_chunks :: "string list option"
  remaining_request_body_chunks :: "string list"
  remaining_response_body_chunks :: "string list"
  as_stream :: "'p stream option"
  next_action :: NextAction

text \<open>What is still ahead in one round of the machine: the loop of \<^verbatim>\<open>Advance\<close> only moves forward.\<close>

primrec actions_left :: "NextAction \<Rightarrow> nat" where
  "actions_left kCreate = 6"
| "actions_left kSendRequestHeaders = 5"
| "actions_left kSendRequestBody = 4"
| "actions_left kSendResponseHeaders = 3"
| "actions_left kSendResponseBody = 2"
| "actions_left kDestroy = 1"

definition vm_status :: "'p stream \<Rightarrow> Status option" where
  "vm_status s = (if vm_failed (snd s) then Some (kInternal, ''VM failed!'') else None)"

text \<open>
  \<open>make_context\<close> is the new stream context. An action on a stream that does not exist is a use of a
  null pointer: the result is \<^const>\<open>None\<close>.
\<close>

function Advance :: "'p stream \<Rightarrow> 'p callbacks \<Rightarrow> 'p AdditionalStream \<Rightarrow> (Status option \<times> 'p AdditionalStream) option" where
  "Advance make_context P a = (case next_action a of
      kCreate \<Rightarrow>
        let a1 = a\<lparr>as_stream := Some (cb_onCreate P make_context)\<rparr>;
            a2 = (case as_request_body_chunks a1 of None \<Rightarrow> a1 | Some cs \<Rightarrow> a1\<lparr>remaining_request_body_chunks := cs\<rparr>);
            a3 = (case as_response_body_chunks a2 of None \<Rightarrow> a2 | Some cs \<Rightarrow> a2\<lparr>remaining_response_body_chunks := cs\<rparr>)
        in Some (None, a3\<lparr>next_action := kSendRequestHeaders\<rparr>)
    | kSendRequestHeaders \<Rightarrow>
        (case as_request_headers a of
           None \<Rightarrow> Advance make_context P (a\<lparr>next_action := kSendRequestBody\<rparr>)
         | Some hs \<Rightarrow>
             (case as_stream a of
                None \<Rightarrow> None
              | Some s \<Rightarrow>
                  let s' = snd (SendRequestHeaders (cb_onRequestHeaders P) hs s)
                  in Some (vm_status s', a\<lparr>as_stream := Some s', next_action := kSendRequestBody\<rparr>)))
    | kSendRequestBody \<Rightarrow>
        (case remaining_request_body_chunks a of
           [] \<Rightarrow> Advance make_context P (a\<lparr>next_action := kSendResponseHeaders\<rparr>)
         | chunk # rest \<Rightarrow>
             (case as_stream a of
                None \<Rightarrow> None
              | Some s \<Rightarrow>
                  let s' = snd (SendRequestBody (cb_onRequestBody P) chunk (rest = []) s)
                  in Some (vm_status s', a\<lparr>as_stream := Some s', remaining_request_body_chunks := rest\<rparr>)))
    | kSendResponseHeaders \<Rightarrow>
        (case as_response_headers a of
           None \<Rightarrow> Advance make_context P (a\<lparr>next_action := kSendResponseBody\<rparr>)
         | Some hs \<Rightarrow>
             (case as_stream a of
                None \<Rightarrow> None
              | Some s \<Rightarrow>
                  let s' = snd (SendResponseHeaders (cb_onResponseHeaders P) hs s)
                  in Some (vm_status s', a\<lparr>as_stream := Some s', next_action := kSendResponseBody\<rparr>)))
    | kSendResponseBody \<Rightarrow>
        (case remaining_response_body_chunks a of
           [] \<Rightarrow> Advance make_context P (a\<lparr>next_action := kDestroy\<rparr>)
         | chunk # rest \<Rightarrow>
             (case as_stream a of
                None \<Rightarrow> None
              | Some s \<Rightarrow>
                  let s' = snd (SendResponseBody (cb_onResponseBody P) chunk (rest = []) s)
                  in Some (vm_status s', a\<lparr>as_stream := Some s', remaining_response_body_chunks := rest\<rparr>)))
    | kDestroy \<Rightarrow>
        Some (case as_stream a of None \<Rightarrow> None | Some s \<Rightarrow> vm_status (TearDown (cb_onDone P) (cb_onDelete P) s),
              a\<lparr>as_stream := None, next_action := kCreate\<rparr>))"
  by pat_completeness auto
termination
  by (relation "measure (\<lambda>(make_context, P, a). actions_left (next_action a))") auto

declare Advance.simps [simp del]

definition new_AdditionalStream :: "headers option \<Rightarrow> headers option \<Rightarrow> string list option \<Rightarrow> string list option
    \<Rightarrow> 'p AdditionalStream" where
  "new_AdditionalStream rh sh rb sb = \<lparr>as_request_headers = rh, as_response_headers = sh,
     as_request_body_chunks = rb, as_response_body_chunks = sb, remaining_request_body_chunks = [],
     remaining_response_body_chunks = [], as_stream = None, next_action = kCreate\<rparr>"

section \<open>Sequences of steps\<close>

text \<open>Several calls that all succeed.\<close>

primrec advances :: "'p stream \<Rightarrow> 'p callbacks \<Rightarrow> nat \<Rightarrow> 'p AdditionalStream \<Rightarrow> 'p AdditionalStream option" where
  "advances x P 0 a = Some a"
| "advances x P (Suc n) a = (case Advance x P a of Some (None, a') \<Rightarrow> advances x P n a' | _ \<Rightarrow> None)"

text \<open>
  \<open>n\<close> calls lead to a state that holds the same stream as \<open>b\<close> and does the same next: phases without
  work are passed in the call after them.
\<close>

definition reaches :: "'p stream \<Rightarrow> 'p callbacks \<Rightarrow> nat \<Rightarrow> 'p AdditionalStream \<Rightarrow> 'p AdditionalStream \<Rightarrow> bool" where
  "reaches x P n a b \<longleftrightarrow>
     (\<exists>a'. advances x P n a = Some a' \<and> Advance x P a' = Advance x P b \<and> as_stream a' = as_stream b)"

lemma advances_add: "advances x P (m + n) a = (case advances x P m a of None \<Rightarrow> None | Some b \<Rightarrow> advances x P n b)"
  by (induction m arbitrary: a) (auto split: option.split)

lemma reaches_trans [trans]:
  assumes "reaches x P m a b" and "reaches x P n b c"
  shows "reaches x P (m + n) a c"
proof -
  obtain a' where a': "advances x P m a = Some a'" "Advance x P a' = Advance x P b" "as_stream a' = as_stream b"
    using assms(1) by (auto simp: reaches_def)
  obtain b' where b': "advances x P n b = Some b'" "Advance x P b' = Advance x P c" "as_stream b' = as_stream c"
    using assms(2) by (auto simp: reaches_def)
  show ?thesis
  proof (cases n)
    case 0
    with a' b' show ?thesis by (auto simp: reaches_def)
  next
    case (Suc k)
    then have "advances x P n a' = Some b'" using a'(2) b'(1) by simp
    with a'(1) b' show ?thesis by (auto simp: reaches_def advances_add)
  qed
qed

lemma reaches_skip: "Advance x P a = Advance x P b \<Longrightarrow> as_stream a = as_stream b \<Longrightarrow> reaches x P 0 a b"
  by (simp add: reaches_def)

lemma reaches_call: "Advance x P a = Some (None, b) \<Longrightarrow> reaches x P 1 a b"
  by (simp add: reaches_def)

lemma reaches_call_Suc:
  assumes "Advance x P a = Some (None, b)" and "reaches x P n b c"
  shows "reaches x P (Suc n) a c"
  using reaches_trans [OF reaches_call [OF assms(1)] assms(2)] by simp

section \<open>One phase after the other\<close>

text \<open>An action without work is passed; one with work is performed and ends the call.\<close>

lemma Advance_idle:
  "next_action a = kSendRequestHeaders \<Longrightarrow> as_request_headers a = None \<Longrightarrow>
     Advance x P a = Advance x P (a\<lparr>next_action := kSendRequestBody\<rparr>)"
  "next_action a = kSendRequestBody \<Longrightarrow> remaining_request_body_chunks a = [] \<Longrightarrow>
     Advance x P a = Advance x P (a\<lparr>next_action := kSendResponseHeaders\<rparr>)"
  "next_action a = kSendResponseHeaders \<Longrightarrow> as_response_headers a = None \<Longrightarrow>
     Advance x P a = Advance x P (a\<lparr>next_action := kSendResponseBody\<rparr>)"
  "next_action a = kSendResponseBody \<Longrightarrow> remaining_response_body_chunks a = [] \<Longrightarrow>
     Advance x P a = Advance x P (a\<lparr>next_action := kDestroy\<rparr>)"
  by (subst Advance.simps, simp)+

lemma Advance_work:
  assumes "as_stream a = Some s"
  shows "next_action a = kSendRequestHeaders \<Longrightarrow> as_request_headers a = Some hs \<Longrightarrow>
     s' = snd (SendRequestHeaders (cb_onRequestHeaders P) hs s) \<Longrightarrow>
     Advance x P a = Some (vm_status s', a\<lparr>as_stream := Some s', next_action := kSendRequestBody\<rparr>)"
  "next_action a = kSendRequestBody \<Longrightarrow> remaining_request_body_chunks a = c # cs \<Longrightarrow>
     s' = snd (SendRequestBody (cb_onRequestBody P) c (cs = []) s) \<Longrightarrow>
     Advance x P a = Some (vm_status s', a\<lparr>as_stream := Some s', remaining_request_body_chunks := cs\<rparr>)"
  "next_action a = kSendResponseHeaders \<Longrightarrow> as_response_headers a = Some hs \<Longrightarrow>
     s' = snd (SendResponseHeaders (cb_onResponseHeaders P) hs s) \<Longrightarrow>
     Advance x P a = Some (vm_status s', a\<lparr>as_stream := Some s', next_action := kSendResponseBody\<rparr>)"
  "next_action a = kSendResponseBody \<Longrightarrow> remaining_response_body_chunks a = c # cs \<Longrightarrow>
     s' = snd (SendResponseBody (cb_onResponseBody P) c (cs = []) s) \<Longrightarrow>
     Advance x P a = Some (vm_status s', a\<lparr>as_stream := Some s', remaining_response_body_chunks := cs\<rparr>)"
  using assms by (subst Advance.simps, simp add: Let_def)+

lemma same_stream: "as_stream a = Some s \<Longrightarrow> a\<lparr>as_stream := Some s, next_action := k\<rparr> = a\<lparr>next_action := k\<rparr>"
  by (cases a) simp

lemma request_headers_phase:
  assumes "bench_headers (SendRequestHeaders (cb_onRequestHeaders P)) (as_request_headers a) s = (True, s')"
    and "as_stream a = Some s" and "next_action a = kSendRequestHeaders"
  shows "reaches x P (if as_request_headers a = None then 0 else 1) a (a\<lparr>as_stream := Some s', next_action := kSendRequestBody\<rparr>)"
proof (cases "as_request_headers a")
  case None
  with assms show ?thesis by (auto simp: bench_headers_def same_stream Advance_idle(1) intro!: reaches_skip)
next
  case (Some hs)
  with assms have "s' = snd (SendRequestHeaders (cb_onRequestHeaders P) hs s)" and "vm_status s' = None"
    by (auto simp: bench_headers_def Let_def vm_status_def)
  with Advance_work(1) [OF assms(2,3) Some this(1)] Some show ?thesis by (simp add: reaches_call [simplified])
qed

lemma response_headers_phase:
  assumes "bench_headers (SendResponseHeaders (cb_onResponseHeaders P)) (as_response_headers a) s = (True, s')"
    and "as_stream a = Some s" and "next_action a = kSendResponseHeaders"
  shows "reaches x P (if as_response_headers a = None then 0 else 1) a (a\<lparr>as_stream := Some s', next_action := kSendResponseBody\<rparr>)"
proof (cases "as_response_headers a")
  case None
  with assms show ?thesis by (auto simp: bench_headers_def same_stream Advance_idle(3) intro!: reaches_skip)
next
  case (Some hs)
  with assms have "s' = snd (SendResponseHeaders (cb_onResponseHeaders P) hs s)" and "vm_status s' = None"
    by (auto simp: bench_headers_def Let_def vm_status_def)
  with Advance_work(3) [OF assms(2,3) Some this(1)] Some show ?thesis by (simp add: reaches_call [simplified])
qed

lemma request_chunks_phase:
  assumes "bench_chunks (SendRequestBody (cb_onRequestBody P)) cs s = (True, s')"
    and "as_stream a = Some s" and "next_action a = kSendRequestBody" and "remaining_request_body_chunks a = cs"
  shows "reaches x P (length cs) a
    (a\<lparr>as_stream := Some s', remaining_request_body_chunks := [], next_action := kSendResponseHeaders\<rparr>)"
  using assms
proof (induction cs arbitrary: a s)
  case Nil
  then show ?case by (cases a) (auto intro!: reaches_skip simp: Advance_idle)
next
  case (Cons c cs)
  let ?s = "snd (SendRequestBody (cb_onRequestBody P) c (cs = []) s)"
  let ?a = "a\<lparr>as_stream := Some ?s, remaining_request_body_chunks := cs\<rparr>"
  have ok: "\<not> vm_failed (snd ?s)" and rest: "bench_chunks (SendRequestBody (cb_onRequestBody P)) cs ?s = (True, s')"
    using Cons.prems(1) by (auto simp: Let_def split: if_splits)
  have "Advance x P a = Some (None, ?a)"
    using Advance_work(2) [OF Cons.prems(2-4) refl] ok by (simp add: vm_status_def)
  moreover have "reaches x P (length cs) ?a
      (a\<lparr>as_stream := Some s', remaining_request_body_chunks := [], next_action := kSendResponseHeaders\<rparr>)"
    using Cons.IH [OF rest, of ?a] Cons.prems(3) by simp
  ultimately show ?case by (simp add: reaches_call_Suc)
qed

lemma response_chunks_phase:
  assumes "bench_chunks (SendResponseBody (cb_onResponseBody P)) cs s = (True, s')"
    and "as_stream a = Some s" and "next_action a = kSendResponseBody" and "remaining_response_body_chunks a = cs"
  shows "reaches x P (length cs) a
    (a\<lparr>as_stream := Some s', remaining_response_body_chunks := [], next_action := kDestroy\<rparr>)"
  using assms
proof (induction cs arbitrary: a s)
  case Nil
  then show ?case by (cases a) (auto intro!: reaches_skip simp: Advance_idle)
next
  case (Cons c cs)
  let ?s = "snd (SendResponseBody (cb_onResponseBody P) c (cs = []) s)"
  let ?a = "a\<lparr>as_stream := Some ?s, remaining_response_body_chunks := cs\<rparr>"
  have ok: "\<not> vm_failed (snd ?s)" and rest: "bench_chunks (SendResponseBody (cb_onResponseBody P)) cs ?s = (True, s')"
    using Cons.prems(1) by (auto simp: Let_def split: if_splits)
  have "Advance x P a = Some (None, ?a)"
    using Advance_work(4) [OF Cons.prems(2-4) refl] ok by (simp add: vm_status_def)
  moreover have "reaches x P (length cs) ?a
      (a\<lparr>as_stream := Some s', remaining_response_body_chunks := [], next_action := kDestroy\<rparr>)"
    using Cons.IH [OF rest, of ?a] Cons.prems(3) by simp
  ultimately show ?case by (simp add: reaches_call_Suc)
qed

section \<open>A whole round\<close>

text \<open>C38: A background stream of a benchmark performs the callbacks of the timed stream, one per call: after
  the call that creates it, and one call for each header phase that is configured and for each chunk,
  it holds exactly the stream that \<^verbatim>\<open>BenchHttpHandlers\<close> has after its loop body, and the next call
  tears it down and starts over.\<close>

theorem additional_stream_follows_benchmark:
  assumes "BenchHttpHandlers_stream P rh rb sh sb (cb_onCreate P x) = (True, s')"
  shows "\<exists>a. advances x P (1 + (if rh = None then 0 else 1) + length rb + (if sh = None then 0 else 1) + length sb)
      (new_AdditionalStream rh sh (Some rb) (Some sb)) = Some a \<and>
    as_stream a = Some s' \<and>
    Advance x P a = Some (vm_status (TearDown (cb_onDone P) (cb_onDelete P) s'), new_AdditionalStream rh sh (Some rb) (Some sb))"
proof -
  let ?a = "new_AdditionalStream rh sh (Some rb) (Some sb)"
  obtain s1 s2 s3
    where 1: "bench_headers (SendRequestHeaders (cb_onRequestHeaders P)) rh (cb_onCreate P x) = (True, s1)"
      and 2: "bench_chunks (SendRequestBody (cb_onRequestBody P)) rb s1 = (True, s2)"
      and 3: "bench_headers (SendResponseHeaders (cb_onResponseHeaders P)) sh s2 = (True, s3)"
      and 4: "bench_chunks (SendResponseBody (cb_onResponseBody P)) sb s3 = (True, s')"
    using assms by (auto simp: BenchHttpHandlers_stream_def and_then_def split: prod.splits if_splits)
  let ?b = "?a\<lparr>as_stream := Some (cb_onCreate P x), remaining_request_body_chunks := rb,
    remaining_response_body_chunks := sb, next_action := kSendRequestHeaders\<rparr>"
  let ?c = "?b\<lparr>as_stream := Some s1, next_action := kSendRequestBody\<rparr>"
  let ?d = "?c\<lparr>as_stream := Some s2, remaining_request_body_chunks := [], next_action := kSendResponseHeaders\<rparr>"
  let ?e = "?d\<lparr>as_stream := Some s3, next_action := kSendResponseBody\<rparr>"
  let ?f = "?e\<lparr>as_stream := Some s', remaining_response_body_chunks := [], next_action := kDestroy\<rparr>"
  have "reaches x P 1 ?a ?b"
    by (rule reaches_call, subst Advance.simps) (simp add: new_AdditionalStream_def)
  also have "reaches x P (if rh = None then 0 else 1) ?b ?c"
    using request_headers_phase [of P ?b] 1 by (simp add: new_AdditionalStream_def)
  also have "reaches x P (length rb) ?c ?d"
    using request_chunks_phase [OF 2, of ?c] by simp
  also have "reaches x P (if sh = None then 0 else 1) ?d ?e"
    using response_headers_phase [of P ?d] 3 by (simp add: new_AdditionalStream_def)
  also have "reaches x P (length sb) ?e ?f"
    using response_chunks_phase [OF 4, of ?e] by simp
  finally obtain a where "advances x P (1 + (if rh = None then 0 else 1) + length rb + (if sh = None then 0 else 1) + length sb) ?a = Some a"
    and "Advance x P a = Advance x P ?f" and "as_stream a = as_stream ?f" by (auto simp: reaches_def)
  moreover have "Advance x P ?f = Some (vm_status (TearDown (cb_onDone P) (cb_onDelete P) s'), ?a)"
    by (subst Advance.simps) (simp add: new_AdditionalStream_def)
  ultimately show ?thesis by simp
qed

text \<open>Callbacks that let everything pass.\<close>

definition pass_all :: "'p callbacks" where
  "pass_all = \<lparr>cb_onCreate = id, cb_onRequestHeaders = (\<lambda>n e s. (Continue, s)), cb_onRequestBody = (\<lambda>n e s. (DataContinue, s)),
     cb_onResponseHeaders = (\<lambda>n e s. (Continue, s)), cb_onResponseBody = (\<lambda>n e s. (DataContinue, s)),
     cb_onDone = id, cb_onDelete = id\<rparr>"

theorem additional_stream_follows_benchmark_witness:
  "\<exists>s' a. BenchHttpHandlers_stream pass_all (Some [(''a'', ''1'')]) [''x'', ''y''] None [] ((), new_stream Info None 0 [] []) = (True, s') \<and>
    advances ((), new_stream Info None 0 [] []) pass_all (1 + 1 + length [''x'', ''y''] + 0 + 0)
      (new_AdditionalStream (Some [(''a'', ''1'')]) None (Some [''x'', ''y'']) (Some [])) = Some a \<and> as_stream a = Some s'"
proof -
  let ?x = "((), new_stream Info None 0 [] [])"
  obtain s' where "BenchHttpHandlers_stream pass_all (Some [(''a'', ''1'')]) [''x'', ''y''] None [] ?x = (True, s')"
    by (simp add: BenchHttpHandlers_stream_def and_then_def bench_headers_def pass_all_def send_defs new_stream_def)
  then have run: "BenchHttpHandlers_stream pass_all (Some [(''a'', ''1'')]) [''x'', ''y''] None [] (cb_onCreate pass_all ?x) = (True, s')"
    by (simp add: pass_all_def)
  show ?thesis
    using additional_stream_follows_benchmark [OF run] run by (auto simp: pass_all_def)
qed

end
