(* ===== verification/Yaml_Converter.thy ===== *)
theory Yaml_Converter
  imports Absl "HOL-Library.AList"
begin

text \<open>
  The conversion of a YAML document to the test configuration (\<^verbatim>\<open>plugins/test/yaml_proto_converter.cpp\<close>).
  A protobuf message is the list of its set fields with their values, a descriptor the tree of its
  fields, as the reflection interface presents them; setting a member of a oneof clears the others.
  Parsing of YAML and of scalars belongs to yaml-cpp and is an argument; a failure there is an
  exception, which the conversion catches. The property says that what the conversion accepts
  conforms to the descriptor.
\<close>

section \<open>Documents, descriptors and messages\<close>

datatype yaml = Undefined | Null | Scalar string | Sequence "yaml list" | Map "(yaml \<times> yaml) list"

datatype FieldType = CPPTYPE_INT32 | CPPTYPE_INT64 | CPPTYPE_UINT32 | CPPTYPE_UINT64 | CPPTYPE_DOUBLE | CPPTYPE_FLOAT
  | CPPTYPE_BOOL | CPPTYPE_STRING | CPPTYPE_ENUM "(string \<times> int) list" | CPPTYPE_MESSAGE Descriptor
and Descriptor = Descriptor string "FieldDescriptor list"
and FieldDescriptor = Field string bool "string option" FieldType

primrec field_name :: "FieldDescriptor \<Rightarrow> string" where
  "field_name (Field n r c t) = n"

primrec is_repeated :: "FieldDescriptor \<Rightarrow> bool" where
  "is_repeated (Field n r c t) = r"

primrec containing_oneof :: "FieldDescriptor \<Rightarrow> string option" where
  "containing_oneof (Field n r c t) = c"

primrec cpp_type :: "FieldDescriptor \<Rightarrow> FieldType" where
  "cpp_type (Field n r c t) = t"

primrec descriptor_name :: "Descriptor \<Rightarrow> string" where
  "descriptor_name (Descriptor n fs) = n"

primrec descriptor_fields :: "Descriptor \<Rightarrow> FieldDescriptor list" where
  "descriptor_fields (Descriptor n fs) = fs"

datatype 'd pvalue = PInt int | PReal 'd | PBool bool | PString string | PEnum int | PMessage "(string \<times> 'd pvalue list) list"

type_synonym 'd message = "(string \<times> 'd pvalue list) list"

definition FindFieldByName :: "string \<Rightarrow> Descriptor \<Rightarrow> FieldDescriptor option" where
  "FindFieldByName key D = List.find (\<lambda>f. field_name f = key) (descriptor_fields D)"

text \<open>Reflection: a singular field is replaced, a repeated one grows, the rest of a oneof is cleared.\<close>

definition field_values :: "string \<Rightarrow> 'd message \<Rightarrow> 'd pvalue list" where
  "field_values k m = (case map_of m k of None \<Rightarrow> [] | Some vs \<Rightarrow> vs)"

definition clear_oneof :: "Descriptor \<Rightarrow> FieldDescriptor \<Rightarrow> 'd message \<Rightarrow> 'd message" where
  "clear_oneof D f m = (case containing_oneof f of
      None \<Rightarrow> m
    | Some x \<Rightarrow> filter (\<lambda>(k, vs). k = field_name f \<or>
        \<not> list_ex (\<lambda>g. field_name g = k \<and> containing_oneof g = Some x) (descriptor_fields D)) m)"

definition SetField :: "Descriptor \<Rightarrow> FieldDescriptor \<Rightarrow> 'd pvalue \<Rightarrow> 'd message \<Rightarrow> 'd message" where
  "SetField D f v m = AList.update (field_name f) [v] (clear_oneof D f m)"

definition AddField :: "FieldDescriptor \<Rightarrow> 'd pvalue \<Rightarrow> 'd message \<Rightarrow> 'd message" where
  "AddField f v m = AList.update (field_name f) (field_values (field_name f) m @ [v]) m"

text \<open>\<^verbatim>\<open>MutableMessage\<close>: the nested message that is there, or an empty one.\<close>

definition sub_message :: "FieldDescriptor \<Rightarrow> 'd message \<Rightarrow> 'd message" where
  "sub_message f m = (case field_values (field_name f) m of PMessage s # _ \<Rightarrow> s | _ \<Rightarrow> [])"

section \<open>The YAML library\<close>

record 'd yaml_lib =
  yaml_Load :: "string \<Rightarrow> string + yaml"
  as_string :: "yaml \<Rightarrow> string + string"
  as_int32 :: "string \<Rightarrow> string + int"
  as_int64 :: "string \<Rightarrow> string + int"
  as_uint32 :: "string \<Rightarrow> string + int"
  as_uint64 :: "string \<Rightarrow> string + int"
  as_double :: "string \<Rightarrow> string + 'd"
  as_float :: "string \<Rightarrow> string + 'd"
  as_bool :: "string \<Rightarrow> string + bool"
  type_name :: "yaml \<Rightarrow> string"

datatype conversion_error = StatusError Status | YamlException string

section \<open>Scalars\<close>

definition enum_value :: "'d yaml_lib \<Rightarrow> (string \<times> int) list \<Rightarrow> string \<Rightarrow> int option" where
  "enum_value Y evs s = (case map_of evs s of
      Some n \<Rightarrow> Some n
    | None \<Rightarrow> (case as_int32 Y s of Inl e \<Rightarrow> None | Inr n \<Rightarrow> if n \<in> set (map snd evs) then Some n else None))"

definition quoted :: "string \<Rightarrow> string" where
  "quoted s = [CHR 0x27] @ s @ [CHR 0x27]"

text \<open>A conversion of yaml-cpp, with its exception turned into a status.\<close>

definition parsed :: "string \<Rightarrow> FieldDescriptor \<Rightarrow> ('x \<Rightarrow> 'v) \<Rightarrow> string + 'x \<Rightarrow> Status + 'v" where
  "parsed what f g r = (case r of
      Inl e \<Rightarrow> Inl (kInvalidArgument, ''Failed to parse '' @ what @ quoted (field_name f) @ '': '' @ e)
    | Inr v \<Rightarrow> Inr (g v))"

text \<open>
  The value of a scalar for a field. \<open>what\<close> is the name of the kind of field in the messages; this is
  the only difference between the two functions of the source, besides storing the value by setting
  or by adding it.
\<close>

definition scalar_value :: "'d yaml_lib \<Rightarrow> string \<Rightarrow> FieldDescriptor \<Rightarrow> yaml \<Rightarrow> Status + 'd pvalue" where
  "scalar_value Y what f node = (case node of
      Scalar str_val \<Rightarrow>
        (case cpp_type f of
           CPPTYPE_INT32 \<Rightarrow> parsed what f PInt (as_int32 Y str_val)
         | CPPTYPE_INT64 \<Rightarrow> parsed what f PInt (as_int64 Y str_val)
         | CPPTYPE_UINT32 \<Rightarrow> parsed what f PInt (as_uint32 Y str_val)
         | CPPTYPE_UINT64 \<Rightarrow> parsed what f PInt (as_uint64 Y str_val)
         | CPPTYPE_DOUBLE \<Rightarrow> parsed what f PReal (as_double Y str_val)
         | CPPTYPE_FLOAT \<Rightarrow> parsed what f PReal (as_float Y str_val)
         | CPPTYPE_BOOL \<Rightarrow> parsed what f PBool (as_bool Y str_val)
         | CPPTYPE_STRING \<Rightarrow> Inr (PString str_val)
         | CPPTYPE_ENUM evs \<Rightarrow>
             (case enum_value Y evs str_val of
                None \<Rightarrow> Inl (kInvalidArgument, ''Invalid enum value '' @ quoted str_val @ '' for '' @ what @ quoted (field_name f))
              | Some n \<Rightarrow> Inr (PEnum n))
         | CPPTYPE_MESSAGE D \<Rightarrow> Inl (kUnimplemented, ''Unsupported type for '' @ what @ quoted (field_name f)))
    | _ \<Rightarrow> Inl (kInvalidArgument, ''Expected a Scalar for '' @ what @ quoted (field_name f)))"

definition SetSingularScalarField :: "'d yaml_lib \<Rightarrow> Descriptor \<Rightarrow> FieldDescriptor \<Rightarrow> yaml \<Rightarrow> 'd message \<Rightarrow> Status + 'd message" where
  "SetSingularScalarField Y D f node m = (case scalar_value Y ''field '' f node of
      Inl e \<Rightarrow> Inl e | Inr v \<Rightarrow> Inr (SetField D f v m))"

definition AddRepeatedScalarField :: "'d yaml_lib \<Rightarrow> FieldDescriptor \<Rightarrow> yaml \<Rightarrow> 'd message \<Rightarrow> Status + 'd message" where
  "AddRepeatedScalarField Y f node m = (case scalar_value Y ''repeated field '' f node of
      Inl e \<Rightarrow> Inl e | Inr v \<Rightarrow> Inr (AddField f v m))"

section \<open>Messages\<close>

definition of_status :: "Status + 'a \<Rightarrow> conversion_error + 'a" where
  "of_status r = (case r of Inl e \<Rightarrow> Inl (StatusError e) | Inr x \<Rightarrow> Inr x)"

fun ConvertYamlToProtoMessage :: "'d yaml_lib \<Rightarrow> Descriptor \<Rightarrow> yaml \<Rightarrow> 'd message \<Rightarrow> conversion_error + 'd message"
  and convert_entries :: "'d yaml_lib \<Rightarrow> Descriptor \<Rightarrow> (yaml \<times> yaml) list \<Rightarrow> 'd message \<Rightarrow> conversion_error + 'd message"
  and convert_elements :: "'d yaml_lib \<Rightarrow> FieldDescriptor \<Rightarrow> yaml list \<Rightarrow> 'd message \<Rightarrow> conversion_error + 'd message" where
  "ConvertYamlToProtoMessage Y D node m = (case node of
      Map entries \<Rightarrow> convert_entries Y D entries m
    | _ \<Rightarrow> Inl (StatusError (kInvalidArgument,
        ''Expected a Map for message '' @ descriptor_name D @ '' but got '' @ type_name Y node)))"
| "convert_entries Y D [] m = Inr m"
| "convert_entries Y D ((k, value_node) # entries) m = (case as_string Y k of
      Inl ex \<Rightarrow> Inl (YamlException ex)
    | Inr key \<Rightarrow>
        (case FindFieldByName key D of
           None \<Rightarrow> Inl (StatusError (kInvalidArgument,
             ''Field '' @ quoted key @ '' is not found in the '' @ descriptor_name D @ '' proto''))
         | Some f \<Rightarrow>
             (case (if is_repeated f
                    then (case value_node of
                            Sequence elems \<Rightarrow> convert_elements Y f elems m
                          | _ \<Rightarrow> Inl (StatusError (kInvalidArgument, ''Expected a Sequence for repeated field '' @ quoted key)))
                    else case cpp_type f of
                           CPPTYPE_MESSAGE D' \<Rightarrow>
                             (case ConvertYamlToProtoMessage Y D' value_node (sub_message f m) of
                                Inl e \<Rightarrow> Inl e
                              | Inr m' \<Rightarrow> Inr (SetField D f (PMessage m') m))
                         | _ \<Rightarrow> of_status (SetSingularScalarField Y D f value_node m)) of
                Inl e \<Rightarrow> Inl e
              | Inr m' \<Rightarrow> convert_entries Y D entries m')))"
| "convert_elements Y f [] m = Inr m"
| "convert_elements Y f (elem # elems) m =
     (case (case cpp_type f of
              CPPTYPE_MESSAGE D' \<Rightarrow>
                (case ConvertYamlToProtoMessage Y D' elem [] of
                   Inl e \<Rightarrow> Inl e
                 | Inr m' \<Rightarrow> Inr (AddField f (PMessage m') m))
            | _ \<Rightarrow> of_status (AddRepeatedScalarField Y f elem m)) of
        Inl e \<Rightarrow> Inl e
      | Inr m' \<Rightarrow> convert_elements Y f elems m')"

definition ConvertYamlToTestSuite :: "'d yaml_lib \<Rightarrow> Descriptor \<Rightarrow> string \<Rightarrow> Status + 'd message" where
  "ConvertYamlToTestSuite Y TestSuite yaml_content = (case yaml_Load Y yaml_content of
      Inl ex \<Rightarrow> Inl (kInvalidArgument, ''YAML parsing error: '' @ ex)
    | Inr yaml_root \<Rightarrow>
        if yaml_root = Undefined \<or> yaml_root = Null then Inr []
        else (case ConvertYamlToProtoMessage Y TestSuite yaml_root [] of
                Inl (StatusError (code, msg)) \<Rightarrow> Inl (code, ''Failed to parse input YAML: '' @ msg)
              | Inl (YamlException ex) \<Rightarrow> Inl (kInvalidArgument, ''YAML parsing error: '' @ ex)
              | Inr m \<Rightarrow> Inr m))"

section \<open>The descriptor of the test configuration (\<^verbatim>\<open>runner.proto\<close>)\<close>

definition singular :: "string \<Rightarrow> FieldType \<Rightarrow> FieldDescriptor" where
  "singular n t = Field n False None t"

definition repeated :: "string \<Rightarrow> Descriptor \<Rightarrow> FieldDescriptor" where
  "repeated n D = Field n True None (CPPTYPE_MESSAGE D)"

definition StringMatcher_descriptor :: Descriptor where
  "StringMatcher_descriptor = Descriptor ''StringMatcher''
     [singular ''invert'' CPPTYPE_BOOL, Field ''exact'' False (Some ''matcher'') CPPTYPE_STRING,
      Field ''regex'' False (Some ''matcher'') CPPTYPE_STRING, Field ''file'' False (Some ''matcher'') CPPTYPE_STRING]"

definition Header_descriptor :: Descriptor where
  "Header_descriptor = Descriptor ''Header'' [singular ''key'' CPPTYPE_STRING, singular ''value'' CPPTYPE_STRING]"

definition Input_descriptor :: Descriptor where
  "Input_descriptor = Descriptor ''Input''
     [repeated ''header'' Header_descriptor, singular ''content'' CPPTYPE_STRING, singular ''file'' CPPTYPE_STRING]"

definition Immediate_descriptor :: Descriptor where
  "Immediate_descriptor = Descriptor ''Immediate''
     [singular ''http_status'' CPPTYPE_UINT32, singular ''grpc_status'' CPPTYPE_UINT32, singular ''details'' CPPTYPE_STRING]"

definition Expectation_descriptor :: Descriptor where
  "Expectation_descriptor = Descriptor ''Expectation''
     [repeated ''has_header'' Header_descriptor, repeated ''no_header'' Header_descriptor,
      repeated ''headers'' StringMatcher_descriptor, repeated ''body'' StringMatcher_descriptor,
      singular ''immediate'' (CPPTYPE_MESSAGE Immediate_descriptor), repeated ''log'' StringMatcher_descriptor]"

definition Invocation_descriptor :: Descriptor where
  "Invocation_descriptor = Descriptor ''Invocation''
     [singular ''input'' (CPPTYPE_MESSAGE Input_descriptor), singular ''result'' (CPPTYPE_MESSAGE Expectation_descriptor)]"

definition Property_descriptor :: Descriptor where
  "Property_descriptor = Descriptor ''Property'' [singular ''path'' CPPTYPE_STRING, singular ''value'' CPPTYPE_STRING]"

definition Test_descriptor :: Descriptor where
  "Test_descriptor = Descriptor ''Test''
     [singular ''name'' CPPTYPE_STRING, singular ''benchmark'' CPPTYPE_BOOL,
      Field ''num_chunks'' False (Some ''body_chunking_plan'') CPPTYPE_INT32,
      Field ''chunk_size'' False (Some ''body_chunking_plan'') CPPTYPE_INT64,
      repeated ''properties'' Property_descriptor,
      singular ''request_headers'' (CPPTYPE_MESSAGE Invocation_descriptor), repeated ''request_body'' Invocation_descriptor,
      singular ''response_headers'' (CPPTYPE_MESSAGE Invocation_descriptor), repeated ''response_body'' Invocation_descriptor,
      singular ''plugin_init'' (CPPTYPE_MESSAGE Expectation_descriptor),
      singular ''stream_init'' (CPPTYPE_MESSAGE Expectation_descriptor),
      singular ''stream_destroy'' (CPPTYPE_MESSAGE Expectation_descriptor)]"

definition Env_descriptor :: Descriptor where
  "Env_descriptor = Descriptor ''Env''
     [singular ''test_path'' CPPTYPE_STRING, singular ''wasm_path'' CPPTYPE_STRING, singular ''config_path'' CPPTYPE_STRING,
      singular ''log_level'' (CPPTYPE_ENUM [(''UNDEFINED'', 0), (''TRACE'', 1), (''DEBUG'', 2), (''INFO'', 3),
        (''WARN'', 4), (''ERROR'', 5), (''CRITICAL'', 6)]),
      singular ''log_path'' CPPTYPE_STRING, singular ''time_secs'' CPPTYPE_UINT64,
      singular ''num_additional_streams'' CPPTYPE_UINT64, singular ''additional_stream_advance_rate'' CPPTYPE_UINT64]"

definition TestSuite_descriptor :: Descriptor where
  "TestSuite_descriptor = Descriptor ''TestSuite''
     [singular ''env'' (CPPTYPE_MESSAGE Env_descriptor), repeated ''test'' Test_descriptor]"

section \<open>Conforming to a descriptor\<close>

text \<open>
  The ranges of the integer conversions are all that is asked of the library.
\<close>

locale yaml_scalars =
  fixes Y :: "'d yaml_lib"
  assumes int32: "as_int32 Y s = Inr i \<Longrightarrow> - (2 ^ 31) \<le> i \<and> i < 2 ^ 31"
    and int64: "as_int64 Y s = Inr i \<Longrightarrow> - (2 ^ 63) \<le> i \<and> i < 2 ^ 63"
    and uint32: "as_uint32 Y s = Inr i \<Longrightarrow> 0 \<le> i \<and> i < 2 ^ 32"
    and uint64: "as_uint64 Y s = Inr i \<Longrightarrow> 0 \<le> i \<and> i < 2 ^ 64"

text \<open>At most one member of every oneof is set.\<close>

definition oneofs_ok :: "Descriptor \<Rightarrow> 'd message \<Rightarrow> bool" where
  "oneofs_ok D m \<longleftrightarrow> (\<forall>k \<in> fst ` set m. \<forall>k' \<in> fst ` set m. \<forall>f f' x.
     FindFieldByName k D = Some f \<and> FindFieldByName k' D = Some f' \<and> \<not> is_repeated f \<and> \<not> is_repeated f' \<and>
     containing_oneof f = Some x \<and> containing_oneof f' = Some x \<longrightarrow> k = k')"

inductive value_ok :: "FieldType \<Rightarrow> 'd pvalue \<Rightarrow> bool" and message_ok :: "Descriptor \<Rightarrow> 'd message \<Rightarrow> bool" where
  "- (2 ^ 31) \<le> i \<Longrightarrow> i < 2 ^ 31 \<Longrightarrow> value_ok CPPTYPE_INT32 (PInt i)"
| "- (2 ^ 63) \<le> i \<Longrightarrow> i < 2 ^ 63 \<Longrightarrow> value_ok CPPTYPE_INT64 (PInt i)"
| "0 \<le> i \<Longrightarrow> i < 2 ^ 32 \<Longrightarrow> value_ok CPPTYPE_UINT32 (PInt i)"
| "0 \<le> i \<Longrightarrow> i < 2 ^ 64 \<Longrightarrow> value_ok CPPTYPE_UINT64 (PInt i)"
| "value_ok CPPTYPE_DOUBLE (PReal d)"
| "value_ok CPPTYPE_FLOAT (PReal d)"
| "value_ok CPPTYPE_BOOL (PBool b)"
| "value_ok CPPTYPE_STRING (PString t)"
| "n \<in> set (map snd evs) \<Longrightarrow> value_ok (CPPTYPE_ENUM evs) (PEnum n)"
| "message_ok D m \<Longrightarrow> value_ok (CPPTYPE_MESSAGE D) (PMessage m)"
| "distinct (map fst m) \<Longrightarrow> oneofs_ok D m \<Longrightarrow>
     (\<forall>k vs. (k, vs) \<in> set m \<longrightarrow> (\<exists>f. FindFieldByName k D = Some f \<and> (is_repeated f \<or> length vs = 1) \<and>
       (\<forall>v. v \<in> set vs \<longrightarrow> value_ok (cpp_type f) v))) \<Longrightarrow> message_ok D m"

inductive_simps message_ok_iff: "message_ok D m"
inductive_simps value_ok_message: "value_ok (CPPTYPE_MESSAGE D) v"

lemma message_ok_Nil [simp]: "message_ok D []"
  by (simp add: message_ok_iff oneofs_ok_def)

lemma FindField_name: "FindFieldByName key D = Some f \<Longrightarrow> field_name f = key \<and> f \<in> set (descriptor_fields D)"
  by (auto simp: FindFieldByName_def find_Some_iff)

lemma message_okD:
  assumes "message_ok D m" and "(k, vs) \<in> set m" and "FindFieldByName k D = Some f"
  shows "is_repeated f \<or> length vs = 1" and "v \<in> set vs \<Longrightarrow> value_ok (cpp_type f) v"
proof -
  from assms(1) have "\<forall>k vs. (k, vs) \<in> set m \<longrightarrow> (\<exists>f. FindFieldByName k D = Some f \<and> (is_repeated f \<or> length vs = 1) \<and>
       (\<forall>v. v \<in> set vs \<longrightarrow> value_ok (cpp_type f) v))"
    unfolding message_ok_iff One_nat_def by blast
  with assms(2) obtain g where "FindFieldByName k D = Some g" "is_repeated g \<or> length vs = 1"
      "\<forall>v. v \<in> set vs \<longrightarrow> value_ok (cpp_type g) v"
    by blast
  with assms(3) show "is_repeated f \<or> length vs = 1" "v \<in> set vs \<Longrightarrow> value_ok (cpp_type f) v" by auto
qed

lemma message_ok_known: "message_ok D m \<Longrightarrow> (k, vs) \<in> set m \<Longrightarrow> \<exists>f. FindFieldByName k D = Some f"
  unfolding message_ok_iff by blast

lemma message_okI:
  assumes "distinct (map fst m)" and "oneofs_ok D m"
    and "\<And>k vs. (k, vs) \<in> set m \<Longrightarrow> \<exists>f. FindFieldByName k D = Some f \<and> (is_repeated f \<or> length vs = 1) \<and>
           (\<forall>v. v \<in> set vs \<longrightarrow> value_ok (cpp_type f) v)"
  shows "message_ok D m"
  unfolding message_ok_iff using assms unfolding One_nat_def by blast

lemma set_update: "distinct (map fst m) \<Longrightarrow>
    set (AList.update k x m) = {(k', y) \<in> set m. k' \<noteq> k} \<union> {(k, x)}"
  by (induction m) (auto simp: image_iff)

text \<open>Giving a field new values keeps the message in order when no other member of its oneof is set.\<close>

lemma message_ok_update:
  assumes ok: "message_ok D m" and f: "FindFieldByName key D = Some f"
    and vs: "is_repeated f \<or> length vs = 1" "\<And>v. v \<in> set vs \<Longrightarrow> value_ok (cpp_type f) v"
    and alone: "\<And>k g x. k \<in> fst ` set m \<Longrightarrow> FindFieldByName k D = Some g \<Longrightarrow> \<not> is_repeated f \<Longrightarrow>
                 containing_oneof f = Some x \<Longrightarrow> containing_oneof g = Some x \<Longrightarrow> k = key"
  shows "message_ok D (AList.update key vs m)"
proof (rule message_okI)
  from ok have dist: "distinct (map fst m)" and ones: "oneofs_ok D m" by (simp_all add: message_ok_iff)
  note upd = set_update [OF dist, of key vs]
  from dist show "distinct (map fst (AList.update key vs m))" by (rule distinct_update)
  have keys: "k = key \<or> k \<in> fst ` set m" if "k \<in> fst ` set (AList.update key vs m)" for k
    using that unfolding upd by auto
  show "oneofs_ok D (AList.update key vs m)"
    unfolding oneofs_ok_def
  proof (intro ballI allI impI)
    fix k k' g g' x
    assume k: "k \<in> fst ` set (AList.update key vs m)" and k': "k' \<in> fst ` set (AList.update key vs m)"
      and g: "FindFieldByName k D = Some g \<and> FindFieldByName k' D = Some g' \<and> \<not> is_repeated g \<and> \<not> is_repeated g' \<and>
        containing_oneof g = Some x \<and> containing_oneof g' = Some x"
    consider "k = key" | "k' = key" | "k \<in> fst ` set m" "k' \<in> fst ` set m" using keys k k' by blast
    then show "k = k'"
    proof cases
      case 1
      then show ?thesis using g f keys [OF k'] alone [of k' g' x] by auto
    next
      case 2
      then show ?thesis using g f keys [OF k] alone [of k g x] by auto
    next
      case 3
      then show ?thesis using g ones unfolding oneofs_ok_def by blast
    qed
  qed
next
  fix k us assume "(k, us) \<in> set (AList.update key vs m)"
  then consider "k = key" "us = vs" | "(k, us) \<in> set m"
    using ok by (auto simp: set_update message_ok_iff)
  then show "\<exists>f. FindFieldByName k D = Some f \<and> (is_repeated f \<or> length us = 1) \<and>
      (\<forall>v. v \<in> set us \<longrightarrow> value_ok (cpp_type f) v)"
  proof cases
    case 1
    then show ?thesis using f vs by simp
  next
    case 2
    then obtain g where "FindFieldByName k D = Some g" using message_ok_known [OF ok] by blast
    with message_okD [OF ok 2 this] show ?thesis by blast
  qed
qed

lemma field_values_ok:
  assumes "message_ok D m" and "FindFieldByName key D = Some f" and "v \<in> set (field_values key m)"
  shows "value_ok (cpp_type f) v"
proof (cases "map_of m key")
  case None
  with assms(3) show ?thesis by (simp add: field_values_def)
next
  case (Some vs)
  with assms(3) show ?thesis
    using message_okD(2) [OF assms(1) map_of_SomeD [OF Some] assms(2)] by (simp add: field_values_def)
qed

lemma sub_message_ok:
  assumes "message_ok D m" and "FindFieldByName key D = Some f" and "cpp_type f = CPPTYPE_MESSAGE D'"
  shows "message_ok D' (sub_message f m)"
proof -
  have "value_ok (CPPTYPE_MESSAGE D') (PMessage s)" if "field_values key m = PMessage s # vs" for s vs
    using field_values_ok [OF assms(1,2), of "PMessage s"] that assms(3) by simp
  then show ?thesis
    using FindField_name [OF assms(2)]
    by (auto simp: sub_message_def value_ok_message split: list.split pvalue.split)
qed

lemma clear_oneof_sub: "set (clear_oneof D f m) \<subseteq> set m"
  by (auto simp: clear_oneof_def split: option.splits)

lemma clear_oneof_ok: "message_ok D m \<Longrightarrow> message_ok D (clear_oneof D f m)"
  using clear_oneof_sub [of D f m]
  by (auto simp: message_ok_iff oneofs_ok_def clear_oneof_def distinct_map_filter split: option.splits)

text \<open>After clearing, no other singular member of the oneof is left.\<close>

lemma clear_oneof_alone:
  assumes "containing_oneof f = Some x" and "k \<in> fst ` set (clear_oneof D f m)" and "FindFieldByName k D = Some g"
    and "containing_oneof g = Some x"
  shows "k = field_name f"
  using assms FindField_name [OF assms(3)] by (auto simp: clear_oneof_def list_ex_iff)

lemma SetField_ok:
  assumes "message_ok D m" and f: "FindFieldByName key D = Some f" and "value_ok (cpp_type f) v"
  shows "message_ok D (SetField D f v m)"
proof -
  have name: "field_name f = key" using FindField_name [OF f] by simp
  show ?thesis
    unfolding SetField_def name
  proof (rule message_ok_update [OF clear_oneof_ok [OF assms(1)] f])
    show "k = key" if "k \<in> fst ` set (clear_oneof D f m)" "FindFieldByName k D = Some g"
        "containing_oneof f = Some x" "containing_oneof g = Some x" for k g x
      using clear_oneof_alone [OF that(3,1,2,4)] name by simp
  qed (use assms(3) in auto)
qed

lemma AddField_ok:
  assumes "message_ok D m" and f: "FindFieldByName key D = Some f" and "is_repeated f" and "value_ok (cpp_type f) v"
  shows "message_ok D (AddField f v m)"
proof -
  have name: "field_name f = key" using FindField_name [OF f] by simp
  show ?thesis
    unfolding AddField_def name
    by (rule message_ok_update [OF assms(1) f]) (use assms(3,4) field_values_ok [OF assms(1) f] in auto)
qed

inductive_simps value_ok_simps:
  "value_ok CPPTYPE_INT32 v" "value_ok CPPTYPE_INT64 v" "value_ok CPPTYPE_UINT32 v" "value_ok CPPTYPE_UINT64 v"
  "value_ok CPPTYPE_DOUBLE v" "value_ok CPPTYPE_FLOAT v" "value_ok CPPTYPE_BOOL v" "value_ok CPPTYPE_STRING v"
  "value_ok (CPPTYPE_ENUM evs) v"

lemma enum_value_known: "enum_value Y evs s = Some n \<Longrightarrow> n \<in> snd ` set evs"
  by (force simp: enum_value_def split: option.splits sum.splits if_splits dest!: map_of_SomeD)

lemma parsed_Inr: "parsed what f g r = Inr w \<longleftrightarrow> (\<exists>v. r = Inr v \<and> w = g v)"
  by (auto simp: parsed_def split: sum.split)

lemma of_status_Inr: "of_status r = Inr x \<longleftrightarrow> r = Inr x"
  by (auto simp: of_status_def split: sum.split)

context yaml_scalars
begin

lemma scalar_value_ok: "scalar_value Y what f node = Inr v \<Longrightarrow> value_ok (cpp_type f) v"
  by (auto simp: scalar_value_def parsed_Inr value_ok_simps dest: int32 int64 uint32 uint64 enum_value_known
      split: yaml.splits FieldType.splits option.splits)

lemma SetSingular_ok:
  "message_ok D m \<Longrightarrow> FindFieldByName key D = Some f \<Longrightarrow> SetSingularScalarField Y D f node m = Inr m' \<Longrightarrow> message_ok D m'"
  by (auto simp: SetSingularScalarField_def split: sum.splits dest: scalar_value_ok intro: SetField_ok)

lemma AddRepeated_ok:
  "message_ok D m \<Longrightarrow> FindFieldByName key D = Some f \<Longrightarrow> is_repeated f \<Longrightarrow> AddRepeatedScalarField Y f node m = Inr m' \<Longrightarrow>
   message_ok D m'"
  by (auto simp: AddRepeatedScalarField_def split: sum.splits dest: scalar_value_ok intro: AddField_ok)

text \<open>One element of a sequence and one entry of a map, given that nested messages come out right.\<close>

lemma element_ok:
  assumes ok: "message_ok D m" and f: "FindFieldByName key D = Some f" and rep: "is_repeated f"
    and nested: "\<And>D' m'. cpp_type f = CPPTYPE_MESSAGE D' \<Longrightarrow> ConvertYamlToProtoMessage Y D' elem [] = Inr m' \<Longrightarrow> message_ok D' m'"
    and r: "(case cpp_type f of
        CPPTYPE_MESSAGE D' \<Rightarrow> (case ConvertYamlToProtoMessage Y D' elem [] of
          Inl e \<Rightarrow> Inl e | Inr m' \<Rightarrow> Inr (AddField f (PMessage m') m))
      | _ \<Rightarrow> of_status (AddRepeatedScalarField Y f elem m)) = Inr m1"
  shows "message_ok D m1"
proof (cases "\<exists>D'. cpp_type f = CPPTYPE_MESSAGE D'")
  case True
  then obtain D' where D': "cpp_type f = CPPTYPE_MESSAGE D'" by blast
  with r obtain m2 where m2: "ConvertYamlToProtoMessage Y D' elem [] = Inr m2" "m1 = AddField f (PMessage m2) m"
    by (auto split: sum.splits)
  with nested [OF D' m2(1)] show ?thesis
    using AddField_ok [OF ok f rep, of "PMessage m2"] D' by (simp add: value_ok_message)
next
  case False
  with r have "AddRepeatedScalarField Y f elem m = Inr m1"
    by (auto simp: of_status_Inr split: FieldType.splits)
  then show ?thesis by (rule AddRepeated_ok [OF ok f rep])
qed

lemma entry_ok:
  assumes ok: "message_ok D m" and f: "FindFieldByName key D = Some f"
    and elements: "\<And>elems m'. is_repeated f \<Longrightarrow> value_node = Sequence elems \<Longrightarrow>
      convert_elements Y f elems m = Inr m' \<Longrightarrow> message_ok D m'"
    and nested: "\<And>D' m'. \<not> is_repeated f \<Longrightarrow> cpp_type f = CPPTYPE_MESSAGE D' \<Longrightarrow>
      ConvertYamlToProtoMessage Y D' value_node (sub_message f m) = Inr m' \<Longrightarrow> message_ok D' (sub_message f m) \<Longrightarrow>
      message_ok D' m'"
    and r: "(if is_repeated f
        then (case value_node of
                Sequence elems \<Rightarrow> convert_elements Y f elems m
              | _ \<Rightarrow> Inl (StatusError (kInvalidArgument, ''Expected a Sequence for repeated field '' @ quoted key)))
        else case cpp_type f of
               CPPTYPE_MESSAGE D' \<Rightarrow> (case ConvertYamlToProtoMessage Y D' value_node (sub_message f m) of
                 Inl e \<Rightarrow> Inl e | Inr m' \<Rightarrow> Inr (SetField D f (PMessage m') m))
             | _ \<Rightarrow> of_status (SetSingularScalarField Y D f value_node m)) = Inr m1"
  shows "message_ok D m1"
proof -
  consider "is_repeated f" | D' where "\<not> is_repeated f" "cpp_type f = CPPTYPE_MESSAGE D'"
    | "\<not> is_repeated f" "\<nexists>D'. cpp_type f = CPPTYPE_MESSAGE D'" by blast
  then show ?thesis
  proof cases
    case 1
    with r show ?thesis using elements by (auto split: yaml.splits)
  next
    case (2 D')
    with r obtain m2 where m2: "ConvertYamlToProtoMessage Y D' value_node (sub_message f m) = Inr m2"
        "m1 = SetField D f (PMessage m2) m"
      by (auto split: sum.splits)
    with nested [OF 2 m2(1) sub_message_ok [OF ok f 2(2)]] show ?thesis
      using SetField_ok [OF ok f, of "PMessage m2"] 2(2) by (simp add: value_ok_message)
  next
    case 3
    with r have "SetSingularScalarField Y D f value_node m = Inr m1"
      by (auto simp: of_status_Inr split: FieldType.splits)
    then show ?thesis by (rule SetSingular_ok [OF ok f])
  qed
qed

end

lemma convert_ok:
  fixes Y :: "'d yaml_lib"
  shows "yaml_scalars Y \<Longrightarrow> ConvertYamlToProtoMessage Y D node m = Inr m' \<Longrightarrow> message_ok D m \<Longrightarrow> message_ok D m'"
    and "yaml_scalars Y \<Longrightarrow> convert_entries Y D entries m = Inr m' \<Longrightarrow> message_ok D m \<Longrightarrow> message_ok D m'"
    and "yaml_scalars Y \<Longrightarrow> convert_elements Y f elems m = Inr m' \<Longrightarrow> FindFieldByName key D = Some f \<Longrightarrow> is_repeated f \<Longrightarrow>
      message_ok D m \<Longrightarrow> message_ok D m'"
proof (induction Y D node m and Y D entries m and Y f elems m arbitrary: m' and m' and m' D key
    rule: ConvertYamlToProtoMessage_convert_entries_convert_elements.induct)
  case (1 Y D node m)
  then show ?case by (auto split: yaml.splits)
next
  case (3 Y D k value_node entries m)
  then obtain key f where key: "as_string Y k = Inr key" "FindFieldByName key D = Some f"
    by (auto split: sum.splits option.splits)
  with 3(5) obtain m1 where m1: "(if is_repeated f
        then (case value_node of
                Sequence elems \<Rightarrow> convert_elements Y f elems m
              | _ \<Rightarrow> Inl (StatusError (kInvalidArgument, ''Expected a Sequence for repeated field '' @ quoted key)))
        else case cpp_type f of
               CPPTYPE_MESSAGE D' \<Rightarrow> (case ConvertYamlToProtoMessage Y D' value_node (sub_message f m) of
                 Inl e \<Rightarrow> Inl e | Inr m' \<Rightarrow> Inr (SetField D f (PMessage m') m))
             | _ \<Rightarrow> of_status (SetSingularScalarField Y D f value_node m)) = Inr m1"
      and rest: "convert_entries Y D entries m1 = Inr m'"
    by (auto split: sum.splits)
  have "message_ok D m1"
    by (rule yaml_scalars.entry_ok [OF 3(4,6) key(2) 3(1) [OF key _ _ 3(4) _ key(2) _ 3(6)] 3(2) [OF key _ _ 3(4)] m1])
  then show ?case by (rule 3(3) [OF key m1 3(4) rest])
next
  case (5 Y f elem elems m)
  then obtain m1 where m1: "(case cpp_type f of
      CPPTYPE_MESSAGE D' \<Rightarrow> (case ConvertYamlToProtoMessage Y D' elem [] of
        Inl e \<Rightarrow> Inl e | Inr m' \<Rightarrow> Inr (AddField f (PMessage m') m))
    | _ \<Rightarrow> of_status (AddRepeatedScalarField Y f elem m)) = Inr m1"
      and rest: "convert_elements Y f elems m1 = Inr m'"
    by (auto split: sum.splits)
  have "message_ok D m1"
    by (rule yaml_scalars.element_ok [OF 5(3,7,5,6) 5(1) [OF _ 5(3) _ message_ok_Nil] m1])
  then show ?case by (rule 5(2) [OF m1 5(3) rest 5(5,6)])
qed simp_all

section \<open>A library that reads documents of two levels\<close>

text \<open>
  Lines \<^verbatim>\<open>key: value\<close>, and a line \<^verbatim>\<open>key:\<close> followed by such lines indented by two blanks; enough of
  YAML for a configuration of the environment.
\<close>

definition plain_entry :: "string \<Rightarrow> yaml \<times> yaml" where
  "plain_entry l = (let k = takeWhile (\<lambda>c. c \<noteq> CHR '':'') l in (Scalar k, Scalar (drop (length k + 2) l)))"

definition indented :: "string \<Rightarrow> bool" where
  "indented l = (take 2 l = ''  '')"

function plain_block :: "string list \<Rightarrow> (yaml \<times> yaml) list" where
  "plain_block [] = []"
| "plain_block (l # ls) =
     (let below = takeWhile indented ls; (k, v) = plain_entry l
      in (k, if below = [] then v else Map (map (plain_entry \<circ> drop 2) below)) # plain_block (dropWhile indented ls))"
  by pat_completeness auto

termination plain_block
  by (relation "measure length") (auto simp: le_imp_less_Suc length_dropWhile_le)

definition plain_int :: "int \<Rightarrow> int \<Rightarrow> string \<Rightarrow> string + int" where
  "plain_int lo hi s = (case simple_atoi lo hi s of None \<Rightarrow> Inl ''bad conversion'' | Some i \<Rightarrow> Inr i)"

definition plain_yaml :: "int yaml_lib" where
  "plain_yaml = \<lparr>yaml_Load = (\<lambda>t. if t = [] then Inr Null else Inr (Map (plain_block (split_char (CHR 0x0A) t)))),
     as_string = (\<lambda>n. case n of Scalar s \<Rightarrow> Inr s | _ \<Rightarrow> Inl ''bad conversion''),
     as_int32 = plain_int (- (2 ^ 31)) (2 ^ 31 - 1), as_int64 = plain_int (- (2 ^ 63)) (2 ^ 63 - 1),
     as_uint32 = plain_int 0 (2 ^ 32 - 1), as_uint64 = plain_int 0 (2 ^ 64 - 1),
     as_double = plain_int (- (2 ^ 31)) (2 ^ 31 - 1), as_float = plain_int (- (2 ^ 31)) (2 ^ 31 - 1),
     as_bool = (\<lambda>s. if s = ''true'' then Inr True else if s = ''false'' then Inr False else Inl ''bad conversion''),
     type_name = (\<lambda>n. case n of Undefined \<Rightarrow> ''0'' | Null \<Rightarrow> ''1'' | Scalar _ \<Rightarrow> ''2'' | Sequence _ \<Rightarrow> ''3'' | Map _ \<Rightarrow> ''4'')\<rparr>"

lemma plain_int_range: "plain_int lo hi s = Inr i \<Longrightarrow> lo \<le> i \<and> i \<le> hi"
  by (auto simp: plain_int_def simple_atoi_def split: option.splits if_splits)

interpretation plain: yaml_scalars plain_yaml
  by unfold_locales (auto simp: plain_yaml_def dest: plain_int_range)

section \<open>Property\<close>

text \<open>C37: A YAML test configuration that the converter accepts is a well-typed message: every key of every map
  is a field of the message it belongs to, singular fields have one value and repeated ones a list, every value
  has the type of its field and lies in the range of that type, enumeration values are declared ones, and at
  most one member of every oneof is set. Nested messages conform in the same way.
  The YAML library is asked for the ranges of its integer conversions only.\<close>

theorem yaml_conversion_well_typed:
  assumes "yaml_scalars Y" and "ConvertYamlToTestSuite Y D yaml_content = Inr m"
  shows "message_ok D m"
  using assms(2) convert_ok(1) [OF assms(1)]
  by (auto simp: ConvertYamlToTestSuite_def split: sum.splits conversion_error.splits prod.splits if_splits)

definition example_yaml :: string where
  "example_yaml = ''env:'' @ [CHR 0x0A] @ ''  log_level: 3'' @ [CHR 0x0A] @ ''  time_secs: 17''"

theorem yaml_conversion_well_typed_witness:
  "\<exists>m. ConvertYamlToTestSuite plain_yaml TestSuite_descriptor example_yaml = Inr m \<and>
     m = [(''env'', [PMessage [(''log_level'', [PEnum 3]), (''time_secs'', [PInt 17])]])] \<and> message_ok TestSuite_descriptor m"
proof -
  have "ConvertYamlToTestSuite plain_yaml TestSuite_descriptor example_yaml =
      Inr [(''env'', [PMessage [(''log_level'', [PEnum 3]), (''time_secs'', [PInt 17])]])]"
    by code_simp
  with yaml_conversion_well_typed [OF plain.yaml_scalars_axioms this] show ?thesis by blast
qed

end
