(* ===== verification/Runner.thy ===== *)
theory Runner
  imports Bench_Streams Yaml_Converter
begin

text \<open>
  The test runner (\<^verbatim>\<open>plugins/test/runner_main.cc\<close>): reading the configuration named on the command line,
  overriding it by flags, registering a test for every engine and configured test, and the exit code.
  The flag parser, the file system, the text format of protobuf, the accessors that the protobuf
  compiler generates, the benchmark library and the GoogleTest driver are arguments; of the driver it
  is asked that it returns zero exactly when all registered tests pass.
\<close>

section \<open>Configuration and flags\<close>

record pb_RunnerEnv = pb_Env +
  test_path :: string
  num_additional_streams :: u64
  additional_stream_advance_rate :: u64

record pb_NamedTest = pb_Test +
  test_name :: string
  test_benchmark :: bool

record TestSuite =
  suite_env :: pb_RunnerEnv
  suite_tests :: "pb_NamedTest list"

record runner_flags =
  FLAGS_proto :: string
  FLAGS_yaml :: string
  FLAGS_plugin :: string
  FLAGS_config :: string
  FLAGS_logfile :: string
  FLAGS_loglevel :: pb_LogLevel
  FLAGS_test :: bool
  FLAGS_bench :: bool
  FLAGS_num_additional_streams :: u64
  FLAGS_additional_stream_advance_rate :: u64

text \<open>
  The level of the flag and its text: the names are those of the enumeration in \<^verbatim>\<open>runner.proto\<close>, in capital
  letters only, and another text is refused.
\<close>

primrec AbslUnparseFlag :: "pb_LogLevel \<Rightarrow> string" where
  "AbslUnparseFlag UNDEFINED = ''UNDEFINED''"
| "AbslUnparseFlag TRACE = ''TRACE''"
| "AbslUnparseFlag DEBUG = ''DEBUG''"
| "AbslUnparseFlag INFO = ''INFO''"
| "AbslUnparseFlag WARN = ''WARN''"
| "AbslUnparseFlag ERROR = ''ERROR''"
| "AbslUnparseFlag CRITICAL = ''CRITICAL''"

definition AbslParseFlag :: "string \<Rightarrow> pb_LogLevel option" where
  "AbslParseFlag level_text =
     map_of (map (\<lambda>l. (AbslUnparseFlag l, l)) [UNDEFINED, TRACE, DEBUG, INFO, WARN, ERROR, CRITICAL]) level_text"

lemma level_flag_roundtrip: "AbslParseFlag s = Some l \<longleftrightarrow> s = AbslUnparseFlag l"
  by (cases l) (auto simp: AbslParseFlag_def split: if_splits)

datatype InputFormat = TEXTPROTO | YAML

text \<open>The part of \<^verbatim>\<open>ParseInputs\<close> that chooses the file: a path and its format, or an error.\<close>

definition input_of_flags :: "runner_flags \<Rightarrow> Status + string \<times> InputFormat" where
  "input_of_flags fl =
     (let from_proto = (if FLAGS_proto fl \<noteq> [] then Some (FLAGS_proto fl, TEXTPROTO) else None)
      in if FLAGS_yaml fl \<noteq> []
         then (case from_proto of
                 Some _ \<Rightarrow> Inl (kInvalidArgument, ''Cannot specify both --proto and --yaml flags'')
               | None \<Rightarrow> Inr (FLAGS_yaml fl, YAML))
         else (case from_proto of
                 None \<Rightarrow> Inl (kInvalidArgument, ''Either --proto or --yaml flag is required.'')
               | Some x \<Rightarrow> Inr x))"

definition apply_overrides :: "runner_flags \<Rightarrow> string \<Rightarrow> pb_RunnerEnv \<Rightarrow> pb_RunnerEnv" where
  "apply_overrides fl cfg_path e0 =
     (let e1 = e0\<lparr>test_path := cfg_path\<rparr>;
          e2 = (if FLAGS_plugin fl \<noteq> [] then e1\<lparr>wasm_path := FLAGS_plugin fl\<rparr> else e1);
          e3 = (if FLAGS_config fl \<noteq> [] then e2\<lparr>config_path := FLAGS_config fl\<rparr> else e2);
          e4 = (if FLAGS_loglevel fl \<noteq> UNDEFINED then e3\<lparr>env_log_level := FLAGS_loglevel fl\<rparr> else e3);
          e5 = (if FLAGS_logfile fl \<noteq> [] then e4\<lparr>log_path := FLAGS_logfile fl\<rparr> else e4);
          e6 = (if FLAGS_num_additional_streams fl > 0
                then e5\<lparr>num_additional_streams := FLAGS_num_additional_streams fl\<rparr> else e5)
      in if FLAGS_additional_stream_advance_rate fl > 0
         then e6\<lparr>additional_stream_advance_rate := FLAGS_additional_stream_advance_rate fl\<rparr> else e6)"

definition ParseInputs :: "'d yaml_lib \<Rightarrow> (string \<Rightarrow> Status + string) \<Rightarrow> (string \<Rightarrow> TestSuite option) \<Rightarrow> ('d message \<Rightarrow> TestSuite)
    \<Rightarrow> runner_flags \<Rightarrow> Status + TestSuite" where
  "ParseInputs Y ReadDataFile ParseFromString of_message fl = (case input_of_flags fl of
      Inl e \<Rightarrow> Inl e
    | Inr (cfg_path, format) \<Rightarrow>
        (case ReadDataFile cfg_path of
           Inl e \<Rightarrow> Inl e
         | Inr cfg_bytes \<Rightarrow>
             (case (case format of
                      TEXTPROTO \<Rightarrow>
                        (case ParseFromString cfg_bytes of
                           None \<Rightarrow> Inl (kInvalidArgument, ''Failed to parse input textproto'')
                         | Some tests \<Rightarrow> Inr tests)
                    | YAML \<Rightarrow>
                        (case ConvertYamlToTestSuite Y TestSuite_descriptor cfg_bytes of
                           Inl (code, msg) \<Rightarrow> Inl (kInvalidArgument, ''Failed to parse input YAML: '' @ msg)
                         | Inr m \<Rightarrow> Inr (of_message m))) of
                Inl e \<Rightarrow> Inl e
              | Inr tests \<Rightarrow> Inr (tests\<lparr>suite_env := apply_overrides fl cfg_path (suite_env tests)\<rparr>))))"

section \<open>Registration and the run\<close>

text \<open>
  A file that a test names is found relative to the configuration (\<^verbatim>\<open>ReadContent\<close> of
  \<^verbatim>\<open>dynamic_test.cc\<close>); the operations on paths are those of the boost library. A test reads its files
  through this function.
\<close>

record path_lib =
  is_absolute :: "string \<Rightarrow> bool"
  parent_path :: "string \<Rightarrow> string"
  path_append :: "string \<Rightarrow> string \<Rightarrow> string"

definition ReadContent_from :: "path_lib \<Rightarrow> (string \<Rightarrow> Status + string) \<Rightarrow> string \<Rightarrow> pb_RunnerEnv \<Rightarrow> Status + string" where
  "ReadContent_from F ReadDataFile path env =
     ReadDataFile (if is_absolute F path then path else path_append F (parent_path F (test_path env)) path)"

definition DynamicTest_run :: "absl \<Rightarrow> ('re, 'g) test_lib \<Rightarrow> path_lib \<Rightarrow> ('w, 'r) wasm_lib \<Rightarrow> (string \<Rightarrow> Status + string)
    \<Rightarrow> (pb_NamedTest \<Rightarrow> 'w \<Rightarrow> 'p stream) \<Rightarrow> ('w \<Rightarrow> 'p stream \<Rightarrow> bool) \<Rightarrow> 'p callbacks
    \<Rightarrow> string \<Rightarrow> pb_RunnerEnv \<Rightarrow> pb_NamedTest \<Rightarrow> failure list option" where
  "DynamicTest_run A T F W ReadDataFile make_context shutdown_fails P engine env test =
     TestBody A (T\<lparr>ReadContent := \<lambda>path. ReadContent_from F ReadDataFile path env\<rparr>) W ReadDataFile (make_context test)
       shutdown_fails P engine (pb_Env.truncate env) (pb_Test.truncate test)"

text \<open>Every registered entry makes its own \<^verbatim>\<open>DynamicTest\<close> of an engine and a test.\<close>

datatype benchmark = BenchPluginLifecycle string string pb_NamedTest | BenchStreamLifecycle string string pb_NamedTest
  | BenchHttpHandlers string string pb_NamedTest

record registry =
  have_benchmarks :: bool
  reg_tests :: "(string \<times> string \<times> string \<times> pb_NamedTest) list"
  reg_benchmarks :: "benchmark list"

definition register_test :: "string \<Rightarrow> pb_NamedTest \<Rightarrow> registry \<Rightarrow> registry" where
  "register_test engine test r =
     (let r1 = r\<lparr>reg_tests := reg_tests r @ [(''Test_'' @ engine, test_name test, engine, test)]\<rparr>
      in if test_benchmark test
         then
           let r2 = (if \<not> have_benchmarks r1
                     then r1\<lparr>have_benchmarks := True,
                             reg_benchmarks := reg_benchmarks r1 @
                               [BenchPluginLifecycle (''Bench_'' @ engine @ ''.PluginLifecycle'') engine test,
                                BenchStreamLifecycle (''Bench_'' @ engine @ ''.StreamLifecycle'') engine test]\<rparr>
                     else r1)
           in r2\<lparr>reg_benchmarks := reg_benchmarks r2 @
                   [BenchHttpHandlers (''Bench_'' @ engine @ ''.'' @ test_name test) engine test]\<rparr>
         else r1)"

definition register_all :: "string list \<Rightarrow> pb_NamedTest list \<Rightarrow> registry" where
  "register_all engines tests =
     fold (\<lambda>engine. fold (register_test engine) tests) engines
       \<lparr>have_benchmarks = False, reg_tests = [], reg_benchmarks = []\<rparr>"

text \<open>
  \<open>RUN_ALL_TESTS\<close> runs the registered tests with the given body; it does not return when a test aborts
  the program. The result is the status and the benchmarks that are run.
\<close>

type_synonym driver = "((string \<times> string \<times> string \<times> pb_NamedTest) \<Rightarrow> failure list option)
    \<Rightarrow> (string \<times> string \<times> string \<times> pb_NamedTest) list \<Rightarrow> int option"

definition RunTests :: "driver \<Rightarrow> string list \<Rightarrow> (string \<Rightarrow> pb_RunnerEnv \<Rightarrow> pb_NamedTest \<Rightarrow> failure list option)
    \<Rightarrow> runner_flags \<Rightarrow> TestSuite \<Rightarrow> (Status option \<times> benchmark list) option" where
  "RunTests RUN_ALL_TESTS engines test_body fl cfg =
     (let r = register_all engines (suite_tests cfg);
          run = (\<lambda>(suite, name, engine, test). test_body engine (suite_env cfg) test)
      in case (if FLAGS_test fl then map_option (\<lambda>n. n = 0) (RUN_ALL_TESTS run (reg_tests r)) else Some True) of
           None \<Rightarrow> None
         | Some tests_ok \<Rightarrow>
             Some (if tests_ok then None else Some (kAborted, ''tests failed''),
                   if have_benchmarks r \<and> FLAGS_bench fl then reg_benchmarks r else []))"

definition runner_main :: "'d yaml_lib \<Rightarrow> (string \<Rightarrow> Status + string) \<Rightarrow> (string \<Rightarrow> TestSuite option) \<Rightarrow> ('d message \<Rightarrow> TestSuite)
    \<Rightarrow> driver \<Rightarrow> string list \<Rightarrow> (string \<Rightarrow> pb_RunnerEnv \<Rightarrow> pb_NamedTest \<Rightarrow> failure list option) \<Rightarrow> runner_flags \<Rightarrow> int option" where
  "runner_main Y ReadDataFile ParseFromString of_message RUN_ALL_TESTS engines test_body fl =
     (case ParseInputs Y ReadDataFile ParseFromString of_message fl of
        Inl e \<Rightarrow> Some 1
      | Inr cfg \<Rightarrow>
          (case RunTests RUN_ALL_TESTS engines test_body fl cfg of
             None \<Rightarrow> None
           | Some (Some e, bs) \<Rightarrow> Some 1
           | Some (None, bs) \<Rightarrow> Some 0))"

section \<open>The driver\<close>

locale gtest =
  fixes RUN_ALL_TESTS :: driver
  assumes zero: "RUN_ALL_TESTS run regs = Some 0 \<longleftrightarrow> (\<forall>r \<in> set regs. run r = Some [])"

text \<open>A driver that runs the tests one after the other.\<close>

fun run_in_order :: driver where
  "run_in_order run [] = Some 0"
| "run_in_order run (r # regs) = (case run r of
      None \<Rightarrow> None
    | Some fs \<Rightarrow> map_option (\<lambda>n. if fs = [] then n else 1) (run_in_order run regs))"

interpretation in_order: gtest run_in_order
proof
  show "run_in_order run regs = Some 0 \<longleftrightarrow> (\<forall>r \<in> set regs. run r = Some [])" for run regs
    by (induction regs) (auto split: option.splits)
qed

section \<open>What is registered\<close>

lemma register_tests_of_engine:
  "reg_tests (fold (register_test engine) tests r) =
     reg_tests r @ map (\<lambda>t. (''Test_'' @ engine, test_name t, engine, t)) tests"
  by (induction tests arbitrary: r) (simp_all add: register_test_def Let_def)

lemma register_all_tests:
  "reg_tests (register_all engines tests) =
     concat (map (\<lambda>engine. map (\<lambda>t. (''Test_'' @ engine, test_name t, engine, t)) tests) engines)"
proof -
  have "reg_tests (fold (\<lambda>engine. fold (register_test engine) tests) engines r) =
      reg_tests r @ concat (map (\<lambda>engine. map (\<lambda>t. (''Test_'' @ engine, test_name t, engine, t)) tests) engines)" for r
    by (induction engines arbitrary: r) (simp_all add: register_tests_of_engine)
  then show ?thesis by (simp add: register_all_def)
qed

text \<open>The two benchmarks of the life cycles, for the first test that is benchmarked; all tests in order.\<close>

definition lifecycle_benchmarks :: "(string \<times> pb_NamedTest) list \<Rightarrow> benchmark list" where
  "lifecycle_benchmarks ts = (case ts of
      [] \<Rightarrow> []
    | (engine, t) # _ \<Rightarrow> [BenchPluginLifecycle (''Bench_'' @ engine @ ''.PluginLifecycle'') engine t,
                         BenchStreamLifecycle (''Bench_'' @ engine @ ''.StreamLifecycle'') engine t])"

definition handler_benchmarks :: "(string \<times> pb_NamedTest) list \<Rightarrow> benchmark list" where
  "handler_benchmarks = map (\<lambda>(engine, t). BenchHttpHandlers (''Bench_'' @ engine @ ''.'' @ test_name t) engine t)"

definition benchmarked :: "string list \<Rightarrow> pb_NamedTest list \<Rightarrow> (string \<times> pb_NamedTest) list" where
  "benchmarked engines tests = concat (map (\<lambda>engine. map (Pair engine) (filter test_benchmark tests)) engines)"

text \<open>The nested loops are one loop over the pairs of an engine and a test.\<close>

lemma register_all_pairs:
  "register_all engines tests =
     fold (\<lambda>(engine, t). register_test engine t) (List.product engines tests)
       \<lparr>have_benchmarks = False, reg_tests = [], reg_benchmarks = []\<rparr>"
proof -
  have inner: "fold (register_test engine) tests r = fold (\<lambda>(engine, t). register_test engine t) (map (Pair engine) tests) r"
    for engine r tests by (induction tests arbitrary: r) simp_all
  show ?thesis
    unfolding register_all_def by (rule arg_cong [where f = "\<lambda>f. f _"]) 
      (induction engines; simp add: inner fun_eq_iff fold_append)
qed

lemma benchmarked_product: "benchmarked engines tests = filter (\<lambda>(engine, t). test_benchmark t) (List.product engines tests)"
  by (induction engines) (simp_all add: benchmarked_def filter_map comp_def)

lemma register_pairs_benchmarks:
  "reg_benchmarks (fold (\<lambda>(engine, t). register_test engine t) ps r) =
     reg_benchmarks r @
     (if have_benchmarks r then [] else lifecycle_benchmarks (filter (\<lambda>(engine, t). test_benchmark t) ps)) @
     handler_benchmarks (filter (\<lambda>(engine, t). test_benchmark t) ps) \<and>
   have_benchmarks (fold (\<lambda>(engine, t). register_test engine t) ps r) =
     (have_benchmarks r \<or> filter (\<lambda>(engine, t). test_benchmark t) ps \<noteq> [])"
proof (induction ps arbitrary: r)
  case Nil
  then show ?case by (simp add: lifecycle_benchmarks_def handler_benchmarks_def)
next
  case (Cons p ps)
  then show ?case
    by (cases p) (simp add: register_test_def Let_def lifecycle_benchmarks_def handler_benchmarks_def)
qed

text \<open>The run reports no error exactly when all tests pass or none is wanted.\<close>

context gtest
begin

lemma RunTests_ok:
  "(\<exists>bs. RunTests RUN_ALL_TESTS engines test_body fl cfg = Some (None, bs)) \<longleftrightarrow>
   (FLAGS_test fl \<longrightarrow> (\<forall>engine \<in> set engines. \<forall>t \<in> set (suite_tests cfg).
      test_body engine (suite_env cfg) t = Some []))"
proof -
  let ?run = "\<lambda>(suite, name, engine, t). test_body engine (suite_env cfg) t"
  let ?regs = "reg_tests (register_all engines (suite_tests cfg))"
  have "(\<exists>bs. RunTests RUN_ALL_TESTS engines test_body fl cfg = Some (None, bs)) \<longleftrightarrow>
      (FLAGS_test fl \<longrightarrow> RUN_ALL_TESTS ?run ?regs = Some 0)"
    unfolding RunTests_def Let_def by (cases "RUN_ALL_TESTS ?run ?regs") auto
  also have "RUN_ALL_TESTS ?run ?regs = Some 0 \<longleftrightarrow> (\<forall>engine \<in> set engines. \<forall>t \<in> set (suite_tests cfg).
      test_body engine (suite_env cfg) t = Some [])"
    unfolding zero by (auto simp: register_all_tests)
  finally show ?thesis .
qed

end

text \<open>
  An error of the conversion reaches the user with its prefix twice: the converter and the runner
  both put it in front. The code of the error is replaced.
\<close>

lemma yaml_error_prefixed_twice:
  assumes "FLAGS_proto fl = []" and "FLAGS_yaml fl \<noteq> []" and "ReadDataFile (FLAGS_yaml fl) = Inr text"
    and "yaml_Load Y text = Inr root" and "root \<noteq> Undefined" and "root \<noteq> Null"
    and "ConvertYamlToProtoMessage Y TestSuite_descriptor root [] = Inl (StatusError (code, msg))"
  shows "ParseInputs Y ReadDataFile ParseFromString of_message fl =
    Inl (kInvalidArgument, ''Failed to parse input YAML: '' @ ''Failed to parse input YAML: '' @ msg)"
  using assms by (simp add: ParseInputs_def input_of_flags_def ConvertYamlToTestSuite_def del: ConvertYamlToProtoMessage.simps)

lemma runner_exit_zero_iff:
  assumes "gtest RUN_ALL_TESTS"
  shows "runner_main Y ReadDataFile ParseFromString of_message RUN_ALL_TESTS engines
      (DynamicTest_run A T F W ReadDataFile make_context shutdown_fails P) fl = Some 0 \<longleftrightarrow>
    (\<exists>cfg. ParseInputs Y ReadDataFile ParseFromString of_message fl = Inr cfg \<and>
      (FLAGS_test fl \<longrightarrow> (\<forall>engine \<in> set engines. \<forall>t \<in> set (suite_tests cfg).
        DynamicTest_run A T F W ReadDataFile make_context shutdown_fails P engine (suite_env cfg) t = Some [])))"
proof -
  have "runner_main Y ReadDataFile ParseFromString of_message RUN_ALL_TESTS engines b fl = Some 0 \<longleftrightarrow>
      (\<exists>cfg. ParseInputs Y ReadDataFile ParseFromString of_message fl = Inr cfg \<and>
        (\<exists>bs. RunTests RUN_ALL_TESTS engines b fl cfg = Some (None, bs)))" for b
    by (auto simp: runner_main_def split: sum.splits option.splits)
  then show ?thesis by (simp only: gtest.RunTests_ok [OF assms])
qed

section \<open>Properties\<close>

text \<open>The nested loops of the runner register, in order, a functional test for every engine and every
  configured test, a benchmark of the handlers for every such pair that asks for it, and the two life
  cycle benchmarks once, before all others, for the first such pair; benchmarks run exactly when some
  are registered and the flag allows it, whatever the tests gave.\<close>

theorem RunTests_registers_all:
  "reg_tests (register_all engines tests) =
     concat (map (\<lambda>engine. map (\<lambda>t. (''Test_'' @ engine, test_name t, engine, t)) tests) engines) \<and>
   reg_benchmarks (register_all engines tests) =
     lifecycle_benchmarks (benchmarked engines tests) @ handler_benchmarks (benchmarked engines tests) \<and>
   (have_benchmarks (register_all engines tests) \<longleftrightarrow> reg_benchmarks (register_all engines tests) \<noteq> [])"
proof (intro conjI)
  let ?ps = "filter (\<lambda>(engine, t). test_benchmark t) (List.product engines tests)"
  have run: "reg_benchmarks (register_all engines tests) = lifecycle_benchmarks ?ps @ handler_benchmarks ?ps"
      "have_benchmarks (register_all engines tests) \<longleftrightarrow> ?ps \<noteq> []"
    unfolding register_all_pairs by (simp_all add: register_pairs_benchmarks)
  then show "reg_benchmarks (register_all engines tests) =
      lifecycle_benchmarks (benchmarked engines tests) @ handler_benchmarks (benchmarked engines tests)"
    by (simp only: benchmarked_product)
  show "have_benchmarks (register_all engines tests) \<longleftrightarrow> reg_benchmarks (register_all engines tests) \<noteq> []"
    unfolding run by (auto simp: handler_benchmarks_def lifecycle_benchmarks_def)
qed (rule register_all_tests)


text \<open>A suite of one empty test, on an engine that accepts every module.\<close>

definition any_engine :: "(unit, unit) wasm_lib" where
  "any_engine = \<lparr>makeVm = (\<lambda>e l opts. ()), wasm_load = (\<lambda>b w. (True, w)), wasm_initialize = (\<lambda>w. (True, w)),
     wasm_fail = (\<lambda>m w. w), wasm_start = (\<lambda>c w. (Some (), w)), wasm_configure = (\<lambda>r c w. (True, w)),
     wasm_isFailed = (\<lambda>w. False), getRootContext = (\<lambda>w. Some (new_stream Info None 0 [] []))\<rparr>"

definition unix_paths :: path_lib where
  "unix_paths = \<lparr>is_absolute = (\<lambda>p. take 1 p = ''/''),
     parent_path = (\<lambda>p. rev (drop 1 (dropWhile (\<lambda>c. c \<noteq> CHR ''/'') (rev p)))),
     path_append = (\<lambda>d p. if d = [] then p else d @ ''/'' @ p)\<rparr>"

definition no_expectation :: pb_Expectation where
  "no_expectation = \<lparr>exp_has_header = [], exp_no_header = [], exp_headers = [], exp_body = [], exp_immediate = None, exp_log = []\<rparr>"

definition example_suite :: TestSuite where
  "example_suite = \<lparr>
     suite_env = \<lparr>wasm_path = ''p.wasm'', config_path = [], env_log_level = UNDEFINED, log_path = [], time_secs = 0,
       test_path = [], num_additional_streams = 0, additional_stream_advance_rate = 0\<rparr>,
     suite_tests = [\<lparr>body_chunking_plan = plan_not_set, request_headers = None, request_body = [], response_headers = None,
       response_body = [], plugin_init = no_expectation, stream_init = no_expectation, stream_destroy = no_expectation,
       test_name = ''Empty'', test_benchmark = True\<rparr>]\<rparr>"

definition example_flags :: runner_flags where
  "example_flags = \<lparr>FLAGS_proto = ''t.textpb'', FLAGS_yaml = [], FLAGS_plugin = [], FLAGS_config = [], FLAGS_logfile = [],
     FLAGS_loglevel = UNDEFINED, FLAGS_test = True, FLAGS_bench = True, FLAGS_num_additional_streams = 0,
     FLAGS_additional_stream_advance_rate = 0\<rparr>"


end
