(* ===== verification/Benchmarks.thy ===== *)
theory Benchmarks
  imports Runner
begin

text \<open>
  The benchmarks of \<^verbatim>\<open>plugins/test/dynamic_test.cc\<close>: the memory statistics, the life cycles of a plugin
  and of a stream, and the loop over the HTTP handlers with its streams in the background. All
  streams of a benchmark run in one virtual machine: the state of the plugin and the flag that the
  machine has failed are shared, and every operation on a stream starts from them. The benchmark
  library decides how many iterations there are; timing has no effect on the streams. The properties
  bound the statistics and show that the loop never uses a stream that does not exist.
\<close>

section \<open>Statistics\<close>

text \<open>
  \<open>mincore\<close> fills one status byte per page, or fails. \<open>page_size\<close> is what \<^verbatim>\<open>sysconf\<close> returns. The base of
  the memory is its address; zero is the null pointer.
\<close>

record stats_lib =
  rss_supported :: bool
  page_size :: int
  mincore :: "u64 \<Rightarrow> u64 \<Rightarrow> Status + (nat \<Rightarrow> 8 word)"
  getMemorySize :: u64
  getMemory :: "u64 option"
  wasm_file_size :: u64

definition resident_pages :: "(nat \<Rightarrow> 8 word) \<Rightarrow> nat \<Rightarrow> nat" where
  "resident_pages page_status num_pages = length (filter (\<lambda>i. bit (page_status i) 0) [0..<num_pages])"

definition GetResidentMemoryUsageBytes :: "stats_lib \<Rightarrow> u64 \<Rightarrow> u64 \<Rightarrow> Status + u64" where
  "GetResidentMemoryUsageBytes L base_address mem_size =
     (if \<not> rss_supported L then Inl (kUnimplemented, ''RSS calculation is not supported on this platform.'')
      else if base_address = 0 then Inl (kInvalidArgument, ''Memory is null.'')
      else if mem_size = 0 then Inr 0
      else if page_size L \<le> 0 then Inl (kInternal, ''Failed to determine system page size.'')
      else
        let kPageSize = word_of_int (page_size L)
        in if base_address mod kPageSize \<noteq> 0 then Inl (kInvalidArgument, ''Memory is not aligned.'')
           else
             let num_pages = (mem_size + kPageSize - 1) div kPageSize
             in case mincore L base_address mem_size of
                  Inl e \<Rightarrow> Inl e
                | Inr page_status \<Rightarrow> Inr (of_nat (resident_pages page_status (unat num_pages)) * kPageSize))"

record bench_state =
  skip_error :: "string option"
  counters :: "(string \<times> u64) list"

definition set_counter :: "string \<Rightarrow> u64 \<Rightarrow> bench_state \<Rightarrow> bench_state" where
  "set_counter name v b = b\<lparr>counters := AList.update name v (counters b)\<rparr>"

definition SkipWithError :: "string \<Rightarrow> bench_state \<Rightarrow> bench_state" where
  "SkipWithError e b = b\<lparr>skip_error := Some e\<rparr>"

definition EmitStats :: "stats_lib \<Rightarrow> (Status \<Rightarrow> string) \<Rightarrow> TestHttpContext \<Rightarrow> bench_state \<Rightarrow> bench_state" where
  "EmitStats L ToString c b =
     (let b1 = set_counter ''WasmMemoryVsz'' (getMemorySize L) b;
          finish = (\<lambda>b. set_counter ''WasmSizeB'' (wasm_file_size L)
             (set_counter ''LogEntries'' (logging_entries c) (set_counter ''LogsSizeB'' (logging_bytes c) b)))
      in case getMemory L of
           None \<Rightarrow> finish b1
         | Some base \<Rightarrow>
             (case GetResidentMemoryUsageBytes L base (getMemorySize L) of
                Inr bytes \<Rightarrow> finish (set_counter ''WasmMemoryRss'' bytes b1)
              | Inl e \<Rightarrow> if fst e = kUnimplemented then finish b1 else SkipWithError (ToString e) b1))"

section \<open>Streams in one machine\<close>

type_synonym 'p vm = "'p \<times> bool"

definition sync :: "'p vm \<Rightarrow> 'p stream \<Rightarrow> 'p stream" where
  "sync v s = (fst v, (snd s)\<lparr>vm_failed := snd v\<rparr>)"

definition vm_of :: "'p stream \<Rightarrow> 'p vm" where
  "vm_of s = (fst s, vm_failed (snd s))"

definition new_context :: "TestHttpContext \<Rightarrow> 'p vm \<Rightarrow> 'p stream" where
  "new_context ctx v = (fst v, ctx\<lparr>vm_failed := snd v\<rparr>)"

text \<open>The end of a stream object: its destructor tears it down.\<close>

definition destroy :: "'p callbacks \<Rightarrow> 'p stream option \<Rightarrow> 'p vm \<Rightarrow> 'p vm" where
  "destroy P s v = (case s of None \<Rightarrow> v | Some s \<Rightarrow> vm_of (TearDown (cb_onDone P) (cb_onDelete P) (sync v s)))"

definition advance_on :: "TestHttpContext \<Rightarrow> 'p callbacks \<Rightarrow> 'p vm \<Rightarrow> 'p AdditionalStream
    \<Rightarrow> (Status option \<times> 'p vm \<times> 'p AdditionalStream) option" where
  "advance_on ctx P v a =
     (case Advance (new_context ctx v) P (a\<lparr>as_stream := map_option (sync v) (as_stream a)\<rparr>) of
        None \<Rightarrow> None
      | Some (st, a') \<Rightarrow>
          Some (st, (case as_stream a' of Some s \<Rightarrow> vm_of s | None \<Rightarrow> destroy P (as_stream a) v), a'))"

text \<open>
  \<^verbatim>\<open>BM_RETURN_IF_ERROR\<close> is a macro, which evaluates its argument once for the test and once more for the text
  of the error: a failed call of \<^verbatim>\<open>Advance\<close> is followed by a second one, whose status is reported.
\<close>

definition status_text :: "(Status \<Rightarrow> string) \<Rightarrow> Status option \<Rightarrow> string" where
  "status_text ToString st = (case st of None \<Rightarrow> ''OK'' | Some e \<Rightarrow> ToString e)"

text \<open>The loop that creates the background streams and advances each of them some times.\<close>

fun advance_times :: "(Status \<Rightarrow> string) \<Rightarrow> TestHttpContext \<Rightarrow> 'p callbacks \<Rightarrow> nat \<Rightarrow> 'p vm \<Rightarrow> 'p AdditionalStream
    \<Rightarrow> (string option \<times> 'p vm \<times> 'p AdditionalStream) option" where
  "advance_times ToString ctx P 0 v a = Some (None, v, a)"
| "advance_times ToString ctx P (Suc n) v a = (case advance_on ctx P v a of
      None \<Rightarrow> None
    | Some (None, v', a') \<Rightarrow> advance_times ToString ctx P n v' a'
    | Some (Some e, v', a') \<Rightarrow>
        (case advance_on ctx P v' a' of
           None \<Rightarrow> None
         | Some (st, v'', a'') \<Rightarrow> Some (Some (status_text ToString st), v'', a'')))"

fun start_streams :: "(Status \<Rightarrow> string) \<Rightarrow> TestHttpContext \<Rightarrow> 'p callbacks \<Rightarrow> 'p AdditionalStream \<Rightarrow> nat \<Rightarrow> nat \<Rightarrow> 'p vm
    \<Rightarrow> 'p AdditionalStream list \<Rightarrow> (string option \<times> 'p vm \<times> 'p AdditionalStream list) option" where
  "start_streams ToString ctx P fresh calls 0 v as = Some (None, v, as)"
| "start_streams ToString ctx P fresh calls (Suc n) v as = (case advance_times ToString ctx P calls v fresh of
      None \<Rightarrow> None
    | Some (Some e, v', a) \<Rightarrow> Some (Some e, v', as @ [a])
    | Some (None, v', a) \<Rightarrow> start_streams ToString ctx P fresh calls n v' (as @ [a]))"

text \<open>
  The streams chosen in one iteration advance one after the other; an index out of range is undefined.
  \<open>draw i\<close> is the \<open>i\<close>-th random number, \<open>n\<close> the number of calls to go. The second evaluation after a
  failure draws another number.
\<close>

fun advance_chosen :: "(Status \<Rightarrow> string) \<Rightarrow> TestHttpContext \<Rightarrow> 'p callbacks \<Rightarrow> (nat \<Rightarrow> nat) \<Rightarrow> nat \<Rightarrow> nat \<Rightarrow> 'p vm
    \<Rightarrow> 'p AdditionalStream list \<Rightarrow> (string option \<times> 'p vm \<times> 'p AdditionalStream list) option" where
  "advance_chosen ToString ctx P draw i 0 v as = Some (None, v, as)"
| "advance_chosen ToString ctx P draw i (Suc n) v as =
     (if length as \<le> draw i then None
      else case advance_on ctx P v (as ! draw i) of
             None \<Rightarrow> None
           | Some (None, v', a) \<Rightarrow> advance_chosen ToString ctx P draw (Suc i) n v' (as[draw i := a])
           | Some (Some e, v', a) \<Rightarrow>
               let as' = as[draw i := a]; j = draw (Suc i)
               in if length as \<le> j then None
                  else case advance_on ctx P v' (as' ! j) of
                         None \<Rightarrow> None
                       | Some (st, v'', a') \<Rightarrow> Some (Some (status_text ToString st), v'', as'[j := a']))"

text \<open>The rate is a 64-bit field narrowed to \<^verbatim>\<open>int\<close>; three is the default.\<close>

definition advance_rate :: "u64 \<Rightarrow> nat" where
  "advance_rate r = (if r > 0 then nat (sint (ucast r :: 32 word)) else 3)"

text \<open>
  The iterations of \<^verbatim>\<open>BenchHttpHandlers\<close>. The random number generator picks an index below the number
  of streams; \<open>pick k i\<close> is its \<open>i\<close>-th choice in the iteration with \<open>k\<close> iterations to go.
\<close>

fun handler_iterations :: "(Status \<Rightarrow> string) \<Rightarrow> TestHttpContext \<Rightarrow> 'p callbacks
    \<Rightarrow> headers option \<times> headers option \<times> string list \<times> string list \<Rightarrow> nat \<Rightarrow> (nat \<Rightarrow> nat \<Rightarrow> nat \<Rightarrow> nat) \<Rightarrow> nat
    \<Rightarrow> 'p vm \<Rightarrow> 'p AdditionalStream list \<Rightarrow> 'p stream option
    \<Rightarrow> (string option \<times> 'p vm \<times> 'p AdditionalStream list \<times> 'p stream option) option" where
  "handler_iterations ToString ctx P ins rate pick 0 v as timed = Some (None, v, as, timed)"
| "handler_iterations ToString ctx P ins rate pick (Suc k) v as timed =
     (let v1 = destroy P timed v;
          s = cb_onCreate P (new_context ctx v1);
          (rh, sh, rb, sb) = ins
      in case (if as = [] then Some (None, vm_of s, as)
               else advance_chosen ToString ctx P (\<lambda>i. pick k i (length as)) 0 rate (vm_of s) as) of
           None \<Rightarrow> None
         | Some (Some e, v2, as') \<Rightarrow> Some (Some e, v2, as', Some s)
         | Some (None, v2, as') \<Rightarrow>
             (let (ok, s') = BenchHttpHandlers_stream P rh rb sh sb (sync v2 s)
              in if ok then handler_iterations ToString ctx P ins rate pick k (vm_of s') as' (Some s')
                 else Some (Some ''VM failed!'', vm_of s', as', Some s')))"

section \<open>The benchmarks\<close>

text \<open>
  The common start: load the module without logs, then start and configure the plugin. \<open>state_of\<close> is the
  state of the plugin in the machine, \<open>startShutdown\<close> the call that removes the root contexts.
\<close>

definition bench_init :: "('w, 'r) wasm_lib \<Rightarrow> (Status \<Rightarrow> string) \<Rightarrow> (string \<Rightarrow> Status + string) \<Rightarrow> string \<Rightarrow> pb_RunnerEnv
    \<Rightarrow> string + 'w" where
  "bench_init W ToString ReadDataFile engine env =
     (case LoadWasm W ReadDataFile engine (pb_Env.truncate env) True of
        Inl e \<Rightarrow> Inl (ToString e)
      | Inr (w, config) \<Rightarrow>
          (case InitializePlugin W (w, config) of
             (Some e, w1) \<Rightarrow> Inl (ToString e)
           | (None, w1) \<Rightarrow> if wasm_isFailed W w1 then Inl ''VM failed!'' else Inr w1))"

fun lifecycle_iterations :: "('w, 'r) wasm_lib \<Rightarrow> (Status \<Rightarrow> string) \<Rightarrow> stats_lib \<Rightarrow> ('w \<Rightarrow> 'w) \<Rightarrow> string \<Rightarrow> nat \<Rightarrow> bool \<Rightarrow> 'w
    \<Rightarrow> bench_state \<Rightarrow> bench_state option" where
  "lifecycle_iterations W ToString L startShutdown config 0 first w b = Some b"
| "lifecycle_iterations W ToString L startShutdown config (Suc n) first w b =
     (case InitializePlugin W (w, config) of
        (Some e, w1) \<Rightarrow> Some (SkipWithError (ToString e) b)
      | (None, w1) \<Rightarrow>
          (case (if first then map_option (\<lambda>root. EmitStats L ToString root b) (getRootContext W w1) else Some b) of
             None \<Rightarrow> None
           | Some b' \<Rightarrow>
               let w2 = startShutdown w1
               in if wasm_isFailed W w2 then Some (SkipWithError ''VM failed!'' b')
                  else lifecycle_iterations W ToString L startShutdown config n False w2 b'))"

definition run_BenchPluginLifecycle :: "('w, 'r) wasm_lib \<Rightarrow> (Status \<Rightarrow> string) \<Rightarrow> (string \<Rightarrow> Status + string) \<Rightarrow> stats_lib
    \<Rightarrow> ('w \<Rightarrow> 'w) \<Rightarrow> string \<Rightarrow> pb_RunnerEnv \<Rightarrow> nat \<Rightarrow> bench_state \<Rightarrow> bench_state option" where
  "run_BenchPluginLifecycle W ToString ReadDataFile L startShutdown engine env iterations b =
     (case LoadWasm W ReadDataFile engine (pb_Env.truncate env) True of
        Inl e \<Rightarrow> Some (SkipWithError (ToString e) b)
      | Inr (w, config) \<Rightarrow> lifecycle_iterations W ToString L startShutdown config iterations True w b)"

fun stream_iterations :: "(Status \<Rightarrow> string) \<Rightarrow> stats_lib \<Rightarrow> TestHttpContext \<Rightarrow> 'p callbacks \<Rightarrow> nat \<Rightarrow> bool \<Rightarrow> 'p vm
    \<Rightarrow> bench_state \<Rightarrow> bench_state" where
  "stream_iterations ToString L ctx P 0 first v b = b"
| "stream_iterations ToString L ctx P (Suc n) first v b =
     (let s = cb_onCreate P (new_context ctx v)
      in if vm_failed (snd s) then SkipWithError ''VM failed!'' b
         else
           let s' = TearDown (cb_onDone P) (cb_onDelete P) s
           in stream_iterations ToString L ctx P n False (vm_of s')
                (if first then EmitStats L ToString (snd s') b else b))"

definition run_BenchStreamLifecycle :: "('w, 'r) wasm_lib \<Rightarrow> (Status \<Rightarrow> string) \<Rightarrow> (string \<Rightarrow> Status + string) \<Rightarrow> stats_lib
    \<Rightarrow> ('w \<Rightarrow> 'p) \<Rightarrow> TestHttpContext \<Rightarrow> 'p callbacks \<Rightarrow> string \<Rightarrow> pb_RunnerEnv \<Rightarrow> nat \<Rightarrow> bench_state \<Rightarrow> bench_state option" where
  "run_BenchStreamLifecycle W ToString ReadDataFile L state_of ctx P engine env iterations b =
     (case bench_init W ToString ReadDataFile engine env of
        Inl e \<Rightarrow> Some (SkipWithError e b)
      | Inr w \<Rightarrow>
          (case start_streams ToString ctx P (new_AdditionalStream None None None None) 1 (unat (num_additional_streams env))
                  (state_of w, False) [] of
             None \<Rightarrow> None
           | Some (Some e, v, as) \<Rightarrow> Some (SkipWithError e b)
           | Some (None, v, as) \<Rightarrow> Some (stream_iterations ToString L ctx P iterations True v b)))"

text \<open>Statistics of a benchmark that had no iteration would read a stream that was never made.\<close>

definition run_BenchHttpHandlers :: "absl \<Rightarrow> ('re, 'g) test_lib \<Rightarrow> ('w, 'r) wasm_lib \<Rightarrow> (Status \<Rightarrow> string)
    \<Rightarrow> (string \<Rightarrow> Status + string) \<Rightarrow> stats_lib \<Rightarrow> ('w \<Rightarrow> 'p) \<Rightarrow> TestHttpContext \<Rightarrow> 'p callbacks \<Rightarrow> (nat \<Rightarrow> nat \<Rightarrow> nat \<Rightarrow> nat)
    \<Rightarrow> string \<Rightarrow> pb_RunnerEnv \<Rightarrow> pb_Test \<Rightarrow> nat \<Rightarrow> bench_state \<Rightarrow> bench_state option" where
  "run_BenchHttpHandlers A T W ToString ReadDataFile L state_of ctx P pick engine env cfg iterations b =
     (case bench_init W ToString ReadDataFile engine env of
        Inl e \<Rightarrow> Some (SkipWithError e b)
      | Inr w \<Rightarrow>
          (case bench_inputs A T cfg of
             None \<Rightarrow> None
           | Some (Inl e) \<Rightarrow> Some (SkipWithError (ToString e) b)
           | Some (Inr (rh, sh, rb, sb)) \<Rightarrow>
               (case start_streams ToString ctx P (new_AdditionalStream rh sh (Some rb) (Some sb)) 2
                       (unat (num_additional_streams env)) (state_of w, False) [] of
                  None \<Rightarrow> None
                | Some (Some e, v, as) \<Rightarrow> Some (SkipWithError e b)
                | Some (None, v, as) \<Rightarrow>
                    (case handler_iterations ToString ctx P (rh, sh, rb, sb)
                            (advance_rate (additional_stream_advance_rate env)) pick iterations v as None of
                       None \<Rightarrow> None
                     | Some (Some e, _) \<Rightarrow> Some (SkipWithError e b)
                     | Some (None, v', as', None) \<Rightarrow> None
                     | Some (None, v', as', Some s) \<Rightarrow> Some (EmitStats L ToString (snd s) b)))))"

section \<open>Bounds of the statistics\<close>

lemma resident_pages_le: "resident_pages st n \<le> n"
  using length_filter_le [of "\<lambda>i. bit (st i) 0" "[0..<n]"] by (simp add: resident_pages_def)

lemma unat_pages:
  fixes sz ps :: u64
  assumes "sz \<noteq> 0" and "ps \<noteq> 0" and "unat sz + unat ps \<le> 2 ^ 64"
  shows "unat ((sz + ps - 1) div ps) = (unat sz + unat ps - 1) div unat ps"
proof -
  have pos: "0 < unat sz" "0 < unat ps" using assms(1,2) by (simp_all add: unat_gt_0)
  have one: "unat (ps - 1) = unat ps - 1" using assms(2) by (simp add: unat_minus_one)
  then have "unat sz + unat (ps - 1) < 2 ^ LENGTH(64)" using assms(3) pos by simp
  then have "unat (sz + (ps - 1)) = unat sz + unat (ps - 1)" by (rule unat_add_lem [THEN iffD1])
  then have "unat (sz + ps - 1) = unat sz + unat ps - 1" using one pos by (simp add: add_diff_eq)
  then show ?thesis using pos by (simp add: unat_div)
qed

lemma resident_bytes:
  assumes "GetResidentMemoryUsageBytes L base sz = Inr r" and "0 < page_size L"
    and room: "uint sz + page_size L \<le> 2 ^ 64"
  shows "page_size L dvd uint r \<and> uint r < uint sz + page_size L"
proof (cases "sz = 0")
  case True
  then show ?thesis using assms by (auto simp: GetResidentMemoryUsageBytes_def split: if_splits)
next
  case False
  let ?ps = "word_of_int (page_size L) :: u64"
  have sz: "0 < uint sz" using False uint_ge_0 [of sz] by (simp add: order_less_le uint_0_iff)
  then have "page_size L < 2 ^ 64" using room by linarith
  then have ps: "uint ?ps = page_size L" using assms(2) by (simp add: uint_word_of_int)
  then have ps_nat: "unat ?ps = nat (page_size L)" by (simp only: unat_eq_nat_uint)
  obtain st where r: "r = of_nat (resident_pages st (unat ((sz + ?ps - 1) div ?ps))) * ?ps"
    using assms(1,2) False by (auto simp: GetResidentMemoryUsageBytes_def Let_def split: if_splits sum.splits)
  let ?n = "unat ((sz + ?ps - 1) div ?ps)" and ?k = "resident_pages st (unat ((sz + ?ps - 1) div ?ps))"
  have "unat sz + unat ?ps \<le> 2 ^ 64"
    using room assms(2) unfolding ps_nat unat_eq_nat_uint [of sz]
    by (simp add: nat_add_distrib [symmetric] nat_le_iff del: nat_uint_eq)
  moreover have "?ps \<noteq> 0" using ps assms(2) by auto
  ultimately have n: "?n = (unat sz + unat ?ps - 1) div unat ?ps" and sum: "unat sz + unat ?ps \<le> 2 ^ 64"
    using unat_pages [OF False] by blast+
  have "?k * unat ?ps \<le> ?n * unat ?ps" by (rule mult_right_mono [OF resident_pages_le]) simp
  also have "\<dots> \<le> unat sz + unat ?ps - 1" unfolding n by (rule div_times_less_eq_dividend)
  also have "\<dots> < unat sz + unat ?ps" using \<open>?ps \<noteq> 0\<close> by (simp add: unat_gt_0)
  finally have less: "?k * unat ?ps < unat sz + unat ?ps" .
  then have "?k * unat ?ps < 2 ^ LENGTH(64)" using sum by simp
  moreover have "r = of_nat (?k * unat ?ps)" unfolding r by simp
  ultimately have "unat r = ?k * unat ?ps" by (simp only: unat_of_nat mod_less)
  then have r_int: "uint r = int (?k * unat ?ps)" by (simp only: uint_nat)
  then have "uint r = int ?k * page_size L" unfolding ps_nat using assms(2) by simp
  then have "page_size L dvd uint r" by simp
  moreover have "int (?k * unat ?ps) < uint sz + page_size L"
    using less ps_nat assms(2) unfolding uint_nat [of sz] by linarith
  ultimately show ?thesis unfolding r_int by blast
qed

section \<open>No use of a missing stream\<close>

text \<open>A background stream holds a context exactly between its creation and its end.\<close>

definition has_context :: "'p AdditionalStream \<Rightarrow> bool" where
  "has_context a \<longleftrightarrow> (next_action a = kCreate \<longleftrightarrow> as_stream a = None)"

lemma Advance_has_context:
  assumes "has_context a"
  shows "\<exists>st a'. Advance x P a = Some (st, a') \<and> has_context a'"
  using assms
proof (induction x P a rule: Advance.induct)
  case (1 x P a)
  then show ?case
    by (subst Advance.simps)
       (auto simp: has_context_def Let_def split: NextAction.split option.split list.split)
qed

lemma advance_on_has_context:
  assumes "has_context a"
  shows "\<exists>st v' a'. advance_on ctx P v a = Some (st, v', a') \<and> has_context a'"
proof -
  have "has_context (a\<lparr>as_stream := map_option (sync v) (as_stream a)\<rparr>)" using assms by (simp add: has_context_def)
  from Advance_has_context [OF this, of "new_context ctx v" P] show ?thesis by (auto simp: advance_on_def)
qed

lemma new_has_context [simp]: "has_context (new_AdditionalStream rh sh rb sb)"
  by (simp add: has_context_def new_AdditionalStream_def)

lemma advance_times_has_context:
  "has_context a \<Longrightarrow> \<exists>st v' a'. advance_times ToString ctx P n v a = Some (st, v', a') \<and> has_context a'"
proof (induction n arbitrary: v a)
  case (Suc n)
  obtain st v' a' where 1: "advance_on ctx P v a = Some (st, v', a')" "has_context a'"
    using advance_on_has_context [OF Suc.prems] by blast
  obtain st2 v2 a2 where "advance_on ctx P v' a' = Some (st2, v2, a2)" "has_context a2"
    using advance_on_has_context [OF 1(2)] by blast
  with 1 Suc.IH [of a' v'] show ?case by (cases st) auto
qed auto

lemma start_streams_has_context:
  "has_context fresh \<Longrightarrow> list_all has_context as \<Longrightarrow>
    \<exists>st v' as'. start_streams ToString ctx P fresh calls n v as = Some (st, v', as') \<and> list_all has_context as'"
proof (induction n arbitrary: v as)
  case (Suc n)
  obtain st v' a where "advance_times ToString ctx P calls v fresh = Some (st, v', a)" "has_context a"
    using advance_times_has_context [OF Suc.prems(1)] by blast
  with Suc.IH [OF Suc.prems(1), of "as @ [a]" v'] Suc.prems(2) show ?case by (cases st) auto
qed auto

text \<open>One stream of a list advances.\<close>

lemma advance_nth_has_context:
  assumes "list_all has_context as" and "i < length as"
  obtains st v' a where "advance_on ctx P v (as ! i) = Some (st, v', a)" "list_all has_context (as[i := a])"
proof -
  have "has_context (as ! i)" using assms by (simp add: list_all_length)
  then obtain st v' a where a: "advance_on ctx P v (as ! i) = Some (st, v', a)" "has_context a"
    using advance_on_has_context by blast
  then have "list_all has_context (as[i := a])"
    using assms by (auto simp: list_all_iff dest!: set_update_subset_insert [THEN subsetD])
  with a(1) show ?thesis by (rule that)
qed

lemma advance_chosen_has_context:
  "list_all has_context as \<Longrightarrow> (\<And>i. draw i < length as) \<Longrightarrow>
    \<exists>st v' as'. advance_chosen ToString ctx P draw i n v as = Some (st, v', as') \<and> list_all has_context as'"
proof (induction n arbitrary: i v as)
  case (Suc n)
  obtain st v' a where a: "advance_on ctx P v (as ! draw i) = Some (st, v', a)" "list_all has_context (as[draw i := a])"
    using advance_nth_has_context [OF Suc.prems(1) Suc.prems(2)] by blast
  have len: "draw j < length (as[draw i := a])" for j using Suc.prems(2) by simp
  obtain st2 v2 a2 where "advance_on ctx P v' (as[draw i := a] ! draw (Suc i)) = Some (st2, v2, a2)"
    "list_all has_context (as[draw i := a, draw (Suc i) := a2])"
    using advance_nth_has_context [OF a(2) len] by blast
  with a Suc.IH [OF a(2) len, of "Suc i" v'] Suc.prems(2) show ?case
    by (cases st) (auto simp: Let_def not_le)
qed auto

text \<open>
  A machine that fails while a background stream is torn down is reported with the status of the next
  call, which creates a stream and succeeds.
\<close>

lemma teardown_failure_reported_as_ok:
  assumes "next_action a = kDestroy" and "as_stream a = Some s"
    and "vm_failed (snd (TearDown (cb_onDone P) (cb_onDelete P) (sync v s)))"
  shows "\<exists>v' as'. advance_chosen ToString ctx P (\<lambda>_. 0) i (Suc n) v [a] = Some (Some ''OK'', v', as')"
proof -
  have 1: "advance_on ctx P v a = Some (Some (kInternal, ''VM failed!''), destroy P (Some s) v, a\<lparr>as_stream := None, next_action := kCreate\<rparr>)"
    using assms by (simp add: advance_on_def Advance.simps vm_status_def)
  have "\<exists>v' a'. advance_on ctx P w (a\<lparr>as_stream := None, next_action := kCreate\<rparr>) = Some (None, v', a')" for w
    by (simp add: advance_on_def Advance.simps Let_def)
  then obtain v' a' where "advance_on ctx P (destroy P (Some s) v) (a\<lparr>as_stream := None, next_action := kCreate\<rparr>) = Some (None, v', a')"
    by blast
  with 1 show ?thesis by (simp add: status_text_def)
qed

lemma handler_iterations_has_context:
  assumes "\<And>k i n. 0 < n \<Longrightarrow> pick k i n < n"
  shows "list_all has_context as \<Longrightarrow>
    \<exists>st v' as' s. handler_iterations ToString ctx P ins rate pick k v as timed = Some (st, v', as', s) \<and>
      (st = None \<and> (0 < k \<or> timed \<noteq> None) \<longrightarrow> s \<noteq> None)"
proof (induction k arbitrary: v as timed)
  case (Suc k)
  let ?s = "cb_onCreate P (new_context ctx (destroy P timed v))"
  obtain rh sh rb sb where ins: "ins = (rh, sh, rb, sb)" by (cases ins) auto
  let ?r = "if as = [] then Some (None, vm_of ?s, as)
    else advance_chosen ToString ctx P (\<lambda>i. pick k i (length as)) 0 rate (vm_of ?s) as"
  have "pick k i (length as) < length as" if "as \<noteq> []" for i using that assms by simp
  then have "\<exists>st v2 as'. ?r = Some (st, v2, as') \<and> list_all has_context as'"
    using advance_chosen_has_context [OF Suc.prems, of "\<lambda>i. pick k i (length as)" ToString ctx P 0 rate "vm_of ?s"] Suc.prems
    by (cases "as = []") auto
  then obtain st v2 as' where r: "?r = Some (st, v2, as')" "list_all has_context as'" by blast
  obtain ok s' where s': "BenchHttpHandlers_stream P rh rb sh sb (sync v2 ?s) = (ok, s')" by (cases "BenchHttpHandlers_stream P rh rb sh sb (sync v2 ?s)")
  show ?case
    using r(1) s' Suc.IH [OF r(2), of "vm_of s'" "Some s'"]
    by (cases st) (auto simp: ins Let_def)
qed auto

section \<open>Properties\<close>

text \<open>The resident memory a benchmark reports is a whole number of pages, and it exceeds the size of the
  memory by less than one page, whatever the status bytes of the pages hold; no sum or product on the
  way wraps around if the memory and one page fit the address space.\<close>

theorem resident_memory_bounds:
  assumes "GetResidentMemoryUsageBytes L base sz = Inr r" and "0 < page_size L" and "uint sz + page_size L \<le> 2 ^ 64"
  shows "page_size L dvd uint r \<and> uint r < uint sz + page_size L"
  using assms by (rule resident_bytes)

definition small_pages :: stats_lib where
  "small_pages = \<lparr>rss_supported = True, page_size = 4096, mincore = (\<lambda>b n. Inr (\<lambda>i. if i = 1 then 0 else 1)),
     getMemorySize = 10000, getMemory = Some 65536, wasm_file_size = 77\<rparr>"

theorem resident_memory_bounds_witness:
  "\<exists>r. GetResidentMemoryUsageBytes small_pages 65536 10000 = Inr r \<and> r = 8192 \<and> 4096 dvd uint r \<and> uint r < 10000 + 4096"
proof -
  have "GetResidentMemoryUsageBytes small_pages 65536 10000 = Inr 8192" by code_simp
  moreover have "page_size small_pages = 4096" by (simp add: small_pages_def)
  ultimately show ?thesis using resident_memory_bounds [of small_pages 65536 10000 8192] by simp
qed

text \<open>C39: The benchmark of the HTTP handlers never uses a stream that does not exist: with any number of
  background streams, in whatever order the random choice advances them and whatever the plugin does,
  every callback is sent to a live context, and the statistics are read from one, provided there is at
  least one iteration and the bodies can be chunked.\<close>

theorem bench_streams_never_missing:
  assumes "\<And>k i n. 0 < n \<Longrightarrow> pick k i n < n" and "0 < iterations" and "bench_inputs A T cfg \<noteq> None"
  shows "run_BenchHttpHandlers A T W ToString ReadDataFile L state_of ctx P pick engine env cfg iterations b \<noteq> None"
proof (cases "bench_init W ToString ReadDataFile engine env")
  case (Inr w)
  obtain ins where ins: "bench_inputs A T cfg = Some ins" using assms(3) by blast
  show ?thesis
  proof (cases ins)
    case (Inr x)
    obtain rh sh rb sb where x: "x = (rh, sh, rb, sb)" by (cases x) auto
    obtain st v as where start: "start_streams ToString ctx P (new_AdditionalStream rh sh (Some rb) (Some sb)) 2
        (unat (num_additional_streams env)) (state_of w, False) [] = Some (st, v, as)" "list_all has_context as"
      using start_streams_has_context [OF new_has_context, of "[]" ToString ctx P rh sh "Some rb" "Some sb" 2
        "unat (num_additional_streams env)" "(state_of w, False)"] by auto
    obtain st' v' as' s where "handler_iterations ToString ctx P (rh, sh, rb, sb)
        (advance_rate (additional_stream_advance_rate env)) pick iterations v as None = Some (st', v', as', s)"
      "st' = None \<longrightarrow> s \<noteq> None"
      using handler_iterations_has_context [where pick = pick and k = iterations and timed = None and v = v and as = as
          and ToString = ToString and ctx = ctx and P = P and ins = "(rh, sh, rb, sb)"
          and rate = "advance_rate (additional_stream_advance_rate env)"] assms(1,2) start(2) by blast
    then show ?thesis
      using \<open>bench_init W ToString ReadDataFile engine env = Inr w\<close> ins Inr x start(1)
      by (cases st; cases st') (auto simp: run_BenchHttpHandlers_def)
  qed (use Inr ins in \<open>simp add: run_BenchHttpHandlers_def\<close>)
qed (simp add: run_BenchHttpHandlers_def)

definition example_test :: pb_Test where
  "example_test = pb_Test.truncate (suite_tests example_suite ! 0)"

theorem bench_streams_never_missing_witness:
  "bench_inputs absl_ref plain_lib example_test \<noteq> None \<and>
   run_BenchHttpHandlers absl_ref plain_lib any_engine snd (\<lambda>p. Inr p) small_pages (\<lambda>w. ()) (new_stream Info None 0 [] [])
     pass_all (\<lambda>k i n. 0) ''v8'' ((suite_env example_suite)\<lparr>num_additional_streams := 5\<rparr>) example_test 3
     \<lparr>skip_error = None, counters = []\<rparr> \<noteq> None"
proof -
  have ins: "bench_inputs absl_ref plain_lib example_test \<noteq> None"
    by (simp add: bench_inputs_def example_test_def example_suite_def pb_Test.defs PrepBodyCallbackBenchmark_def)
  show ?thesis
    using bench_streams_never_missing [of "\<lambda>k i n. 0" 3, OF _ _ ins] ins by simp
qed

end
