(* ===== verification/Test_Fixture.thy ===== *)
theory Test_Fixture
  imports Runner
begin

text \<open>
  What the test host offers to tests written by hand (\<^verbatim>\<open>framework.h\<close>, \<^verbatim>\<open>framework.cc\<close>): reading files,
  finding the plugins next to the program, the fixture \<^verbatim>\<open>HttpTest\<close> and the registration of tests and
  benchmarks for every engine and plugin; and the lines that bracket a test in its log file
  (\<^verbatim>\<open>LogTestBounds\<close> of \<^verbatim>\<open>dynamic_test.cc\<close>). The file system is an argument.
\<close>

section \<open>Files\<close>

text \<open>\<open>open_file\<close> is the content of a file, or the text of the system's error.\<close>

definition ReadDataFile :: "(string \<Rightarrow> string + string) \<Rightarrow> string \<Rightarrow> Status + string" where
  "ReadDataFile open_file path = (case open_file path of
      Inl err \<Rightarrow> Inl (kNotFound, ''failed to open: '' @ path @ '', error: '' @ err)
    | Inr content \<Rightarrow> Inr content)"

text \<open>The loop over the entries of the directory of the program.\<close>

fun FindPlugins :: "(string \<Rightarrow> string) \<Rightarrow> string list \<Rightarrow> string list" where
  "FindPlugins extension [] = []"
| "FindPlugins extension (entry # entries) =
     (if extension entry = ''.wasm'' then entry # FindPlugins extension entries
      else FindPlugins extension entries)"

lemma FindPlugins_filter [simp]: "FindPlugins extension entries = filter (\<lambda>e. extension e = ''.wasm'') entries"
  by (induction entries) simp_all

section \<open>The body buffer\<close>

definition Buffer_clear :: "string \<Rightarrow> string" where
  "Buffer_clear b = []"

definition Buffer_setOwned :: "string \<Rightarrow> string \<Rightarrow> string" where
  "Buffer_setOwned data b = (let b1 = Buffer_clear b in data)"

text \<open>Handing the text over leaves the buffer empty.\<close>

definition Buffer_release :: "string \<Rightarrow> string \<times> string" where
  "Buffer_release b = (b, [])"

definition Buffer_size :: "string \<Rightarrow> nat" where
  "Buffer_size b = length b"

definition TestContext_getBuffer :: "WasmBufferType \<Rightarrow> TestHttpContext \<Rightarrow> string option" where
  "TestContext_getBuffer b c = (case b of PluginConfiguration \<Rightarrow> Some (plugin_config c) | _ \<Rightarrow> None)"

definition TestContext_getMonotonicTimeNanoseconds :: "TestHttpContext \<Rightarrow> u64" where
  "TestContext_getMonotonicTimeNanoseconds c = clock_time c"

text \<open>A stream context serves what the plain context serves, and bodies only inside a body callback.\<close>

lemma getBuffer_extends:
  "TestContext_getBuffer b c = Some s \<Longrightarrow> TestHttpContext_getBuffer b c = Some s"
  by (cases b) (simp_all add: TestContext_getBuffer_def TestHttpContext_getBuffer_def)

lemma getBuffer_outside_body_callback:
  assumes "current_callback c \<notin> {CbRequestBody, CbResponseBody}"
  shows "TestHttpContext_getBuffer b c = TestContext_getBuffer b c"
  using assms by (cases b) (simp_all add: TestContext_getBuffer_def TestHttpContext_getBuffer_def)

text \<open>
  Both clocks of a stream are the same frozen time whatever the plugin logs, so a plugin cannot
  observe time passing.
\<close>

lemma frozen_clocks:
  "TestContext_getMonotonicTimeNanoseconds (TestContext_log l m c) = TestContext_getCurrentTimeNanoseconds c"
  by (simp add: TestContext_getMonotonicTimeNanoseconds_def TestContext_getCurrentTimeNanoseconds_def
      TestContext_log_def Let_def)

section \<open>The fixture\<close>

record 'w HttpTest =
  ht_engine :: string
  ht_path :: string
  handle :: "('w \<times> string) option"

definition HttpTest_new :: "string \<times> string \<Rightarrow> 'w HttpTest" where
  "HttpTest_new param = \<lparr>ht_engine = fst param, ht_path = snd param, handle = None\<rparr>"

definition CreatePlugin :: "('w, 'r) wasm_lib \<Rightarrow> (string \<Rightarrow> string + string) \<Rightarrow> string \<Rightarrow> 'w HttpTest
    \<Rightarrow> Status option \<times> 'w HttpTest" where
  "CreatePlugin W open_file config t =
     (case CreateProxyWasmPlugin W (ReadDataFile open_file) (ht_engine t) (ht_path t) config Trace of
        Inl e \<Rightarrow> (Some e, t)
      | Inr hd' \<Rightarrow> (None, t\<lparr>handle := Some hd'\<rparr>))"

definition HttpTest_root :: "('w, 'r) wasm_lib \<Rightarrow> 'w HttpTest \<Rightarrow> TestHttpContext option" where
  "HttpTest_root W t = (case handle t of None \<Rightarrow> None | Some (w, config) \<Rightarrow> getRootContext W w)"

text \<open>A plugin is installed in the fixture exactly when every step of its creation succeeds.\<close>

lemma CreatePlugin_ok_iff:
  "fst (CreatePlugin W open_file config t) = None \<longleftrightarrow>
     (\<exists>wasm w w' w''. open_file (ht_path t) = Inr wasm \<and>
        wasm_load W wasm (makeVm W (ht_engine t) Trace \<lparr>opt_log_file = None, opt_clock_secs = None\<rparr>) = (True, w) \<and>
        wasm_initialize W w = (True, w') \<and>
        InitializePlugin W (w', config) = (None, w'') \<and>
        handle (snd (CreatePlugin W open_file config t)) = Some (w'', config))"
  by (auto simp: CreatePlugin_def CreateProxyWasmPlugin_def CreatePluginVm_def ReadDataFile_def
      split: sum.splits prod.splits option.splits if_splits)

text \<open>A failure leaves the fixture as it was.\<close>

lemma CreatePlugin_error_keeps:
  "fst (CreatePlugin W open_file config t) = Some e \<Longrightarrow> snd (CreatePlugin W open_file config t) = t"
  by (auto simp: CreatePlugin_def split: sum.splits)

text \<open>A file that cannot be opened is reported as not found, with its name.\<close>

lemma CreatePlugin_missing_file:
  assumes "open_file (ht_path t) = Inl err"
  shows "CreatePlugin W open_file config t =
    (Some (kNotFound, ''failed to open: '' @ ht_path t @ '', error: '' @ err), t)"
  using assms by (simp add: CreatePlugin_def CreateProxyWasmPlugin_def ReadDataFile_def)

text \<open>No root context is offered before a plugin was created.\<close>

lemma root_before_creation: "HttpTest_root W (HttpTest_new param) = None"
  by (simp add: HttpTest_root_def HttpTest_new_def)

section \<open>Registration\<close>

text \<open>\<open>Combine\<close> of GoogleTest: all pairs, the first component varying slowest.\<close>

definition REGISTER_TESTS :: "(string \<Rightarrow> string) \<Rightarrow> string list \<Rightarrow> string list \<Rightarrow> (string \<times> string) list" where
  "REGISTER_TESTS extension engines entries = List.product engines (FindPlugins extension entries)"

definition REGISTER_BENCH :: "(string \<Rightarrow> string) \<Rightarrow> (string \<Rightarrow> string) \<Rightarrow> string \<Rightarrow> string list \<Rightarrow> string list
    \<Rightarrow> (string \<times> string \<times> string) list" where
  "REGISTER_BENCH extension filename fn engines entries =
     fold (\<lambda>engine. fold (\<lambda>plugin r. r @ [(fn @ ''_'' @ engine @ ''_'' @ filename plugin, engine, plugin)])
       (FindPlugins extension entries)) engines []"

lemma bench_inner:
  "fold (\<lambda>x r. r @ [f x]) xs r0 = r0 @ map f xs"
  by (induction xs arbitrary: r0) simp_all

text \<open>Benchmarks are registered for the same pairs as tests, in the same order.\<close>

lemma REGISTER_BENCH_pairs:
  "map snd (REGISTER_BENCH extension filename fn engines entries) = REGISTER_TESTS extension engines entries"
proof -
  have "map snd (fold (\<lambda>engine. fold (\<lambda>plugin r. r @ [(fn @ ''_'' @ engine @ ''_'' @ filename plugin, engine, plugin)]) ps)
      engines r0) = map snd r0 @ List.product engines ps" for ps r0
    by (induction engines arbitrary: r0) (simp_all add: bench_inner comp_def)
  then show ?thesis by (simp add: REGISTER_BENCH_def REGISTER_TESTS_def)
qed

section \<open>The log file of a test\<close>

definition LogTestBounds_new :: "string \<Rightarrow> string list option \<Rightarrow> string list option" where
  "LogTestBounds_new nm lf = map_option (\<lambda>f. f @ [''--- Starting test: '' @ nm @ '' ---'']) lf"

definition LogTestBounds_delete :: "string \<Rightarrow> string list option \<Rightarrow> string list option" where
  "LogTestBounds_delete nm lf = map_option (\<lambda>f. f @ [''--- Finished test: '' @ nm @ '' ---'']) lf"

lemma log_file_of_calls:
  "log_file (fold (\<lambda>(l, m). TestContext_log l m) calls c) =
     map_option (\<lambda>f. f @ map snd (filter (\<lambda>(l, m). level (min_log_level c) \<le> level l) calls)) (log_file c) \<and>
   min_log_level (fold (\<lambda>(l, m). TestContext_log l m) calls c) = min_log_level c"
proof (induction calls arbitrary: c)
  case Nil
  then show ?case by (simp add: option.map_ident)
next
  case (Cons a calls)
  have "log_file (TestContext_log (fst a) (snd a) c) =
      map_option (\<lambda>f. f @ (if level (min_log_level c) \<le> level (fst a) then [snd a] else [])) (log_file c)"
    "min_log_level (TestContext_log (fst a) (snd a) c) = min_log_level c"
    by (simp_all add: TestContext_log_def Let_def option.map_ident)
  moreover note Cons.IH [of "TestContext_log (fst a) (snd a) c"]
  ultimately show ?case by (simp add: case_prod_beta option.map_comp comp_def)
qed

text \<open>
  The log file of a test holds, between its two lines, the messages at or above the level of the test
  in the order the plugin logged them, and nothing else.
\<close>

lemma log_file_bracketed:
  assumes "log_file c = Some f0"
  shows "LogTestBounds_delete nm (log_file (fold (\<lambda>(l, m). TestContext_log l m) calls
      (c\<lparr>log_file := LogTestBounds_new nm (log_file c)\<rparr>))) =
    Some (f0 @ (''--- Starting test: '' @ nm @ '' ---'') #
      map snd (filter (\<lambda>(l, m). level (min_log_level c) \<le> level l) calls) @
      [''--- Finished test: '' @ nm @ '' ---''])"
  using assms by (simp add: log_file_of_calls LogTestBounds_new_def LogTestBounds_delete_def)

end
