(* ===== verification/Mock_Abi.thy ===== *)
theory Mock_Abi
  imports Wasm_Host Absl
begin

text \<open>
  The replacement of the Proxy-Wasm host in the unit tests of the Lua plugin
  (\<^verbatim>\<open>proxy_wasm_test_stubs.cc\<close>, \<^verbatim>\<open>proxy_wasm_test_stubs.h\<close>): a pointer to the mock that is installed,
  which its constructor and its destructor set, and for every function of the host a stub that calls
  the mock, or returns a fixed result where none is installed. The behaviour of a mock is set up by
  the tests with gmock and is an argument: one field per function. A pointer with a length is a string;
  a result written through a pointer is the value of the call, \<^const>\<open>None\<close> where it is not written.
\<close>

section \<open>The mock\<close>

datatype WasmStreamType = StreamRequest | StreamResponse | StreamDownstream | StreamUpstream

datatype MetricType = MetricCounter | MetricGauge | MetricHistogram

record 'h MockProxyWasmAbi =
  m_proxy_log :: "LogLevel \<Rightarrow> string \<Rightarrow> 'h \<Rightarrow> WasmResult \<times> 'h"
  m_proxy_get_property :: "string \<Rightarrow> 'h \<Rightarrow> WasmResult \<times> string option \<times> 'h"
  m_proxy_send_local_response :: "u32 \<Rightarrow> string \<Rightarrow> string \<Rightarrow> string \<Rightarrow> u32 \<Rightarrow> 'h \<Rightarrow> WasmResult \<times> 'h"
  m_proxy_get_configuration :: "'h \<Rightarrow> WasmResult \<times> string option \<times> 'h"
  m_proxy_get_status :: "'h \<Rightarrow> WasmResult \<times> u32 option \<times> string option \<times> 'h"
  m_proxy_get_log_level :: "'h \<Rightarrow> WasmResult \<times> LogLevel option \<times> 'h"
  m_proxy_set_tick_period_milliseconds :: "u32 \<Rightarrow> 'h \<Rightarrow> WasmResult \<times> 'h"
  m_proxy_get_current_time_nanoseconds :: "'h \<Rightarrow> WasmResult \<times> u64 option \<times> 'h"
  m_proxy_set_property :: "string \<Rightarrow> string \<Rightarrow> 'h \<Rightarrow> WasmResult \<times> 'h"
  m_proxy_continue_stream :: "WasmStreamType \<Rightarrow> 'h \<Rightarrow> WasmResult \<times> 'h"
  m_proxy_close_stream :: "WasmStreamType \<Rightarrow> 'h \<Rightarrow> WasmResult \<times> 'h"
  m_proxy_clear_route_cache :: "'h \<Rightarrow> WasmResult \<times> 'h"
  m_proxy_get_shared_data :: "string \<Rightarrow> 'h \<Rightarrow> WasmResult \<times> string option \<times> u32 option \<times> 'h"
  m_proxy_set_shared_data :: "string \<Rightarrow> string \<Rightarrow> u32 \<Rightarrow> 'h \<Rightarrow> WasmResult \<times> 'h"
  m_proxy_register_shared_queue :: "string \<Rightarrow> 'h \<Rightarrow> WasmResult \<times> u32 option \<times> 'h"
  m_proxy_resolve_shared_queue :: "string \<Rightarrow> string \<Rightarrow> 'h \<Rightarrow> WasmResult \<times> u32 option \<times> 'h"
  m_proxy_dequeue_shared_queue :: "u32 \<Rightarrow> 'h \<Rightarrow> WasmResult \<times> string option \<times> 'h"
  m_proxy_enqueue_shared_queue :: "u32 \<Rightarrow> string \<Rightarrow> 'h \<Rightarrow> WasmResult \<times> 'h"
  m_proxy_add_header_map_value :: "WasmHeaderMapType \<Rightarrow> string \<Rightarrow> string \<Rightarrow> 'h \<Rightarrow> WasmResult \<times> 'h"
  m_proxy_get_header_map_value :: "WasmHeaderMapType \<Rightarrow> string \<Rightarrow> 'h \<Rightarrow> WasmResult \<times> string option \<times> 'h"
  m_proxy_get_header_map_pairs :: "WasmHeaderMapType \<Rightarrow> 'h \<Rightarrow> WasmResult \<times> string option \<times> 'h"
  m_proxy_set_header_map_pairs :: "WasmHeaderMapType \<Rightarrow> string \<Rightarrow> 'h \<Rightarrow> WasmResult \<times> 'h"
  m_proxy_replace_header_map_value :: "WasmHeaderMapType \<Rightarrow> string \<Rightarrow> string \<Rightarrow> 'h \<Rightarrow> WasmResult \<times> 'h"
  m_proxy_remove_header_map_value :: "WasmHeaderMapType \<Rightarrow> string \<Rightarrow> 'h \<Rightarrow> WasmResult \<times> 'h"
  m_proxy_get_header_map_size :: "WasmHeaderMapType \<Rightarrow> 'h \<Rightarrow> WasmResult \<times> u64 option \<times> 'h"
  m_proxy_get_buffer_bytes :: "WasmBufferType \<Rightarrow> u32 \<Rightarrow> u32 \<Rightarrow> 'h \<Rightarrow> WasmResult \<times> string option \<times> 'h"
  m_proxy_get_buffer_status :: "WasmBufferType \<Rightarrow> 'h \<Rightarrow> WasmResult \<times> u64 option \<times> u32 option \<times> 'h"
  m_proxy_set_buffer_bytes :: "WasmBufferType \<Rightarrow> u32 \<Rightarrow> u32 \<Rightarrow> string \<Rightarrow> 'h \<Rightarrow> WasmResult \<times> 'h"
  m_proxy_http_call :: "string \<Rightarrow> string \<Rightarrow> string \<Rightarrow> string \<Rightarrow> u32 \<Rightarrow> 'h \<Rightarrow> WasmResult \<times> u32 option \<times> 'h"
  m_proxy_grpc_call :: "string \<Rightarrow> string \<Rightarrow> string \<Rightarrow> string \<Rightarrow> string \<Rightarrow> u32 \<Rightarrow> 'h \<Rightarrow> WasmResult \<times> u32 option \<times> 'h"
  m_proxy_grpc_stream :: "string \<Rightarrow> string \<Rightarrow> string \<Rightarrow> string \<Rightarrow> 'h \<Rightarrow> WasmResult \<times> u32 option \<times> 'h"
  m_proxy_grpc_cancel :: "u32 \<Rightarrow> 'h \<Rightarrow> WasmResult \<times> 'h"
  m_proxy_grpc_close :: "u32 \<Rightarrow> 'h \<Rightarrow> WasmResult \<times> 'h"
  m_proxy_grpc_send :: "u32 \<Rightarrow> string \<Rightarrow> u32 \<Rightarrow> 'h \<Rightarrow> WasmResult \<times> 'h"
  m_proxy_define_metric :: "MetricType \<Rightarrow> string \<Rightarrow> 'h \<Rightarrow> WasmResult \<times> u32 option \<times> 'h"
  m_proxy_increment_metric :: "u32 \<Rightarrow> 64 word \<Rightarrow> 'h \<Rightarrow> WasmResult \<times> 'h"
  m_proxy_record_metric :: "u32 \<Rightarrow> u64 \<Rightarrow> 'h \<Rightarrow> WasmResult \<times> 'h"
  m_proxy_get_metric :: "u32 \<Rightarrow> 'h \<Rightarrow> WasmResult \<times> u64 option \<times> 'h"
  m_proxy_set_effective_context :: "u32 \<Rightarrow> 'h \<Rightarrow> WasmResult \<times> 'h"
  m_proxy_done :: "'h \<Rightarrow> WasmResult \<times> 'h"
  m_proxy_call_foreign_function :: "string \<Rightarrow> string \<Rightarrow> 'h \<Rightarrow> WasmResult \<times> string option \<times> 'h"

section \<open>Stubs\<close>

definition proxy_log :: "'h MockProxyWasmAbi option \<Rightarrow> LogLevel \<Rightarrow> string \<Rightarrow> 'h \<Rightarrow> WasmResult \<times> 'h" where
  "proxy_log mock lvl logMessage h = (case mock of Some M \<Rightarrow> m_proxy_log M lvl logMessage h | None \<Rightarrow> (Ok, h))"

definition proxy_get_property :: "'h MockProxyWasmAbi option \<Rightarrow> string \<Rightarrow> 'h \<Rightarrow> WasmResult \<times> string option \<times> 'h" where
  "proxy_get_property mock p h = (case mock of Some M \<Rightarrow> m_proxy_get_property M p h | None \<Rightarrow> (NotFound, None, h))"

definition proxy_send_local_response :: "'h MockProxyWasmAbi option \<Rightarrow> u32 \<Rightarrow> string \<Rightarrow> string \<Rightarrow> string \<Rightarrow> u32 \<Rightarrow> 'h \<Rightarrow> WasmResult \<times> 'h" where
  "proxy_send_local_response mock response_code response_code_details body_text additional_response_header_pairs grpc_status h = (case mock of Some M \<Rightarrow> m_proxy_send_local_response M response_code response_code_details body_text additional_response_header_pairs grpc_status h | None \<Rightarrow> (Ok, h))"

definition proxy_get_configuration :: "'h MockProxyWasmAbi option \<Rightarrow> 'h \<Rightarrow> WasmResult \<times> string option \<times> 'h" where
  "proxy_get_configuration mock h = (case mock of Some M \<Rightarrow> m_proxy_get_configuration M h | None \<Rightarrow> (Ok, None, h))"

definition proxy_get_status :: "'h MockProxyWasmAbi option \<Rightarrow> 'h \<Rightarrow> WasmResult \<times> u32 option \<times> string option \<times> 'h" where
  "proxy_get_status mock h = (case mock of Some M \<Rightarrow> m_proxy_get_status M h | None \<Rightarrow> (Ok, None, None, h))"

definition proxy_get_log_level :: "'h MockProxyWasmAbi option \<Rightarrow> 'h \<Rightarrow> WasmResult \<times> LogLevel option \<times> 'h" where
  "proxy_get_log_level mock h = (case mock of Some M \<Rightarrow> m_proxy_get_log_level M h | None \<Rightarrow> (Ok, None, h))"

definition proxy_set_tick_period_milliseconds :: "'h MockProxyWasmAbi option \<Rightarrow> u32 \<Rightarrow> 'h \<Rightarrow> WasmResult \<times> 'h" where
  "proxy_set_tick_period_milliseconds mock millisecond h = (case mock of Some M \<Rightarrow> m_proxy_set_tick_period_milliseconds M millisecond h | None \<Rightarrow> (Ok, h))"

definition proxy_get_current_time_nanoseconds :: "'h MockProxyWasmAbi option \<Rightarrow> 'h \<Rightarrow> WasmResult \<times> u64 option \<times> 'h" where
  "proxy_get_current_time_nanoseconds mock h = (case mock of Some M \<Rightarrow> m_proxy_get_current_time_nanoseconds M h | None \<Rightarrow> (Ok, None, h))"

definition proxy_set_property :: "'h MockProxyWasmAbi option \<Rightarrow> string \<Rightarrow> string \<Rightarrow> 'h \<Rightarrow> WasmResult \<times> 'h" where
  "proxy_set_property mock p val h = (case mock of Some M \<Rightarrow> m_proxy_set_property M p val h | None \<Rightarrow> (Ok, h))"

definition proxy_continue_stream :: "'h MockProxyWasmAbi option \<Rightarrow> WasmStreamType \<Rightarrow> 'h \<Rightarrow> WasmResult \<times> 'h" where
  "proxy_continue_stream mock stream_type h = (case mock of Some M \<Rightarrow> m_proxy_continue_stream M stream_type h | None \<Rightarrow> (Ok, h))"

definition proxy_close_stream :: "'h MockProxyWasmAbi option \<Rightarrow> WasmStreamType \<Rightarrow> 'h \<Rightarrow> WasmResult \<times> 'h" where
  "proxy_close_stream mock stream_type h = (case mock of Some M \<Rightarrow> m_proxy_close_stream M stream_type h | None \<Rightarrow> (Ok, h))"

definition proxy_clear_route_cache :: "'h MockProxyWasmAbi option \<Rightarrow> 'h \<Rightarrow> WasmResult \<times> 'h" where
  "proxy_clear_route_cache mock h = (case mock of Some M \<Rightarrow> m_proxy_clear_route_cache M h | None \<Rightarrow> (Ok, h))"

definition proxy_get_shared_data :: "'h MockProxyWasmAbi option \<Rightarrow> string \<Rightarrow> 'h \<Rightarrow> WasmResult \<times> string option \<times> u32 option \<times> 'h" where
  "proxy_get_shared_data mock k h = (case mock of Some M \<Rightarrow> m_proxy_get_shared_data M k h | None \<Rightarrow> (Ok, None, None, h))"

definition proxy_set_shared_data :: "'h MockProxyWasmAbi option \<Rightarrow> string \<Rightarrow> string \<Rightarrow> u32 \<Rightarrow> 'h \<Rightarrow> WasmResult \<times> 'h" where
  "proxy_set_shared_data mock k val cas h = (case mock of Some M \<Rightarrow> m_proxy_set_shared_data M k val cas h | None \<Rightarrow> (Ok, h))"

definition proxy_register_shared_queue :: "'h MockProxyWasmAbi option \<Rightarrow> string \<Rightarrow> 'h \<Rightarrow> WasmResult \<times> u32 option \<times> 'h" where
  "proxy_register_shared_queue mock queue_name h = (case mock of Some M \<Rightarrow> m_proxy_register_shared_queue M queue_name h | None \<Rightarrow> (Ok, None, h))"

definition proxy_resolve_shared_queue :: "'h MockProxyWasmAbi option \<Rightarrow> string \<Rightarrow> string \<Rightarrow> 'h \<Rightarrow> WasmResult \<times> u32 option \<times> 'h" where
  "proxy_resolve_shared_queue mock vm_id queue_name h = (case mock of Some M \<Rightarrow> m_proxy_resolve_shared_queue M vm_id queue_name h | None \<Rightarrow> (Ok, None, h))"

definition proxy_dequeue_shared_queue :: "'h MockProxyWasmAbi option \<Rightarrow> u32 \<Rightarrow> 'h \<Rightarrow> WasmResult \<times> string option \<times> 'h" where
  "proxy_dequeue_shared_queue mock tok h = (case mock of Some M \<Rightarrow> m_proxy_dequeue_shared_queue M tok h | None \<Rightarrow> (Ok, None, h))"

definition proxy_enqueue_shared_queue :: "'h MockProxyWasmAbi option \<Rightarrow> u32 \<Rightarrow> string \<Rightarrow> 'h \<Rightarrow> WasmResult \<times> 'h" where
  "proxy_enqueue_shared_queue mock tok d h = (case mock of Some M \<Rightarrow> m_proxy_enqueue_shared_queue M tok d h | None \<Rightarrow> (Ok, h))"

definition proxy_add_header_map_value :: "'h MockProxyWasmAbi option \<Rightarrow> WasmHeaderMapType \<Rightarrow> string \<Rightarrow> string \<Rightarrow> 'h \<Rightarrow> WasmResult \<times> 'h" where
  "proxy_add_header_map_value mock t k val h = (case mock of Some M \<Rightarrow> m_proxy_add_header_map_value M t k val h | None \<Rightarrow> (Ok, h))"

definition proxy_get_header_map_value :: "'h MockProxyWasmAbi option \<Rightarrow> WasmHeaderMapType \<Rightarrow> string \<Rightarrow> 'h \<Rightarrow> WasmResult \<times> string option \<times> 'h" where
  "proxy_get_header_map_value mock t k h = (case mock of Some M \<Rightarrow> m_proxy_get_header_map_value M t k h | None \<Rightarrow> (Ok, None, h))"

definition proxy_get_header_map_pairs :: "'h MockProxyWasmAbi option \<Rightarrow> WasmHeaderMapType \<Rightarrow> 'h \<Rightarrow> WasmResult \<times> string option \<times> 'h" where
  "proxy_get_header_map_pairs mock t h = (case mock of Some M \<Rightarrow> m_proxy_get_header_map_pairs M t h | None \<Rightarrow> (Ok, None, h))"

definition proxy_set_header_map_pairs :: "'h MockProxyWasmAbi option \<Rightarrow> WasmHeaderMapType \<Rightarrow> string \<Rightarrow> 'h \<Rightarrow> WasmResult \<times> 'h" where
  "proxy_set_header_map_pairs mock t ps h = (case mock of Some M \<Rightarrow> m_proxy_set_header_map_pairs M t ps h | None \<Rightarrow> (Ok, h))"

definition proxy_replace_header_map_value :: "'h MockProxyWasmAbi option \<Rightarrow> WasmHeaderMapType \<Rightarrow> string \<Rightarrow> string \<Rightarrow> 'h \<Rightarrow> WasmResult \<times> 'h" where
  "proxy_replace_header_map_value mock t k val h = (case mock of Some M \<Rightarrow> m_proxy_replace_header_map_value M t k val h | None \<Rightarrow> (Ok, h))"

definition proxy_remove_header_map_value :: "'h MockProxyWasmAbi option \<Rightarrow> WasmHeaderMapType \<Rightarrow> string \<Rightarrow> 'h \<Rightarrow> WasmResult \<times> 'h" where
  "proxy_remove_header_map_value mock t k h = (case mock of Some M \<Rightarrow> m_proxy_remove_header_map_value M t k h | None \<Rightarrow> (Ok, h))"

definition proxy_get_header_map_size :: "'h MockProxyWasmAbi option \<Rightarrow> WasmHeaderMapType \<Rightarrow> 'h \<Rightarrow> WasmResult \<times> u64 option \<times> 'h" where
  "proxy_get_header_map_size mock t h = (case mock of Some M \<Rightarrow> m_proxy_get_header_map_size M t h | None \<Rightarrow> (Ok, None, h))"

definition proxy_get_buffer_bytes :: "'h MockProxyWasmAbi option \<Rightarrow> WasmBufferType \<Rightarrow> u32 \<Rightarrow> u32 \<Rightarrow> 'h \<Rightarrow> WasmResult \<times> string option \<times> 'h" where
  "proxy_get_buffer_bytes mock t st n h = (case mock of Some M \<Rightarrow> m_proxy_get_buffer_bytes M t st n h | None \<Rightarrow> (Ok, None, h))"

definition proxy_get_buffer_status :: "'h MockProxyWasmAbi option \<Rightarrow> WasmBufferType \<Rightarrow> 'h \<Rightarrow> WasmResult \<times> u64 option \<times> u32 option \<times> 'h" where
  "proxy_get_buffer_status mock t h = (case mock of Some M \<Rightarrow> m_proxy_get_buffer_status M t h | None \<Rightarrow> (Ok, None, None, h))"

definition proxy_set_buffer_bytes :: "'h MockProxyWasmAbi option \<Rightarrow> WasmBufferType \<Rightarrow> u32 \<Rightarrow> u32 \<Rightarrow> string \<Rightarrow> 'h \<Rightarrow> WasmResult \<times> 'h" where
  "proxy_set_buffer_bytes mock t st n d h = (case mock of Some M \<Rightarrow> m_proxy_set_buffer_bytes M t st n d h | None \<Rightarrow> (Ok, h))"

definition proxy_http_call :: "'h MockProxyWasmAbi option \<Rightarrow> string \<Rightarrow> string \<Rightarrow> string \<Rightarrow> string \<Rightarrow> u32 \<Rightarrow> 'h \<Rightarrow> WasmResult \<times> u32 option \<times> 'h" where
  "proxy_http_call mock uri header_pairs body_text trailer_pairs timeout_milliseconds h = (case mock of Some M \<Rightarrow> m_proxy_http_call M uri header_pairs body_text trailer_pairs timeout_milliseconds h | None \<Rightarrow> (Ok, None, h))"

definition proxy_grpc_call :: "'h MockProxyWasmAbi option \<Rightarrow> string \<Rightarrow> string \<Rightarrow> string \<Rightarrow> string \<Rightarrow> string \<Rightarrow> u32 \<Rightarrow> 'h \<Rightarrow> WasmResult \<times> u32 option \<times> 'h" where
  "proxy_grpc_call mock svc service_name method_name initial_metadata req timeout_milliseconds h = (case mock of Some M \<Rightarrow> m_proxy_grpc_call M svc service_name method_name initial_metadata req timeout_milliseconds h | None \<Rightarrow> (Ok, None, h))"

definition proxy_grpc_stream :: "'h MockProxyWasmAbi option \<Rightarrow> string \<Rightarrow> string \<Rightarrow> string \<Rightarrow> string \<Rightarrow> 'h \<Rightarrow> WasmResult \<times> u32 option \<times> 'h" where
  "proxy_grpc_stream mock svc service_name method_name initial_metadata h = (case mock of Some M \<Rightarrow> m_proxy_grpc_stream M svc service_name method_name initial_metadata h | None \<Rightarrow> (Ok, None, h))"

definition proxy_grpc_cancel :: "'h MockProxyWasmAbi option \<Rightarrow> u32 \<Rightarrow> 'h \<Rightarrow> WasmResult \<times> 'h" where
  "proxy_grpc_cancel mock tok h = (case mock of Some M \<Rightarrow> m_proxy_grpc_cancel M tok h | None \<Rightarrow> (Ok, h))"

definition proxy_grpc_close :: "'h MockProxyWasmAbi option \<Rightarrow> u32 \<Rightarrow> 'h \<Rightarrow> WasmResult \<times> 'h" where
  "proxy_grpc_close mock tok h = (case mock of Some M \<Rightarrow> m_proxy_grpc_close M tok h | None \<Rightarrow> (Ok, h))"

definition proxy_grpc_send :: "'h MockProxyWasmAbi option \<Rightarrow> u32 \<Rightarrow> string \<Rightarrow> u32 \<Rightarrow> 'h \<Rightarrow> WasmResult \<times> 'h" where
  "proxy_grpc_send mock tok msg end_stream h = (case mock of Some M \<Rightarrow> m_proxy_grpc_send M tok msg end_stream h | None \<Rightarrow> (Ok, h))"

definition proxy_define_metric :: "'h MockProxyWasmAbi option \<Rightarrow> MetricType \<Rightarrow> string \<Rightarrow> 'h \<Rightarrow> WasmResult \<times> u32 option \<times> 'h" where
  "proxy_define_metric mock t nm h = (case mock of Some M \<Rightarrow> m_proxy_define_metric M t nm h | None \<Rightarrow> (Ok, None, h))"

definition proxy_increment_metric :: "'h MockProxyWasmAbi option \<Rightarrow> u32 \<Rightarrow> 64 word \<Rightarrow> 'h \<Rightarrow> WasmResult \<times> 'h" where
  "proxy_increment_metric mock metric_id off h = (case mock of Some M \<Rightarrow> m_proxy_increment_metric M metric_id off h | None \<Rightarrow> (Ok, h))"

definition proxy_record_metric :: "'h MockProxyWasmAbi option \<Rightarrow> u32 \<Rightarrow> u64 \<Rightarrow> 'h \<Rightarrow> WasmResult \<times> 'h" where
  "proxy_record_metric mock metric_id val h = (case mock of Some M \<Rightarrow> m_proxy_record_metric M metric_id val h | None \<Rightarrow> (Ok, h))"

definition proxy_get_metric :: "'h MockProxyWasmAbi option \<Rightarrow> u32 \<Rightarrow> 'h \<Rightarrow> WasmResult \<times> u64 option \<times> 'h" where
  "proxy_get_metric mock metric_id h = (case mock of Some M \<Rightarrow> m_proxy_get_metric M metric_id h | None \<Rightarrow> (Ok, None, h))"

definition proxy_set_effective_context :: "'h MockProxyWasmAbi option \<Rightarrow> u32 \<Rightarrow> 'h \<Rightarrow> WasmResult \<times> 'h" where
  "proxy_set_effective_context mock effective_context_id h = (case mock of Some M \<Rightarrow> m_proxy_set_effective_context M effective_context_id h | None \<Rightarrow> (Ok, h))"

definition proxy_done :: "'h MockProxyWasmAbi option \<Rightarrow> 'h \<Rightarrow> WasmResult \<times> 'h" where
  "proxy_done mock h = (case mock of Some M \<Rightarrow> m_proxy_done M h | None \<Rightarrow> (Ok, h))"

definition proxy_call_foreign_function :: "'h MockProxyWasmAbi option \<Rightarrow> string \<Rightarrow> string \<Rightarrow> 'h \<Rightarrow> WasmResult \<times> string option \<times> 'h" where
  "proxy_call_foreign_function mock function_name args h = (case mock of Some M \<Rightarrow> m_proxy_call_foreign_function M function_name args h | None \<Rightarrow> (Ok, None, h))"

text \<open>The random numbers of the WASI interface: the stub writes nothing and reports success.\<close>

definition wasi_random_get :: "string \<Rightarrow> int \<times> string" where
  "wasi_random_get buf = (0, buf)"

section \<open>The installed mock\<close>

text \<open>
  The mocks that are alive, by address, and the global pointer. A constructor installs its object, a
  destructor clears the pointer, whichever object it points to. Neither runs on an object in the wrong
  state of its life.
\<close>

record 'h mock_world =
  alive :: "nat \<rightharpoonup> 'h MockProxyWasmAbi"
  current_mock_proxy_wasm_abi :: "nat option"

definition MockProxyWasmAbi_new :: "nat \<Rightarrow> 'h MockProxyWasmAbi \<Rightarrow> 'h mock_world \<Rightarrow> 'h mock_world" where
  "MockProxyWasmAbi_new a M w = w\<lparr>alive := (alive w)(a \<mapsto> M), current_mock_proxy_wasm_abi := Some a\<rparr>"

definition MockProxyWasmAbi_delete :: "nat \<Rightarrow> 'h mock_world \<Rightarrow> 'h mock_world" where
  "MockProxyWasmAbi_delete a w = w\<lparr>alive := (alive w)(a := None), current_mock_proxy_wasm_abi := None\<rparr>"

definition no_mock :: "'h mock_world" where
  "no_mock = \<lparr>alive = Map.empty, current_mock_proxy_wasm_abi = None\<rparr>"

text \<open>The object behind the pointer; the outer \<^const>\<open>None\<close> is a pointer to an object that is gone.\<close>

definition installed :: "'h mock_world \<Rightarrow> 'h MockProxyWasmAbi option option" where
  "installed w = (case current_mock_proxy_wasm_abi w of None \<Rightarrow> Some None
     | Some a \<Rightarrow> map_option Some (alive w a))"

inductive mock_reach :: "'h mock_world \<Rightarrow> bool" where
  start: "mock_reach no_mock"
| construct: "mock_reach w \<Longrightarrow> alive w a = None \<Longrightarrow> mock_reach (MockProxyWasmAbi_new a M w)"
| destruct: "mock_reach w \<Longrightarrow> alive w a \<noteq> None \<Longrightarrow> mock_reach (MockProxyWasmAbi_delete a w)"

text \<open>No stub ever calls a mock that was destroyed, in whatever order mocks come and go.\<close>

lemma installed_never_dangles:
  assumes "mock_reach w"
  shows "installed w \<noteq> None"
  using assms
proof (induction rule: mock_reach.induct)
  case (construct w a M)
  then show ?case by (simp add: installed_def MockProxyWasmAbi_new_def)
qed (simp_all add: installed_def no_mock_def MockProxyWasmAbi_delete_def)

text \<open>
  The pointer has no stack: after a nested mock is gone the outer one is alive and not installed, and
  the stubs answer with their fixed results.
\<close>

lemma nested_mock_uninstalls_outer:
  assumes "a \<noteq> b"
  shows "installed (MockProxyWasmAbi_delete b (MockProxyWasmAbi_new b N (MockProxyWasmAbi_new a M w))) = Some None"
    and "alive (MockProxyWasmAbi_delete b (MockProxyWasmAbi_new b N (MockProxyWasmAbi_new a M w))) a = Some M"
  using assms by (simp_all add: installed_def MockProxyWasmAbi_new_def MockProxyWasmAbi_delete_def)

section \<open>Actions and matchers\<close>

text \<open>
  What an action writes through the two out-parameters: the block of memory it allocated, absent for a
  null pointer, and the length. Reading that many bytes goes wrong beyond the end of the block.
\<close>

type_synonym out_block = "string option \<times> nat"

fun read_block :: "out_block \<Rightarrow> string option" where
  "read_block (None, n) = (if n = 0 then Some [] else None)"
| "read_block (Some block, n) = (if n \<le> length block then Some (take n block) else None)"

definition SetWasmString :: "string \<Rightarrow> WasmResult \<times> out_block" where
  "SetWasmString value = (Ok, Some value, length value)"

definition SetWasmPairs :: "string \<Rightarrow> WasmResult \<times> out_block" where
  "SetWasmPairs bytes_str = (Ok, Some bytes_str, length bytes_str)"

definition SetWasmProperty :: "string \<Rightarrow> WasmResult \<times> out_block" where
  "SetWasmProperty value = (Ok, if value = [] then (None, 0) else (Some value, length value))"

definition strdup :: "string \<Rightarrow> string" where
  "strdup s = takeWhile (\<lambda>c. c \<noteq> CHR 0x00) s @ [CHR 0x00]"

definition SetWasmBufferBytes :: "string \<Rightarrow> WasmResult \<times> out_block" where
  "SetWasmBufferBytes s = (Ok, if s = [] then (None, 0) else (Some (strdup s), length s))"

definition WasmStrEq :: "string \<Rightarrow> string \<Rightarrow> bool" where
  "WasmStrEq expected_str arg = (arg = expected_str)"

definition WasmHasSubstr :: "absl \<Rightarrow> string \<Rightarrow> string \<Rightarrow> bool" where
  "WasmHasSubstr A expected_substr arg = StrContains A arg expected_substr"

text \<open>The three actions that copy by length hand out exactly their value.\<close>

lemma mock_values_read_back:
  "read_block (snd (SetWasmString v)) = Some v"
  "read_block (snd (SetWasmPairs v)) = Some v"
  "read_block (snd (SetWasmProperty v)) = Some v"
  by (simp_all add: SetWasmString_def SetWasmPairs_def SetWasmProperty_def)

text \<open>The text copied with \<^verbatim>\<open>strdup\<close> is read back when it has no zero byte.\<close>

lemma buffer_bytes_read_back:
  assumes "CHR 0x00 \<notin> set s"
  shows "read_block (snd (SetWasmBufferBytes s)) = Some s"
proof -
  have "takeWhile (\<lambda>c. c \<noteq> CHR 0x00) s = s"
    using assms by (auto simp: takeWhile_eq_all_conv)
  then have "strdup s = s @ [CHR 0x00]" by (simp only: strdup_def)
  then show ?thesis by (simp add: SetWasmBufferBytes_def)
qed

text \<open>A zero byte before the last one makes the reported length exceed the block.\<close>

lemma buffer_bytes_overread:
  assumes "CHR 0x00 \<notin> set p" and "q \<noteq> []"
  shows "read_block (snd (SetWasmBufferBytes (p @ CHR 0x00 # q))) = None"
proof -
  have "takeWhile (\<lambda>c. c \<noteq> CHR 0x00) (p @ CHR 0x00 # q) = p"
    using assms by (subst takeWhile_append2) auto
  then have "strdup (p @ CHR 0x00 # q) = p @ [CHR 0x00]" by (simp only: strdup_def)
  then show ?thesis using assms by (simp add: SetWasmBufferBytes_def)
qed

end
