(* ===== verification/Test_Verdict.thy ===== *)
theory Test_Verdict
  imports Runner
begin

text \<open>
  What it means that a configured test (\<^verbatim>\<open>DynamicTest::TestBody\<close>) passes. The first part states the
  meaning as a relation between the states of the stream before and after each phase, without failure
  lists, fatal flags and early returns, and shows that the test program decides exactly this relation.
  The second part is about plugins that only rewrite headers: the locale \<open>header_rewriter\<close> is their
  contract, a function on lookup tables, and every test of such a plugin is decided by that function.
  The samples that interpret it are in \<open>Sample_Suites\<close>.
\<close>

section \<open>The meaning of a test\<close>

definition logs_met :: "('re, 'g) test_lib \<Rightarrow> pb_Expectation \<Rightarrow> TestHttpContext \<Rightarrow> bool" where
  "logs_met T e c \<longleftrightarrow> list_all (\<lambda>m. matcher_holds T m (phase_logs c)) (exp_log e)"

definition headers_met :: "absl \<Rightarrow> ('re, 'g) test_lib \<Rightarrow> bool \<Rightarrow> pb_Invocation option
    \<Rightarrow> (headers \<Rightarrow> 'p stream \<Rightarrow> Result \<times> 'p stream) \<Rightarrow> 'p stream \<Rightarrow> 'p stream \<Rightarrow> bool" where
  "headers_met A T is_request ivk send s s' \<longleftrightarrow> (case ivk of
      None \<Rightarrow> s' = s
    | Some i \<Rightarrow> \<exists>hs res. ParseHeaders A T (inv_input i) is_request = Inr hs \<and> send hs s = (res, s') \<and>
        \<not> vm_failed (snd s') \<and> expectation_met T (inv_result i) (phase_logs (snd s')) res)"

text \<open>The results of the chunks of one body, if the machine survives all of them.\<close>

fun chunk_bodies :: "(string \<Rightarrow> bool \<Rightarrow> 'p stream \<Rightarrow> Result \<times> 'p stream) \<Rightarrow> string list \<Rightarrow> 'p stream
    \<Rightarrow> (string \<times> 'p stream) option" where
  "chunk_bodies send [] s = Some ([], s)"
| "chunk_bodies send (c # cs) s =
     (let (res, s1) = send c (cs = []) s
      in if vm_failed (snd s1) then None else map_option (\<lambda>(b, s2). (body res @ b, s2)) (chunk_bodies send cs s1))"

fun bodies_met :: "('re, 'g) test_lib \<Rightarrow> BodyChunkingPlan \<Rightarrow> pb_Invocation list
    \<Rightarrow> (string \<Rightarrow> bool \<Rightarrow> 'p stream \<Rightarrow> Result \<times> 'p stream) \<Rightarrow> 'p stream \<Rightarrow> 'p stream \<Rightarrow> bool" where
  "bodies_met T plan [] send s s' \<longleftrightarrow> s' = s"
| "bodies_met T plan (i # is) send s s' \<longleftrightarrow>
     (\<exists>whole chunks b s1. ParseBodyInput T (inv_input i) = Inr whole \<and>
        (if plan \<noteq> plan_not_set then ChunkBody T whole plan else Some [whole]) = Some chunks \<and>
        chunk_bodies send chunks s = Some (b, s1) \<and>
        expectation_met T (inv_result i) (phase_logs (snd s1)) (empty_Result\<lparr>body := b\<rparr>) \<and>
        bodies_met T plan is send s1 s')"

definition body_phase_met :: "('re, 'g) test_lib \<Rightarrow> BodyChunkingPlan \<Rightarrow> pb_Invocation list
    \<Rightarrow> (string \<Rightarrow> bool \<Rightarrow> 'p stream \<Rightarrow> Result \<times> 'p stream) \<Rightarrow> 'p stream \<Rightarrow> 'p stream \<Rightarrow> bool" where
  "body_phase_met T plan ivks send s s' \<longleftrightarrow> (plan = plan_not_set \<or> length ivks \<le> 1) \<and> bodies_met T plan ivks send s s'"

definition stream_met :: "absl \<Rightarrow> ('re, 'g) test_lib \<Rightarrow> 'p callbacks \<Rightarrow> pb_Test \<Rightarrow> 'p stream \<Rightarrow> 'p stream \<Rightarrow> bool" where
  "stream_met A T P cfg s s' \<longleftrightarrow> (\<exists>s1 s2 s3 s4.
     (let s0 = cb_onCreate P s
      in \<not> vm_failed (snd s0) \<and> logs_met T (stream_init cfg) (snd s0) \<and>
         headers_met A T True (request_headers cfg) (SendRequestHeaders (cb_onRequestHeaders P)) s0 s1) \<and>
     body_phase_met T (body_chunking_plan cfg) (request_body cfg) (SendRequestBody (cb_onRequestBody P)) s1 s2 \<and>
     headers_met A T False (response_headers cfg) (SendResponseHeaders (cb_onResponseHeaders P)) s2 s3 \<and>
     body_phase_met T (body_chunking_plan cfg) (response_body cfg) (SendResponseBody (cb_onResponseBody P)) s3 s4 \<and>
     s' = TearDown (cb_onDone P) (cb_onDelete P) s4 \<and>
     \<not> vm_failed (snd s') \<and> logs_met T (stream_destroy cfg) (snd s'))"

section \<open>The test program decides it\<close>

lemma check_phase_fatal: "snd (CheckPhaseResults T e c res) \<Longrightarrow> fst (CheckPhaseResults T e c res) \<noteq> []"
  using check_header_fatal [of "exp_has_header e" "headers res"] check_header_fatal(2) [of "exp_no_header e" "headers res"]
  by (auto simp: CheckPhaseResults_def Let_def split_beta split: if_splits)

lemma check_side_ok: "CheckSideEffects T e c = [] \<longleftrightarrow> logs_met T e c"
  unfolding CheckSideEffects_def logs_met_def by (rule FindString_all)

lemma next_step_ok:
  "next_step a b s = Some ([], Some s'') \<longleftrightarrow> (\<exists>s'. a s = Some ([], Some s') \<and> b s' = Some ([], Some s''))"
  by (auto simp: next_step_def split: option.splits prod.splits)

lemma if_healthy_ok:
  "if_healthy nm check s = Some ([], Some s') \<longleftrightarrow> s' = s \<and> \<not> vm_failed (snd s) \<and> check (snd s) = []"
  by (auto simp: if_healthy_def)

lemma headers_phase_ok:
  "headers_phase A T nm is_request ivk send s = Some ([], Some s') \<longleftrightarrow> headers_met A T is_request ivk send s s'"
  by (auto simp: headers_phase_def headers_met_def if_healthy_ok check_phase_ok split: option.splits sum.splits prod.splits)

lemma send_chunks_ok:
  "send_chunks send chunks r s = (True, r', s') \<longleftrightarrow>
     (\<exists>b. chunk_bodies send chunks s = Some (b, s') \<and> r' = r\<lparr>body := body r @ b\<rparr>)"
proof (induction chunks arbitrary: r s)
  case (Cons c cs)
  obtain res s1 where send: "send c (cs = []) s = (res, s1)" by (cases "send c (cs = []) s")
  show ?case
  proof (cases "vm_failed (snd s1)")
    case False
    then have "send_chunks send (c # cs) r s = send_chunks send cs (r\<lparr>body := body r @ body res\<rparr>) s1"
      "chunk_bodies send (c # cs) s = map_option (\<lambda>(b, s2). (body res @ b, s2)) (chunk_bodies send cs s1)"
      using send by simp_all
    then show ?thesis by (cases "chunk_bodies send cs s1") (auto simp: Cons.IH simp del: send_chunks.simps chunk_bodies.simps)
  qed (simp add: send)
qed auto

lemma run_invocations_ConsE:
  assumes "run_invocations T nm plan send (i # is) s = Some ([], fatal, s')"
  obtains whole chunks r s1 fatal1 where "ParseBodyInput T (inv_input i) = Inr whole"
    "(if plan \<noteq> plan_not_set then ChunkBody T whole plan else Some [whole]) = Some chunks"
    "send_chunks send chunks empty_Result s = (True, r, s1)"
    "fst (CheckPhaseResults T (inv_result i) (snd s1) r) = []"
    "run_invocations T nm plan send is s1 = Some ([], fatal1, s')"
    "fatal \<longleftrightarrow> snd (CheckPhaseResults T (inv_result i) (snd s1) r) \<or> fatal1"
proof -
  obtain whole where whole: "ParseBodyInput T (inv_input i) = Inr whole"
    using assms by (cases "ParseBodyInput T (inv_input i)") auto
  obtain chunks where chunks: "(if plan \<noteq> plan_not_set then ChunkBody T whole plan else Some [whole]) = Some chunks"
    using assms whole by (cases "if plan \<noteq> plan_not_set then ChunkBody T whole plan else Some [whole]") auto
  obtain healthy r s1 where sent: "send_chunks send chunks empty_Result s = (healthy, r, s1)"
    by (cases "send_chunks send chunks empty_Result s")
  obtain fs f where check: "CheckPhaseResults T (inv_result i) (snd s1) r = (fs, f)"
    by (cases "CheckPhaseResults T (inv_result i) (snd s1) r")
  have "run_invocations T nm plan send (i # is) s =
      (if \<not> healthy then Some ([VmFailed nm], True, s1)
       else case run_invocations T nm plan send is s1 of
              None \<Rightarrow> None | Some (gs, fatal', s'') \<Rightarrow> Some (fs @ gs, f \<or> fatal', s''))"
    using whole chunks sent check by (simp only: run_invocations.simps sum.case option.case prod.case Let_def)
  then obtain fatal1 where "healthy" "fs = []" "run_invocations T nm plan send is s1 = Some ([], fatal1, s')"
    "fatal \<longleftrightarrow> f \<or> fatal1"
    using assms by (cases healthy; cases "run_invocations T nm plan send is s1") auto
  with whole chunks sent check show ?thesis by (intro that) auto
qed

lemma run_invocations_ok:
  "run_invocations T nm plan send ivks s = Some ([], False, s') \<longleftrightarrow> bodies_met T plan ivks send s s'"
proof (induction ivks arbitrary: s)
  case (Cons i "is")
  show ?case
  proof
    assume "run_invocations T nm plan send (i # is) s = Some ([], False, s')"
    then obtain whole chunks r s1 where 1: "ParseBodyInput T (inv_input i) = Inr whole"
      "(if plan \<noteq> plan_not_set then ChunkBody T whole plan else Some [whole]) = Some chunks"
      "send_chunks send chunks empty_Result s = (True, r, s1)"
      "fst (CheckPhaseResults T (inv_result i) (snd s1) r) = []"
      "run_invocations T nm plan send is s1 = Some ([], False, s')"
      by (rule run_invocations_ConsE) auto
    then show "bodies_met T plan (i # is) send s s'"
      unfolding bodies_met.simps send_chunks_ok check_phase_ok Cons.IH by (auto simp only: empty_Result_sel append_Nil)
  next
    assume "bodies_met T plan (i # is) send s s'"
    then obtain whole chunks b s1 where 1: "ParseBodyInput T (inv_input i) = Inr whole"
      "(if plan \<noteq> plan_not_set then ChunkBody T whole plan else Some [whole]) = Some chunks"
      "chunk_bodies send chunks s = Some (b, s1)"
      and met: "expectation_met T (inv_result i) (phase_logs (snd s1)) (empty_Result\<lparr>body := b\<rparr>)"
      and rest: "run_invocations T nm plan send is s1 = Some ([], False, s')"
      unfolding bodies_met.simps Cons.IH by blast
    have sent: "send_chunks send chunks empty_Result s = (True, empty_Result\<lparr>body := b\<rparr>, s1)"
      using 1(3) by (simp add: send_chunks_ok)
    have "CheckPhaseResults T (inv_result i) (snd s1) (empty_Result\<lparr>body := b\<rparr>) = ([], False)"
      using met check_phase_ok check_phase_fatal by (metis prod.collapse)
    with 1 sent rest show "run_invocations T nm plan send (i # is) s = Some ([], False, s')"
      by (simp add: Let_def)
  qed
qed auto

lemma run_body_test_ok:
  "run_body_test T nm plan ivks send s = Some ([], Some s') \<longleftrightarrow> body_phase_met T plan ivks send s s'"
proof (cases "length ivks \<noteq> 1 \<and> plan \<noteq> plan_not_set \<and> ivks \<noteq> []")
  case True
  then have "\<not> length ivks \<le> 1" by (cases ivks) auto
  with True show ?thesis by (auto simp: run_body_test_def body_phase_met_def)
next
  case False
  then have "plan = plan_not_set \<or> length ivks \<le> 1" by (cases ivks) auto
  moreover have "run_body_test T nm plan ivks send s = Some ([], Some s') \<longleftrightarrow>
      run_invocations T nm plan send ivks s = Some ([], False, s')"
    using False by (auto simp: run_body_test_def split: option.splits if_splits)
  ultimately show ?thesis by (simp add: body_phase_met_def run_invocations_ok)
qed

lemma stream_steps_ok: "stream_steps A T P cfg s = Some ([], Some s') \<longleftrightarrow> stream_met A T P cfg s s'"
  unfolding stream_steps_def stream_met_def
  by (simp only: next_step_ok if_healthy_ok headers_phase_ok run_body_test_ok check_side_ok Let_def) blast

text \<open>A test that passes runs to its end.\<close>

lemma next_step_silent:
  assumes "\<And>s. a s \<noteq> Some ([], None)" and "\<And>s. b s \<noteq> Some ([], None)"
  shows "next_step a b s \<noteq> Some ([], None)"
  using assms(1) [of s] assms(2) by (fastforce simp: next_step_def split: option.splits)

lemma phases_silent:
  "if_healthy nm check s \<noteq> Some ([], None)"
  "headers_phase A T nm is_request ivk send s \<noteq> Some ([], None)"
  by (auto simp: if_healthy_def headers_phase_def Let_def split: option.splits sum.splits prod.splits)

lemma run_invocations_silent: "run_invocations T nm plan send ivks s \<noteq> Some ([], True, s')"
proof (induction ivks arbitrary: s)
  case (Cons i "is")
  show ?case
  proof
    assume "run_invocations T nm plan send (i # is) s = Some ([], True, s')"
    then obtain r s1 fatal where "fst (CheckPhaseResults T (inv_result i) (snd s1) r) = []"
      "run_invocations T nm plan send is s1 = Some ([], fatal, s')"
      "snd (CheckPhaseResults T (inv_result i) (snd s1) r) \<or> fatal"
      by (rule run_invocations_ConsE) auto
    with Cons check_phase_fatal [of T "inv_result i" "snd s1" r] show False by (cases fatal) auto
  qed
qed simp

lemma run_body_test_silent: "run_body_test T nm plan ivks send s \<noteq> Some ([], None)"
  using run_invocations_silent [of T nm plan send ivks s]
  by (auto simp: run_body_test_def split: option.splits if_splits)

lemma stream_steps_silent: "stream_steps A T P cfg s \<noteq> Some ([], None)"
  unfolding stream_steps_def
  by (intro next_step_silent phases_silent run_body_test_silent)

text \<open>The whole test.\<close>

lemma TestBody_ok:
  "TestBody A T W ReadDataFile make_context shutdown_fails P engine env cfg = Some [] \<longleftrightarrow>
     (\<exists>w config w1 root s'. LoadWasm W ReadDataFile engine env False = Inr (w, config) \<and>
        InitializePlugin W (w, config) = (None, w1) \<and> \<not> wasm_isFailed W w1 \<and>
        getRootContext W w1 = Some root \<and> logs_met T (plugin_init cfg) root \<and>
        stream_met A T P cfg (make_context w1) s' \<and> \<not> shutdown_fails w1 s')"
proof
  assume pass: "TestBody A T W ReadDataFile make_context shutdown_fails P engine env cfg = Some []"
  then obtain w config w1 root r where 1: "LoadWasm W ReadDataFile engine env False = Inr (w, config)"
    "InitializePlugin W (w, config) = (None, w1)" "getRootContext W w1 = Some root" "\<not> wasm_isFailed W w1"
    "CheckSideEffects T (plugin_init cfg) root = []" "stream_steps A T P cfg (make_context w1) = Some ([], r)"
    and shut: "\<forall>s'. r = Some s' \<longrightarrow> \<not> shutdown_fails w1 s'"
    by (auto simp: TestBody_def Let_def split: sum.splits prod.splits option.splits if_splits)
  obtain s' where r: "r = Some s'" using 1(6) stream_steps_silent [of A T P cfg "make_context w1"] by (cases r) auto
  from 1 shut show "\<exists>w config w1 root s'. LoadWasm W ReadDataFile engine env False = Inr (w, config) \<and>
        InitializePlugin W (w, config) = (None, w1) \<and> \<not> wasm_isFailed W w1 \<and>
        getRootContext W w1 = Some root \<and> logs_met T (plugin_init cfg) root \<and>
        stream_met A T P cfg (make_context w1) s' \<and> \<not> shutdown_fails w1 s'"
    unfolding r stream_steps_ok check_side_ok by blast
next
  assume "\<exists>w config w1 root s'. LoadWasm W ReadDataFile engine env False = Inr (w, config) \<and>
        InitializePlugin W (w, config) = (None, w1) \<and> \<not> wasm_isFailed W w1 \<and>
        getRootContext W w1 = Some root \<and> logs_met T (plugin_init cfg) root \<and>
        stream_met A T P cfg (make_context w1) s' \<and> \<not> shutdown_fails w1 s'"
  then show "TestBody A T W ReadDataFile make_context shutdown_fails P engine env cfg = Some []"
    by (auto simp: TestBody_def Let_def check_side_ok [symmetric] stream_steps_ok [symmetric])
qed


section \<open>Plugins that rewrite headers\<close>

text \<open>
  What the tests see of a headers callback: it lets the message pass, changes the headers by a function
  of the lookup table, and neither answers nor fails.
\<close>

locale header_rewriter =
  fixes t :: WasmHeaderMapType
    and f :: "TestHttpContext \<Rightarrow> FilterHeadersStatus \<times> TestHttpContext"
    and spec :: "(string \<Rightarrow> string option) \<Rightarrow> string \<Rightarrow> string option"
  assumes continues: "test_good c \<Longrightarrow> phase c = Some t \<Longrightarrow> fst (f c) = Continue"
    and rewritten: "test_good c \<Longrightarrow> phase c = Some t \<Longrightarrow>
      hdr_find k (headers (result (snd (f c)))) = spec (\<lambda>k. hdr_find k (headers (result c))) k"
    and no_reply: "http_code (result (snd (f c))) = http_code (result c)"
    and no_failure: "vm_failed (snd (f c)) = vm_failed c"

text \<open>A test of one headers phase that gives the headers as a list and expects headers only.\<close>

definition expects :: "header list \<Rightarrow> header list \<Rightarrow> pb_Expectation" where
  "expects has no = no_expectation\<lparr>exp_has_header := has, exp_no_header := no\<rparr>"

definition header_test :: "WasmHeaderMapType \<Rightarrow> header list \<Rightarrow> pb_Expectation \<Rightarrow> pb_Test" where
  "header_test t input e =
     (let ivk = Some \<lparr>inv_input = \<lparr>input_header = input, input_content = [], input_file = []\<rparr>, inv_result = e\<rparr>
      in \<lparr>body_chunking_plan = plan_not_set, request_headers = (if t = RequestHeaders then ivk else None), request_body = [],
          response_headers = (if t = ResponseHeaders then ivk else None), response_body = [],
          plugin_init = no_expectation, stream_init = no_expectation, stream_destroy = no_expectation\<rparr>)"

definition header_goals :: "header list \<Rightarrow> header list \<Rightarrow> (string \<Rightarrow> string option) \<Rightarrow> bool" where
  "header_goals has no m \<longleftrightarrow> list_all (\<lambda>(k, v). k \<noteq> [] \<and> m k = Some v) has \<and> list_all (\<lambda>(k, v). k \<noteq> [] \<and> m k = None) no"

definition plugin_of :: "WasmHeaderMapType \<Rightarrow> (TestHttpContext \<Rightarrow> FilterHeadersStatus \<times> TestHttpContext) \<Rightarrow> 'p callbacks" where
  "plugin_of t f = (if t = RequestHeaders then pass_all\<lparr>cb_onRequestHeaders := stateless f\<rparr>
     else pass_all\<lparr>cb_onResponseHeaders := stateless f\<rparr>)"

text \<open>The engine loads and starts the plugin, and the stream it offers is fresh.\<close>

definition plugin_ready :: "('w, 'r) wasm_lib \<Rightarrow> (string \<Rightarrow> Status + string) \<Rightarrow> string \<Rightarrow> pb_Env \<Rightarrow> ('w \<Rightarrow> 'p stream) \<Rightarrow> bool" where
  "plugin_ready W ReadDataFile engine env make_context \<longleftrightarrow> (\<exists>w config w1 root.
     LoadWasm W ReadDataFile engine env False = Inr (w, config) \<and> InitializePlugin W (w, config) = (None, w1) \<and>
     \<not> wasm_isFailed W w1 \<and> getRootContext W w1 = Some root \<and>
     \<not> vm_failed (snd (make_context w1)) \<and> \<not> sent_local_response (snd (make_context w1)))"

lemma pass_all_sel [simp]:
  "cb_onCreate pass_all = id" "cb_onDone pass_all = id" "cb_onDelete pass_all = id"
  by (simp_all add: pass_all_def)

lemma plugin_of_sel [simp]:
  "cb_onCreate (plugin_of t f) = id" "cb_onDone (plugin_of t f) = id" "cb_onDelete (plugin_of t f) = id"
  by (simp_all add: plugin_of_def)

lemma no_logs [simp]: "logs_met T no_expectation c" "logs_met T (expects has no) c"
  by (simp_all add: logs_met_def no_expectation_def expects_def)

lemma headers_met_None [simp]: "headers_met A T r None send s s' \<longleftrightarrow> s' = s"
  by (simp add: headers_met_def)

lemma expects_met:
  "expectation_met T (expects has no) logs res \<longleftrightarrow>
     header_goals has no (\<lambda>k. hdr_find k (headers res)) \<and> header_status res \<in> {Continue, ContinueAndEndStream} \<and> http_code res = 0"
  by (auto simp: expectation_met_def expects_def no_expectation_def immediate_met_def header_goals_def)

lemma merged_input:
  "hdr_sorted (foldl (\<lambda>m (k, v). InsertOrAppend k v m) [] input)"
  "(\<lambda>k. hdr_find k (foldl (\<lambda>m (k, v). InsertOrAppend k v m) [] input)) = happend input"
  using foldl_InsertOrAppend [of "[]" input] by (simp_all add: happend_def hdr_sorted_def)

lemma phase_frame [simp]:
  "vm_failed (request_phase hs c) = vm_failed c" "vm_failed (response_phase hs c) = vm_failed c"
  "vm_failed (leave_phase st c) = vm_failed c"
  "http_code (result (request_phase hs c)) = 0" "http_code (result (response_phase hs c)) = 0"
  by (simp_all add: request_phase_def response_phase_def leave_phase_def)

lemma TearDown_id [simp]: "vm_failed (snd (TearDown id id s)) = vm_failed (snd s)"
  by (cases s) (simp add: TearDown_def)

context header_rewriter
begin

text \<open>The phase of the test, with the callback run on the merged input.\<close>

lemma sent:
  assumes "test_good c" and "phase c = Some t" and "\<not> vm_failed c" and "http_code (result c) = 0"
  shows "expectation_met T (expects has no) logs (result (leave_phase (fst (f c)) (snd (f c)))) \<longleftrightarrow>
      header_goals has no (spec (\<lambda>k. hdr_find k (headers (result c))))"
    and "\<not> vm_failed (leave_phase (fst (f c)) (snd (f c)))"
  using assms by (simp_all add: expects_met continues rewritten no_reply no_failure header_goals_def)

lemma request_sent:
  assumes "t = RequestHeaders" and "\<not> vm_failed c"
  shows "headers_met A T True (request_headers (header_test t input (expects has no)))
      (SendRequestHeaders (cb_onRequestHeaders (plugin_of t f))) (p, c) s' \<longleftrightarrow>
    (let x = f (request_phase (foldl (\<lambda>m (k, v). InsertOrAppend k v m) [] input) c)
     in s' = (p, leave_phase (fst x) (snd x)) \<and> header_goals has no (spec (happend input)))"
proof -
  let ?hs = "foldl (\<lambda>m (k, v). InsertOrAppend k v m) [] input"
  let ?x = "f (request_phase ?hs c)"
  have "SendRequestHeaders (stateless f) ?hs (p, c) = (result (leave_phase (fst ?x) (snd ?x)), p, leave_phase (fst ?x) (snd ?x))"
    by (rule SendRequestHeaders_stateless) simp
  moreover have good: "test_good (request_phase ?hs c)" by (simp add: merged_input)
  note phase = sent(1) [OF good, where T = T and has = has and no = no] sent(2) [OF good]
  ultimately show ?thesis
    using assms phase by (auto simp: headers_met_def header_test_def plugin_of_def ParseHeaders_def Let_def merged_input(2))
qed

lemma response_sent:
  assumes "t = ResponseHeaders" and "\<not> vm_failed c" and "\<not> sent_local_response c"
  shows "headers_met A T False (response_headers (header_test t input (expects has no)))
      (SendResponseHeaders (cb_onResponseHeaders (plugin_of t f))) (p, c) s' \<longleftrightarrow>
    (let x = f (response_phase (foldl (\<lambda>m (k, v). InsertOrAppend k v m) [] input) c)
     in s' = (p, leave_phase (fst x) (snd x)) \<and> header_goals has no (spec (happend input)))"
proof -
  let ?hs = "foldl (\<lambda>m (k, v). InsertOrAppend k v m) [] input"
  let ?x = "f (response_phase ?hs c)"
  have "SendResponseHeaders (stateless f) ?hs (p, c) = (result (leave_phase (fst ?x) (snd ?x)), p, leave_phase (fst ?x) (snd ?x))"
    by (rule SendResponseHeaders_stateless) (use assms in simp_all)
  moreover have good: "test_good (response_phase ?hs c)" by (simp add: merged_input)
  note phase = sent(1) [OF good, where T = T and has = has and no = no] sent(2) [OF good]
  ultimately show ?thesis
    using assms phase by (auto simp: headers_met_def header_test_def plugin_of_def ParseHeaders_def Let_def merged_input(2))
qed

lemma stream_exact:
  assumes "t = RequestHeaders \<or> t = ResponseHeaders" and "\<not> vm_failed (snd s)" and "\<not> sent_local_response (snd s)"
  shows "(\<exists>s'. stream_met A T (plugin_of t f) (header_test t input (expects has no)) s s') \<longleftrightarrow>
    header_goals has no (spec (happend input))"
proof -
  obtain p c where s: "s = (p, c)" by (cases s)
  let ?cfg = "header_test t input (expects has no)"
  have sel: "stream_init ?cfg = no_expectation" "stream_destroy ?cfg = no_expectation" "request_body ?cfg = []"
    "response_body ?cfg = []" "body_chunking_plan ?cfg = plan_not_set"
    by (simp_all add: header_test_def Let_def)
  have unfold: "stream_met A T (plugin_of t f) ?cfg s s' \<longleftrightarrow> (\<exists>s1 s2.
      headers_met A T True (request_headers ?cfg) (SendRequestHeaders (cb_onRequestHeaders (plugin_of t f))) s s1 \<and>
      headers_met A T False (response_headers ?cfg) (SendResponseHeaders (cb_onResponseHeaders (plugin_of t f))) s1 s2 \<and>
      s' = TearDown id id s2 \<and> \<not> vm_failed (snd s'))" for s'
    using assms(2) by (auto simp: stream_met_def body_phase_met_def sel)
  show ?thesis
    using assms(1)
  proof
    assume t: "t = RequestHeaders"
    then have "response_headers ?cfg = None" by (simp add: header_test_def Let_def)
    with request_sent [OF t, of c A T input has no p] assms(2) show ?thesis
      unfolding unfold by (auto simp: s Let_def no_failure simp del: split_paired_Ex)
  next
    assume t: "t = ResponseHeaders"
    then have "request_headers ?cfg = None" by (simp add: header_test_def Let_def)
    with response_sent [OF t, of c A T input has no p] assms(2,3) show ?thesis
      unfolding unfold by (auto simp: s Let_def no_failure simp del: split_paired_Ex)
  qed
qed

lemma test_exact:
  assumes "t = RequestHeaders \<or> t = ResponseHeaders" and "plugin_ready W ReadDataFile engine env make_context"
  shows "TestBody A T W ReadDataFile make_context (\<lambda>w s. False) (plugin_of t f) engine env
      (header_test t input (expects has no)) = Some [] \<longleftrightarrow> header_goals has no (spec (happend input))"
proof -
  obtain w config w1 root where "LoadWasm W ReadDataFile engine env False = Inr (w, config)"
    "InitializePlugin W (w, config) = (None, w1)" "\<not> wasm_isFailed W w1" "getRootContext W w1 = Some root"
    and fresh: "\<not> vm_failed (snd (make_context w1))" "\<not> sent_local_response (snd (make_context w1))"
    using assms(2) unfolding plugin_ready_def by blast
  then show ?thesis
    unfolding TestBody_ok stream_exact [OF assms(1) fresh, of A T input has no, symmetric]
    by (simp add: header_test_def Let_def del: split_paired_Ex)
qed

end

section \<open>Properties\<close>

text \<open>C2: A configured test reports nothing if and only if the plugin loads, starts and is configured, every
  log expectation holds, and in every configured phase, run in order on the stream that the phase before
  left, the input can be parsed, the machine survives and the outcome meets the expectation: for headers
  the result of the callback, for a body the joined results of its chunks. In particular no failure is
  lost on the way, a fatal one ends the test, and a test that passes has torn down its stream.\<close>

theorem test_verdict_exact:
  "TestBody A T W ReadDataFile make_context shutdown_fails P engine env cfg = Some [] \<longleftrightarrow>
     (\<exists>w config w1 root s'. LoadWasm W ReadDataFile engine env False = Inr (w, config) \<and>
        InitializePlugin W (w, config) = (None, w1) \<and> \<not> wasm_isFailed W w1 \<and>
        getRootContext W w1 = Some root \<and> logs_met T (plugin_init cfg) root \<and>
        stream_met A T P cfg (make_context w1) s' \<and> \<not> shutdown_fails w1 s')"
  by (rule TestBody_ok)

end
