(* ===== verification/Reply_Samples.thy ===== *)
theory Reply_Samples
  imports Header_Samples "HOL-Library.AList"
begin

text \<open>
  The sample plugins that answer a request or a response themselves, or rewrite its status:
  redirect, block\_request, config\_denylist, redirect\_bulk, overwrite\_errcode,
  add\_custom\_response and error\_page\_with\_traceid (\<^verbatim>\<open>plugins/samples/<name>/plugin.cc\<close>). The state a
  root context keeps (token set, domain table) is an argument of the stream callbacks.
\<close>

section \<open>redirect\<close>

definition old_path_prefix :: string where
  "old_path_prefix = ''/foo/''"

definition new_path_prefix :: string where
  "new_path_prefix = ''/bar/''"

definition redirect_onRequestHeaders :: "absl \<Rightarrow> 'h sdk \<Rightarrow> 'h \<Rightarrow> FilterHeadersStatus \<times> 'h" where
  "redirect_onRequestHeaders A S h =
     (let path = getRequestHeader S '':path'' h
      in if \<not> is_set path then (Continue, LOG_ERROR S ''Failed to get :path header'' h)
         else if StartsWith A (wview path) old_path_prefix
         then let new_path = new_path_prefix @ drop (length old_path_prefix) (wview path)
              in (ContinueAndEndStream,
                  snd (sendLocalResponse S 301 [] (''Content moved to '' @ new_path)
                         [(''Location'', new_path)] h))
         else (Continue, h))"

section \<open>block\_request\<close>

definition kAllowedReferer :: string where
  "kAllowedReferer = ''safe-site.com''"

text \<open>\<open>rnd\<close> is the number the generator of the root context returns.\<close>

definition block_request_onRequestHeaders ::
    "absl \<Rightarrow> u64 \<Rightarrow> 'h sdk \<Rightarrow> 'h \<Rightarrow> FilterHeadersStatus \<times> 'h" where
  "block_request_onRequestHeaders A rnd S h =
     (let referer = getRequestHeader S ''Referer'' h
      in if \<not> is_set referer \<or> \<not> StrContains A (wview referer) kAllowedReferer
         then let requestId = dec_nat (unat rnd);
                  h1 = snd (sendLocalResponse S 403 [] (''Forbidden - Request ID: '' @ requestId) [] h);
                  h2 = LOG_INFO S (''Forbidden - Request ID: '' @ requestId) h1
              in (ContinueAndEndStream, h2)
         else (Continue, snd (addRequestHeader S ''my-plugin-allowed'' ''true'' h)))"

section \<open>config\_denylist\<close>

text \<open>
  The loop that cuts the configuration into tokens; \<open>idx\<close> is the start of the next token. The token
  set is a list without repetitions.
\<close>

definition denylist_sep :: "char \<Rightarrow> bool" where
  "denylist_sep c \<longleftrightarrow> c \<in> {CHR 0x20, CHR 0x0C, CHR 0x0A, CHR 0x0D, CHR 0x09, CHR 0x0B}"

function denylist_scan :: "string \<Rightarrow> nat \<Rightarrow> string list \<Rightarrow> string list" where
  "denylist_scan config idx tokens =
     (if idx < length config
      then case find_if denylist_sep (drop idx config) of
             None \<Rightarrow> List.insert (drop idx config) tokens
           | Some d \<Rightarrow>
               let nxt = idx + d;
                   tokens' = (if idx \<noteq> nxt then List.insert (take (nxt - idx) (drop idx config)) tokens else tokens)
               in denylist_scan config (nxt + 1) tokens'
      else tokens)"
  by pat_completeness auto
termination
  by (relation "measure (\<lambda>(config, idx, tokens). length config - idx)") auto

declare denylist_scan.simps [simp del]

definition config_denylist_onConfigure ::
    "'h sdk \<Rightarrow> nat \<Rightarrow> string list \<times> 'h \<Rightarrow> (bool \<times> string list \<times> 'h) option" where
  "config_denylist_onConfigure S config_len = (\<lambda>(tokens, h).
     case deref (getBufferBytes S PluginConfiguration 0 config_len h) of
       None \<Rightarrow> None
     | Some config \<Rightarrow>
         let tokens' = denylist_scan config 0 tokens
         in Some (True, tokens', LOG_INFO S (''Config keys size '' @ dec_nat (length tokens')) h))"

definition config_denylist_onRequestHeaders ::
    "string list \<Rightarrow> 'h sdk \<Rightarrow> 'h \<Rightarrow> FilterHeadersStatus \<times> 'h" where
  "config_denylist_onRequestHeaders tokens S h =
     (let token = getRequestHeader S ''User-Token'' h
      in if \<not> is_set token \<or> length (wview token) = 0
         then (StopAllIterationAndWatermark,
               snd (sendLocalResponse S 403 [] (''Access forbidden - token missing.'' @ [CHR 0x0A]) [] h))
         else if wview token \<in> set tokens
         then (StopAllIterationAndWatermark,
               snd (sendLocalResponse S 403 [] (''Access forbidden.'' @ [CHR 0x0A]) [] h))
         else (Continue, h))"

definition config_denylist_onResponseHeaders :: "'h \<Rightarrow> FilterHeadersStatus \<times> 'h" where
  "config_denylist_onResponseHeaders h = (Continue, h)"

section \<open>redirect\_bulk\<close>

type_synonym domain_table = "(string \<times> string) list"

fun redirect_bulk_lines :: "absl \<Rightarrow> 'h sdk \<Rightarrow> string list \<Rightarrow> domain_table \<times> 'h \<Rightarrow> domain_table \<times> 'h" where
  "redirect_bulk_lines A S [] (m, h) = (m, h)"
| "redirect_bulk_lines A S (l # ls) (m, h) =
     (let stripped = StripAsciiWhitespace A l
      in if stripped = [] \<or> hd stripped = CHR ''#'' then redirect_bulk_lines A S ls (m, h)
         else let parts = StrSplit A stripped (CHR 0x20)
              in if length parts \<noteq> 2
                 then redirect_bulk_lines A S ls (m, LOG_WARN S (''Invalid mapping format: '' @ stripped) h)
                 else redirect_bulk_lines A S ls
                        (AList.update (AsciiStrToLower A (parts ! 0)) (parts ! 1) m, h))"

definition redirect_bulk_onConfigure ::
    "absl \<Rightarrow> 'h sdk \<Rightarrow> nat \<Rightarrow> domain_table \<times> 'h \<Rightarrow> bool \<times> domain_table \<times> 'h" where
  "redirect_bulk_onConfigure A S config_len = (\<lambda>(m, h).
     let config_data = getBufferBytes S PluginConfiguration 0 config_len h
     in if \<not> is_set config_data \<or> length (wview config_data) = 0
        then (True, m, LOG_WARN S ''No configuration provided, no redirects will be performed'' h)
        else let (m', h') = redirect_bulk_lines A S (StrSplit A (wview config_data) (CHR 0x0A)) (m, h)
             in (True, m', LOG_INFO S (''Loaded '' @ dec_nat (length m') @ '' domain mappings'') h'))"

definition redirect_bulk_onRequestHeaders ::
    "absl \<Rightarrow> domain_table \<Rightarrow> 'h sdk \<Rightarrow> 'h \<Rightarrow> FilterHeadersStatus \<times> 'h" where
  "redirect_bulk_onRequestHeaders A domain_mappings S h =
     (let authority = getRequestHeader S '':authority'' h
      in if \<not> is_set authority then (Continue, LOG_ERROR S ''Failed to get :authority header'' h)
         else
           let host = wview authority;
               domain = AsciiStrToLower A (case find_char (CHR '':'') host of None \<Rightarrow> host | Some i \<Rightarrow> take i host)
           in case map_of domain_mappings domain of
                None \<Rightarrow> (Continue, h)
              | Some target \<Rightarrow>
                  let path_header = getRequestHeader S '':path'' h;
                      path = (if is_set path_header then wview path_header else ''/'');
                      scheme_header = getRequestHeader S '':scheme'' h;
                      scheme = (if is_set scheme_header then wview scheme_header else ''https'');
                      new_url = scheme @ ''://'' @ target @ path
                  in (ContinueAndEndStream,
                      snd (sendLocalResponse S 301 [] (''Redirecting to '' @ new_url)
                             [(''Location'', new_url)] h)))"

section \<open>overwrite\_errcode and add\_custom\_response\<close>

definition mapResponseCode :: "int \<Rightarrow> int" where
  "mapResponseCode response_code = (if cpp_div response_code 100 = 5 then 404 else response_code)"

definition overwrite_errcode_onResponseHeaders :: "absl \<Rightarrow> 'h sdk \<Rightarrow> 'h \<Rightarrow> FilterHeadersStatus \<times> 'h" where
  "overwrite_errcode_onResponseHeaders A S h =
     (let response_status = getResponseHeader S '':status'' h
      in if is_set response_status
         then case SimpleAtoi32 A (wview response_status) of
                None \<Rightarrow> (Continue, h)
              | Some response_code \<Rightarrow>
                  if cpp_div response_code 100 = 5
                  then (Continue, or_log S ''Failed to replace :status header''
                          (replaceResponseHeader S '':status'' (dec_int (mapResponseCode response_code)) h))
                  else (Continue, h)
         else (Continue, h))"

definition redirect_page :: string where
  "redirect_page = ''https://storage.googleapis.com/www.example.com/server-error.html''"

definition add_custom_response_onResponseHeaders :: "absl \<Rightarrow> 'h sdk \<Rightarrow> 'h \<Rightarrow> FilterHeadersStatus \<times> 'h" where
  "add_custom_response_onResponseHeaders A S h =
     (let response_status = getResponseHeader S '':status'' h
      in if \<not> is_set response_status then (Continue, h)
         else case SimpleAtoi32 A (wview response_status) of
                None \<Rightarrow> (Continue, h)
              | Some response_code \<Rightarrow>
                  if cpp_div response_code 100 = 5
                  then (ContinueAndEndStream,
                        snd (sendLocalResponse S 302 [] []
                               [(''Origin-Status'', wview response_status), (''Location'', redirect_page)] h))
                  else (Continue, h))"

section \<open>error\_page\_with\_traceid\<close>

definition kErrorTemplate :: string where
  \<open>kErrorTemplate = join [CHR 0x0A] [
     [],
     ''<html>'',
     ''<head>'',
     ''  <title>Error {STATUS_CODE}</title>'',
     ''  <style>'',
     ''    body { font-family: sans-serif; margin: 2rem; }'',
     ''    .container { max-width: 800px; margin: 0 auto; }'',
     ''    .trace-id { '',
     ''      background-color: #f5f5f5; '',
     ''      padding: 1rem; '',
     ''      font-family: monospace;'',
     ''      word-break: break-all;'',
     ''      margin-top: 2rem;'',
     ''    }'',
     ''  </style>'',
     ''</head>'',
     ''<body>'',
     ''  <div class="container">'',
     ''    <h1>Error {STATUS_CODE}</h1>'',
     ''    <p>We'' @ [CHR 0x27] @ ''re sorry, something went wrong with your request.</p>'',
     ''    '',
     ''    <div class="trace-id">'',
     ''      <strong>Trace ID:</strong> {TRACE_ID}'',
     ''    </div>'',
     ''    '',
     ''    <p>Please provide this trace ID to support for assistance.</p>'',
     ''  </div>'',
     ''</body>'',
     ''</html>'',
     []]\<close>

text \<open>
  The compiled expression is the pointer \<open>w3c_trace_regex\<close> of the root context, null before
  \<^verbatim>\<open>onConfigure\<close>; the function it carries is a full match that returns the captured group.
\<close>

type_synonym regex_capture = "string \<Rightarrow> string option"

definition error_page_onConfigure :: "'h sdk \<Rightarrow> regex_capture \<times> bool \<Rightarrow> 'h \<Rightarrow> bool \<times> regex_capture option \<times> 'h" where
  "error_page_onConfigure S compiled h =
     (if \<not> snd compiled
      then (False, Some (fst compiled), LOG_ERROR S ''Failed to compile W3C traceparent regex'' h)
      else (True, Some (fst compiled), h))"

record error_page_state =
  ep_status_code :: string
  ep_trace_id :: string

definition error_page_init :: error_page_state where
  "error_page_init = \<lparr>ep_status_code = [], ep_trace_id = ''not-available''\<rparr>"

definition extractTraceId :: "regex_capture option \<Rightarrow> 'h sdk \<Rightarrow> 'h \<Rightarrow> string" where
  "extractTraceId w3c_trace_regex S h =
     (let trace_header = getRequestHeader S ''x-cloud-trace-context'' h
      in if is_set trace_header \<and> wview trace_header \<noteq> []
         then let trace_context = wview trace_header
              in case find_char (CHR ''/'') trace_context of
                   Some slash_pos \<Rightarrow> take slash_pos trace_context
                 | None \<Rightarrow> trace_context
         else
           let w3c_trace = getRequestHeader S ''traceparent'' h
           in if is_set w3c_trace \<and> wview w3c_trace \<noteq> []
              then case w3c_trace_regex of
                     None \<Rightarrow> ''not-available''
                   | Some full_match \<Rightarrow>
                       (case full_match (wview w3c_trace) of
                          Some trace_id \<Rightarrow> trace_id
                        | None \<Rightarrow> ''not-available'')
              else ''not-available'')"

definition error_page_onRequestHeaders :: "regex_capture option \<Rightarrow> 'h sdk
    \<Rightarrow> error_page_state \<times> 'h \<Rightarrow> FilterHeadersStatus \<times> error_page_state \<times> 'h" where
  "error_page_onRequestHeaders w3c_trace_regex S = (\<lambda>(p, h).
     let p1 = p\<lparr>ep_trace_id := extractTraceId w3c_trace_regex S h\<rparr>
     in (Continue, p1, LOG_DEBUG S (''Captured trace ID: '' @ ep_trace_id p1) h))"

definition error_page_onResponseHeaders :: "absl \<Rightarrow> 'h sdk
    \<Rightarrow> error_page_state \<times> 'h \<Rightarrow> FilterHeadersStatus \<times> error_page_state \<times> 'h" where
  "error_page_onResponseHeaders A S = (\<lambda>(p, h).
     let status_header = getResponseHeader S '':status'' h
     in if \<not> is_set status_header then (Continue, p, h)
        else
          let p1 = p\<lparr>ep_status_code := wview status_header\<rparr>;
              status_code = (case SimpleAtoi32 A (ep_status_code p1) of None \<Rightarrow> 500 | Some i \<Rightarrow> i)
          in if status_code < 400 then (Continue, p1, h)
             else
               let error_page = StrReplaceAll A kErrorTemplate
                     [(''{STATUS_CODE}'', ep_status_code p1), (''{TRACE_ID}'', ep_trace_id p1)]
               in (StopIteration, p1,
                   snd (sendLocalResponse S (of_int status_code) [] error_page
                          [(''Content-Type'', ''text/html; charset=utf-8'')] h)))"

section \<open>Words of a configuration\<close>

text \<open>
  A word of a string: a non-empty stretch without separators that is bounded on either side by a
  separator or by the end of the string.
\<close>

definition is_word :: "(char \<Rightarrow> bool) \<Rightarrow> string \<Rightarrow> string \<Rightarrow> bool" where
  "is_word sep s w \<longleftrightarrow> w \<noteq> [] \<and> (\<forall>c \<in> set w. \<not> sep c) \<and>
     (\<exists>a b. s = a @ w @ b \<and> (a = [] \<or> sep (last a)) \<and> (b = [] \<or> sep (hd b)))"

lemma is_wordI:
  "s = a @ w @ b \<Longrightarrow> a = [] \<or> sep (last a) \<Longrightarrow> b = [] \<or> sep (hd b) \<Longrightarrow> w \<noteq> [] \<Longrightarrow>
     \<forall>c \<in> set w. \<not> sep c \<Longrightarrow> is_word sep s w"
  by (auto simp: is_word_def)

lemma is_word_Nil [simp]: "\<not> is_word sep [] w"
  by (auto simp: is_word_def)

lemma is_word_no_sep:
  assumes "\<forall>c \<in> set s. \<not> sep c"
  shows "is_word sep s w \<longleftrightarrow> w = s \<and> s \<noteq> []"
proof
  assume "is_word sep s w"
  then obtain a b where s: "s = a @ w @ b" and a: "a = [] \<or> sep (last a)" and b: "b = [] \<or> sep (hd b)"
    and "w \<noteq> []"
    by (auto simp: is_word_def)
  have "a = []" using a assms s by (cases a rule: rev_cases) auto
  moreover have "b = []" using b assms s by (cases b) auto
  ultimately show "w = s \<and> s \<noteq> []" using s \<open>w \<noteq> []\<close> by simp
next
  assume "w = s \<and> s \<noteq> []"
  then show "is_word sep s w" using assms by (auto simp: is_word_def intro!: exI [of _ "[]"])
qed

lemma is_word_first:
  assumes "\<forall>c \<in> set p. \<not> sep c" and "sep d"
  shows "is_word sep (p @ d # r) w \<longleftrightarrow> w = p \<and> p \<noteq> [] \<or> is_word sep r w"
proof
  assume "is_word sep (p @ d # r) w"
  then obtain a b where eq: "p @ d # r = a @ w @ b" and a: "a = [] \<or> sep (last a)"
    and b: "b = [] \<or> sep (hd b)" and w: "w \<noteq> []" "\<forall>c \<in> set w. \<not> sep c"
    by (auto simp: is_word_def)
  show "w = p \<and> p \<noteq> [] \<or> is_word sep r w"
  proof (cases "a = []")
    case True
    then have "p @ d # r = w @ b" using eq by simp
    then obtain us where "p = w @ us \<and> us @ d # r = b \<or> p @ us = w \<and> d # r = us @ b"
      by (auto simp: append_eq_append_conv2)
    then show ?thesis
    proof
      assume us: "p = w @ us \<and> us @ d # r = b"
      have "us = []" using us b assms(1) by (cases us) auto
      then show ?thesis using us w by simp
    next
      assume us: "p @ us = w \<and> d # r = us @ b"
      have "us = []" using us w(2) assms(2) by (cases us) auto
      then show ?thesis using us w by simp
    qed
  next
    case False
    then obtain a' e where ae: "a = a' @ [e]" and e: "sep e"
      using a by (cases a rule: rev_cases) auto
    then have "p @ d # r = a' @ e # w @ b" using eq by simp
    then obtain us where "p = a' @ us \<and> us @ d # r = e # w @ b \<or> p @ us = a' \<and> d # r = us @ e # w @ b"
      by (auto simp: append_eq_append_conv2)
    then show ?thesis
    proof
      assume us: "p = a' @ us \<and> us @ d # r = e # w @ b"
      have "us = []" using us e assms(1) by (cases us) auto
      then have "r = [] @ w @ b" using us by simp
      then show ?thesis using w b is_wordI by blast
    next
      assume us: "p @ us = a' \<and> d # r = us @ e # w @ b"
      show ?thesis
      proof (cases us)
        case Nil
        then have "r = [] @ w @ b" using us by simp
        then show ?thesis using w b is_wordI by blast
      next
        case (Cons x us')
        then have "r = (us' @ [e]) @ w @ b" and "sep (last (us' @ [e]))" using us e by simp_all
        then show ?thesis using w b is_wordI by blast
      qed
    qed
  qed
next
  assume "w = p \<and> p \<noteq> [] \<or> is_word sep r w"
  then show "is_word sep (p @ d # r) w"
  proof
    assume "w = p \<and> p \<noteq> []"
    then show ?thesis using assms by (intro is_wordI [of _ "[]" _ "d # r"]) auto
  next
    assume "is_word sep r w"
    then obtain a b where r: "r = a @ w @ b" and a: "a = [] \<or> sep (last a)"
      and w: "b = [] \<or> sep (hd b)" "w \<noteq> []" "\<forall>c \<in> set w. \<not> sep c"
      by (auto simp: is_word_def)
    have "p @ d # r = (p @ d # a) @ w @ b" and "sep (last (p @ d # a))"
      using r a assms(2) by auto
    then show ?thesis using w is_wordI by blast
  qed
qed

lemma find_if_Some_split:
  assumes "find_if P s = Some i"
  shows "s = take i s @ s ! i # drop (Suc i) s \<and> P (s ! i) \<and> (\<forall>c \<in> set (take i s). \<not> P c)"
proof -
  from find_if_Some [OF assms] have "i < length s" "P (s ! i)" "take i s = takeWhile (\<lambda>c. \<not> P c) s"
    by auto
  then show ?thesis using id_take_nth_drop [of i s] set_takeWhileD [of _ "\<lambda>c. \<not> P c" s] by metis
qed

lemma set_denylist_scan:
  "set (denylist_scan config idx tokens) = set tokens \<union> {w. is_word denylist_sep (drop idx config) w}"
proof (induction config idx tokens rule: denylist_scan.induct)
  case (1 config idx tokens)
  show ?case
  proof (cases "idx < length config")
    case False
    then show ?thesis by (simp add: denylist_scan.simps [of config idx])
  next
    case True
    show ?thesis
    proof (cases "find_if denylist_sep (drop idx config)")
      case None
      then have "\<forall>c \<in> set (drop idx config). \<not> denylist_sep c" by (simp only: find_if_None)
      with True None show ?thesis
        by (auto simp: denylist_scan.simps [of config idx] is_word_no_sep)
    next
      case (Some d)
      let ?s = "drop idx config"
      note sp = find_if_Some_split [OF Some]
      have "is_word denylist_sep ?s w \<longleftrightarrow>
          w = take d ?s \<and> take d ?s \<noteq> [] \<or> is_word denylist_sep (drop (Suc d) ?s) w" for w
        using is_word_first [of "take d ?s" denylist_sep "?s ! d" "drop (Suc d) ?s" w] sp by metis
      moreover have "take d ?s = [] \<longleftrightarrow> d = 0"
        using find_if_Some [OF Some] by auto
      ultimately have words: "{w. is_word denylist_sep ?s w} =
          (if d = 0 then {} else {take d ?s}) \<union> {w. is_word denylist_sep (drop (idx + d + 1) config) w}"
        by (auto simp: add.commute add.left_commute)
      show ?thesis
        using 1 [OF True Some refl refl] True Some
        by (simp add: denylist_scan.simps [of config idx] Let_def words)
    qed
  qed
qed

lemma distinct_denylist_scan: "distinct tokens \<Longrightarrow> distinct (denylist_scan config idx tokens)"
proof (induction config idx tokens rule: denylist_scan.induct)
  case (1 config idx tokens)
  then show ?case
    by (subst denylist_scan.simps) (auto simp: Let_def split: option.split)
qed

section \<open>Behaviour on any host that honours the contract\<close>

lemma hupds_Cons_single: "hupds [(k, v)] = hupd k (Some v) (\<lambda>_. None)"
  by (simp add: hupds_def)

context plugin_env
begin

lemma redirect_view:
  assumes "good h" and "v_phase (view h) = Some RequestHeaders" and "v_can_reply (view h)"
    and "v_hdrs (view h) '':path'' = Some (''/foo/'' @ rest)"
  shows "fst (redirect_onRequestHeaders A S h) = ContinueAndEndStream \<and>
    view (snd (redirect_onRequestHeaders A S h)) =
      (view h)\<lparr>v_reply := Some (301, [], ''Content moved to /bar/'' @ rest),
        v_hdrs := hupds [(''Location'', ''/bar/'' @ rest)]\<rparr>"
  using assms get_Some [OF assms(1,2,4)]
  by (simp add: redirect_onRequestHeaders_def old_path_prefix_def new_path_prefix_def Let_def)

lemma redirect_passes:
  assumes "good h" and "v_phase (view h) = Some RequestHeaders"
    and "v_hdrs (view h) '':path'' = Some path" and "\<not> prefix ''/foo/'' path"
  shows "redirect_onRequestHeaders A S h = (Continue, h)"
  using assms(4) get_Some [OF assms(1-3)]
  by (simp add: redirect_onRequestHeaders_def old_path_prefix_def Let_def)

lemma referer_allowed:
  assumes "good h" and "v_phase (view h) = Some RequestHeaders"
  shows "is_set (getRequestHeader S ''Referer'' h) \<and>
      sublist kAllowedReferer (wview (getRequestHeader S ''Referer'' h))
      \<longleftrightarrow> (\<exists>r. v_hdrs (view h) ''Referer'' = Some r \<and> sublist kAllowedReferer r)"
  using get_Some [OF assms, of "''Referer''"] get_None [OF assms, of "''Referer''"]
  by (cases "v_hdrs (view h) ''Referer''") (auto simp: kAllowedReferer_def)

lemma block_request_allows:
  assumes "good h" and "v_phase (view h) = Some RequestHeaders"
    and "v_hdrs (view h) ''Referer'' = Some r" and "sublist kAllowedReferer r"
  shows "fst (block_request_onRequestHeaders A rnd S h) = Continue \<and>
      view (snd (block_request_onRequestHeaders A rnd S h)) =
        (view h)\<lparr>v_hdrs := hupd ''my-plugin-allowed''
           (Some (appended (v_hdrs (view h) ''my-plugin-allowed'') ''true'')) (v_hdrs (view h))\<rparr>"
  using assms referer_allowed [OF assms(1,2)]
  by (simp add: block_request_onRequestHeaders_def contains_iff_sublist Let_def)

lemma block_request_blocks:
  assumes "good h" and "v_phase (view h) = Some RequestHeaders" and "v_can_reply (view h)"
    and "\<not> (\<exists>r. v_hdrs (view h) ''Referer'' = Some r \<and> sublist kAllowedReferer r)"
  shows "fst (block_request_onRequestHeaders A rnd S h) = ContinueAndEndStream \<and>
      view (snd (block_request_onRequestHeaders A rnd S h)) =
        v_log Info (''Forbidden - Request ID: '' @ dec_nat (unat rnd))
         ((view h)\<lparr>v_reply := Some (403, [], ''Forbidden - Request ID: '' @ dec_nat (unat rnd)),
           v_hdrs := hupds []\<rparr>)"
proof -
  from assms(4) have "\<not> (is_set (getRequestHeader S ''Referer'' h) \<and>
      sublist kAllowedReferer (wview (getRequestHeader S ''Referer'' h)))"
    by (simp only: referer_allowed [OF assms(1,2)]) simp
  then show ?thesis
    using assms(1-3)
    by (auto simp: block_request_onRequestHeaders_def contains_iff_sublist Let_def)
qed

lemma config_denylist_configured:
  assumes "good h" and "v_body (view h) PluginConfiguration = Some cfg" and "length cfg < 2 ^ 32"
  shows "\<exists>ts h'. config_denylist_onConfigure S (length cfg) ([], h) = Some (True, ts, h') \<and>
     distinct ts \<and> set ts = {w. is_word denylist_sep cfg w} \<and>
     view h' = v_log Info (''Config keys size '' @ dec_nat (card {w. is_word denylist_sep cfg w})) (view h)"
proof -
  let ?ts = "denylist_scan cfg 0 []"
  have "set ?ts = {w. is_word denylist_sep cfg w}" and d: "distinct ?ts"
    using set_denylist_scan [of cfg 0 "[]"] distinct_denylist_scan [of "[]" cfg 0] by simp_all
  moreover from this have "length ?ts = card {w. is_word denylist_sep cfg w}"
    using distinct_card by metis
  ultimately show ?thesis
    using get_buffer [OF assms, of 0 "length cfg"] assms(1)
    by (simp add: config_denylist_onConfigure_def deref_cases Let_def)
qed

lemma config_denylist_view:
  assumes "good h" and "v_phase (view h) = Some RequestHeaders" and "v_can_reply (view h)"
  shows "case v_hdrs (view h) ''User-Token'' of
      None \<Rightarrow> fst (config_denylist_onRequestHeaders ts S h) = StopAllIterationAndWatermark \<and>
        view (snd (config_denylist_onRequestHeaders ts S h)) = (view h)\<lparr>v_reply :=
          Some (403, [], ''Access forbidden - token missing.'' @ [CHR 0x0A]), v_hdrs := hupds []\<rparr>
    | Some token \<Rightarrow>
        if token = [] then fst (config_denylist_onRequestHeaders ts S h) = StopAllIterationAndWatermark \<and>
          view (snd (config_denylist_onRequestHeaders ts S h)) = (view h)\<lparr>v_reply :=
            Some (403, [], ''Access forbidden - token missing.'' @ [CHR 0x0A]), v_hdrs := hupds []\<rparr>
        else if token \<in> set ts then
          fst (config_denylist_onRequestHeaders ts S h) = StopAllIterationAndWatermark \<and>
          view (snd (config_denylist_onRequestHeaders ts S h)) = (view h)\<lparr>v_reply :=
            Some (403, [], ''Access forbidden.'' @ [CHR 0x0A]), v_hdrs := hupds []\<rparr>
        else config_denylist_onRequestHeaders ts S h = (Continue, h)"
proof (cases "v_hdrs (view h) ''User-Token''")
  case None
  then have "\<not> is_set (getRequestHeader S ''User-Token'' h) \<or> length (wview (getRequestHeader S ''User-Token'' h)) = 0"
    using get_None [OF assms(1,2) None] by auto
  with None assms show ?thesis by (simp add: config_denylist_onRequestHeaders_def Let_def)
next
  case (Some token)
  with get_Some [OF assms(1,2)] assms show ?thesis
    by (simp add: config_denylist_onRequestHeaders_def Let_def)
qed

lemma status_5xx:
  assumes "good h" and "v_phase (view h) = Some ResponseHeaders"
  shows "overwrite_errcode_onResponseHeaders A S h =
     (Continue, case v_hdrs (view h) '':status'' of
        None \<Rightarrow> h
      | Some s \<Rightarrow> (case simple_atoi (- (2 ^ 31)) (2 ^ 31 - 1) s of
          None \<Rightarrow> h
        | Some i \<Rightarrow> if 500 \<le> i \<and> i \<le> 599 then snd (replaceResponseHeader S '':status'' (dec_int 404) h) else h))"
proof (cases "v_hdrs (view h) '':status''")
  case None
  have "simple_atoi lo hi [] = None" for lo hi by (simp add: simple_atoi_def strip_def atoi_signed_def)
  with None get_None [OF assms None] assms show ?thesis
    by (auto simp: overwrite_errcode_onResponseHeaders_def Let_def)
next
  case (Some s)
  with get_Some [OF assms] assms show ?thesis
    by (auto simp: overwrite_errcode_onResponseHeaders_def Let_def mapResponseCode_def cpp_div_100_eq_5
        split: option.split)
qed

lemma custom_response_5xx:
  assumes "good h" and "v_phase (view h) = Some ResponseHeaders" and "v_hdrs (view h) '':status'' = Some s"
  shows "add_custom_response_onResponseHeaders A S h =
     (case simple_atoi (- (2 ^ 31)) (2 ^ 31 - 1) s of
        None \<Rightarrow> (Continue, h)
      | Some i \<Rightarrow> if 500 \<le> i \<and> i \<le> 599
          then (ContinueAndEndStream,
                snd (sendLocalResponse S 302 [] [] [(''Origin-Status'', s), (''Location'', redirect_page)] h))
          else (Continue, h))"
  using get_Some [OF assms]
  by (auto simp: add_custom_response_onResponseHeaders_def Let_def cpp_div_100_eq_5 split: option.split)

end

section \<open>The domain table of redirect\_bulk\<close>

text \<open>What one configuration line contributes: a lower-cased source domain and its target.\<close>

definition bulk_entry :: "string \<Rightarrow> (string \<times> string) option" where
  "bulk_entry l = (let t = strip l
     in if t = [] \<or> hd t = CHR ''#'' then None
        else case split_char (CHR 0x20) t of [a, b] \<Rightarrow> Some (map tolower a, b) | _ \<Rightarrow> None)"

text \<open>The target of a domain: the last line of the configuration that maps it.\<close>

definition bulk_target :: "string \<Rightarrow> string \<Rightarrow> string option" where
  "bulk_target cfg = map_of (rev (List.map_filter bulk_entry (split_char (CHR 0x0A) cfg)))"

lemma take_until: "(case find_char d s of None \<Rightarrow> s | Some i \<Rightarrow> take i s) = takeWhile (\<lambda>c. c \<noteq> d) s"
proof (induction s)
  case (Cons c s)
  then show ?case by (cases "find_char d s") auto
qed simp

lemma length_2_cases: "length xs = 2 \<longleftrightarrow> (\<exists>a b. xs = [a, b])"
  by (auto simp: numeral_2_eq_2 length_Suc_conv)

context plugin_env
begin

lemma redirect_bulk_lines_table:
  "map_of (fst (redirect_bulk_lines A S ls (m, h))) =
     map_of m ++ map_of (rev (List.map_filter bulk_entry ls))"
proof (induction ls arbitrary: m h)
  case (Cons l ls)
  show ?case
  proof (cases "bulk_entry l")
    case None
    then show ?thesis
      using Cons
      by (auto simp: bulk_entry_def Let_def map_filter_simps length_2_cases split: if_splits list.splits)
  next
    case (Some e)
    then obtain a b where "split_char (CHR 0x20) (strip l) = [a, b]" and "e = (map tolower a, b)"
      and "strip l \<noteq> []" and "hd (strip l) \<noteq> CHR ''#''"
      by (auto simp: bulk_entry_def Let_def split: if_splits list.splits)
    with Some Cons show ?thesis
      by (simp add: map_filter_simps update_conv' map_add_def fun_eq_iff split: option.split)
  qed
qed (simp add: map_filter_simps)

lemma redirect_bulk_lines_good:
  "good h \<Longrightarrow> good (snd (redirect_bulk_lines A S ls (m, h)))"
  by (induction ls arbitrary: m h) (simp_all add: Let_def)

lemma redirect_bulk_configured:
  assumes "good h" and "v_body (view h) PluginConfiguration = Some cfg" and "length cfg < 2 ^ 32"
  shows "\<exists>m h'. redirect_bulk_onConfigure A S (length cfg) ([], h) = (True, m, h') \<and>
     map_of m = bulk_target cfg \<and> good h'"
proof -
  note buf = get_buffer [OF assms, of 0 "length cfg", simplified]
  show ?thesis
  proof (cases "cfg = []")
    case True
    have "bulk_target [] = Map.empty"
      by (simp add: bulk_target_def bulk_entry_def strip_def map_filter_simps)
    with True buf assms(1) show ?thesis by (simp add: redirect_bulk_onConfigure_def)
  next
    case False
    with buf assms(1) show ?thesis
      using redirect_bulk_lines_table [of "split_char (CHR 0x0A) cfg" "[]" h]
        redirect_bulk_lines_good [OF assms(1), of "split_char (CHR 0x0A) cfg" "[]"]
      by (simp add: redirect_bulk_onConfigure_def bulk_target_def split_beta)
  qed
qed

lemma redirect_bulk_view:
  assumes "good h" and "v_phase (view h) = Some RequestHeaders" and "v_can_reply (view h)"
    and "v_hdrs (view h) '':authority'' = Some host" and "v_hdrs (view h) '':path'' = Some path"
    and "v_hdrs (view h) '':scheme'' = Some scheme"
    and "map_of m (map tolower (takeWhile (\<lambda>c. c \<noteq> CHR '':'') host)) = Some target"
  shows "fst (redirect_bulk_onRequestHeaders A m S h) = ContinueAndEndStream \<and>
    view (snd (redirect_bulk_onRequestHeaders A m S h)) =
      (view h)\<lparr>v_reply := Some (301, [], ''Redirecting to '' @ scheme @ ''://'' @ target @ path),
        v_hdrs := hupds [(''Location'', scheme @ ''://'' @ target @ path)]\<rparr>"
  using assms get_Some [OF assms(1,2,4)] get_Some [OF assms(1,2,5)] get_Some [OF assms(1,2,6)]
  by (simp add: redirect_bulk_onRequestHeaders_def Let_def take_until)

lemma redirect_bulk_passes:
  assumes "good h" and "v_phase (view h) = Some RequestHeaders"
    and "v_hdrs (view h) '':authority'' = Some host"
    and "map_of m (map tolower (takeWhile (\<lambda>c. c \<noteq> CHR '':'') host)) = None"
  shows "redirect_bulk_onRequestHeaders A m S h = (Continue, h)"
  using assms get_Some [OF assms(1,2,3)]
  by (simp add: redirect_bulk_onRequestHeaders_def Let_def take_until)

end

section \<open>The error page\<close>

text \<open>The page with its three gaps filled: nothing of the inserted text is interpreted again.\<close>

definition error_page_of :: "string \<Rightarrow> string \<Rightarrow> string" where
  "error_page_of status trace = replace_all [(''{STATUS_CODE}'', status), (''{TRACE_ID}'', trace)] kErrorTemplate"

text \<open>The trace identifier of a request, by the header values.\<close>

definition trace_of :: "regex_capture option \<Rightarrow> (string \<Rightarrow> string option) \<Rightarrow> string" where
  "trace_of re hdrs = (case hdrs ''x-cloud-trace-context'' of
      Some (c # t) \<Rightarrow> takeWhile (\<lambda>c. c \<noteq> CHR ''/'') (c # t)
    | _ \<Rightarrow> (case (re, hdrs ''traceparent'') of
        (Some full_match, Some (c # t)) \<Rightarrow>
          (case full_match (c # t) of Some i \<Rightarrow> i | None \<Rightarrow> ''not-available'')
      | _ \<Rightarrow> ''not-available''))"

context plugin_env
begin

lemma extractTraceId_eq:
  assumes "good h" and "v_phase (view h) = Some RequestHeaders"
  shows "extractTraceId re S h = trace_of re (v_hdrs (view h))"
proof -
  have take_slash: "(case find_char (CHR ''/'') s of Some i \<Rightarrow> take i s | None \<Rightarrow> s) = takeWhile (\<lambda>c. c \<noteq> CHR ''/'') s" for s
    using take_until [where d = "CHR ''/''" and s = s] by (auto split: option.splits)
  have hdr: "(is_set (getRequestHeader S k h) \<and> wview (getRequestHeader S k h) \<noteq> []) =
      (\<exists>c t. v_hdrs (view h) k = Some (c # t))" for k
    using get_Some [OF assms, of k] get_None [OF assms, of k]
    by (cases "v_hdrs (view h) k") (auto simp: neq_Nil_conv)
  have val: "v_hdrs (view h) k = Some v \<Longrightarrow> wview (getRequestHeader S k h) = v" for k v
    using get_Some [OF assms, of k] by simp
  show ?thesis
    by (auto simp: extractTraceId_def trace_of_def Let_def hdr take_slash val
        split: option.split list.split)
qed

lemma error_page_request:
  assumes "good h" and "v_phase (view h) = Some RequestHeaders"
  shows "\<exists>h'. error_page_onRequestHeaders re S (p, h) =
      (Continue, p\<lparr>ep_trace_id := trace_of re (v_hdrs (view h))\<rparr>, h') \<and> good h' \<and>
      view h' = v_log Debug (''Captured trace ID: '' @ trace_of re (v_hdrs (view h))) (view h)"
  using assms by (simp add: error_page_onRequestHeaders_def extractTraceId_eq Let_def)

lemma error_page_response:
  assumes "good h" and "v_phase (view h) = Some ResponseHeaders" and "v_can_reply (view h)"
    and "v_hdrs (view h) '':status'' = Some s"
    and "code = (case simple_atoi (- (2 ^ 31)) (2 ^ 31 - 1) s of None \<Rightarrow> 500 | Some i \<Rightarrow> i)"
  shows "code < 400 \<Longrightarrow> error_page_onResponseHeaders A S (p, h) = (Continue, p\<lparr>ep_status_code := s\<rparr>, h)"
    and "400 \<le> code \<Longrightarrow> \<exists>h'. error_page_onResponseHeaders A S (p, h) = (StopIteration, p\<lparr>ep_status_code := s\<rparr>, h') \<and>
      view h' = (view h)\<lparr>v_reply := Some (of_int code, [], error_page_of s (ep_trace_id p)),
        v_hdrs := hupds [(''Content-Type'', ''text/html; charset=utf-8'')]\<rparr>"
  using assms get_Some [OF assms(1,2,4)]
  by (simp_all add: error_page_onResponseHeaders_def error_page_of_def Let_def)

end

section \<open>Properties\<close>

text \<open>C12: After config\_denylist is configured with a text, it answers a request by itself, with status
  403, exactly when the request has no token, an empty token, or a token that is one of the words
  of the text; every other request passes unchanged.\<close>

theorem denylist_blocks_exactly_listed_words:
  assumes "absl_strings A" and "hdr_sorted hs" and "length (plugin_config c0) < 2 ^ 32" and "test_good c0"
    and "\<not> sent_local_response c"
  shows "\<exists>ts c1 c'. config_denylist_onConfigure (test_sdk A) (length (plugin_config c0)) ([], c0) = Some (True, ts, c1) \<and>
    SendRequestHeaders (stateless (config_denylist_onRequestHeaders ts (test_sdk A))) hs (p, c) = (result c', p, c') \<and>
    (if hdr_find ''User-Token'' hs \<in> {None, Some []} \<or>
        (\<exists>w. hdr_find ''User-Token'' hs = Some w \<and> is_word denylist_sep (plugin_config c0) w)
     then sent_local_response c' \<and> http_code (result c') = 403 \<and>
       header_status (result c') = StopAllIterationAndWatermark
     else \<not> sent_local_response c' \<and> headers (result c') = hs \<and> header_status (result c') = Continue)"
proof -
  note env = test_env [OF assms(1)]
  obtain ts c1 where cfg: "config_denylist_onConfigure (test_sdk A) (length (plugin_config c0)) ([], c0) = Some (True, ts, c1)"
    and ts: "set ts = {w. is_word denylist_sep (plugin_config c0) w}"
    using plugin_env.config_denylist_configured [OF env assms(4), of "plugin_config c0"] assms(3) by auto
  let ?f = "config_denylist_onRequestHeaders ts (test_sdk A)"
  obtain st c2 where f: "?f (request_phase hs c) = (st, c2)" by force
  have "case hdr_find ''User-Token'' hs of
      None \<Rightarrow> st = StopAllIterationAndWatermark \<and> v_reply (test_view c2) =
          Some (403, [], ''Access forbidden - token missing.'' @ [CHR 0x0A])
    | Some token \<Rightarrow>
        if token = [] then st = StopAllIterationAndWatermark \<and> v_reply (test_view c2) =
            Some (403, [], ''Access forbidden - token missing.'' @ [CHR 0x0A])
        else if token \<in> set ts then st = StopAllIterationAndWatermark \<and> v_reply (test_view c2) =
            Some (403, [], ''Access forbidden.'' @ [CHR 0x0A])
        else (st, c2) = (Continue, request_phase hs c)"
    using plugin_env.config_denylist_view [OF env, of "request_phase hs c" ts] assms(2) f
    by (simp split: option.splits if_splits)
  then have "if hdr_find ''User-Token'' hs \<in> {None, Some []} \<or>
        (\<exists>w. hdr_find ''User-Token'' hs = Some w \<and> is_word denylist_sep (plugin_config c0) w)
     then sent_local_response c2 \<and> http_code (result c2) = 403 \<and> st = StopAllIterationAndWatermark
     else (st, c2) = (Continue, request_phase hs c)"
    using ts by (auto dest: test_view_replyD split: option.splits if_splits)
  then show ?thesis
    using assms(5)
    by (intro exI [of _ ts] exI [of _ c1] exI [of _ "leave_phase st c2"])
       (auto simp: cfg SendRequestHeaders_stateless [of ?f, OF f])
qed

theorem denylist_blocks_exactly_listed_words_witness:
  "\<exists>ts c1 c'. config_denylist_onConfigure (test_sdk absl_ref) (length ''aa b'') ([], new_stream Info None 0 ''aa b'' []) = Some (True, ts, c1) \<and>
    SendRequestHeaders (stateless (config_denylist_onRequestHeaders ts (test_sdk absl_ref)))
      [(''User-Token'', ''aa'')] ((), new_stream Info None 0 [] []) = (result c', (), c') \<and>
    http_code (result c') = 403"
proof -
  have sorted: "hdr_sorted [(''User-Token'', ''aa'')]" by (simp add: hdr_sorted_def)
  have good: "test_good (new_stream Info None 0 ''aa b'' [])"
    by (simp add: test_good_def new_stream_def hdr_sorted_def)
  have w: "is_word denylist_sep ''aa b'' ''aa''"
    by (rule is_wordI [of _ "[]" "''aa''" "'' b''"]) (simp_all add: denylist_sep_def)
  have cfg: "plugin_config (new_stream Info None 0 ''aa b'' []) = ''aa b''" by (simp add: new_stream_def)
  have fresh: "\<not> sent_local_response (new_stream Info None 0 [] [])" by (simp add: new_stream_def)
  show ?thesis
    using denylist_blocks_exactly_listed_words [OF absl_ref_spec sorted _ good fresh, of "()"] cfg w
    by auto
qed

text \<open>redirect answers a request for a path below \<open>/foo/\<close> with status 301 and the same path below
  \<open>/bar/\<close> as its only header \<open>Location\<close>; a request for any other path passes unchanged.\<close>

theorem redirect_foo_to_bar:
  assumes "absl_strings A" and "hdr_sorted hs" and "hdr_find '':path'' hs = Some path"
    and "\<not> sent_local_response c"
  shows "\<exists>c'. SendRequestHeaders (stateless (redirect_onRequestHeaders A (test_sdk A))) hs (p, c) = (result c', p, c') \<and>
    (\<forall>rest. path = ''/foo/'' @ rest \<longrightarrow> sent_local_response c' \<and> http_code (result c') = 301 \<and>
       header_status (result c') = ContinueAndEndStream \<and>
       (\<forall>k. hdr_find k (headers (result c')) = (if same_key ''Location'' k then Some (''/bar/'' @ rest) else None))) \<and>
    (\<not> prefix ''/foo/'' path \<longrightarrow> \<not> sent_local_response c' \<and> headers (result c') = hs \<and>
       header_status (result c') = Continue)"
proof -
  note env = test_env [OF assms(1)]
  let ?f = "redirect_onRequestHeaders A (test_sdk A)"
  obtain st c1 where f: "?f (request_phase hs c) = (st, c1)" by force
  have moved: "st = ContinueAndEndStream \<and>
      test_view c1 = (test_view (request_phase hs c))\<lparr>v_reply := Some (301, [], ''Content moved to /bar/'' @ rest),
        v_hdrs := hupds [(''Location'', ''/bar/'' @ rest)]\<rparr>" if "path = ''/foo/'' @ rest" for rest
    using plugin_env.redirect_view [OF env, of "request_phase hs c" rest] assms(2,3) that f by simp
  have passed: "st = Continue \<and> c1 = request_phase hs c" if "\<not> prefix ''/foo/'' path"
    using plugin_env.redirect_passes [OF env, of "request_phase hs c" path] assms(2,3) that f by simp
  show ?thesis
  proof (intro exI [of _ "leave_phase st c1"] conjI allI impI)
    fix rest k assume "path = ''/foo/'' @ rest"
    note v = moved [OF this]
    then show "sent_local_response (leave_phase st c1)" "http_code (result (leave_phase st c1)) = 301"
      "header_status (result (leave_phase st c1)) = ContinueAndEndStream"
      "hdr_find k (headers (result (leave_phase st c1))) = (if same_key ''Location'' k then Some (''/bar/'' @ rest) else None)"
      using test_viewD [of c1, OF conjunct2 [OF v]] by (simp_all add: hupds_Cons_single hupd_def)
  qed (use passed assms(4) in \<open>auto simp: SendRequestHeaders_stateless [of ?f, OF f]\<close>)
qed

theorem redirect_foo_to_bar_witness:
  "\<exists>c'. SendRequestHeaders (stateless (redirect_onRequestHeaders absl_ref (test_sdk absl_ref)))
      [('':path'', ''/foo/x'')] ((), new_stream Info None 0 [] []) = (result c', (), c') \<and>
    http_code (result c') = 301 \<and> hdr_find ''location'' (headers (result c')) = Some ''/bar/x''"
proof -
  have sorted: "hdr_sorted [('':path'', ''/foo/x'')]" by (simp add: hdr_sorted_def)
  have find: "hdr_find '':path'' [('':path'', ''/foo/x'')] = Some (''/foo/'' @ ''x'')" by simp
  have fresh: "\<not> sent_local_response (new_stream Info None 0 [] [])" by (simp add: new_stream_def)
  have key: "same_key ''Location'' ''location''" by (simp add: same_key_def ascii_eval)
  obtain c' where send: "SendRequestHeaders (stateless (redirect_onRequestHeaders absl_ref (test_sdk absl_ref)))
      [('':path'', ''/foo/x'')] ((), new_stream Info None 0 [] []) = (result c', (), c')"
    and moved: "\<forall>rest. ''/foo/'' @ ''x'' = ''/foo/'' @ rest \<longrightarrow> sent_local_response c' \<and> http_code (result c') = 301 \<and>
       header_status (result c') = ContinueAndEndStream \<and>
       (\<forall>k. hdr_find k (headers (result c')) = (if same_key ''Location'' k then Some (''/bar/'' @ rest) else None))"
    using redirect_foo_to_bar [OF absl_ref_spec sorted find fresh, of "()"] by blast
  from moved [rule_format, of "''x''"] send key show ?thesis by (intro exI [of _ c']) auto
qed

text \<open>C13: After redirect\_bulk is configured with a text, a request whose host (up to letter case and
  without its port) is mapped by the last applicable line of the text is answered with status 301
  and the mapped host under the same scheme and path; a request for an unmapped host passes unchanged.\<close>

theorem redirect_bulk_follows_configuration:
  assumes "absl_strings A" and "hdr_sorted hs" and "length (plugin_config c0) < 2 ^ 32" and "test_good c0"
    and "hdr_find '':authority'' hs = Some host" and "hdr_find '':path'' hs = Some path"
    and "hdr_find '':scheme'' hs = Some scheme" and "\<not> sent_local_response c"
  shows "\<exists>m c1 c'. redirect_bulk_onConfigure A (test_sdk A) (length (plugin_config c0)) ([], c0) = (True, m, c1) \<and>
    SendRequestHeaders (stateless (redirect_bulk_onRequestHeaders A m (test_sdk A))) hs (p, c) = (result c', p, c') \<and>
    (case bulk_target (plugin_config c0) (map tolower (takeWhile (\<lambda>c. c \<noteq> CHR '':'') host)) of
       None \<Rightarrow> \<not> sent_local_response c' \<and> headers (result c') = hs \<and> header_status (result c') = Continue
     | Some target \<Rightarrow> sent_local_response c' \<and> http_code (result c') = 301 \<and>
         header_status (result c') = ContinueAndEndStream \<and>
         hdr_find ''Location'' (headers (result c')) = Some (scheme @ ''://'' @ target @ path))"
proof -
  note env = test_env [OF assms(1)]
  obtain m c1 where cfg: "redirect_bulk_onConfigure A (test_sdk A) (length (plugin_config c0)) ([], c0) = (True, m, c1)"
    and m: "map_of m = bulk_target (plugin_config c0)"
    using plugin_env.redirect_bulk_configured [OF env assms(4), of "plugin_config c0"] assms(3) by auto
  let ?f = "redirect_bulk_onRequestHeaders A m (test_sdk A)"
  let ?d = "map tolower (takeWhile (\<lambda>c. c \<noteq> CHR '':'') host)"
  obtain st c2 where f: "?f (request_phase hs c) = (st, c2)" by force
  show ?thesis
  proof (cases "bulk_target (plugin_config c0) ?d")
    case None
    then have "st = Continue \<and> c2 = request_phase hs c"
      using plugin_env.redirect_bulk_passes [OF env, of "request_phase hs c" host m] assms(2,5) f m by simp
    then show ?thesis
      using None assms(8)
      by (intro exI [of _ m] exI [of _ c1] exI [of _ "leave_phase st c2"])
         (simp add: cfg SendRequestHeaders_stateless [of ?f, OF f])
  next
    case (Some target)
    then have v: "st = ContinueAndEndStream \<and> test_view c2 = (test_view (request_phase hs c))\<lparr>
        v_reply := Some (301, [], ''Redirecting to '' @ scheme @ ''://'' @ target @ path),
        v_hdrs := hupds [(''Location'', scheme @ ''://'' @ target @ path)]\<rparr>"
      using plugin_env.redirect_bulk_view [OF env, of "request_phase hs c" host path scheme m target] assms(2,5-7) f m
      by simp
    then show ?thesis
      using Some test_viewD [of c2, OF conjunct2 [OF v]]
      by (intro exI [of _ m] exI [of _ c1] exI [of _ "leave_phase st c2"])
         (simp add: cfg SendRequestHeaders_stateless [of ?f, OF f])
  qed
qed

theorem redirect_bulk_follows_configuration_witness:
  "\<exists>m c1 c'. redirect_bulk_onConfigure absl_ref (test_sdk absl_ref) (length ''A b'') ([], new_stream Info None 0 ''A b'' []) = (True, m, c1) \<and>
    SendRequestHeaders (stateless (redirect_bulk_onRequestHeaders absl_ref m (test_sdk absl_ref)))
      [('':authority'', ''a:80''), ('':path'', ''/x''), ('':scheme'', ''http'')] ((), new_stream Info None 0 [] []) = (result c', (), c') \<and>
    hdr_find ''Location'' (headers (result c')) = Some ''http://b/x''"
proof -
  let ?c0 = "new_stream Info None 0 ''A b'' []"
  let ?hs = "[('':authority'', ''a:80''), ('':path'', ''/x''), ('':scheme'', ''http'')]"
  have sorted: "hdr_sorted ?hs"
    by (simp add: hdr_sorted_def caseless_compare_def ckey_def signed_char_def char_code_def code_toupper toupper_def)
  have good: "test_good ?c0" by (simp add: test_good_def new_stream_def hdr_sorted_def)
  have cfg: "plugin_config ?c0 = ''A b''" by (simp add: new_stream_def)
  have fresh: "\<not> sent_local_response (new_stream Info None 0 [] [])" by (simp add: new_stream_def)
  have tgt: "bulk_target ''A b'' ''a'' = Some ''b''"
    by (simp add: bulk_target_def bulk_entry_def strip_def isspace_def char_code_def map_filter_simps ascii_eval)
  have dom: "map tolower (takeWhile (\<lambda>c. c \<noteq> CHR '':'') ''a:80'') = ''a''" by (simp add: ascii_eval)
  show ?thesis
    using redirect_bulk_follows_configuration [OF absl_ref_spec sorted _ good _ _ _ fresh, of "''a:80''" "''/x''" "''http''" "()"]
      cfg tgt dom
    by (simp add: ascii_eval) blast
qed

text \<open>overwrite\_errcode turns every response status from 500 to 599, in any spelling that reads as
  such a number, into 404 and leaves every other status, and every other header, as it is.\<close>

theorem overwrite_errcode_5xx_to_404:
  assumes "absl_strings A" and "hdr_sorted hs" and "\<not> sent_local_response c"
  shows "\<exists>c'. SendResponseHeaders (stateless (overwrite_errcode_onResponseHeaders A (test_sdk A))) hs (p, c) = (result c', p, c') \<and>
    header_status (result c') = Continue \<and>
    (\<forall>k. hdr_find k (headers (result c')) =
      (if same_key '':status'' k \<and> (\<exists>s i. hdr_find '':status'' hs = Some s \<and>
          simple_atoi (- (2 ^ 31)) (2 ^ 31 - 1) s = Some i \<and> 500 \<le> i \<and> i \<le> 599)
       then Some ''404'' else hdr_find k hs))"
proof -
  note env = test_env [OF assms(1)]
  let ?f = "overwrite_errcode_onResponseHeaders A (test_sdk A)"
  let ?h = "response_phase hs c"
  let ?five = "\<exists>s i. hdr_find '':status'' hs = Some s \<and>
          simple_atoi (- (2 ^ 31)) (2 ^ 31 - 1) s = Some i \<and> 500 \<le> i \<and> i \<le> 599"
  have dec: "dec_int 404 = ''404''" by (simp add: dec_eval)
  let ?c1 = "if ?five then snd (replaceResponseHeader (test_sdk A) '':status'' ''404'' ?h) else ?h"
  have f: "?f ?h = (Continue, ?c1)"
    using plugin_env.status_5xx [OF env, of ?h] assms(2) dec
    by (auto simp: split: option.split)
  have ph: "v_phase (test_view ?h) = Some ResponseHeaders" and g: "test_good ?h" using assms(2) by simp_all
  have "hdr_find k (headers (result ?c1)) = (if same_key '':status'' k \<and> ?five then Some ''404'' else hdr_find k hs)" for k
    using test_viewD(1) [OF refl, of k "snd (replaceResponseHeader (test_sdk A) '':status'' ''404'' ?h)"]
      plugin_env.axioms(2) [OF env] wasm_host.header_simps(6) [OF plugin_env.axioms(2) [OF env] g ph, of "'':status''" "''404''"]
    by (auto simp: hupd_def)
  then show ?thesis
    by (intro exI [of _ "leave_phase Continue ?c1"] conjI allI)
       (simp_all only: SendResponseHeaders_stateless [of c ?f, OF assms(3) f] leave_phase_sel)
qed

theorem overwrite_errcode_5xx_to_404_witness:
  "\<exists>c'. SendResponseHeaders (stateless (overwrite_errcode_onResponseHeaders absl_ref (test_sdk absl_ref)))
      [('':status'', ''503'')] ((), new_stream Info None 0 [] []) = (result c', (), c') \<and>
    hdr_find '':status'' (headers (result c')) = Some ''404''"
proof -
  have sorted: "hdr_sorted [('':status'', ''503'')]" by (simp add: hdr_sorted_def)
  have fresh: "\<not> sent_local_response (new_stream Info None 0 [] [])" by (simp add: new_stream_def)
  have "dec_nat 503 = ''503''" by (simp add: dec_eval)
  then have "simple_atoi (- (2 ^ 31)) (2 ^ 31 - 1) ''503'' = Some 503"
    using simple_atoi_dec_nat [of "- (2 ^ 31)" 503 "2 ^ 31 - 1"] by simp
  then show ?thesis
    using overwrite_errcode_5xx_to_404 [OF absl_ref_spec sorted fresh, of "()"] by auto
qed


text \<open>C14: error\_page\_with\_traceid lets a response below 400 pass unchanged and replaces every other one,
  also one whose status is not a number, by the error page: the page carries the status as it was
  sent and the trace identifier taken from the request, and the reply keeps the status code (500
  when there is no number).\<close>

theorem error_page_two_phases:
  assumes "absl_strings A" and "hdr_sorted hs" and "hdr_sorted hs'" and "\<not> sent_local_response c"
    and "hdr_find '':status'' hs' = Some s"
    and "code = (case simple_atoi (- (2 ^ 31)) (2 ^ 31 - 1) s of None \<Rightarrow> 500 | Some i \<Rightarrow> i)"
  shows "\<exists>r1 st1 r2 p2 c2. SendRequestHeaders (\<lambda>n e. error_page_onRequestHeaders re (test_sdk A)) hs (error_page_init, c) = (r1, st1) \<and>
    (\<forall>k. hdr_find k (headers r1) = hdr_find k hs) \<and>
    SendResponseHeaders (\<lambda>n e. error_page_onResponseHeaders A (test_sdk A)) hs' st1 = (r2, p2, c2) \<and>
    (if code < 400 then \<not> sent_local_response c2 \<and> headers r2 = hs' \<and> header_status r2 = Continue
     else sent_local_response c2 \<and> http_code r2 = of_int code \<and> header_status r2 = StopIteration \<and>
       body r2 = error_page_of s (trace_of re (\<lambda>k. hdr_find k hs)) \<and>
       hdr_find ''content-type'' (headers r2) = Some ''text/html; charset=utf-8'')"
proof -
  note env = test_env [OF assms(1)]
  let ?tr = "trace_of re (\<lambda>k. hdr_find k hs)"
  let ?p1 = "error_page_init\<lparr>ep_trace_id := ?tr\<rparr>"
  let ?f = "\<lambda>(n::nat) (e::bool). error_page_onRequestHeaders re (test_sdk A)"
  let ?g = "\<lambda>(n::nat) (e::bool). error_page_onResponseHeaders A (test_sdk A)"
  have hdrs: "v_hdrs (test_view (request_phase hs c)) = (\<lambda>k. hdr_find k hs)" by (simp add: fun_eq_iff)
  obtain c1 where f: "?f (length hs) False (error_page_init, request_phase hs c) = (Continue, ?p1, c1)"
    and v1: "test_view c1 = v_log Debug (''Captured trace ID: '' @ ?tr) (test_view (request_phase hs c))"
    using plugin_env.error_page_request [OF env, of "request_phase hs c" re error_page_init] assms(2)
    unfolding hdrs by auto
  have quiet: "\<not> sent_local_response (leave_phase Continue c1)"
    and hs1: "hdr_find k (headers (result c1)) = hdr_find k hs" for k
    using test_viewD [OF v1] assms(4) by simp_all
  let ?h = "response_phase hs' (leave_phase Continue c1)"
  obtain st p2 c2 where g: "?g (length hs') False (?p1, ?h) = (st, p2, c2)"
    by (metis prod_cases3)
  have key: "same_key ''Content-Type'' ''content-type''" by (simp add: ascii_eval)
  note resp = plugin_env.error_page_response [OF env, of ?h s code ?p1]
  have pass: "c2 = ?h \<and> st = Continue" if "code < 400"
    using resp assms(3,5,6) g that by simp
  have reply: "st = StopIteration \<and> test_view c2 = (test_view ?h)\<lparr>v_reply := Some (of_int code, [], error_page_of s ?tr),
        v_hdrs := hupds [(''Content-Type'', ''text/html; charset=utf-8'')]\<rparr>" if "\<not> code < 400"
    using resp assms(3,5,6) g that by auto
  have "sent_local_response c2 \<and> http_code (result c2) = of_int code \<and> st = StopIteration \<and>
       body (result c2) = error_page_of s ?tr \<and>
       hdr_find ''content-type'' (headers (result c2)) = Some ''text/html; charset=utf-8''" if "\<not> code < 400"
    using reply [OF that] test_viewD [OF conjunct2 [OF reply [OF that]]] key
    by (simp add: hupds_Cons_single hupd_def)
  with pass quiet have "if code < 400 then \<not> sent_local_response c2 \<and> headers (result c2) = hs' \<and> st = Continue
     else sent_local_response c2 \<and> http_code (result c2) = of_int code \<and> st = StopIteration \<and>
       body (result c2) = error_page_of s ?tr \<and>
       hdr_find ''content-type'' (headers (result c2)) = Some ''text/html; charset=utf-8''"
    by simp
  then show ?thesis
    using hs1
    by (simp add: SendRequestHeaders_run [of ?f, OF f] SendResponseHeaders_run [of _ ?g, OF quiet g] del: leave_phase_sel)
       (simp add: leave_phase_sel)
qed

theorem error_page_two_phases_witness:
  "\<exists>r1 st1 r2 p2 c2. SendRequestHeaders (\<lambda>n e. error_page_onRequestHeaders None (test_sdk absl_ref))
      [(''x-cloud-trace-context'', ''<b>/1'')] (error_page_init, new_stream Info None 0 [] []) = (r1, st1) \<and>
    SendResponseHeaders (\<lambda>n e. error_page_onResponseHeaders absl_ref (test_sdk absl_ref)) [('':status'', ''x'')] st1 = (r2, p2, c2) \<and>
    http_code r2 = 500 \<and> body r2 = error_page_of ''x'' ''<b>''"
proof -
  have sorted: "hdr_sorted [(''x-cloud-trace-context'', ''<b>/1'')]" "hdr_sorted [('':status'', ''x'')]"
    by (simp_all add: hdr_sorted_def)
  have fresh: "\<not> sent_local_response (new_stream Info None 0 [] [])" by (simp add: new_stream_def)
  have find: "hdr_find '':status'' [('':status'', ''x'')] = Some ''x''" by simp
  have code: "500 = (case simple_atoi (- (2 ^ 31)) (2 ^ 31 - 1) ''x'' of None \<Rightarrow> 500 | Some i \<Rightarrow> i)"
    by (simp add: simple_atoi_def atoi_signed_def atoi_digits_def strip_def isspace_def isdigit_def char_code_def)
  have "trace_of None (\<lambda>k. hdr_find k [(''x-cloud-trace-context'', ''<b>/1'')]) = ''<b>''"
    by (simp add: trace_of_def)
  then show ?thesis
    using error_page_two_phases [OF absl_ref_spec sorted fresh find code, of None] by auto
qed

end
