(* ===== verification/Sample_Suites.thy ===== *)
theory Sample_Suites
  imports Test_Verdict Header_Samples Reply_Samples
begin

text \<open>
  The tests kept beside the sample plugins (\<^verbatim>\<open>samples/<name>/tests.textpb\<close>), run through the whole chain:
  the runner, the test program, the test host and the callback of the plugin. Five samples that rewrite
  headers interpret \<open>header_rewriter\<close>; every test of theirs is decided by the function that describes
  the sample, and the runner exits with zero on the test files as they are.
\<close>

section \<open>Samples that rewrite headers\<close>

text \<open>The calls that such a callback makes leave the reply and the machine alone.\<close>

lemma test_sdk_frame [simp]:
  "http_code (result (snd (addHeaderMapValue (test_sdk A) t k v c))) = http_code (result c)"
  "http_code (result (snd (replaceHeaderMapValue (test_sdk A) t k v c))) = http_code (result c)"
  "http_code (result (snd (removeHeaderMapValue (test_sdk A) t k c))) = http_code (result c)"
  "http_code (result (log_msg (test_sdk A) l m c)) = http_code (result c)"
  "vm_failed (snd (addHeaderMapValue (test_sdk A) t k v c)) = vm_failed c"
  "vm_failed (snd (replaceHeaderMapValue (test_sdk A) t k v c)) = vm_failed c"
  "vm_failed (snd (removeHeaderMapValue (test_sdk A) t k c)) = vm_failed c"
  "vm_failed (log_msg (test_sdk A) l m c) = vm_failed c"
  by (simp_all add: test_sdk_def context_defs Let_def)

definition add_request_header_spec :: "(string \<Rightarrow> string option) \<Rightarrow> string \<Rightarrow> string option" where
  "add_request_header_spec m = hupd ''Welcome'' (Some ''warm'') (hupd ''Message'' (Some (appended (m ''Message'') ''hello'')) m)"

definition add_response_header_spec :: "(string \<Rightarrow> string option) \<Rightarrow> string \<Rightarrow> string option" where
  "add_response_header_spec m = hupd ''Welcome'' None
     (if m ''Message'' = Some ''foo'' then hupd ''Message'' (Some ''foo, bar'') m else m)"

definition remove_cookie_spec :: "(string \<Rightarrow> string option) \<Rightarrow> string \<Rightarrow> string option" where
  "remove_cookie_spec m = hupd ''Set-Cookie'' None m"

definition normalize_header_spec :: "(string \<Rightarrow> string option) \<Rightarrow> string \<Rightarrow> string option" where
  "normalize_header_spec m = hupd ''client-device-type'' (Some (appended (m ''client-device-type'')
     (if m ''Sec-CH-UA-Mobile'' = Some ''?1'' \<or> (\<exists>ua. m ''User-Agent'' = Some ua \<and> sublist ''mobile'' (map tolower ua))
      then ''mobile'' else ''unknown''))) m"

definition overwrite_errcode_spec :: "(string \<Rightarrow> string option) \<Rightarrow> string \<Rightarrow> string option" where
  "overwrite_errcode_spec m = (case Option.bind (m '':status'') (simple_atoi (- (2 ^ 31)) (2 ^ 31 - 1)) of
      None \<Rightarrow> m | Some i \<Rightarrow> if 500 \<le> i \<and> i \<le> 599 then hupd '':status'' (Some ''404'') m else m)"

interpretation add_request_header: header_rewriter RequestHeaders
  "add_request_header_onRequestHeaders (test_sdk absl_ref)" add_request_header_spec
proof
  fix c k
  assume "test_good c" and "phase c = Some RequestHeaders"
  then have "test_good c" "v_phase (test_view c) = Some RequestHeaders" by simp_all
  note view = tc.add_request_header_view [OF this]
  show "fst (add_request_header_onRequestHeaders (test_sdk absl_ref) c) = Continue" by (rule view(1))
  show "hdr_find k (headers (result (snd (add_request_header_onRequestHeaders (test_sdk absl_ref) c)))) =
      add_request_header_spec (\<lambda>k. hdr_find k (headers (result c))) k"
    using test_viewD(1) [OF view(2), of k] by (simp add: add_request_header_spec_def hupd_def)
qed (simp_all add: add_request_header_onRequestHeaders_def Let_def)

interpretation add_response_header: header_rewriter ResponseHeaders
  "add_response_header_onResponseHeaders (test_sdk absl_ref)" add_response_header_spec
proof
  fix c k
  assume "test_good c" and "phase c = Some ResponseHeaders"
  then have "test_good c" "v_phase (test_view c) = Some ResponseHeaders" by simp_all
  note view = tc.add_response_header_view [OF this]
  show "fst (add_response_header_onResponseHeaders (test_sdk absl_ref) c) = Continue" by (rule view(1))
  show "hdr_find k (headers (result (snd (add_response_header_onResponseHeaders (test_sdk absl_ref) c)))) =
      add_response_header_spec (\<lambda>k. hdr_find k (headers (result c))) k"
    using test_viewD(1) [OF view(2), of k] by (simp add: add_response_header_spec_def hupd_def)
qed (simp_all add: add_response_header_onResponseHeaders_def Let_def)

interpretation remove_cookie: header_rewriter ResponseHeaders
  "remove_cookie_onResponseHeaders (test_sdk absl_ref)" remove_cookie_spec
proof
  fix c k
  assume c: "test_good c" and "phase c = Some ResponseHeaders"
  then have ph: "v_phase (test_view c) = Some ResponseHeaders" by simp
  show "hdr_find k (headers (result (snd (remove_cookie_onResponseHeaders (test_sdk absl_ref) c)))) =
      remove_cookie_spec (\<lambda>k. hdr_find k (headers (result c))) k"
    using test_viewD(1) [OF tc.header_simps(9) [OF c ph, of "''Set-Cookie''"], of k] tc.header_simps(7) [OF c ph, of "''Set-Cookie''"]
    by (simp add: remove_cookie_onResponseHeaders_def remove_cookie_spec_def hupd_def)
qed (simp_all add: remove_cookie_onResponseHeaders_def or_log_def)

interpretation normalize_header: header_rewriter RequestHeaders
  "normalize_header_onRequestHeaders absl_ref (test_sdk absl_ref)" normalize_header_spec
proof
  fix c k
  assume "test_good c" and "phase c = Some RequestHeaders"
  then have "test_good c" "v_phase (test_view c) = Some RequestHeaders" by simp_all
  note view = tc.normalize_header_view [OF this]
  show "fst (normalize_header_onRequestHeaders absl_ref (test_sdk absl_ref) c) = Continue" by (rule conjunct1 [OF view])
  show "hdr_find k (headers (result (snd (normalize_header_onRequestHeaders absl_ref (test_sdk absl_ref) c)))) =
      normalize_header_spec (\<lambda>k. hdr_find k (headers (result c))) k"
    using test_viewD(1) [OF conjunct2 [OF view], of k] by (simp add: normalize_header_spec_def hupd_def)
qed (simp_all add: normalize_header_onRequestHeaders_def Let_def)

interpretation overwrite_errcode: header_rewriter ResponseHeaders
  "overwrite_errcode_onResponseHeaders absl_ref (test_sdk absl_ref)" overwrite_errcode_spec
proof
  fix c k
  assume c: "test_good c" and "phase c = Some ResponseHeaders"
  then have ph: "v_phase (test_view c) = Some ResponseHeaders" by simp
  have dec: "dec_int 404 = ''404''" by (simp add: dec_eval)
  note f = tc.status_5xx [OF c ph, unfolded dec]
  show "fst (overwrite_errcode_onResponseHeaders absl_ref (test_sdk absl_ref) c) = Continue" by (simp add: f)
  show "hdr_find k (headers (result (snd (overwrite_errcode_onResponseHeaders absl_ref (test_sdk absl_ref) c)))) =
      overwrite_errcode_spec (\<lambda>k. hdr_find k (headers (result c))) k"
    using test_viewD(1) [OF tc.header_simps(6) [OF c ph, of "'':status''" "''404''"], of k]
    by (simp add: f overwrite_errcode_spec_def hupd_def split: option.split)
qed (simp_all add: overwrite_errcode_onResponseHeaders_def Let_def or_log_def split: option.split)

section \<open>The test files\<close>

definition named_test :: "string \<Rightarrow> bool \<Rightarrow> WasmHeaderMapType \<Rightarrow> header list \<Rightarrow> header list \<Rightarrow> header list \<Rightarrow> pb_NamedTest" where
  "named_test nm bench t input has no =
     pb_Test.extend (header_test t input (expects has no)) (pb_NamedTest.fields nm bench)"

lemma named_test_truncate [simp]: "pb_Test.truncate (named_test nm bench t input has no) = header_test t input (expects has no)"
  by (simp add: named_test_def pb_Test.defs header_test_def Let_def)

definition add_request_header_tests :: "pb_NamedTest list" where
  "add_request_header_tests =
     [named_test ''AddsRequestHeader'' True RequestHeaders []
         [(''Message'', ''hello''), (''Welcome'', ''warm'')] [],
      named_test ''UpdatesRequestHeader'' True RequestHeaders [(''Message'', ''hey''), (''Welcome'', ''cold'')]
         [(''Message'', ''hey, hello''), (''Welcome'', ''warm'')] [],
      named_test ''RequestAndResponse'' True RequestHeaders []
         [(''Message'', ''hello'')] [],
      named_test ''CaseInsensitiveUpdates'' False RequestHeaders [(''message'', ''hey''), (''welcome'', ''cold'')]
         [(''message'', ''hey, hello''), (''welcome'', ''warm'')] []]"

definition normalize_header_tests :: "pb_NamedTest list" where
  "normalize_header_tests =
     [named_test ''NoHeaderSet'' False RequestHeaders []
         [(''client-device-type'', ''unknown'')] [],
      named_test ''WithMobileHeaderHintEqTrue'' False RequestHeaders [(''Sec-CH-UA-Mobile'', ''?1''), (''User-Agent'', ''Chrome...'')]
         [(''client-device-type'', ''mobile'')] [],
      named_test ''WithMobileHeaderHintEqFalse'' False RequestHeaders [(''Sec-CH-UA-Mobile'', ''?0''), (''User-Agent'', ''Chrome...'')]
         [(''client-device-type'', ''unknown'')] [],
      named_test ''WithMobileUserAgent'' False RequestHeaders [(''User-Agent'', ''Chrome/... Mobile/...'')]
         [(''client-device-type'', ''mobile'')] []]"

definition add_response_header_tests :: "pb_NamedTest list" where
  "add_response_header_tests =
     [named_test ''NoDefaultResponseHeader'' False ResponseHeaders []
         [] [(''Message'', [])],
      named_test ''LeavesResponseHeader'' False ResponseHeaders [(''Message'', ''non-matching'')]
         [(''Message'', ''non-matching'')] [],
      named_test ''ExtendsResponseHeader'' True ResponseHeaders [(''Message'', ''foo'')]
         [(''Message'', ''foo, bar'')] [],
      named_test ''RemovesResponseHeader'' True ResponseHeaders [(''Welcome'', ''any'')]
         [] [(''Welcome'', [])],
      named_test ''RequestAndResponse'' True ResponseHeaders [(''Message'', ''foo'')]
         [(''Message'', ''foo, bar'')] [],
      named_test ''CaseInsensitiveLookup'' False ResponseHeaders [(''message'', ''foo'')]
         [(''message'', ''foo, bar'')] [],
      named_test ''CaseInsensitiveRemoval'' False ResponseHeaders [(''welcome'', ''any'')]
         [] [(''welcome'', [])]]"

definition remove_cookie_tests :: "pb_NamedTest list" where
  "remove_cookie_tests =
     [named_test ''RemovesSingleSetCookie'' False ResponseHeaders [(''Set-Cookie'', ''sessionid=1234'')]
         [] [(''Set-Cookie'', [])],
      named_test ''RemovesMultipleSetCookies'' False ResponseHeaders [(''Set-Cookie'', ''sessionid=1234''), (''Set-Cookie'', ''user=john'')]
         [] [(''Set-Cookie'', [])],
      named_test ''LeavesOtherHeaders'' False ResponseHeaders [(''Content-Type'', ''text/html''), (''Set-Cookie'', ''sessionid=abcd'')]
         [(''Content-Type'', ''text/html'')] [(''Set-Cookie'', [])],
      named_test ''NoSetCookieInResponse'' False ResponseHeaders []
         [] [(''Set-Cookie'', [])],
      named_test ''CaseInsensitiveRemoval'' False ResponseHeaders [(''set-cookie'', ''sessionid=5678'')]
         [] [(''set-cookie'', [])],
      named_test ''MixedCaseRemoval'' False ResponseHeaders [(''SeT-CoOkIe'', ''test=value'')]
         [] [(''SeT-CoOkIe'', [])],
      named_test ''CombinedHeaderOperations'' False ResponseHeaders [(''Set-Cookie'', ''to-be-removed''), (''Cache-Control'', ''max-age=3600'')]
         [(''Cache-Control'', ''max-age=3600'')] [(''Set-Cookie'', [])]]"

definition overwrite_errcode_tests :: "pb_NamedTest list" where
  "overwrite_errcode_tests =
     [named_test ''With500StatusCodeChangeTo404'' False ResponseHeaders [('':status'', ''500'')]
         [('':status'', ''404'')] [],
      named_test ''With502StatusCodeChangeTo404'' False ResponseHeaders [('':status'', ''502'')]
         [('':status'', ''404'')] [],
      named_test ''With200StatusCodeNothingChanges'' False ResponseHeaders [('':status'', ''200'')]
         [('':status'', ''200'')] []]"

lemmas test_files = add_request_header_tests_def add_response_header_tests_def remove_cookie_tests_def
  normalize_header_tests_def overwrite_errcode_tests_def

section \<open>Running the files\<close>

text \<open>The test file of each sample with the callbacks of its plugin.\<close>

definition sample_suites :: "(pb_NamedTest list \<times> 'p callbacks) list" where
  "sample_suites =
     [(add_request_header_tests, plugin_of RequestHeaders (add_request_header_onRequestHeaders (test_sdk absl_ref))),
      (add_response_header_tests, plugin_of ResponseHeaders (add_response_header_onResponseHeaders (test_sdk absl_ref))),
      (remove_cookie_tests, plugin_of ResponseHeaders (remove_cookie_onResponseHeaders (test_sdk absl_ref))),
      (normalize_header_tests, plugin_of RequestHeaders (normalize_header_onRequestHeaders absl_ref (test_sdk absl_ref))),
      (overwrite_errcode_tests, plugin_of ResponseHeaders (overwrite_errcode_onResponseHeaders absl_ref (test_sdk absl_ref)))]"

lemmas goal_simps = header_goals_def happend_def hupd_def appended_def ascii_eval

lemma three_digits:
  "simple_atoi (- 2147483648) 2147483647 ''500'' = Some 500"
  "simple_atoi (- 2147483648) 2147483647 ''502'' = Some 502"
  "simple_atoi (- 2147483648) 2147483647 ''200'' = Some 200"
  using simple_atoi_dec_nat [of "- (2 ^ 31)" 500 "2 ^ 31 - 1"] simple_atoi_dec_nat [of "- (2 ^ 31)" 502 "2 ^ 31 - 1"]
    simple_atoi_dec_nat [of "- (2 ^ 31)" 200 "2 ^ 31 - 1"]
  by (simp_all add: dec_eval)

text \<open>A test that a rewriting function meets, without any plugin.\<close>

definition promised :: "WasmHeaderMapType \<Rightarrow> ((string \<Rightarrow> string option) \<Rightarrow> string \<Rightarrow> string option) \<Rightarrow> pb_NamedTest \<Rightarrow> bool" where
  "promised t spec test \<longleftrightarrow> (\<exists>nm bench input has no.
     test = named_test nm bench t input has no \<and> header_goals has no (spec (happend input)))"

lemma promised_named: "header_goals has no (spec (happend input)) \<Longrightarrow> promised t spec (named_test nm bench t input has no)"
  unfolding promised_def by blast

lemma promised_run:
  assumes "header_rewriter t f spec" and "t = RequestHeaders \<or> t = ResponseHeaders" and "promised t spec test"
    and "plugin_ready W ReadDataFile engine (pb_Env.truncate env) (make_context test)"
  shows "DynamicTest_run A T F W ReadDataFile make_context (\<lambda>w s. False) (plugin_of t f) engine env test = Some []"
  using assms(3,4) by (auto simp: promised_def DynamicTest_run_def header_rewriter.test_exact [OF assms(1,2)])

lemma add_request_header_promised: "list_all (promised RequestHeaders add_request_header_spec) add_request_header_tests"
  unfolding add_request_header_tests_def list.pred_inject
  by (intro conjI TrueI promised_named; simp add: goal_simps add_request_header_spec_def)

lemma add_response_header_promised: "list_all (promised ResponseHeaders add_response_header_spec) add_response_header_tests"
  unfolding add_response_header_tests_def list.pred_inject
  by (intro conjI TrueI promised_named; simp add: goal_simps add_response_header_spec_def)

lemma remove_cookie_promised: "list_all (promised ResponseHeaders remove_cookie_spec) remove_cookie_tests"
  unfolding remove_cookie_tests_def list.pred_inject
  by (intro conjI TrueI promised_named; simp add: goal_simps remove_cookie_spec_def)

lemma normalize_header_promised: "list_all (promised RequestHeaders normalize_header_spec) normalize_header_tests"
  unfolding normalize_header_tests_def list.pred_inject
  by (intro conjI TrueI promised_named; simp add: goal_simps normalize_header_spec_def sublist_Cons_right)

lemma overwrite_errcode_promised: "list_all (promised ResponseHeaders overwrite_errcode_spec) overwrite_errcode_tests"
  unfolding overwrite_errcode_tests_def list.pred_inject
  by (intro conjI TrueI promised_named; simp add: goal_simps overwrite_errcode_spec_def three_digits)

lemmas suites_promised = add_request_header_promised add_response_header_promised remove_cookie_promised
  normalize_header_promised overwrite_errcode_promised

lemmas suite_rewriters = add_request_header.header_rewriter_axioms add_response_header.header_rewriter_axioms
  remove_cookie.header_rewriter_axioms normalize_header.header_rewriter_axioms overwrite_errcode.header_rewriter_axioms

lemma suite_rewriter:
  assumes "(tests, P) \<in> set sample_suites"
  obtains t f spec where "P = plugin_of t f" "header_rewriter t f spec" "t = RequestHeaders \<or> t = ResponseHeaders"
    "list_all (promised t spec) tests"
  using assms unfolding sample_suites_def by (auto intro: suites_promised suite_rewriters)

lemma suite_test_passes:
  assumes "(tests, P) \<in> set sample_suites" and "test \<in> set tests"
    and "plugin_ready W ReadDataFile engine (pb_Env.truncate env) (make_context test)"
  shows "DynamicTest_run A T F W ReadDataFile make_context (\<lambda>w s. False) P engine env test = Some []"
proof -
  obtain t f spec where "P = plugin_of t f" "header_rewriter t f spec" "t = RequestHeaders \<or> t = ResponseHeaders"
    "list_all (promised t spec) tests"
    using suite_rewriter [OF assms(1)] .
  with assms(2,3) show ?thesis by (auto simp: list_all_iff intro: promised_run)
qed

section \<open>Properties\<close>

text \<open>C4: For every plugin with one headers callback that rewrites headers by a function of the lookup table and
  neither answers nor fails, and every test of that phase on a plugin that loads, the test passes if and
  only if the function, applied to the table of the merged input headers, has every expected header with
  its value and none of the unwanted ones.\<close>

theorem rewriter_tests_exact:
  assumes "header_rewriter t f spec" and "t = RequestHeaders \<or> t = ResponseHeaders"
    and "plugin_ready W ReadDataFile engine env make_context"
  shows "TestBody A T W ReadDataFile make_context (\<lambda>w s. False) (plugin_of t f) engine env
      (header_test t input (expects has no)) = Some [] \<longleftrightarrow> header_goals has no (spec (happend input))"
  by (rule header_rewriter.test_exact [OF assms])

lemma sample_ready: "plugin_ready any_engine (\<lambda>p. Inr p) engine env (\<lambda>w. ((), new_stream Info None 0 [] []))"
  by (auto simp: plugin_ready_def LoadWasm_def CreatePluginVm_def InitializePlugin_def any_engine_def new_stream_def Let_def)

theorem rewriter_tests_exact_witness:
  "TestBody absl_ref plain_lib any_engine (\<lambda>p. Inr p) (\<lambda>w. ((), new_stream Info None 0 [] [])) (\<lambda>w s. False)
     (plugin_of RequestHeaders (add_request_header_onRequestHeaders (test_sdk absl_ref))) ''v8''
     (pb_Env.truncate (suite_env example_suite)) (header_test RequestHeaders [(''message'', ''hey'')] (expects [(''Message'', ''hey, hello'')] [])) = Some [] \<and>
   TestBody absl_ref plain_lib any_engine (\<lambda>p. Inr p) (\<lambda>w. ((), new_stream Info None 0 [] [])) (\<lambda>w s. False)
     (plugin_of RequestHeaders (add_request_header_onRequestHeaders (test_sdk absl_ref))) ''v8''
     (pb_Env.truncate (suite_env example_suite)) (header_test RequestHeaders [(''message'', ''hey'')] (expects [] [(''Welcome'', [])])) \<noteq> Some []"
  using rewriter_tests_exact [OF add_request_header.header_rewriter_axioms disjI1 [OF refl] sample_ready,
      of absl_ref plain_lib "''v8''" "pb_Env.truncate (suite_env example_suite)" "[(''message'', ''hey'')]" "[(''Message'', ''hey, hello'')]" "[]"]
    rewriter_tests_exact [OF add_request_header.header_rewriter_axioms disjI1 [OF refl] sample_ready,
      of absl_ref plain_lib "''v8''" "pb_Env.truncate (suite_env example_suite)" "[(''message'', ''hey'')]" "[]" "[(''Welcome'', [])]"]
  by (simp add: goal_simps add_request_header_spec_def)

text \<open>C3: The runner, given the test file of one of these samples as its configuration, exits with zero on
  every list of engines that load the plugin: every test of the file passes, from the parsed input
  headers through the test host and the callback of the sample to the comparison with the expected
  headers.\<close>

theorem sample_suites_exit_zero:
  assumes "gtest RUN_ALL_TESTS"
    and "ParseInputs Y ReadDataFile ParseFromString of_message fl = Inr cfg"
    and "(suite_tests cfg, P) \<in> set sample_suites"
    and "\<forall>engine \<in> set engines. \<forall>test \<in> set (suite_tests cfg).
      plugin_ready W ReadDataFile engine (pb_Env.truncate (suite_env cfg)) (make_context test)"
  shows "runner_main Y ReadDataFile ParseFromString of_message RUN_ALL_TESTS engines
      (DynamicTest_run A T F W ReadDataFile make_context (\<lambda>w s. False) P) fl = Some 0"
  unfolding runner_exit_zero_iff [OF assms(1)] using assms(2,4) by (auto intro: suite_test_passes [OF assms(3)])

definition file_suite :: "pb_NamedTest list \<Rightarrow> TestSuite" where
  "file_suite tests = example_suite\<lparr>suite_tests := tests\<rparr>"

theorem sample_suites_exit_zero_witness:
  "gtest run_in_order \<and>
   runner_main plain_yaml (\<lambda>p. Inr p) (\<lambda>b. Some (file_suite remove_cookie_tests)) (\<lambda>m. example_suite) run_in_order [''v8'', ''wamr'']
     (DynamicTest_run absl_ref plain_lib unix_paths any_engine (\<lambda>p. Inr p) (\<lambda>t w. ((), new_stream Info None 0 [] [])) (\<lambda>w s. False)
       (plugin_of ResponseHeaders (remove_cookie_onResponseHeaders (test_sdk absl_ref)))) example_flags = Some 0"
proof -
  let ?cfg = "(file_suite remove_cookie_tests)\<lparr>suite_env := (suite_env example_suite)\<lparr>test_path := ''t.textpb''\<rparr>\<rparr>"
  have cfg: "ParseInputs plain_yaml (\<lambda>p. Inr p) (\<lambda>b. Some (file_suite remove_cookie_tests)) (\<lambda>m. example_suite) example_flags = Inr ?cfg"
    by (simp add: ParseInputs_def input_of_flags_def apply_overrides_def example_flags_def example_suite_def file_suite_def)
  have "(suite_tests ?cfg, plugin_of ResponseHeaders (remove_cookie_onResponseHeaders (test_sdk absl_ref))) \<in> set sample_suites"
    by (simp add: sample_suites_def file_suite_def)
  from sample_suites_exit_zero [OF in_order.gtest_axioms cfg this, of "[''v8'', ''wamr'']" any_engine "\<lambda>t w. ((), new_stream Info None 0 [] [])"]
    sample_ready show ?thesis using in_order.gtest_axioms by blast
qed

end
