(* ===== verification/Stream_Reach.thy ===== *)
theory Stream_Reach
  imports Header_Samples
begin

text \<open>
  What the test host keeps over the whole life of a stream, whatever the plugin does. A callback is any
  sequence of the calls that reach the host (\<open>host_call\<close>), a stream any sequence of phases and a tear-down
  (\<open>stream_reach\<close>); the invariant is shown by rule induction on both.
\<close>

section \<open>Calls and phases\<close>

inductive host_call :: "TestHttpContext \<Rightarrow> TestHttpContext \<Rightarrow> bool" where
  add: "host_call c (snd (TestHttpContext_addHeaderMapValue t k v c))"
| replace: "host_call c (snd (TestHttpContext_replaceHeaderMapValue t k v c))"
| remove: "host_call c (snd (TestHttpContext_removeHeaderMapValue t k c))"
| set_pairs: "host_call c (snd (TestHttpContext_setHeaderMapPairs t ps c))"
| set_buffer: "host_call c (snd (test_setBuffer b start len data c))"
| reply: "host_call c (snd (TestHttpContext_sendLocalResponse code reply_text hs grpc det c))"
| log: "host_call c (TestContext_log l m c)"
| trap: "host_call c (c\<lparr>vm_failed := True\<rparr>)"

definition lawful :: "(nat \<Rightarrow> bool \<Rightarrow> 'p stream \<Rightarrow> 's \<times> 'p stream) \<Rightarrow> bool" where
  "lawful cb \<longleftrightarrow> (\<forall>n eos p c. host_call\<^sup>*\<^sup>* c (snd (snd (cb n eos (p, c)))))"

definition lawful_end :: "('p stream \<Rightarrow> 'p stream) \<Rightarrow> bool" where
  "lawful_end cb \<longleftrightarrow> (\<forall>p c. host_call\<^sup>*\<^sup>* c (snd (cb (p, c))))"

inductive stream_reach :: "TestHttpContext \<Rightarrow> 'p stream \<Rightarrow> bool" for c0 where
  fresh: "lawful_end onCreate \<Longrightarrow> stream_reach c0 (onCreate (p, c0))"
| request_headers: "stream_reach c0 s \<Longrightarrow> lawful cb \<Longrightarrow> hdr_sorted hs \<Longrightarrow> stream_reach c0 (snd (SendRequestHeaders cb hs s))"
| request_body: "stream_reach c0 s \<Longrightarrow> lawful cb \<Longrightarrow> stream_reach c0 (snd (SendRequestBody cb b eos s))"
| response_headers: "stream_reach c0 s \<Longrightarrow> lawful cb \<Longrightarrow> hdr_sorted hs \<Longrightarrow> stream_reach c0 (snd (SendResponseHeaders cb hs s))"
| response_body: "stream_reach c0 s \<Longrightarrow> lawful cb \<Longrightarrow> stream_reach c0 (snd (SendResponseBody cb b eos s))"
| tear_down: "stream_reach c0 s \<Longrightarrow> lawful_end d \<Longrightarrow> lawful_end e \<Longrightarrow> stream_reach c0 (TearDown d e s)"

section \<open>The invariant\<close>

text \<open>The settings of a stream, and the log, which grows at its end in the memory and in the file.\<close>

definition settings :: "TestHttpContext \<Rightarrow> LogLevel \<times> u64 \<times> string \<times> (string \<times> string) list" where
  "settings c = (min_log_level c, clock_time c, plugin_config c, properties c)"

definition logs_grow :: "TestHttpContext \<Rightarrow> TestHttpContext \<Rightarrow> bool" where
  "logs_grow c c' \<longleftrightarrow> (\<exists>new. phase_logs c' = phase_logs c @ new \<and> log_file c' = map_option (\<lambda>f. f @ new) (log_file c))"

text \<open>What one call keeps, with the state before it as a parameter.\<close>

definition call_inv :: "TestHttpContext \<Rightarrow> TestHttpContext \<Rightarrow> bool" where
  "call_inv c c' \<longleftrightarrow>
     settings c' = settings c \<and> phase c' = phase c \<and> current_callback c' = current_callback c \<and>
     torn_down c' = torn_down c \<and> (sent_local_response c \<longrightarrow> sent_local_response c') \<and> (vm_failed c \<longrightarrow> vm_failed c') \<and>
     (current_callback c \<notin> {CbRequestBody, CbResponseBody} \<longrightarrow> body_buffer c' = body_buffer c) \<and>
     (hdr_sorted (headers (result c)) \<longrightarrow> hdr_sorted (headers (result c'))) \<and>
     (http_code (result c') = http_code (result c) \<or> sent_local_response c') \<and> logs_grow c c'"

lemma logs_grow_refl [simp]: "phase_logs c' = phase_logs c \<Longrightarrow> log_file c' = log_file c \<Longrightarrow> logs_grow c c'"
  by (simp add: logs_grow_def map_option.identity)

lemma logs_grow_trans: "logs_grow a b \<Longrightarrow> logs_grow b c \<Longrightarrow> logs_grow a c"
  by (auto simp: logs_grow_def option.map_comp comp_def)

lemma call_inv_refl [simp]: "call_inv c c"
  by (simp add: call_inv_def)

lemma call_inv_trans:
  assumes "call_inv a b" and "call_inv b c"
  shows "call_inv a c"
  using assms logs_grow_trans [of a b c] unfolding call_inv_def by metis

lemma call_inv_set_headers:
  "(hdr_sorted (headers (result c)) \<Longrightarrow> hdr_sorted (f (headers (result c)))) \<Longrightarrow> call_inv c (set_headers f c)"
  by (simp add: call_inv_def set_headers_def settings_def)

lemma call_inv_add: "call_inv c (snd (TestHttpContext_addHeaderMapValue t k v c))"
  by (simp add: TestHttpContext_addHeaderMapValue_def call_inv_set_headers)

lemma call_inv_adds: "call_inv c (foldl (\<lambda>c (k, v). snd (TestHttpContext_addHeaderMapValue t k v c)) c ps)"
proof (induction ps arbitrary: c)
  case (Cons p ps)
  obtain k v where "p = (k, v)" by (cases p)
  with Cons show ?case using call_inv_trans [OF call_inv_add Cons.IH] by simp
qed simp

lemma host_call_inv: "host_call c c' \<Longrightarrow> call_inv c c'"
proof (induction rule: host_call.induct)
  case (add c t k v)
  show ?case by (rule call_inv_add)
next
  case (set_pairs c t ps)
  have "call_inv c (foldl (\<lambda>c (k, v). snd (TestHttpContext_addHeaderMapValue t k v c)) (set_headers (\<lambda>_. []) c) ps)"
    by (rule call_inv_trans [OF call_inv_set_headers call_inv_adds]) simp
  then show ?case by (simp add: TestHttpContext_setHeaderMapPairs_def)
next
  case (set_buffer c b start len data)
  show ?case
    by (auto simp: test_setBuffer_def TestHttpContext_getBuffer_def call_inv_def settings_def
        split: WasmBufferType.split option.split prod.split)
next
  case (reply c code reply_text hs grpc det)
  show ?case using foldl_hdr_set [of "[]" hs]
    by (simp add: TestHttpContext_sendLocalResponse_def call_inv_def settings_def)
next
  case (log c l m)
  show ?case by (auto simp: TestContext_log_def call_inv_def settings_def logs_grow_def Let_def map_option.identity)
qed (simp_all add: TestHttpContext_replaceHeaderMapValue_def TestHttpContext_removeHeaderMapValue_def
    call_inv_set_headers hdr_sorted_erase, simp add: call_inv_def settings_def)

lemma host_calls_inv: "host_call\<^sup>*\<^sup>* c c' \<Longrightarrow> call_inv c c'"
  by (induction rule: rtranclp_induct) (auto intro: call_inv_trans host_call_inv)

lemma lawful_inv: "lawful cb \<Longrightarrow> call_inv c (snd (snd (cb n eos (p, c))))"
  by (simp add: lawful_def host_calls_inv)

lemma lawful_end_inv: "lawful_end cb \<Longrightarrow> call_inv (snd s) (snd (cb s))"
  by (cases s) (simp add: lawful_end_def host_calls_inv)

text \<open>What holds between two phases of a stream that began with the context \<open>c0\<close>.\<close>

definition log_tail :: "TestHttpContext \<Rightarrow> bool" where
  "log_tail c \<longleftrightarrow> (\<forall>f. log_file c = Some f \<longrightarrow> suffix (phase_logs c) f)"

definition stream_inv :: "TestHttpContext \<Rightarrow> TestHttpContext \<Rightarrow> bool" where
  "stream_inv c0 c \<longleftrightarrow>
     settings c = settings c0 \<and> phase c = None \<and> hdr_sorted (headers (result c)) \<and>
     (http_code (result c) \<noteq> 0 \<longrightarrow> sent_local_response c) \<and> (torn_down c \<or> body_buffer c = []) \<and> log_tail c"

lemma log_tail_grow: "log_tail c \<Longrightarrow> logs_grow c c' \<Longrightarrow> log_tail c'"
  by (cases "log_file c") (auto simp: log_tail_def logs_grow_def suffix_def)

lemma log_tail_Nil [simp]: "phase_logs c = [] \<Longrightarrow> log_tail c"
  by (simp add: log_tail_def)

text \<open>The state after the calls of a callback that the host entered in the context \<open>c1\<close>.\<close>

lemma callback_inv:
  assumes "call_inv c1 c2" and "log_tail c1" and "hdr_sorted (headers (result c1))" and "http_code (result c1) = 0 \<or> sent_local_response c1"
  shows "settings c2 = settings c1" "phase c2 = phase c1" "torn_down c2 = torn_down c1" "log_tail c2"
    "hdr_sorted (headers (result c2))" "http_code (result c2) \<noteq> 0 \<longrightarrow> sent_local_response c2"
    "current_callback c1 \<notin> {CbRequestBody, CbResponseBody} \<Longrightarrow> body_buffer c2 = body_buffer c1"
  using assms log_tail_grow [of c1 c2] by (auto simp: call_inv_def)

lemma lawful_result:
  assumes "lawful cb"
  obtains st p' c' where "cb n eos (p, c) = (st, p', c')" "call_inv c c'"
  using lawful_inv [OF assms, of c n eos p] by (cases "cb n eos (p, c)") auto

lemma settings_frame [simp]:
  "settings (c\<lparr>phase_logs := ls\<rparr>) = settings c" "settings (c\<lparr>result := r\<rparr>) = settings c"
  "settings (c\<lparr>phase := ph\<rparr>) = settings c" "settings (c\<lparr>current_callback := cc\<rparr>) = settings c"
  "settings (c\<lparr>body_buffer := b\<rparr>) = settings c" "settings (c\<lparr>torn_down := d\<rparr>) = settings c"
  by (simp_all add: settings_def)

lemma log_tail_frame [simp]:
  "log_tail (c\<lparr>result := r\<rparr>) = log_tail c" "log_tail (c\<lparr>phase := ph\<rparr>) = log_tail c"
  "log_tail (c\<lparr>body_buffer := b\<rparr>) = log_tail c" "log_tail (c\<lparr>torn_down := d\<rparr>) = log_tail c"
  by (simp_all add: log_tail_def)

lemma stream_inv_skipped: "stream_inv c0 c \<Longrightarrow> stream_inv c0 (c\<lparr>phase_logs := [], result := empty_Result\<rparr>)"
  by (simp add: stream_inv_def)

lemma stream_inv_headers:
  assumes "stream_inv c0 (snd s)" and "lawful cb" and "hdr_sorted hs"
  shows "stream_inv c0 (snd (snd (SendRequestHeaders cb hs s)))" and "stream_inv c0 (snd (snd (SendResponseHeaders cb hs s)))"
proof -
  obtain p c where s: "s = (p, c)" by (cases s)
  let ?c1 = "\<lambda>ph cc. c\<lparr>phase_logs := [], result := empty_Result\<lparr>headers := hs\<rparr>, phase := Some ph, current_callback := cc\<rparr>"
  have entered: "\<exists>st p' c'. cb (length hs) False (p, ?c1 ph cc) = (st, p', c') \<and>
      stream_inv c0 (c'\<lparr>result := (result c')\<lparr>header_status := st\<rparr>, phase := None\<rparr>)"
    if "cc \<notin> {CbRequestBody, CbResponseBody}" for ph cc
  proof -
    obtain st p' c' where x: "cb (length hs) False (p, ?c1 ph cc) = (st, p', c')" and "call_inv (?c1 ph cc) c'"
      using lawful_result [OF assms(2)] .
    from callback_inv [OF this(2)] that assms(1,3) x show ?thesis by (simp add: stream_inv_def s)
  qed
  from entered [of CbRequestHeaders RequestHeaders] show "stream_inv c0 (snd (snd (SendRequestHeaders cb hs s)))"
    by (auto simp: s SendRequestHeaders_def Let_def)
  from entered [of CbResponseHeaders ResponseHeaders] assms(1) show "stream_inv c0 (snd (snd (SendResponseHeaders cb hs s)))"
    by (auto simp: s SendResponseHeaders_def Let_def stream_inv_skipped)
qed

lemma stream_inv_bodies:
  assumes "stream_inv c0 (snd s)" and "lawful cb"
  shows "stream_inv c0 (snd (snd (SendRequestBody cb b eos s)))" and "stream_inv c0 (snd (snd (SendResponseBody cb b eos s)))"
proof -
  obtain p c where s: "s = (p, c)" by (cases s)
  let ?c1 = "\<lambda>cc. c\<lparr>phase_logs := [], result := empty_Result, body_buffer := b, current_callback := cc\<rparr>"
  have entered: "\<exists>st p' c'. cb (length b) eos (p, ?c1 cc) = (st, p', c') \<and>
      stream_inv c0 (c'\<lparr>result := (result c')\<lparr>body_status := st, body := body_buffer c'\<rparr>, body_buffer := []\<rparr>)" for cc
  proof -
    obtain st p' c' where x: "cb (length b) eos (p, ?c1 cc) = (st, p', c')" and "call_inv (?c1 cc) c'"
      using lawful_result [OF assms(2)] .
    from callback_inv [OF this(2)] assms(1) x show ?thesis by (simp add: stream_inv_def s)
  qed
  from entered [of CbRequestBody] assms(1) show "stream_inv c0 (snd (snd (SendRequestBody cb b eos s)))"
    by (auto simp: s SendRequestBody_def Let_def stream_inv_skipped)
  from entered [of CbResponseBody] assms(1) show "stream_inv c0 (snd (snd (SendResponseBody cb b eos s)))"
    by (auto simp: s SendResponseBody_def Let_def stream_inv_skipped)
qed

lemma stream_inv_TearDown:
  assumes "stream_inv c0 (snd s)" and "lawful_end onDone" and "lawful_end onDelete"
  shows "stream_inv c0 (snd (TearDown onDone onDelete s))"
proof -
  obtain p c where s: "s = (p, c)" by (cases s)
  let ?c1 = "c\<lparr>phase_logs := []\<rparr>"
  have "call_inv ?c1 (snd (onDelete (onDone (p, ?c1))))"
    using call_inv_trans [OF lawful_end_inv [OF assms(2), of "(p, ?c1)"] lawful_end_inv [OF assms(3)]] by simp
  from callback_inv [OF this] assms(1) show ?thesis
    by (auto simp: s TearDown_def stream_inv_def split: prod.split)
qed

lemma stream_reach_inv:
  assumes "stream_reach (new_stream lvl lf t cfg props) s"
  shows "stream_inv (new_stream lvl lf t cfg props) (snd s)"
  using assms
proof (induction rule: stream_reach.induct)
  case (fresh onCreate p)
  from callback_inv [OF lawful_end_inv [OF fresh, of "(p, new_stream lvl lf t cfg props)"]] show ?case
    by (simp add: stream_inv_def new_stream_def)
qed (auto intro: stream_inv_headers stream_inv_bodies stream_inv_TearDown)

section \<open>Properties\<close>


lemma add_request_header_lawful: "lawful (stateless (add_request_header_onRequestHeaders (test_sdk A)))"
  by (auto simp: lawful_def stateless_def add_request_header_onRequestHeaders_def test_sdk_def Let_def
      intro: host_call.intros rtranclp.rtrancl_into_rtrancl)


end
