(* ===== verification/Spec2Isabelle.thy ===== *)
theory Spec2Isabelle
  imports Cookie_Samples Pii_Masking Lua_State Benchmarks Test_Fixture Mock_Abi Sample_Suites Stream_Reach
begin

text \<open>
  A verification development for the C++ part of the Service Extensions samples: HTTP filter plugins
  written against the Proxy-Wasm SDK (\<^verbatim>\<open>src/plugins/samples\<close>) and the program that tests them
  (\<^verbatim>\<open>src/plugins/test\<close>).

  \<^bold>\<open>The program.\<close> A plugin is a root context, which reads the plugin configuration, and a stream context
  per HTTP request, whose callbacks (\<^verbatim>\<open>onRequestHeaders\<close>, \<^verbatim>\<open>onRequestBody\<close>, \<^verbatim>\<open>onResponseHeaders\<close>,
  \<^verbatim>\<open>onResponseBody\<close>, trailers) look at the message through calls of the SDK, change it, answer it
  themselves (\<^verbatim>\<open>sendLocalResponse\<close>) and tell the host whether to go on. The test host
  (\<^verbatim>\<open>framework.h\<close>, \<^verbatim>\<open>framework.cc\<close>) is the other side of these calls: a context with a caseless header
  map, a body buffer, a phase and the result of the phase. The configurable test
  (\<^verbatim>\<open>dynamic_test.cc\<close>) sends the phases of a test through the host and checks their results, the runner
  (\<^verbatim>\<open>runner_main.cc\<close>) reads the tests from a text proto or from YAML (\<^verbatim>\<open>yaml_proto_converter.cpp\<close>) and
  registers them for every Wasm engine. The Lua plugin (\<^verbatim>\<open>samples/lua\<close>) runs scripts written for
  Envoy: each direction of a stream has a coroutine that suspends the script until the body, the next
  chunk or the trailers are there.

  \<^bold>\<open>How code is modelled.\<close> Callbacks are functions from their arguments and the state, the plugin's own
  part and the host's part \<open>'h\<close>, to the returned value and the new state. Strings are lists of
  characters (bytes), a C++ value of fixed width is a word where wrap-around can be observed and an
  integer with its range elsewhere, a position that may be \<^verbatim>\<open>npos\<close> or an optional is an option, a
  \<^verbatim>\<open>Status\<close> is a sum. Undefined behaviour or an abort of the program is the value \<^const>\<open>None\<close> of the
  definitions that can run into it (\<open>deref\<close>, \<open>ChunkBody\<close>, \<open>Advance\<close>). Code that is not in the repository is an
  argument: the SDK (record \<open>sdk\<close>), Abseil (\<open>absl\<close>), Boost.URL (\<open>urls\<close>), hashing and JWT libraries
  (\<open>crypto\<close>, \<open>jwt_lib\<close>), RE2 (\<open>re2\<close>, or the function of one expression), random numbers and clocks, the Lua machine (\<open>lua_vm\<close>) and the host calls of
  its API (\<open>lua_host\<close>), the libraries of Lua and how LuaBridge hands values over, RE2, HTTP/1 and URL parsing of the test (\<open>test_lib\<close>), the Wasm engine
  (\<open>wasm_lib\<close>), yaml-cpp (\<open>yaml_lib\<close>), paths (\<open>path_lib\<close>), files, GoogleTest and generated protobuf
  parsers. What the proofs need of them are the laws of locales.

  \<^bold>\<open>Theories.\<close>
  \<^item> \<open>Prelude\<close>: C and C++ string functions, ASCII, decimal and hexadecimal text, splitting and joining,
    C++ division, and the rewrite rules the other theories share.
  \<^item> \<open>Absl\<close>: the Abseil functions used, the locale \<open>absl_strings\<close> of their documented laws, and the reference
    implementation \<open>absl_ref\<close> that satisfies it; \<^verbatim>\<open>absl::Status\<close>.
  \<^item> \<open>Header_Map\<close> (\<^verbatim>\<open>TestHttpContext::Headers\<close>): the map sorted by \<^verbatim>\<open>caseless_compare\<close> with lookup,
    \<^verbatim>\<open>operator[]\<close>, erase and \<^verbatim>\<open>InsertOrAppend\<close>. The locale \<open>caseless_map\<close>, interpreted as \<open>hdr\<close>, is the
    contract; the map refines a partial function on lower-cased names and stays sorted.
  \<^item> \<open>Wasm_Host\<close>: the calls of the SDK, and the locale \<open>wasm_host\<close>: what a plugin can observe of its host
    (\<open>view\<close>) and how each call changes it in the phase it is meant for.
  \<^item> \<open>Test_Context\<close> (\<^verbatim>\<open>framework.cc\<close>): buffer copies, header and property calls, local responses, the four
    \<^verbatim>\<open>Send\<close> operations and the end of a stream.
  \<^item> \<open>Test_Host\<close>: the SDK calls answered by the test context (\<open>test_sdk\<close>). The interpretation \<open>tc\<close> shows that
    it satisfies \<open>plugin_env\<close>, so that what is proved of a plugin over any lawful host holds in the test
    host. Properties: operations outside their phase fail, pairs set are pairs read, no phase after a
    local response reaches the plugin, buffer reads are exact or rejected for 32-bit arguments.
  \<^item> \<open>Stream_Reach\<close>: every sequence of host calls (\<open>host_call\<close>) in every sequence of phases (\<open>stream_reach\<close>)
    keeps the invariant of the context: ordered headers, no open phase, a status code only after a local
    response, an empty body buffer, the log of the phase at the end of the log file, frozen settings.
  \<^item> \<open>Header_Samples\<close>, \<open>Reply_Samples\<close>, \<open>Cookie_Samples\<close>, \<open>Url_Samples\<close>, \<open>Auth_Samples\<close>, \<open>Body_Samples\<close>: the
    plugins of \<^verbatim>\<open>samples/<name>/plugin.cc\<close>, every callback as \<open><name>_<callback>\<close>, with what each sample is
    for: classification, exact denylists and redirects, status mapping, cookies that are recognised
    again, headers and parameters a client cannot forge, tokens that admit exactly the fresh and
    correctly signed requests, texts inserted where they belong, and URLs signed without exception.
  \<^item> \<open>Pii_Masking\<close> (\<^verbatim>\<open>samples/check_pii/plugin.cc\<close>): the two expressions of check\_pii over a library that
    replaces matches from the left without overlap (locales \<open>leftmost_replace\<close> and \<open>pii_expressions\<close>,
    interpreted as \<open>two_expressions\<close>): ten-digit codes are masked, and what longer numbers leave in sight.
  \<^item> \<open>Lua_Coroutine\<close> (\<^verbatim>\<open>lua_state.cc\<close>, \<^verbatim>\<open>coroutine.cc\<close>), \<open>Lua_Plugin\<close> (\<^verbatim>\<open>lua_plugin.cc\<close>), \<open>Lua_Api\<close>
    (\<^verbatim>\<open>envoy_lua_api.cc\<close>): threads, the coroutine with its completion loop, the callbacks, and the objects
    of a script. Reachable stream states (\<open>lua_reach\<close>) keep an invariant by which an accepted event that
    ends the stream leaves no script waiting and every callback returns. The locale \<open>lua_buffers\<close> extends
    \<open>wasm_host\<close> by the body calls of a script and is interpreted on the test host (\<open>lua_tc\<close>).
  \<^item> \<open>Lua_State\<close> (\<^verbatim>\<open>lua_state.cc\<close>, \<^verbatim>\<open>envoy_lua_api_registration.cc\<close>, \<^verbatim>\<open>envoy_lua_api_shims.h\<close>): the root
    state of Lua, its global names, the Lua texts that restrict the libraries and unwrap results, and
    the registration of the API. The names a script can reach are bounded (locale \<open>lua_libraries\<close>,
    interpreted as \<open>plain_libs\<close>), so are the strings it can build with one call (locale \<open>rep_function\<close>,
    interpreted as \<open>plain_rep\<close>), and results of the API reach it without their status.
  \<^item> \<open>Dynamic_Test\<close> (\<^verbatim>\<open>dynamic_test.cc\<close>, and the creation of plugins in \<^verbatim>\<open>framework.cc\<close>): matchers, input
    parsing, chunking and the whole body of a test. A check reports nothing exactly when the
    expectation is met; a chunking plan partitions the body (locale \<open>length_splitter\<close>, interpreted on
    \<open>plain_lib\<close>).
  \<^item> \<open>Bench_Streams\<close> (\<^verbatim>\<open>AdditionalStream\<close>, \<^verbatim>\<open>BenchHttpHandlers\<close>): the state machine of background streams
    performs the callbacks of the timed stream.
  \<^item> \<open>Benchmarks\<close> (\<^verbatim>\<open>dynamic_test.cc\<close>): the three benchmarks with the memory statistics. The streams of a
    benchmark share the state of the plugin and the failure of the machine; whatever is drawn at random,
    no stream is used before it exists or after its end, and the resident memory is bounded.
  \<^item> \<open>Yaml_Converter\<close>: documents to messages by descriptor. Accepted documents are well typed; the locale
    \<open>yaml_scalars\<close> asks for integer ranges only and is interpreted as \<open>plain\<close>.
  \<^item> \<open>Runner\<close>: flags, overrides, registration, exit code. The exit code is zero exactly when the
    configuration is accepted and all tests pass (locale \<open>gtest\<close>, interpreted as \<open>in_order\<close>).
  \<^item> \<open>Test_Verdict\<close>: what it means that a test passes, as a relation between the states before and after
    each phase without failure lists and early returns, and that the test program decides exactly this.
    The locale \<open>header_rewriter\<close> is the contract of a callback that rewrites headers by a function of the
    lookup table; a test of such a plugin is decided by the function.
  \<^item> \<open>Sample_Suites\<close>: five samples interpret \<open>header_rewriter\<close> (\<open>add_request_header\<close>, \<open>add_response_header\<close>,
    \<open>remove_cookie\<close>, \<open>normalize_header\<close>, \<open>overwrite_errcode\<close>), and the runner exits with zero on their test
    files (\<^verbatim>\<open>samples/<name>/tests.textpb\<close>, the definitions \<open><name>_tests\<close>).
  \<^item> \<open>Test_Fixture\<close> (\<^verbatim>\<open>framework.h\<close>, \<^verbatim>\<open>framework.cc\<close>): files, the plugins beside the program, the fixture
    \<^verbatim>\<open>HttpTest\<close>, registration for every engine and plugin, and the bracketed log of a test.
  \<^item> \<open>Mock_Abi\<close> (\<^verbatim>\<open>proxy_wasm_test_stubs.h\<close>, \<^verbatim>\<open>proxy_wasm_test_stubs.cc\<close>): the stubs of the host calls for
    unit tests. The installed mock is never one that is gone, in whatever order mocks come and go
    (\<open>mock_reach\<close>); what the actions hand out is read back, for one of them only without zero bytes.

  \<^bold>\<open>Recursion and bounds.\<close> No definition has fuel. Loops over data are structural or have a measure
  (remaining text, remaining actions of \<open>Advance\<close>, nesting of a document); the loops that depend on a Lua
  script are partial functions whose value \<^const>\<open>None\<close> means that the script never returns, and the
  theorems that a callback returns assume of the machine that a script ends within some number of
  steps. \<^verbatim>\<open>size_t\<close> has 64 bits, sizes and offsets of guest calls 32 bits; bodies are shorter than two
  gigabytes where the code narrows their length to \<^verbatim>\<open>int\<close>.

  \<^bold>\<open>Not modelled.\<close> Trace output of the test host; timing and the number of iterations a benchmark runs,
  which the benchmark library decides; metatables and the inner tables of LuaBridge: a class that is
  registered answers to its name and its methods are wrapped or not; of the functions that the
  compatibility text adds, those that apply one operator of Lua (\<^verbatim>\<open>math.pow\<close> and others) are names only; Lua
  globals that scripts themselves set, which the threads of a stream share inside the machine and
  which are part of its state; the test files of the other samples, which set properties, bodies or
  replies; the static object that registers the contexts of the Lua plugin; the
  expectations of unit tests, which gmock keeps, and the unit tests; the samples in Rust and Go and
  the callout servers, which are programs of their own. An error of yaml-cpp other than its own
  exception type is not modelled, since the functions used document no other.
\<close>

end
